(* ===== verification/Pink_Prelude.thy ===== *)
theory Pink_Prelude
  imports Main "HOL-Library.Word"
begin

text \<open>
  Shared material of the development: the result type of operations that can
  stop the program, the byte representation of machine words in either byte
  order, the byte-addressed memory of a traced process, and the generic lemmas
  on words and lists that the component theories rest on.
\<close>

unbundle bit_operations_syntax

type_synonym byte = "8 word"

named_theorems outcome_simps \<open>rewriting of the outcome of an operation\<close>
named_theorems align_simps \<open>splitting an address into its word and its residue\<close>

section \<open>Outcomes\<close>

text \<open>
  A C function returns a value, calls \<open>abort()\<close>, or has no defined behaviour:
  an access outside of an array or a call through a pointer that points nowhere.
  \<open>Not_built\<close> marks the branches of the preprocessor that are not C
  (an undeclared identifier, a missing member, a call with too few arguments),
  so that the library cannot be compiled for that configuration; \<open>Diverges\<close>
  marks a loop that never ends. A call that forks does not return in the child, which
  is \<open>In_child\<close>.
\<close>

datatype fault = Abort | Undefined | Not_built | Diverges | In_child

datatype 'a outcome = Ret 'a | Fault fault

primrec obind :: "'a outcome \<Rightarrow> ('a \<Rightarrow> 'b outcome) \<Rightarrow> 'b outcome" where
  "obind (Ret a) f = f a"
| "obind (Fault e) f = Fault e"

lemma obind_Ret_iff [outcome_simps]:
  "obind m f = Ret b \<longleftrightarrow> (\<exists>a. m = Ret a \<and> f a = Ret b)"
  by (cases m) auto

lemma obind_Fault_iff [outcome_simps]:
  "obind m f = Fault e \<longleftrightarrow> m = Fault e \<or> (\<exists>a. m = Ret a \<and> f a = Fault e)"
  by (cases m) auto

lemma obind_assoc: "obind (obind m f) g = obind m (\<lambda>a. obind (f a) g)"
  by (cases m) auto

lemma obind_cong [fundef_cong]:
  "m = m' \<Longrightarrow> (\<And>a. m' = Ret a \<Longrightarrow> f a = g a) \<Longrightarrow> obind m f = obind m' g"
  by (cases m') auto

section \<open>Words as bytes\<close>

text \<open>
  \<open>le_bytes n w\<close> is the object representation of the low \<open>n\<close> bytes of
  \<open>w\<close> on a little-endian machine; \<open>le_word\<close> reads such a representation.
  \<open>to_bytes\<close> and \<open>of_bytes\<close> choose the byte order of the machine.
\<close>

primrec le_bytes :: "nat \<Rightarrow> 'a::len word \<Rightarrow> byte list" where
  "le_bytes 0 w = []"
| "le_bytes (Suc n) w = ucast w # le_bytes n (drop_bit 8 w)"

primrec le_word :: "byte list \<Rightarrow> 'a::len word" where
  "le_word [] = 0"
| "le_word (b # bs) = ucast b OR push_bit 8 (le_word bs)"

definition to_bytes :: "bool \<Rightarrow> nat \<Rightarrow> 'a::len word \<Rightarrow> byte list" where
  "to_bytes big n w = (if big then rev (le_bytes n w) else le_bytes n w)"

definition of_bytes :: "bool \<Rightarrow> byte list \<Rightarrow> 'a::len word" where
  "of_bytes big bs = le_word (if big then rev bs else bs)"

lemma length_le_bytes [simp]: "length (le_bytes n w) = n"
  by (induction n arbitrary: w) auto

lemma length_to_bytes [simp]: "length (to_bytes big n w) = n"
  by (simp add: to_bytes_def)

lemma bit_nth_le_bytes:
  "i < n \<Longrightarrow> bit (le_bytes n w ! i) j \<longleftrightarrow> j < 8 \<and> bit w (8 * i + j)"
  for w :: "'a::len word"
proof (induction n arbitrary: i w)
  case 0
  then show ?case by simp
next
  case (Suc n)
  show ?case
  proof (cases i)
    case 0
    then show ?thesis by (auto simp: bit_ucast_iff dest: bit_imp_le_length)
  next
    case (Suc i')
    with Suc.prems Suc.IH [of i' "drop_bit 8 w"] show ?thesis
      by (simp add: bit_drop_bit_eq ac_simps)
  qed
qed

lemma bit_le_word:
  "bit (le_word bs :: 'a::len word) k \<longleftrightarrow>
     k < LENGTH('a) \<and> k div 8 < length bs \<and> bit (bs ! (k div 8)) (k mod 8)"
proof (induction bs arbitrary: k)
  case Nil
  then show ?case by simp
next
  case (Cons b bs)
  show ?case
  proof (cases "k < 8")
    case True
    then show ?thesis
      by (auto simp: bit_or_iff bit_ucast_iff bit_push_bit_iff)
  next
    case False
    then obtain k' where k: "k = k' + 8"
      using le_Suc_ex by (metis add.commute not_less)
    have "\<not> bit b k" using False by (auto dest: bit_imp_le_length)
    moreover have "(k' + 8) div 8 = Suc (k' div 8)" by simp
    ultimately show ?thesis using k Cons.IH [of k']
      by (auto simp: bit_or_iff bit_ucast_iff bit_push_bit_iff dest: bit_imp_le_length)
  qed
qed

lemma le_word_le_bytes [simp]:
  "LENGTH('a) \<le> 8 * n \<Longrightarrow> le_word (le_bytes n w) = w" for w :: "'a::len word"
proof (rule bit_word_eqI)
  fix k
  assume "LENGTH('a) \<le> 8 * n" and k: "k < LENGTH('a)"
  then have "k div 8 < n" by linarith
  with k show "bit (le_word (le_bytes n w) :: 'a word) k = bit w k"
    by (simp add: bit_le_word bit_nth_le_bytes)
qed

lemma le_bytes_le_word [simp]:
  assumes "8 * length bs \<le> LENGTH('a)"
  shows "le_bytes (length bs) (le_word bs :: 'a::len word) = bs"
proof (rule nth_equalityI)
  fix i
  assume "i < length (le_bytes (length bs) (le_word bs :: 'a word))"
  then have i: "i < length bs" by simp
  show "le_bytes (length bs) (le_word bs :: 'a word) ! i = bs ! i"
  proof (rule bit_word_eqI)
    fix j
    assume j: "j < LENGTH(8)"
    with i assms have "8 * i + j < LENGTH('a)" by simp
    with i j show "bit (le_bytes (length bs) (le_word bs :: 'a word) ! i) j = bit (bs ! i) j"
      by (simp add: bit_le_word bit_nth_le_bytes)
  qed
qed simp

lemma ucast_of_bytes:
  "8 * length bs \<le> LENGTH('a) \<Longrightarrow> (ucast (of_bytes big bs :: 'a::len word) :: 'b::len word) = of_bytes big bs"
  by (auto simp: bit_eq_iff bit_simps of_bytes_def bit_le_word)

lemma of_bytes_to_bytes [simp]:
  "LENGTH('a) \<le> 8 * n \<Longrightarrow> of_bytes big (to_bytes big n w) = w" for w :: "'a::len word"
  by (simp add: of_bytes_def to_bytes_def)

lemma to_bytes_of_bytes [simp]:
  assumes "length bs = n" and "8 * n \<le> LENGTH('a)"
  shows "to_bytes big n (of_bytes big bs :: 'a::len word) = bs"
proof (cases big)
  case True
  have "le_bytes (length (rev bs)) (le_word (rev bs) :: 'a word) = rev bs"
    by (rule le_bytes_le_word) (use assms in simp)
  with True assms show ?thesis by (simp add: of_bytes_def to_bytes_def)
next
  case False
  with assms le_bytes_le_word [of bs, where 'a = 'a] show ?thesis
    by (simp add: of_bytes_def to_bytes_def)
qed

lemma sint_32: "sint (v :: 32 word) = (if uint v < 2 ^ 31 then uint v else uint v - 2 ^ 32)"
proof (cases "uint v < 2 ^ 31")
  case True
  have "- 2147483648 \<le> uint v" by (rule order_trans [OF _ unsigned_greater_eq]) simp
  with True show ?thesis by (simp add: sint_uint signed_take_bit_int_eq_self_iff)
next
  case False
  moreover have "take_bit 32 (uint v + 2 ^ 31) = uint v + 2 ^ 31 - 2 ^ 32"
    using False uint_lt2p [of v] by (simp add: take_bit_eq_mod mod_pos_geq mod_pos_pos_trivial)
  ultimately show ?thesis by (simp add: sint_uint signed_take_bit_eq_take_bit_shift)
qed

section \<open>Memory of a traced process\<close>

text \<open>
  The address space of a tracee: \<open>None\<close> at an address that is not mapped.
  Addresses wrap around, as they do on the machine.
\<close>

type_synonym 'l mem = "'l word \<Rightarrow> byte option"

primrec read_mem :: "'l::len mem \<Rightarrow> 'l word \<Rightarrow> nat \<Rightarrow> byte list option" where
  "read_mem m a 0 = Some []"
| "read_mem m a (Suc n) =
     (case m a of
        None \<Rightarrow> None
      | Some b \<Rightarrow> (case read_mem m (a + 1) n of None \<Rightarrow> None | Some bs \<Rightarrow> Some (b # bs)))"

primrec write_mem :: "'l::len mem \<Rightarrow> 'l word \<Rightarrow> byte list \<Rightarrow> 'l mem" where
  "write_mem m a [] = m"
| "write_mem m a (b # bs) = write_mem (m(a \<mapsto> b)) (a + 1) bs"

lemma length_read_mem: "read_mem m a n = Some bs \<Longrightarrow> length bs = n"
  by (induction n arbitrary: a bs) (auto split: option.splits)

lemma read_mem_add:
  "read_mem m a (i + j) =
     (case read_mem m a i of
        None \<Rightarrow> None
      | Some bs \<Rightarrow> (case read_mem m (a + of_nat i) j of None \<Rightarrow> None | Some cs \<Rightarrow> Some (bs @ cs)))"
  by (induction i arbitrary: a) (auto simp: add.assoc split: option.splits)

lemma read_mem_sub:
  assumes "read_mem m a n = Some bs" and "i + j \<le> n"
  shows "read_mem m (a + of_nat i) j = Some (take j (drop i bs))"
proof -
  obtain k where n: "n = i + (j + k)" using assms(2) by (metis add.assoc le_Suc_ex)
  from assms(1) [unfolded n read_mem_add] obtain b1 b2 b3 where
    b: "read_mem m a i = Some b1" "read_mem m (a + of_nat i) j = Some b2" "bs = b1 @ b2 @ b3"
    by (auto split: option.splits)
  then have "length b1 = i" "length b2 = j" by (auto dest: length_read_mem)
  with b show ?thesis by simp
qed

lemma read_mem_nth:
  "read_mem m a n = Some bs \<Longrightarrow> i < n \<Longrightarrow> m (a + of_nat i) = Some (bs ! i)"
proof (induction n arbitrary: a bs i)
  case 0
  then show ?case by simp
next
  case (Suc n)
  from Suc.prems(1) obtain b cs where
    b: "m a = Some b" "read_mem m (a + 1) n = Some cs" "bs = b # cs"
    by (auto split: option.splits)
  show ?case
  proof (cases i)
    case 0
    with b show ?thesis by simp
  next
    case (Suc j)
    with Suc.IH [OF b(2), of j] Suc.prems(2) b(3) show ?thesis by (simp add: add.assoc)
  qed
qed

lemma read_mem_None_iff:
  "read_mem m a n = None \<longleftrightarrow> (\<exists>i<n. m (a + of_nat i) = None)"
proof (induction n arbitrary: a)
  case 0
  then show ?case by simp
next
  case (Suc n)
  have "(\<exists>i<Suc n. m (a + of_nat i) = None) \<longleftrightarrow>
      m a = None \<or> (\<exists>i<n. m (a + 1 + of_nat i) = None)"
    by (auto simp: Ex_less_Suc2 add.assoc)
  with Suc.IH [of "a + 1"] show ?case by (auto split: option.splits)
qed

lemma read_mem_cong:
  "(\<And>i. i < n \<Longrightarrow> m (a + of_nat i) = m' (a + of_nat i)) \<Longrightarrow> read_mem m a n = read_mem m' a n"
proof (induction n arbitrary: a)
  case 0
  then show ?case by simp
next
  case (Suc n)
  from Suc.prems [of 0] have "m a = m' a" by simp
  moreover have "read_mem m (a + 1) n = read_mem m' (a + 1) n"
  proof (rule Suc.IH)
    fix i
    assume "i < n"
    then show "m (a + 1 + of_nat i) = m' (a + 1 + of_nat i)"
      using Suc.prems [of "Suc i"] by (simp add: add.assoc)
  qed
  ultimately show ?case by (simp split: option.split)
qed

lemma write_mem_append:
  "write_mem m a (bs @ cs) = write_mem (write_mem m a bs) (a + of_nat (length bs)) cs"
  by (induction bs arbitrary: m a) (auto simp: add.assoc)

lemma write_mem_apply:
  fixes a :: "'l::len word"
  assumes "length bs \<le> 2 ^ LENGTH('l)"
  shows "write_mem m a bs x =
    (if unat (x - a) < length bs then Some (bs ! unat (x - a)) else m x)"
  using assms
proof (induction bs arbitrary: m a)
  case Nil
  then show ?case by simp
next
  case (Cons b bs)
  have IH: "write_mem (m(a \<mapsto> b)) (a + 1) bs x =
      (if unat (x - (a + 1)) < length bs then Some (bs ! unat (x - (a + 1)))
       else (m(a \<mapsto> b)) x)"
    by (rule Cons.IH) (use Cons.prems in simp)
  show ?case
  proof (cases "x = a")
    case True
    then have "unat (x - (a + 1)) = 2 ^ LENGTH('l) - 1"
      by (simp add: unsigned_minus_1_eq_mask mask_eq_exp_minus_1)
    with Cons.prems have "\<not> unat (x - (a + 1)) < length bs" by simp
    with True IH show ?thesis by simp
  next
    case False
    then have "x - a \<noteq> 0" by simp
    then have "unat (x - a - 1) = unat (x - a) - 1" and "0 < unat (x - a)"
      by (simp_all add: unat_minus_one unat_gt_0)
    then have "unat (x - a) = Suc (unat (x - (a + 1)))" by (simp add: diff_diff_eq)
    with False IH show ?thesis by simp
  qed
qed

lemma write_mem_mapped: "m x \<noteq> None \<Longrightarrow> write_mem m a bs x \<noteq> None"
  by (induction bs arbitrary: m a) auto

lemma read_mem_write_mem_mapped: "read_mem m b n \<noteq> None \<Longrightarrow> read_mem (write_mem m a bs) b n \<noteq> None"
  unfolding read_mem_None_iff using write_mem_mapped by metis

lemma write_mem_None_iff:
  "read_mem m a (length bs) \<noteq> None \<Longrightarrow> write_mem m a bs x = None \<longleftrightarrow> m x = None"
proof (induction bs arbitrary: m a)
  case (Cons b bs)
  then have a: "m a \<noteq> None" "read_mem m (a + 1) (length bs) \<noteq> None" by (auto split: option.splits)
  then have "read_mem (m(a \<mapsto> b)) (a + 1) (length bs) \<noteq> None"
    using read_mem_write_mem_mapped [of m "a + 1" _ a "[b]"] by simp
  with Cons.IH a(1) show ?case by auto
qed simp

lemma read_write_mem:
  fixes a :: "'l::len word"
  assumes "length bs < 2 ^ LENGTH('l)"
  shows "read_mem (write_mem m a bs) a (length bs) = Some bs"
proof -
  have nth: "write_mem m a bs (a + of_nat i) = Some (bs ! i)" if "i < length bs" for i
  proof -
    have "take_bit LENGTH('l) i = i" using that assms by (simp add: take_bit_nat_eq_self_iff)
    with that assms show ?thesis by (simp add: write_mem_apply unsigned_of_nat)
  qed
  then have "read_mem (write_mem m a bs) a (length bs) \<noteq> None" by (simp add: read_mem_None_iff)
  then obtain cs where cs: "read_mem (write_mem m a bs) a (length bs) = Some cs" by blast
  then have len: "length cs = length bs" by (rule length_read_mem)
  then have "cs = bs"
    by (rule nth_equalityI) (use nth read_mem_nth [OF cs] len in simp)
  with cs show ?thesis by simp
qed

text \<open>The bytes that are mapped from an address on, at most \<open>n\<close>.\<close>

primrec mapped_prefix :: "'l::len mem \<Rightarrow> 'l word \<Rightarrow> nat \<Rightarrow> byte list" where
  "mapped_prefix m a 0 = []"
| "mapped_prefix m a (Suc n) =
     (case m a of None \<Rightarrow> [] | Some b \<Rightarrow> b # mapped_prefix m (a + 1) n)"

lemma length_mapped_prefix: "length (mapped_prefix m a n) \<le> n"
  by (induction n arbitrary: a) (auto split: option.split)

lemma read_mem_iff_mapped_prefix:
  "read_mem m a n = Some bs \<longleftrightarrow> mapped_prefix m a n = bs \<and> length bs = n"
proof -
  have "read_mem m a n =
      (if length (mapped_prefix m a n) = n then Some (mapped_prefix m a n) else None)"
    by (induction n arbitrary: a) (auto split: option.split)
  then show ?thesis by auto
qed

lemma mapped_prefix_add:
  "mapped_prefix m a (i + j) =
     (if length (mapped_prefix m a i) = i
      then mapped_prefix m a i @ mapped_prefix m (a + of_nat i) j else mapped_prefix m a i)"
  by (induction i arbitrary: a) (auto simp: add.assoc split: option.splits)

lemma mapped_prefix_Nil: "m a = None \<Longrightarrow> mapped_prefix m a n = []"
  by (cases n) simp_all

lemma mapped_prefix_split:
  "length (mapped_prefix m a t) = t \<Longrightarrow> t \<le> len \<Longrightarrow>
     mapped_prefix m a len = mapped_prefix m a t @ mapped_prefix m (a + of_nat t) (len - t)"
  using mapped_prefix_add [of m a t "len - t"] by simp

lemma mapped_prefix_take:
  "length (mapped_prefix m a t) = t \<Longrightarrow> j \<le> t \<Longrightarrow> mapped_prefix m a j = take j (mapped_prefix m a t)"
  using mapped_prefix_add [of m a j "t - j"] length_mapped_prefix [of m a j]
  by (auto split: if_splits)

lemma mapped_prefix_numeral:
  "mapped_prefix m a (numeral n) =
     (case m a of None \<Rightarrow> [] | Some b \<Rightarrow> b # mapped_prefix m (a + 1) (pred_numeral n))"
  by (simp add: numeral_eq_Suc)

lemma read_mem_numeral:
  "read_mem m a (numeral n) =
     (case m a of
        None \<Rightarrow> None
      | Some b \<Rightarrow> (case read_mem m (a + 1) (pred_numeral n) of None \<Rightarrow> None | Some bs \<Rightarrow> Some (b # bs)))"
  by (simp add: numeral_eq_Suc)

section \<open>Alignment\<close>

text \<open>
  The two masks of the C code, for a word size that is a power of two:
  \<open>addr & (sizeof(long) - 1)\<close> is the residue and \<open>addr & -sizeof(long)\<close>
  the address of the word.
\<close>

lemma unat_take_bit: "unat (take_bit p a) = unat a mod 2 ^ p"
  by (subst unsigned_take_bit_eq) (simp add: take_bit_eq_mod)

lemma residue_eq [align_simps]:
  fixes a :: "'l::len word"
  assumes "s = 2 ^ p" and "p < LENGTH('l)"
  shows "unat (a AND (of_nat s - 1)) = unat a mod s"
proof -
  have "(of_nat s - 1 :: 'l word) = mask p"
    by (simp add: assms(1) mask_eq_exp_minus_1)
  then have "a AND (of_nat s - 1) = take_bit p a" by (simp add: take_bit_eq_mask)
  then show ?thesis by (simp only: unat_take_bit assms(1))
qed

lemma word_base_eq [align_simps]:
  fixes a :: "'l::len word"
  assumes "s = 2 ^ p" and "p < LENGTH('l)"
  shows "a AND - of_nat s = a - of_nat (unat a mod s)"
proof -
  have "- (of_nat s :: 'l word) = NOT (mask p)"
    by (simp add: assms(1) minus_exp_eq_not_mask)
  then have "a AND - of_nat s = push_bit p (drop_bit p a)"
    by (auto intro!: bit_word_eqI simp: bit_simps)
  moreover have "push_bit p (drop_bit p a) + take_bit p a = a" by (rule bits_ident)
  moreover have "(of_nat (unat a mod s) :: 'l word) = take_bit p a"
  proof -
    have "unat a mod s = unat (take_bit p a)"
      by (simp only: unat_take_bit assms(1))
    then show ?thesis by simp
  qed
  ultimately show ?thesis by (metis add_diff_cancel_right')
qed

lemma mod_add_word:
  fixes a :: "'l::len word"
  assumes "s dvd 2 ^ LENGTH('l)"
  shows "unat (a + b) mod s = (unat a + unat b) mod s"
  using assms by (simp add: unat_word_ariths mod_mod_cancel)

end
