(* ===== verification/Pink_Text.thy ===== *)
theory Pink_Text
  imports Pink_Prelude
begin

text \<open>
  Numbers as \<open>printf\<close> writes them, which the programs and the dumps of the tests print:
  the conversions \<open>%d\<close>, \<open>%u\<close>, \<open>%x\<close> and \<open>%#x\<close>, and that a number can be read back.
\<close>

section \<open>Digits\<close>

function digits_of :: "nat \<Rightarrow> nat \<Rightarrow> nat list" where
  "digits_of b n = (if b < 2 \<or> n < b then [n] else digits_of b (n div b) @ [n mod b])"
  by pat_completeness auto
termination
  by (relation "measure snd") auto

declare digits_of.simps [simp del]

definition digit_char :: "nat \<Rightarrow> char" where
  "digit_char d = (if d < 10 then char_of (48 + d) else char_of (87 + d))"

definition show_radix :: "nat \<Rightarrow> nat \<Rightarrow> string" where
  "show_radix b n = map digit_char (digits_of b n)"

definition show_unsigned :: "nat \<Rightarrow> string" where
  "show_unsigned n = show_radix 10 n"

definition show_decimal :: "int \<Rightarrow> string" where
  "show_decimal i = (if i < 0 then CHR ''-'' # show_radix 10 (nat (- i)) else show_radix 10 (nat i))"

definition show_hex :: "nat \<Rightarrow> string" where
  "show_hex n = show_radix 16 n"

text \<open>The flag \<open>#\<close> puts \<open>0x\<close> in front of every number but 0.\<close>

definition show_hex_alt :: "nat \<Rightarrow> string" where
  "show_hex_alt n = (if n = 0 then ''0'' else ''0x'' @ show_hex n)"

section \<open>Reading a number back\<close>

definition char_digit :: "char \<Rightarrow> nat" where
  "char_digit c = (let n = of_char c in if n < 58 then n - 48 else n - 87)"

definition read_radix :: "nat \<Rightarrow> string \<Rightarrow> nat" where
  "read_radix b s = foldl (\<lambda>acc c. b * acc + char_digit c) 0 s"

lemma char_digit_char [simp]: "d < 16 \<Longrightarrow> char_digit (digit_char d) = d"
  by (simp add: char_digit_def digit_char_def Let_def)

lemma digits_of_bound: "2 \<le> b \<Longrightarrow> d \<in> set (digits_of b n) \<Longrightarrow> d < b"
proof (induction b n rule: digits_of.induct)
  case (1 b n)
  from 1(3) [unfolded digits_of.simps [of b n]] 1(1,2) show ?case by (auto split: if_splits)
qed

lemma digits_of_nonempty [simp]: "digits_of b n \<noteq> []"
  by (subst digits_of.simps) simp

lemma foldl_digits: "2 \<le> b \<Longrightarrow> foldl (\<lambda>acc d. b * acc + d) 0 (digits_of b n) = n"
proof (induction b n rule: digits_of.induct)
  case (1 b n)
  then show ?case by (subst digits_of.simps) auto
qed

lemma read_show_radix:
  assumes "2 \<le> b" "b \<le> 16"
  shows "read_radix b (show_radix b n) = n"
proof -
  have "foldl (\<lambda>acc c. b * acc + char_digit c) a (map digit_char ds) = foldl (\<lambda>acc d. b * acc + d) a ds"
    if "\<forall>d\<in>set ds. d < b" for a ds
    using that assms(2) by (induction ds arbitrary: a) auto
  moreover have "\<forall>d\<in>set (digits_of b n). d < b" using digits_of_bound [OF assms(1)] by blast
  ultimately show ?thesis using foldl_digits [OF assms(1)] by (simp add: read_radix_def show_radix_def)
qed

lemma show_radix_inject: "2 \<le> b \<Longrightarrow> b \<le> 16 \<Longrightarrow> show_radix b m = show_radix b n \<longleftrightarrow> m = n"
  by (metis read_show_radix)

lemma show_hex_inject [simp]: "show_hex m = show_hex n \<longleftrightarrow> m = n"
  by (simp add: show_hex_def show_radix_inject)

lemma show_unsigned_inject [simp]: "show_unsigned m = show_unsigned n \<longleftrightarrow> m = n"
  by (simp add: show_unsigned_def show_radix_inject)

lemma minus_not_digit: "CHR ''-'' \<notin> set (show_radix 10 n)"
proof
  assume "CHR ''-'' \<in> set (show_radix 10 n)"
  then obtain d where "d \<in> set (digits_of 10 n)" and eq: "digit_char d = CHR ''-''"
    unfolding show_radix_def by (metis (no_types, lifting) imageE set_map)
  then have "d < 10" using digits_of_bound [of 10] by simp
  then have "char_digit CHR ''-'' = d" using char_digit_char [of d] eq by simp
  then have "d = 0" by (simp add: char_digit_def Let_def)
  with eq show False by (simp add: digit_char_def char_of_def)
qed

lemma show_decimal_inject [simp]: "show_decimal i = show_decimal j \<longleftrightarrow> i = j"
proof -
  have "CHR ''-'' # s \<noteq> show_radix 10 n" for s n
    using minus_not_digit [of n] by (metis list.set_intros(1))
  then show ?thesis
    by (auto simp: show_decimal_def show_radix_inject dest: sym)
qed

end
