(* ===== verification/Pink_About.thy ===== *)
theory Pink_About
  imports Pink_Text
begin

text \<open>
  \<^verbatim>\<open>examples/pink-about.c\<close> and the version macros of \<^verbatim>\<open>pinktrace/about.h.in\<close>, whose
  values configure puts in.
\<close>

section \<open>The version\<close>

datatype version = Version nat nat nat

text \<open>Versions in their order: the major part first, then the minor and the micro part.\<close>

instantiation version :: linorder
begin

fun less_eq_version :: "version \<Rightarrow> version \<Rightarrow> bool" where
  "Version a b c \<le> Version a' b' c' \<longleftrightarrow> a < a' \<or> a = a' \<and> (b < b' \<or> b = b' \<and> c \<le> c')"

definition less_version :: "version \<Rightarrow> version \<Rightarrow> bool" where
  "v < v' \<longleftrightarrow> v \<le> v' \<and> \<not> v' \<le> (v :: version)"

instance
proof
  fix u v w :: version
  show "u < v \<longleftrightarrow> u \<le> v \<and> \<not> v \<le> u" by (rule less_version_def)
  show "u \<le> u" by (cases u) simp
  show "u \<le> w" if "u \<le> v" "v \<le> w" using that by (cases u; cases v; cases w) auto
  show "u = v" if "u \<le> v" "v \<le> u" using that by (cases u; cases v) auto
  show "u \<le> v \<or> v \<le> u" by (cases u; cases v) auto
qed

end

record about =
  PINKTRACE_PACKAGE :: string
  about_version :: version
  PINKTRACE_VERSION_SUFFIX :: string
  PINKTRACE_GIT_HEAD :: string

text \<open>The macro \<open>PINKTRACE_VERSION\<close>, an expression of type \<open>int\<close>.\<close>

fun PINKTRACE_VERSION :: "version \<Rightarrow> int outcome" where
  "PINKTRACE_VERSION (Version major minor micro) =
     (let n = 100 * 100 * int major + 100 * int minor + int micro
      in if n < 2 ^ 31 then Ret n else Fault Undefined)"

text \<open>What the program prints, and its exit status.\<close>

fun about_main :: "about \<Rightarrow> string \<times> int" where
  "about_main a =
     (case about_version a of
        Version major minor micro \<Rightarrow>
          (''Built using '' @ PINKTRACE_PACKAGE a @ '' '' @ show_decimal (int major) @ ''.'' @ show_decimal (int minor) @
           ''.'' @ show_decimal (int micro) @ PINKTRACE_VERSION_SUFFIX a @
           (if PINKTRACE_GIT_HEAD a \<noteq> [] then '' '' @ PINKTRACE_GIT_HEAD a else []) @ [CHR 0x0A], 0))"

section \<open>Comparing versions by the macro\<close>

text \<open>With two digits per part, as the comment of the macro has it.\<close>

fun two_digits :: "version \<Rightarrow> bool" where
  "two_digits (Version major minor micro) \<longleftrightarrow> major < 100 \<and> minor < 100 \<and> micro < 100"

lemma PINKTRACE_VERSION_defined: "two_digits v \<Longrightarrow> \<exists>n. PINKTRACE_VERSION v = Ret n"
  by (cases v) (simp add: Let_def)

text \<open>The numbers of the macro are in the order of the versions, and tell the parts.\<close>

lemma PINKTRACE_VERSION_order:
  assumes "two_digits v" "two_digits v'" and "PINKTRACE_VERSION v = Ret n" "PINKTRACE_VERSION v' = Ret n'"
  shows "v \<le> v' \<longleftrightarrow> n \<le> n'"
  using assms by (cases v; cases v') (auto simp: Let_def split: if_splits)

lemma PINKTRACE_VERSION_parts:
  assumes "two_digits (Version major minor micro)" and "PINKTRACE_VERSION (Version major minor micro) = Ret n"
  shows "int major = n div 10000 \<and> int minor = n div 100 mod 100 \<and> int micro = n mod 100"
proof -
  from assms have n: "n = 100 * (100 * int major + int minor) + int micro" and "major < 100" "minor < 100" "micro < 100"
    by (simp_all add: Let_def split: if_splits)
  then have "n div 100 = 100 * int major + int minor" "n mod 100 = int micro"
    by (simp_all only: n div_mult_self4 mod_mult_self4) simp_all
  moreover have "n div 10000 = n div 100 div 100" by (simp add: div_mult2_eq [symmetric] zdiv_zmult2_eq [symmetric])
  ultimately show ?thesis using \<open>minor < 100\<close> by simp
qed

text \<open>A third digit is taken for the next part.\<close>

lemma PINKTRACE_VERSION_carry: "PINKTRACE_VERSION (Version 0 9 100) = PINKTRACE_VERSION (Version 0 10 0)"
  by (simp add: Let_def)

lemma about_main_ref:
  "about_main \<lparr>PINKTRACE_PACKAGE = ''pinktrace'', about_version = Version 0 9 6, PINKTRACE_VERSION_SUFFIX = [],
     PINKTRACE_GIT_HEAD = ''deadbeef''\<rparr> = (''Built using pinktrace 0.9.6 deadbeef'' @ [CHR 0x0A], 0)"
  by (simp add: show_decimal_def show_radix_def digits_of.simps digit_char_def char_of_def bit_0)

end
