(* ===== verification/Pink_Config.thy ===== *)
theory Pink_Config
  imports Pink_Prelude
begin

text \<open>
  The build configuration of the library and its surroundings: the supported
  architectures and features (\<^verbatim>\<open>pinktrace/system.h.in\<close>), the system call
  ABIs (\<^verbatim>\<open>pinktrace/abi.h\<close>, \<^verbatim>\<open>pinktrace/private.h\<close>,
  \<^verbatim>\<open>pinktrace/abi.c\<close>), the error numbers the library names, and the kernel
  and C library services it calls, which are parameters of the model.
\<close>

section \<open>Architectures and features\<close>

text \<open>
  \<^verbatim>\<open>configure.ac\<close> selects one architecture and substitutes the
  \<open>PINK_ARCH_*\<close> macros. \<open>PINK_ARCH_POWERPC64\<close> is a second flag beside
  \<open>PINK_ARCH_POWERPC\<close>.
\<close>

datatype arch = AARCH64 | ARM | I386 | X86_64 | X32 | POWERPC | IA64

text \<open>The \<open>PINK_HAVE_*\<close> macros, in the order of \<^verbatim>\<open>system.h.in\<close>.\<close>

datatype feature =
    HAVE_IPV6 | HAVE_NETLINK
  | HAVE_OPTION_SYSGOOD | HAVE_OPTION_FORK | HAVE_OPTION_VFORK | HAVE_OPTION_CLONE
  | HAVE_OPTION_EXEC | HAVE_OPTION_VFORK_DONE | HAVE_OPTION_EXIT | HAVE_OPTION_SECCOMP
  | HAVE_OPTION_EXITKILL
  | HAVE_SETUP | HAVE_GETEVENTMSG | HAVE_GETSIGINFO | HAVE_GETREGSET | HAVE_SETREGSET
  | HAVE_SYSEMU | HAVE_SYSEMU_SINGLESTEP | HAVE_SEIZE | HAVE_INTERRUPT | HAVE_LISTEN
  | HAVE_EVENT_FORK | HAVE_EVENT_VFORK | HAVE_EVENT_CLONE | HAVE_EVENT_EXEC | HAVE_EVENT_VFORK_DONE
  | HAVE_EVENT_EXIT | HAVE_EVENT_SECCOMP | HAVE_EVENT_STOP
  | HAVE_TKILL | HAVE_TGKILL | HAVE_PROCESS_VM_READV | HAVE_PROCESS_VM_WRITEV
  | HAVE_GETREGS | HAVE_SETREGS

text \<open>
  User-area offsets of the IA-64 registers, from the kernel's
  \<^verbatim>\<open>asm/ptrace_offsets.h\<close>: a parameter.
\<close>

datatype ia64_reg =
    PT_CR_IPSR | PT_R1 | PT_R8 | PT_R9 | PT_R10 | PT_R11 | PT_R13 | PT_R14 | PT_R15
  | PT_RBS_END | PT_CFM | PT_AR_BSP

record pink_config =
  cfg_arch :: arch
  powerpc64 :: bool
  big_endian :: bool
  have_feature :: "feature \<Rightarrow> bool"
  have_pipe2 :: bool
  pt_offset :: "ia64_reg \<Rightarrow> nat"

text \<open>
  \<open>#if PINK_HAVE_X\<close> of a macro that no header defines is \<open>#if 0\<close>. The
  template \<^verbatim>\<open>system.h.in\<close> has a \<open>#define\<close> for every feature but
  \<open>PINK_HAVE_GETREGS\<close> and \<open>PINK_HAVE_SETREGS\<close>, although
  \<^verbatim>\<open>configure.ac\<close> computes both.
\<close>

definition system_h :: "pink_config \<Rightarrow> bool" where
  "system_h c \<longleftrightarrow> \<not> have_feature c HAVE_GETREGS \<and> \<not> have_feature c HAVE_SETREGS"

definition PINK_MAX_ARGS :: nat where
  "PINK_MAX_ARGS = 6"

text \<open>A number that names no system call; \<^verbatim>\<open>configure.ac\<close> substitutes it.\<close>

definition PINK_SYSCALL_INVALID :: "pink_config \<Rightarrow> int" where
  "PINK_SYSCALL_INVALID c = (if cfg_arch c = ARM then 0xbad else 0xbadca11)"

section \<open>ABIs\<close>

definition PINK_ABIS_SUPPORTED :: "pink_config \<Rightarrow> nat" where
  "PINK_ABIS_SUPPORTED c =
     (case cfg_arch c of
        AARCH64 \<Rightarrow> 2
      | X86_64 \<Rightarrow> 3
      | X32 \<Rightarrow> 2
      | POWERPC \<Rightarrow> (if powerpc64 c then 2 else 1)
      | _ \<Rightarrow> 1)"

definition PINK_ABI_DEFAULT :: int where "PINK_ABI_DEFAULT = 0"
definition PINK_ABI_AARCH64 :: int where "PINK_ABI_AARCH64 = 0"
definition PINK_ABI_ARM :: int where "PINK_ABI_ARM = 1"
definition PINK_ABI_X86_64 :: int where "PINK_ABI_X86_64 = 0"
definition PINK_ABI_I386 :: int where "PINK_ABI_I386 = 1"

definition PINK_ABI_X32 :: "pink_config \<Rightarrow> int" where
  "PINK_ABI_X32 c = (if cfg_arch c = X32 then 0 else 2)"

lemmas abi_consts = PINK_ABI_DEFAULT_def PINK_ABI_AARCH64_def PINK_ABI_ARM_def
  PINK_ABI_X86_64_def PINK_ABI_I386_def PINK_ABI_X32_def

text \<open>\<open>sizeof(long)\<close>: the model is polymorphic in the width of \<open>long\<close>.\<close>

definition sizeof_long :: "'l::len itself \<Rightarrow> nat" where
  "sizeof_long _ = (LENGTH('l) + 7) div 8"

lemma sizeof_long_pos [simp]: "0 < sizeof_long t"
proof -
  have "0 < LENGTH('a)" by (rule len_gt_0)
  then have "8 \<le> LENGTH('a) + 7" by linarith
  then show ?thesis unfolding sizeof_long_def by (simp add: div_greater_zero_iff)
qed

text \<open>The widths of \<open>long\<close> on Linux.\<close>

definition long_width :: "'l::len itself \<Rightarrow> bool" where
  "long_width _ \<longleftrightarrow> LENGTH('l) = 32 \<or> LENGTH('l) = 64"

text \<open>
  The \<open>ABI\<^emph>\<open>n\<close>_WORDSIZE\<close> macros of \<^verbatim>\<open>private.h\<close>, as the array
  initialiser of \<open>pink_abi_wordsize\<close> collects them.
\<close>

definition abi_wordsize :: "'l::len itself \<Rightarrow> pink_config \<Rightarrow> nat list" where
  "abi_wordsize t c =
     (case cfg_arch c of
        AARCH64 \<Rightarrow> [8, 4]
      | X86_64 \<Rightarrow> [8, 4, 4]
      | X32 \<Rightarrow> [4, 4]
      | POWERPC \<Rightarrow> (if powerpc64 c then [8, 4] else [sizeof_long t])
      | _ \<Rightarrow> [sizeof_long t])"

text \<open>
  The word size of an ABI. With one ABI the argument is not looked at; with
  several an index outside of the array is undefined.
\<close>

definition pink_abi_wordsize :: "'l::len itself \<Rightarrow> pink_config \<Rightarrow> int \<Rightarrow> nat outcome" where
  "pink_abi_wordsize t c abi =
     (if PINK_ABIS_SUPPORTED c = 1 then Ret (hd (abi_wordsize t c))
      else if 0 \<le> abi \<and> abi < int (length (abi_wordsize t c))
      then Ret (abi_wordsize t c ! nat abi)
      else Fault Undefined)"

definition valid_abi :: "pink_config \<Rightarrow> int \<Rightarrow> bool" where
  "valid_abi c abi \<longleftrightarrow> 0 \<le> abi \<and> abi < int (PINK_ABIS_SUPPORTED c)"

text \<open>The width of \<open>long\<close> fits the architecture.\<close>

definition arch_long :: "'l::len itself \<Rightarrow> pink_config \<Rightarrow> bool" where
  "arch_long t c \<longleftrightarrow>
     (case cfg_arch c of
        AARCH64 \<Rightarrow> LENGTH('l) = 64
      | X86_64 \<Rightarrow> LENGTH('l) = 64
      | IA64 \<Rightarrow> LENGTH('l) = 64
      | POWERPC \<Rightarrow> (if powerpc64 c then LENGTH('l) = 64 else long_width t)
      | _ \<Rightarrow> LENGTH('l) = 32)"

lemma arch_long_width: "arch_long t c \<Longrightarrow> long_width t"
  by (cases "cfg_arch c") (simp_all add: arch_long_def long_width_def split: if_splits)

lemma long_width_size:
  assumes "long_width TYPE('l::len)"
  shows "\<exists>p. sizeof_long TYPE('l) = 2 ^ p \<and> p < LENGTH('l) \<and> LENGTH('l) = 8 * sizeof_long TYPE('l)"
proof (cases "LENGTH('l) = 32")
  case True
  then show ?thesis by (intro exI [of _ 2]) (simp add: sizeof_long_def)
next
  case False
  with assms have "LENGTH('l) = 64" by (simp add: long_width_def)
  then show ?thesis by (intro exI [of _ 3]) (simp add: sizeof_long_def)
qed

lemma unat_small:
  assumes "long_width TYPE('l::len)" and "k < 2 ^ 31"
  shows "unat (word_of_nat k :: 'l word) = k"
  using assms by (auto simp: long_width_def unsigned_of_nat take_bit_nat_eq_self_iff)

lemma sint_small:
  assumes "long_width TYPE('l::len)" and "k < 2 ^ 31"
  shows "sint (word_of_nat k :: 'l word) = int k"
  using assms by (auto simp: long_width_def signed_of_nat signed_take_bit_int_eq_self_iff)

lemma length_abi_wordsize [simp]: "length (abi_wordsize t c) = PINK_ABIS_SUPPORTED c"
  by (simp add: abi_wordsize_def PINK_ABIS_SUPPORTED_def split: arch.split)

lemma PINK_ABIS_SUPPORTED_bounds: "1 \<le> PINK_ABIS_SUPPORTED c" "PINK_ABIS_SUPPORTED c \<le> 3"
  by (simp_all add: PINK_ABIS_SUPPORTED_def split: arch.split)

lemma abi_wordsize_range:
  "arch_long (TYPE('l::len)) c \<Longrightarrow> n \<in> set (abi_wordsize TYPE('l) c) \<Longrightarrow>
     (n = 4 \<or> n = 8) \<and> n \<le> sizeof_long TYPE('l)"
  by (cases "cfg_arch c")
    (auto simp: abi_wordsize_def arch_long_def sizeof_long_def long_width_def split: if_splits)

section \<open>Error numbers\<close>

definition EPERM :: int where "EPERM = 1"
definition ESRCH :: int where "ESRCH = 3"
definition EINTR :: int where "EINTR = 4"
definition EIO :: int where "EIO = 5"
definition ECHILD :: int where "ECHILD = 10"
definition EFAULT :: int where "EFAULT = 14"
definition EINVAL :: int where "EINVAL = 22"
definition ENOSYS :: int where "ENOSYS = 38"

lemmas errno_consts = EPERM_def ESRCH_def EINTR_def EIO_def ECHILD_def EFAULT_def EINVAL_def
  ENOSYS_def

text \<open>Signals that the programs name.\<close>

definition SIGKILL :: int where "SIGKILL = 9"
definition SIGSTOP :: int where "SIGSTOP = 19"

section \<open>The world: errno and the kernel\<close>

text \<open>The thread's \<open>errno\<close> and the state of everything outside of the library.\<close>

record 'k world =
  errno :: int
  kern :: 'k

text \<open>The requests of \<open>ptrace(2)\<close> the library makes.\<close>

datatype ptrace_request =
    PTRACE_TRACEME | PTRACE_PEEKDATA | PTRACE_PEEKUSER | PTRACE_POKEDATA | PTRACE_POKEUSER
  | PTRACE_CONT | PTRACE_SINGLESTEP | PTRACE_SYSCALL | PTRACE_ATTACH | PTRACE_DETACH
  | PTRACE_GETREGS | PTRACE_SETREGS | PTRACE_GETREGSET | PTRACE_SETREGSET
  | PTRACE_SETOPTIONS | PTRACE_GETEVENTMSG | PTRACE_GETSIGINFO
  | PTRACE_SYSEMU | PTRACE_SYSEMU_SINGLESTEP | PTRACE_SEIZE | PTRACE_INTERRUPT | PTRACE_LISTEN
  | PTRACE_SET_SYSCALL

text \<open>
  The \<open>data\<close> argument of \<open>ptrace\<close>: a number in a pointer's clothes, a
  pointer to an object of the tracer, given by its bytes, or a pointer to an
  \<open>iovec\<close>, given by the bytes of its buffer.
\<close>

datatype 'w ptrace_data = Scalar 'w | Object "byte list" | Iovec "byte list"

text \<open>
  The services the library calls. \<open>sys_ptrace\<close> gives the return value, the
  new value of \<open>errno\<close> where the call sets it, the bytes the kernel stores
  through the pointer (for an \<open>iovec\<close>, as many as the new \<open>iov_len\<close> says),
  and the new state. The other services give either the error number of a
  failed call or its result. \<open>'w\<close> is the type of \<open>long\<close>.
\<close>

record ('w, 'k) kernel =
  sys_ptrace :: "ptrace_request \<Rightarrow> int \<Rightarrow> 'w \<Rightarrow> 'w ptrace_data \<Rightarrow> 'k \<Rightarrow>
    'w \<times> int option \<times> byte list \<times> 'k"
  sys_process_vm_readv :: "int \<Rightarrow> 'w \<Rightarrow> nat \<Rightarrow> 'k \<Rightarrow> (int + byte list) \<times> 'k"
  sys_process_vm_writev :: "int \<Rightarrow> 'w \<Rightarrow> byte list \<Rightarrow> 'k \<Rightarrow> (int + nat) \<times> 'k"
  sys_tkill :: "int \<Rightarrow> int \<Rightarrow> 'k \<Rightarrow> (int + unit) \<times> 'k"
  sys_tgkill :: "int \<Rightarrow> int \<Rightarrow> int \<Rightarrow> 'k \<Rightarrow> (int + unit) \<times> 'k"
  sys_kill :: "int \<Rightarrow> int \<Rightarrow> 'k \<Rightarrow> (int + unit) \<times> 'k"
  sys_malloc :: "nat \<Rightarrow> 'k \<Rightarrow> (int + unit) \<times> 'k"
  sys_free :: "'k \<Rightarrow> 'k"

end
