(* ===== verification/Pink_Kernel.thy ===== *)
theory Pink_Kernel
  imports Pink_Config
begin

text \<open>
  A kernel to run the library on: one stopped tracee with an address space, a
  USER area, a register set and an event message. It stands for the services the
  library calls, which are a parameter everywhere else, and shows that what the
  theorems ask of that parameter can be met.
\<close>

record 'w tracee =
  t_mem :: "'w \<Rightarrow> byte option"
  t_user :: "'w \<Rightarrow> 'w option"
  t_regs :: "byte list"

text \<open>A request of \<open>ptrace\<close>; the USER area and the memory are read and written by words.\<close>

fun ref_ptrace ::
    "bool \<Rightarrow> ptrace_request \<Rightarrow> int \<Rightarrow> 'l::len word \<Rightarrow> 'l word ptrace_data \<Rightarrow> 'l word tracee \<Rightarrow>
     'l word \<times> int option \<times> byte list \<times> 'l word tracee" where
  "ref_ptrace big PTRACE_PEEKDATA pid a d k =
     (case read_mem (t_mem k) a (sizeof_long TYPE('l)) of
        Some bs \<Rightarrow> (of_bytes big bs, None, [], k)
      | None \<Rightarrow> (- 1, Some EIO, [], k))"
| "ref_ptrace big PTRACE_POKEDATA pid a (Scalar v) k =
     (case read_mem (t_mem k) a (sizeof_long TYPE('l)) of
        Some _ \<Rightarrow> (0, None, [],
          k\<lparr>t_mem := write_mem (t_mem k) a (to_bytes big (sizeof_long TYPE('l)) v)\<rparr>)
      | None \<Rightarrow> (- 1, Some EIO, [], k))"
| "ref_ptrace big PTRACE_PEEKUSER pid a d k =
     (case t_user k a of
        Some v \<Rightarrow> (v, None, [], k)
      | None \<Rightarrow> (- 1, Some EIO, [], k))"
| "ref_ptrace big PTRACE_POKEUSER pid a (Scalar v) k =
     (case t_user k a of
        Some _ \<Rightarrow> (0, None, [], k\<lparr>t_user := (t_user k)(a \<mapsto> v)\<rparr>)
      | None \<Rightarrow> (- 1, Some EIO, [], k))"
| "ref_ptrace big PTRACE_GETREGSET pid a (Iovec bs) k =
     (0, None, take (length bs) (t_regs k), k)"
| "ref_ptrace big PTRACE_GETREGS pid a (Object bs) k =
     (0, None, take (length bs) (t_regs k), k)"
| "ref_ptrace big PTRACE_SETREGSET pid a (Iovec bs) k = (0, None, [], k\<lparr>t_regs := bs\<rparr>)"
| "ref_ptrace big PTRACE_ATTACH pid a d k =
     (if pid = 1 then (- 1, Some EPERM, [], k) else (0, None, [], k))"
| "ref_ptrace big req pid a d k = (0, None, [], k)"

definition ref_readv :: "int \<Rightarrow> 'l::len word \<Rightarrow> nat \<Rightarrow> 'l word tracee \<Rightarrow> (int + byte list) \<times> 'l word tracee" where
  "ref_readv pid a n k =
     (let bs = mapped_prefix (t_mem k) a n
      in (if n \<noteq> 0 \<and> bs = [] then Inl EFAULT else Inr bs, k))"

definition ref_writev :: "int \<Rightarrow> 'l::len word \<Rightarrow> byte list \<Rightarrow> 'l word tracee \<Rightarrow> (int + nat) \<times> 'l word tracee" where
  "ref_writev pid a bs k =
     (case read_mem (t_mem k) a (length bs) of
        None \<Rightarrow> (Inl EFAULT, k)
      | Some _ \<Rightarrow> (Inr (length bs), k\<lparr>t_mem := write_mem (t_mem k) a bs\<rparr>))"

definition ref_kernel :: "bool \<Rightarrow> ('l::len word, 'l word tracee) kernel" where
  "ref_kernel big =
     \<lparr>sys_ptrace = ref_ptrace big,
      sys_process_vm_readv = ref_readv,
      sys_process_vm_writev = ref_writev,
      sys_tkill = \<lambda>tid sig k. (if tid = 1 then Inl EPERM else Inr (), k),
      sys_tgkill = \<lambda>tgid tid sig k. (if tid = 1 then Inl EPERM else Inr (), k),
      sys_kill = \<lambda>pid sig k. (if pid = 1 then Inl EPERM else Inr (), k),
      sys_malloc = \<lambda>n k. (Inr (), k),
      sys_free = \<lambda>k. k\<rparr>"

text \<open>A configuration with everything that \<^verbatim>\<open>system.h\<close> can define.\<close>

definition ref_config :: "arch \<Rightarrow> pink_config" where
  "ref_config a =
     \<lparr>cfg_arch = a, powerpc64 = False, big_endian = False,
      have_feature = \<lambda>f. f \<noteq> HAVE_GETREGS \<and> f \<noteq> HAVE_SETREGS,
      have_pipe2 = True, pt_offset = \<lambda>_. 0\<rparr>"

lemma ref_config_simps [simp]:
  "cfg_arch (ref_config a) = a" "\<not> powerpc64 (ref_config a)" "\<not> big_endian (ref_config a)"
  "have_feature (ref_config a) f \<longleftrightarrow> f \<noteq> HAVE_GETREGS \<and> f \<noteq> HAVE_SETREGS"
  by (simp_all add: ref_config_def)

text \<open>A tracee for the witnesses: every byte is mapped and holds 1, but for one NUL.\<close>

definition ref_tracee :: "'l::len word \<Rightarrow> 'l word tracee" where
  "ref_tracee nul = \<lparr>t_mem = \<lambda>a. Some (if a = nul then 0 else 1), t_user = \<lambda>_. Some 0, t_regs = []\<rparr>"

lemma ref_tracee_mem [simp]: "t_mem (ref_tracee nul) = (\<lambda>a. Some (if a = nul then 0 else 1))"
  by (simp add: ref_tracee_def)

end
