(* ===== verification/Pink_Trace.thy ===== *)
theory Pink_Trace
  imports Pink_Kernel
begin

text \<open>
  \<^verbatim>\<open>pinktrace/trace.c\<close>, \<^verbatim>\<open>pinktrace/trace.h\<close>,
  \<^verbatim>\<open>pinktrace/event.c\<close> and \<^verbatim>\<open>pinktrace/event.h\<close>: the wrapper around
  \<open>ptrace(2)\<close>, the requests built on it, the translation of the tracing
  options, signalling a tracee, and the event of a wait status.
\<close>

unbundle bit_operations_syntax

section \<open>The wrapper around ptrace\<close>

text \<open>
  The result is the return value, the word stored through \<open>retval\<close> (\<open>None\<close>
  where nothing is stored), the bytes the kernel stored through \<open>data\<close>, and
  the world.
\<close>

definition pink_ptrace ::
    "('l::len word, 'k) kernel \<Rightarrow> ptrace_request \<Rightarrow> int \<Rightarrow> 'l word \<Rightarrow> 'l word ptrace_data \<Rightarrow>
     'k world \<Rightarrow> int \<times> 'l word option \<times> byte list \<times> 'k world" where
  "pink_ptrace K req pid addr data w =
     (case sys_ptrace K req pid addr data (kern w) of
        (val, e, out, k) \<Rightarrow>
          (let err = (case e of None \<Rightarrow> 0 | Some e \<Rightarrow> e) in
           if val = - 1 \<and> err \<noteq> 0
           then (let err' = (if err = EIO then EFAULT else err)
                 in (- err', None, out, \<lparr>errno = err', kern = k\<rparr>))
           else (0, Some val, out, \<lparr>errno = err, kern = k\<rparr>)))"

text \<open>A request whose result is only the status.\<close>

definition ptrace_status ::
    "('l::len word, 'k) kernel \<Rightarrow> ptrace_request \<Rightarrow> int \<Rightarrow> 'l word \<Rightarrow> 'l word ptrace_data \<Rightarrow>
     'k world \<Rightarrow> int \<times> 'k world" where
  "ptrace_status K req pid addr data w =
     (case pink_ptrace K req pid addr data w of (r, _, _, w') \<Rightarrow> (r, w'))"

text \<open>What an object of the tracer holds once the kernel stored \<open>out\<close> at its start.\<close>

definition overwrite :: "byte list \<Rightarrow> byte list \<Rightarrow> byte list" where
  "overwrite buf out = take (length buf) (out @ drop (length out) buf)"

lemma length_overwrite [simp]: "length (overwrite buf out) = length buf"
  by (simp add: overwrite_def)

lemma overwrite_same_length: "length out = length buf \<Longrightarrow> overwrite buf out = out"
  by (simp add: overwrite_def)

section \<open>Requests\<close>

text \<open>\<open>(void *)(long)sig\<close>: a 32-bit \<open>int\<close> in a pointer.\<close>

definition int_data :: "32 word \<Rightarrow> 'l::len word ptrace_data" where
  "int_data i = Scalar (scast i)"

definition pink_trace_me :: "('l::len word, 'k) kernel \<Rightarrow> 'k world \<Rightarrow> int \<times> 'k world" where
  "pink_trace_me K = ptrace_status K PTRACE_TRACEME 0 0 (Scalar 0)"

definition pink_trace_resume ::
    "('l::len word, 'k) kernel \<Rightarrow> int \<Rightarrow> 32 word \<Rightarrow> 'k world \<Rightarrow> int \<times> 'k world" where
  "pink_trace_resume K pid sig = ptrace_status K PTRACE_CONT pid 0 (int_data sig)"

text \<open>The pattern \<open>syscall(\<dots>) < 0 ? -errno : 0\<close>.\<close>

definition sys_status :: "(int + 'a) \<times> 'k \<Rightarrow> 'k world \<Rightarrow> int \<times> 'k world" where
  "sys_status r w =
     (case r of
        (Inl e, k) \<Rightarrow> (- e, \<lparr>errno = e, kern = k\<rparr>)
      | (Inr _, k) \<Rightarrow> (0, \<lparr>errno = errno w, kern = k\<rparr>))"

definition pink_trace_kill ::
    "pink_config \<Rightarrow> ('l::len word, 'k) kernel \<Rightarrow> int \<Rightarrow> int \<Rightarrow> int \<Rightarrow> 'k world \<Rightarrow> int \<times> 'k world" where
  "pink_trace_kill c K tid tgid sig w =
     (if tid \<le> 0 then (- EINVAL, w)
      else if tgid \<le> 0 then
        (if have_feature c HAVE_TKILL then sys_status (sys_tkill K tid sig (kern w)) w
         else sys_status (sys_kill K tid sig (kern w)) w)
      else
        (if have_feature c HAVE_TGKILL then sys_status (sys_tgkill K tgid tid sig (kern w)) w
         else if have_feature c HAVE_TKILL then sys_status (sys_tkill K tid sig (kern w)) w
         else sys_status (sys_kill K tid sig (kern w)) w))"

definition pink_trace_singlestep ::
    "('l::len word, 'k) kernel \<Rightarrow> int \<Rightarrow> 32 word \<Rightarrow> 'k world \<Rightarrow> int \<times> 'k world" where
  "pink_trace_singlestep K pid sig = ptrace_status K PTRACE_SINGLESTEP pid 0 (int_data sig)"

definition pink_trace_syscall ::
    "('l::len word, 'k) kernel \<Rightarrow> int \<Rightarrow> 32 word \<Rightarrow> 'k world \<Rightarrow> int \<times> 'k world" where
  "pink_trace_syscall K pid sig = ptrace_status K PTRACE_SYSCALL pid 0 (int_data sig)"

text \<open>The event message is stored in the caller's \<open>unsigned long\<close>.\<close>

definition pink_trace_geteventmsg ::
    "pink_config \<Rightarrow> ('l::len word, 'k) kernel \<Rightarrow> int \<Rightarrow> 'l word \<Rightarrow> 'k world \<Rightarrow>
     int \<times> 'l word \<times> 'k world" where
  "pink_trace_geteventmsg c K pid msg w =
     (if have_feature c HAVE_GETEVENTMSG
      then (let buf = to_bytes (big_endian c) (sizeof_long TYPE('l)) msg in
            case pink_ptrace K PTRACE_GETEVENTMSG pid 0 (Object buf) w of
              (r, _, out, w') \<Rightarrow> (r, of_bytes (big_endian c) (overwrite buf out), w'))
      else (- ENOSYS, msg, w))"

definition pink_trace_get_regs ::
    "pink_config \<Rightarrow> ('l::len word, 'k) kernel \<Rightarrow> int \<Rightarrow> byte list \<Rightarrow> 'k world \<Rightarrow>
     int \<times> byte list \<times> 'k world" where
  "pink_trace_get_regs c K pid regs w =
     (if have_feature c HAVE_GETREGS
      then (case pink_ptrace K PTRACE_GETREGS pid 0 (Object regs) w of
              (r, _, out, w') \<Rightarrow> (r, overwrite regs out, w'))
      else (- ENOSYS, regs, w))"

text \<open>The buffer of the \<open>iovec\<close> and its \<open>iov_len\<close> afterwards.\<close>

definition pink_trace_get_regset ::
    "pink_config \<Rightarrow> ('l::len word, 'k) kernel \<Rightarrow> int \<Rightarrow> byte list \<Rightarrow> 32 word \<Rightarrow> 'k world \<Rightarrow>
     int \<times> byte list \<times> nat \<times> 'k world" where
  "pink_trace_get_regset c K pid regset n_type w =
     (if have_feature c HAVE_GETREGSET
      then (case pink_ptrace K PTRACE_GETREGSET pid (scast n_type) (Iovec regset) w of
              (r, _, out, w') \<Rightarrow> (r, overwrite regset out, length out, w'))
      else (- ENOSYS, regset, length regset, w))"

definition pink_trace_set_regs ::
    "pink_config \<Rightarrow> ('l::len word, 'k) kernel \<Rightarrow> int \<Rightarrow> byte list \<Rightarrow> 'k world \<Rightarrow> int \<times> 'k world" where
  "pink_trace_set_regs c K pid regs w =
     (if have_feature c HAVE_SETREGS
      then ptrace_status K PTRACE_SETREGS pid 0 (Object regs) w
      else (- ENOSYS, w))"

definition pink_trace_set_regset ::
    "pink_config \<Rightarrow> ('l::len word, 'k) kernel \<Rightarrow> int \<Rightarrow> byte list \<Rightarrow> 32 word \<Rightarrow> 'k world \<Rightarrow>
     int \<times> 'k world" where
  "pink_trace_set_regset c K pid regset n_type w =
     (if have_feature c HAVE_SETREGSET
      then ptrace_status K PTRACE_SETREGSET pid (scast n_type) (Iovec regset) w
      else (- ENOSYS, w))"

definition pink_trace_get_siginfo ::
    "pink_config \<Rightarrow> ('l::len word, 'k) kernel \<Rightarrow> int \<Rightarrow> byte list \<Rightarrow> 'k world \<Rightarrow>
     int \<times> byte list \<times> 'k world" where
  "pink_trace_get_siginfo c K pid info w =
     (if have_feature c HAVE_GETSIGINFO
      then (case pink_ptrace K PTRACE_GETSIGINFO pid 0 (Object info) w of
              (r, _, out, w') \<Rightarrow> (r, overwrite info out, w'))
      else (- ENOSYS, info, w))"

section \<open>Tracing options\<close>

definition PINK_TRACE_OPTION_SYSGOOD :: "32 word" where "PINK_TRACE_OPTION_SYSGOOD = push_bit 0 1"
definition PINK_TRACE_OPTION_FORK :: "32 word" where "PINK_TRACE_OPTION_FORK = push_bit 1 1"
definition PINK_TRACE_OPTION_VFORK :: "32 word" where "PINK_TRACE_OPTION_VFORK = push_bit 2 1"
definition PINK_TRACE_OPTION_CLONE :: "32 word" where "PINK_TRACE_OPTION_CLONE = push_bit 3 1"
definition PINK_TRACE_OPTION_EXEC :: "32 word" where "PINK_TRACE_OPTION_EXEC = push_bit 4 1"
definition PINK_TRACE_OPTION_VFORK_DONE :: "32 word" where
  "PINK_TRACE_OPTION_VFORK_DONE = push_bit 5 1"
definition PINK_TRACE_OPTION_EXIT :: "32 word" where "PINK_TRACE_OPTION_EXIT = push_bit 6 1"
definition PINK_TRACE_OPTION_SECCOMP :: "32 word" where "PINK_TRACE_OPTION_SECCOMP = push_bit 7 1"
definition PINK_TRACE_OPTION_EXITKILL :: "32 word" where "PINK_TRACE_OPTION_EXITKILL = push_bit 8 1"

lemmas trace_option_consts = PINK_TRACE_OPTION_SYSGOOD_def PINK_TRACE_OPTION_FORK_def
  PINK_TRACE_OPTION_VFORK_def PINK_TRACE_OPTION_CLONE_def PINK_TRACE_OPTION_EXEC_def
  PINK_TRACE_OPTION_VFORK_DONE_def PINK_TRACE_OPTION_EXIT_def PINK_TRACE_OPTION_SECCOMP_def
  PINK_TRACE_OPTION_EXITKILL_def

text \<open>
  One line per \<open>if\<close> of \<open>pink_trace_setup\<close>: the option, the feature that
  guards it, and the kernel's \<open>PTRACE_O_*\<close> flag (\<^verbatim>\<open>linux/ptrace.h\<close>).
\<close>

definition trace_options :: "(32 word \<times> feature \<times> 32 word) list" where
  "trace_options =
     [(PINK_TRACE_OPTION_SYSGOOD, HAVE_OPTION_SYSGOOD, push_bit 0 1),
      (PINK_TRACE_OPTION_FORK, HAVE_OPTION_FORK, push_bit 1 1),
      (PINK_TRACE_OPTION_VFORK, HAVE_OPTION_VFORK, push_bit 2 1),
      (PINK_TRACE_OPTION_CLONE, HAVE_OPTION_CLONE, push_bit 3 1),
      (PINK_TRACE_OPTION_EXEC, HAVE_OPTION_EXEC, push_bit 4 1),
      (PINK_TRACE_OPTION_VFORK_DONE, HAVE_OPTION_VFORK_DONE, push_bit 5 1),
      (PINK_TRACE_OPTION_EXIT, HAVE_OPTION_EXIT, push_bit 6 1),
      (PINK_TRACE_OPTION_SECCOMP, HAVE_OPTION_SECCOMP, push_bit 7 1),
      (PINK_TRACE_OPTION_EXITKILL, HAVE_OPTION_EXITKILL, push_bit 20 1)]"

text \<open>The chain of \<open>if\<close>s; \<open>None\<close> is the early \<open>return -EINVAL\<close>.\<close>

fun collect_options ::
    "pink_config \<Rightarrow> 32 word \<Rightarrow> (32 word \<times> feature \<times> 32 word) list \<Rightarrow> 32 word \<Rightarrow> 32 word option" where
  "collect_options c options [] ptrace_options = Some ptrace_options"
| "collect_options c options ((opt, feat, flag) # rest) ptrace_options =
     (if options AND opt \<noteq> 0
      then (if have_feature c feat then collect_options c options rest (ptrace_options OR flag)
            else None)
      else collect_options c options rest ptrace_options)"

definition pink_trace_setup ::
    "pink_config \<Rightarrow> ('l::len word, 'k) kernel \<Rightarrow> int \<Rightarrow> 32 word \<Rightarrow> 'k world \<Rightarrow> int \<times> 'k world" where
  "pink_trace_setup c K pid options w =
     (if have_feature c HAVE_SETUP
      then (case collect_options c options trace_options 0 of
              None \<Rightarrow> (- EINVAL, w)
            | Some ptrace_options \<Rightarrow>
                ptrace_status K PTRACE_SETOPTIONS pid 0 (int_data ptrace_options) w)
      else (- ENOSYS, w))"

definition pink_trace_sysemu ::
    "pink_config \<Rightarrow> ('l::len word, 'k) kernel \<Rightarrow> int \<Rightarrow> 32 word \<Rightarrow> 'k world \<Rightarrow> int \<times> 'k world" where
  "pink_trace_sysemu c K pid sig w =
     (if have_feature c HAVE_SYSEMU
      then ptrace_status K PTRACE_SYSEMU pid 0 (int_data sig) w
      else (- ENOSYS, w))"

definition pink_trace_sysemu_singlestep ::
    "pink_config \<Rightarrow> ('l::len word, 'k) kernel \<Rightarrow> int \<Rightarrow> 32 word \<Rightarrow> 'k world \<Rightarrow> int \<times> 'k world" where
  "pink_trace_sysemu_singlestep c K pid sig w =
     (if have_feature c HAVE_SYSEMU
      then ptrace_status K PTRACE_SYSEMU_SINGLESTEP pid 0 (int_data sig) w
      else (- ENOSYS, w))"

definition pink_trace_attach ::
    "('l::len word, 'k) kernel \<Rightarrow> int \<Rightarrow> 'k world \<Rightarrow> int \<times> 'k world" where
  "pink_trace_attach K pid = ptrace_status K PTRACE_ATTACH pid 0 (Scalar 0)"

definition pink_trace_detach ::
    "('l::len word, 'k) kernel \<Rightarrow> int \<Rightarrow> 32 word \<Rightarrow> 'k world \<Rightarrow> int \<times> 'k world" where
  "pink_trace_detach K pid sig = ptrace_status K PTRACE_DETACH pid 0 (int_data sig)"

definition pink_trace_seize ::
    "pink_config \<Rightarrow> ('l::len word, 'k) kernel \<Rightarrow> int \<Rightarrow> 32 word \<Rightarrow> 'k world \<Rightarrow> int \<times> 'k world" where
  "pink_trace_seize c K pid options w =
     (if have_feature c HAVE_SEIZE
      then ptrace_status K PTRACE_SEIZE pid 0 (int_data options) w
      else (- ENOSYS, w))"

definition pink_trace_interrupt ::
    "pink_config \<Rightarrow> ('l::len word, 'k) kernel \<Rightarrow> int \<Rightarrow> 'k world \<Rightarrow> int \<times> 'k world" where
  "pink_trace_interrupt c K pid w =
     (if have_feature c HAVE_INTERRUPT
      then ptrace_status K PTRACE_INTERRUPT pid 0 (Scalar 0) w
      else (- ENOSYS, w))"

definition pink_trace_listen ::
    "pink_config \<Rightarrow> ('l::len word, 'k) kernel \<Rightarrow> int \<Rightarrow> 'k world \<Rightarrow> int \<times> 'k world" where
  "pink_trace_listen c K pid w =
     (if have_feature c HAVE_LISTEN
      then ptrace_status K PTRACE_LISTEN pid 0 (Scalar 0) w
      else (- ENOSYS, w))"

lemmas trace_wrapper_defs = pink_trace_me_def pink_trace_resume_def pink_trace_singlestep_def
  pink_trace_syscall_def pink_trace_set_regs_def pink_trace_set_regset_def
  pink_trace_sysemu_def pink_trace_sysemu_singlestep_def pink_trace_attach_def
  pink_trace_detach_def pink_trace_seize_def pink_trace_interrupt_def pink_trace_listen_def

section \<open>Events\<close>

definition PINK_EVENT_NONE :: int where "PINK_EVENT_NONE = 0"
definition PINK_EVENT_FORK :: int where "PINK_EVENT_FORK = 1"
definition PINK_EVENT_VFORK :: int where "PINK_EVENT_VFORK = 2"
definition PINK_EVENT_CLONE :: int where "PINK_EVENT_CLONE = 3"
definition PINK_EVENT_EXEC :: int where "PINK_EVENT_EXEC = 4"
definition PINK_EVENT_VFORK_DONE :: int where "PINK_EVENT_VFORK_DONE = 5"
definition PINK_EVENT_EXIT :: int where "PINK_EVENT_EXIT = 6"
definition PINK_EVENT_SECCOMP :: int where "PINK_EVENT_SECCOMP = 7"
definition PINK_EVENT_STOP :: int where "PINK_EVENT_STOP = 128"

lemmas event_consts = PINK_EVENT_NONE_def PINK_EVENT_FORK_def PINK_EVENT_VFORK_def
  PINK_EVENT_CLONE_def PINK_EVENT_EXEC_def PINK_EVENT_VFORK_DONE_def PINK_EVENT_EXIT_def
  PINK_EVENT_SECCOMP_def PINK_EVENT_STOP_def

definition pink_event_decide :: "32 word \<Rightarrow> int" where
  "pink_event_decide status = uint (drop_bit 16 status)"

text \<open>The macros of \<^verbatim>\<open>sys/wait.h\<close>.\<close>

definition WIFEXITED :: "32 word \<Rightarrow> bool" where "WIFEXITED status \<longleftrightarrow> status AND 0x7f = 0"
definition WEXITSTATUS :: "32 word \<Rightarrow> int" where "WEXITSTATUS status = uint (drop_bit 8 status AND 0xff)"
definition WTERMSIG :: "32 word \<Rightarrow> int" where "WTERMSIG status = uint (status AND 0x7f)"
definition WIFSIGNALED :: "32 word \<Rightarrow> bool" where
  "WIFSIGNALED status \<longleftrightarrow> status AND 0x7f \<noteq> 0 \<and> status AND 0x7f \<noteq> 0x7f"

definition WIFSTOPPED :: "32 word \<Rightarrow> bool" where "WIFSTOPPED status \<longleftrightarrow> status AND 0xff = 0x7f"
definition WSTOPSIG :: "32 word \<Rightarrow> int" where "WSTOPSIG status = WEXITSTATUS status"

section \<open>The status contract\<close>

text \<open>
  What the requests rely on: a call that sets \<open>errno\<close> sets it to an error
  number, and error numbers are positive.
\<close>

definition errno_positive :: "('w, 'k) kernel \<Rightarrow> bool" where
  "errno_positive K \<longleftrightarrow>
     (\<forall>req pid a d k e. fst (snd (sys_ptrace K req pid a d k)) = Some e \<longrightarrow> 0 < e)"

lemma pink_ptrace_cases:
  assumes "errno_positive K" and "pink_ptrace K req pid addr data w = (r, v, out, w')"
  shows "r = 0 \<and> v \<noteq> None \<or> r < 0 \<and> r \<noteq> - EIO \<and> v = None \<and> errno w' = - r"
proof -
  obtain val e out' k where s: "sys_ptrace K req pid addr data (kern w) = (val, e, out', k)"
    by (metis prod_cases4)
  have "0 < x" if "e = Some x" for x
    using assms(1) s that unfolding errno_positive_def by (metis fst_conv snd_conv)
  with assms(2) s show ?thesis
    by (cases e) (auto simp: pink_ptrace_def Let_def errno_consts split: if_splits)
qed

lemma ptrace_status_cases:
  assumes "errno_positive K" and "ptrace_status K req pid addr data w = (r, w')"
  shows "r = 0 \<or> r < 0 \<and> r \<noteq> - EIO"
proof -
  obtain v out where "pink_ptrace K req pid addr data w = (r, v, out, w')"
    using assms(2) by (auto simp: ptrace_status_def split: prod.splits)
  with pink_ptrace_cases [OF assms(1)] show ?thesis by blast
qed

text \<open>
  The interface the clients of the requests use: zero, or a negated error number
  that is never \<open>-EIO\<close>, so that the test \<open>r < 0\<close> tells failure from success.
\<close>

locale status_call =
  fixes call :: "('l::len word, 'k) kernel \<Rightarrow> 'k world \<Rightarrow> int \<times> 'k world"
  assumes status: "errno_positive K \<Longrightarrow> call K w = (r, w') \<Longrightarrow> r = 0 \<or> r < 0 \<and> r \<noteq> - EIO"
begin

lemma nonpos: "errno_positive K \<Longrightarrow> fst (call K w) \<le> 0"
  using status [of K w "fst (call K w)" "snd (call K w)"] by auto

lemma negative_iff_failed: "errno_positive K \<Longrightarrow> fst (call K w) < 0 \<longleftrightarrow> fst (call K w) \<noteq> 0"
  using status [of K w "fst (call K w)" "snd (call K w)"] by auto

lemma never_EIO: "errno_positive K \<Longrightarrow> fst (call K w) \<noteq> - EIO"
  using status [of K w "fst (call K w)" "snd (call K w)"] by (auto simp: errno_consts)

end

lemmas status_call_intro = status_call.intro [OF ptrace_status_cases]

lemma status_call_guarded:
  assumes "status_call f" and "e \<noteq> EIO" and "0 < e"
  shows "status_call (\<lambda>K w. if b then f K w else (- e, w))"
  using assms by (auto simp: status_call_def split: if_splits)

interpretation me: status_call pink_trace_me
  unfolding pink_trace_me_def by (rule status_call_intro)

interpretation resume: status_call "\<lambda>K. pink_trace_resume K pid sig" for pid sig
  unfolding pink_trace_resume_def by (rule status_call_intro)

interpretation singlestep: status_call "\<lambda>K. pink_trace_singlestep K pid sig" for pid sig
  unfolding pink_trace_singlestep_def by (rule status_call_intro)

interpretation trace_syscall: status_call "\<lambda>K. pink_trace_syscall K pid sig" for pid sig
  unfolding pink_trace_syscall_def by (rule status_call_intro)

interpretation attach: status_call "\<lambda>K. pink_trace_attach K pid" for pid
  unfolding pink_trace_attach_def by (rule status_call_intro)

interpretation detach: status_call "\<lambda>K. pink_trace_detach K pid sig" for pid sig
  unfolding pink_trace_detach_def by (rule status_call_intro)

lemmas status_call_ENOSYS = status_call_guarded [where e = ENOSYS, OF status_call_intro]

interpretation set_regset: status_call "\<lambda>K. pink_trace_set_regset c K pid regset n" for c pid regset n
  unfolding pink_trace_set_regset_def
  by (rule status_call_ENOSYS) (simp_all add: errno_consts)

interpretation sysemu: status_call "\<lambda>K. pink_trace_sysemu c K pid sig" for c pid sig
  unfolding pink_trace_sysemu_def
  by (rule status_call_ENOSYS) (simp_all add: errno_consts)

interpretation seize: status_call "\<lambda>K. pink_trace_seize c K pid options" for c pid options
  unfolding pink_trace_seize_def
  by (rule status_call_ENOSYS) (simp_all add: errno_consts)

interpretation interrupt: status_call "\<lambda>K. pink_trace_interrupt c K pid" for c pid
  unfolding pink_trace_interrupt_def
  by (rule status_call_ENOSYS) (simp_all add: errno_consts)

interpretation listen: status_call "\<lambda>K. pink_trace_listen c K pid" for c pid
  unfolding pink_trace_listen_def
  by (rule status_call_ENOSYS) (simp_all add: errno_consts)

interpretation trace_setup: status_call "\<lambda>K. pink_trace_setup c K pid options" for c pid options
proof (unfold_locales)
  fix K :: "('a::len word, 'k) kernel" and w r w'
  assume "errno_positive K" and "pink_trace_setup c K pid options w = (r, w')"
  then show "r = 0 \<or> r < 0 \<and> r \<noteq> - EIO"
    by (auto simp: pink_trace_setup_def errno_consts split: if_splits option.splits
        dest: ptrace_status_cases)
qed

section \<open>The translation of options\<close>

text \<open>An option that is asked for and not supported; the flag an option contributes.\<close>

definition refused :: "pink_config \<Rightarrow> 32 word \<Rightarrow> 32 word \<times> feature \<times> 32 word \<Rightarrow> bool" where
  "refused c options x \<longleftrightarrow> options AND fst x \<noteq> 0 \<and> \<not> have_feature c (fst (snd x))"

definition flag_of :: "32 word \<Rightarrow> 32 word \<times> feature \<times> 32 word \<Rightarrow> 32 word" where
  "flag_of options x = (if options AND fst x \<noteq> 0 then snd (snd x) else 0)"

lemma collect_options_eq:
  "collect_options c options xs acc =
     (if list_ex (refused c options) xs then None
      else Some (foldl (OR) acc (map (flag_of options) xs)))"
proof (induction xs arbitrary: acc)
  case Nil
  then show ?case by simp
next
  case (Cons x xs)
  obtain opt feat flag where x: "x = (opt, feat, flag)" by (cases x)
  have "refused c options x \<longleftrightarrow> options AND opt \<noteq> 0 \<and> \<not> have_feature c feat"
    and "flag_of options x = (if options AND opt \<noteq> 0 then flag else 0)"
    by (simp_all add: refused_def flag_of_def x)
  with Cons.IH show ?case by (simp add: x)
qed

text \<open>The flags of the kernel that a set of options stands for.\<close>

definition options_flags :: "32 word \<Rightarrow> 32 word" where
  "options_flags options = (options AND mask 8) OR (if bit options 8 then push_bit 20 1 else 0)"

lemma bit_foldl_or: "bit (foldl (OR) a ws) k \<longleftrightarrow> bit a k \<or> (\<exists>w\<in>set ws. bit w k)"
  for a :: "'a::len word"
  by (induction ws arbitrary: a) (auto simp: bit_or_iff)

lemma bit_flag_of:
  "bit (flag_of options (push_bit i 1, f, push_bit j 1)) k \<longleftrightarrow> bit options i \<and> k = j \<and> j < 32"
  by (auto simp: flag_of_def and_exp_eq_0_iff_not_bit bit_exp_iff)

lemma bit_if_push_bit_1:
  "bit (if P then push_bit n 1 else 0 :: 32 word) k \<longleftrightarrow> P \<and> k = n \<and> n < 32"
  by (auto simp: bit_exp_iff)

lemma bit_options_flags:
  "bit (options_flags options) k \<longleftrightarrow> bit options k \<and> k < 8 \<or> bit options 8 \<and> k = 20"
proof -
  have "bit (options_flags options) k \<longleftrightarrow> bit options k \<and> bit (mask 8 :: 32 word) k \<or> bit options 8 \<and> k = 20"
    by (simp only: options_flags_def bit_or_iff bit_and_iff bit_if_push_bit_1) simp
  then show ?thesis by (auto simp: bit_mask_iff)
qed

lemma trace_options_flags: "foldl (OR) 0 (map (flag_of options) trace_options) = options_flags options"
proof (rule bit_word_eqI)
  fix k
  have eq: "bit (foldl (OR) 0 (map (flag_of options) trace_options)) k \<longleftrightarrow>
    (\<exists>i\<in>{0, 1, 2, 3, 4, 5, 6, 7}. bit options i \<and> k = i) \<or> bit options 8 \<and> k = 20"
    by (simp only: bit_foldl_or trace_options_def trace_option_consts list.map list.set bex_simps
        bit_flag_of) simp
  have "{0, 1, 2, 3, 4, 5, 6, 7} = {..<8 :: nat}" by auto
  then show "bit (foldl (OR) 0 (map (flag_of options) trace_options)) k =
      bit (options_flags options) k"
    unfolding eq bit_options_flags by (simp only:) auto
qed

lemma ref_errno_positive: "errno_positive (ref_kernel big)"
proof -
  have "fst (snd (ref_ptrace big req pid a d k)) = Some e \<Longrightarrow> 0 < e" for req pid a d k e
    by (induction big req pid a d k rule: ref_ptrace.induct)
      (auto simp: errno_consts split: option.splits if_splits)
  then show ?thesis unfolding errno_positive_def ref_kernel_def kernel.simps by blast
qed

section \<open>Properties\<close>

text \<open>
  The wrapper around \<open>ptrace\<close> returns 0 exactly when it stores a result; a
  failure is the negated \<open>errno\<close>, which is never \<open>EIO\<close>; and a peek that yields
  the word -1 with \<open>errno\<close> clear is a success that stores -1.
\<close>

lemma pink_ptrace_result:
  assumes "errno_positive K" and "pink_ptrace K req pid addr data w = (r, res, out, w')"
  shows "(r = 0 \<longleftrightarrow> res \<noteq> None) \<and> (r \<noteq> 0 \<longrightarrow> r < 0 \<and> errno w' = - r \<and> errno w' \<noteq> EIO) \<and>
    (\<forall>k. sys_ptrace K req pid addr data (kern w) = (- 1, None, out, k) \<longrightarrow> r = 0 \<and> res = Some (- 1))"
  using pink_ptrace_cases [OF assms] assms(2) by (auto simp: pink_ptrace_def)

lemma pink_ptrace_result_ref:
  "errno_positive (ref_kernel False :: (64 word, 64 word tracee) kernel) \<and>
   pink_ptrace (ref_kernel False) PTRACE_PEEKUSER 7 (0 :: 64 word) (Scalar 0)
     \<lparr>errno = 0, kern = \<lparr>t_mem = Map.empty, t_user = Map.empty, t_regs = []\<rparr>\<rparr> =
     (- EFAULT, None, [], \<lparr>errno = EFAULT, kern = \<lparr>t_mem = Map.empty, t_user = Map.empty, t_regs = []\<rparr>\<rparr>) \<and>
   - EFAULT < (0 :: int) \<and> EFAULT \<noteq> EIO"
proof -
  have "pink_ptrace (ref_kernel False) PTRACE_PEEKUSER 7 (0 :: 64 word) (Scalar 0)
      \<lparr>errno = 0, kern = \<lparr>t_mem = Map.empty, t_user = Map.empty, t_regs = []\<rparr>\<rparr> =
      (- EFAULT, None, [], \<lparr>errno = EFAULT, kern = \<lparr>t_mem = Map.empty, t_user = Map.empty, t_regs = []\<rparr>\<rparr>)"
    by (simp add: pink_ptrace_def ref_kernel_def errno_consts)
  with pink_ptrace_result [OF ref_errno_positive this] ref_errno_positive show ?thesis
    by (simp add: EFAULT_def)
qed

text \<open>
  (C9) \<open>pink_trace_setup\<close> refuses with \<open>EINVAL\<close> exactly the option sets that
  hold an option the library was built without, and otherwise makes one
  \<open>PTRACE_SETOPTIONS\<close> request with the kernel's flags: bits 0 to 7 as they are
  and \<open>PINK_TRACE_OPTION_EXITKILL\<close> moved from bit 8 to bit 20. Every other bit
  is ignored.
\<close>

theorem pink_trace_setup_spec:
  "pink_trace_setup c K pid options w =
     (if \<not> have_feature c HAVE_SETUP then (- ENOSYS, w)
      else if \<exists>(opt, feat, flag) \<in> set trace_options. options AND opt \<noteq> 0 \<and> \<not> have_feature c feat
      then (- EINVAL, w)
      else ptrace_status K PTRACE_SETOPTIONS pid 0 (int_data (options_flags options)) w)"
proof -
  have "list_ex (refused c options) trace_options \<longleftrightarrow>
      (\<exists>(opt, feat, flag) \<in> set trace_options. options AND opt \<noteq> 0 \<and> \<not> have_feature c feat)"
    by (force simp: list_ex_iff refused_def)
  then show ?thesis
    by (simp only: pink_trace_setup_def collect_options_eq trace_options_flags) simp
qed

text \<open>
  \<open>pink_trace_seize\<close> hands the library's options to the kernel as they are.
  They are the kernel's flags exactly when neither \<open>PINK_TRACE_OPTION_EXITKILL\<close>
  nor an unknown bit is among them: \<open>EXITKILL\<close> is not translated.
\<close>

lemma pink_trace_seize_options:
  "pink_trace_seize c K pid options w =
     (if have_feature c HAVE_SEIZE then ptrace_status K PTRACE_SEIZE pid 0 (int_data options) w
      else (- ENOSYS, w)) \<and>
   (options = options_flags options \<longleftrightarrow> drop_bit 8 options = 0)"
proof -
  have "options = options_flags options \<longleftrightarrow> drop_bit 8 options = 0"
  proof
    assume eq: "options = options_flags options"
    then have no: "\<not> bit options k" if "8 \<le> k" for k
      using that bit_options_flags [of options k] bit_options_flags [of options 8] by auto
    show "drop_bit 8 options = 0"
      by (rule bit_word_eqI) (simp add: bit_drop_bit_eq no)
  next
    assume "drop_bit 8 options = 0"
    then have no: "\<not> bit options (8 + k)" for k
      by (metis bit_0_eq bit_drop_bit_eq bot_apply bot_bool_def comp_apply)
    show "options = options_flags options"
    proof (rule bit_word_eqI)
      fix k
      show "bit options k = bit (options_flags options) k"
        using no [of 0] no [of "k - 8"] by (cases "k < 8") (simp_all add: bit_options_flags)
    qed
  qed
  then show ?thesis by (simp add: pink_trace_seize_def)
qed

text \<open>
  The event of a stop: of the wait status \<open>event << 16 | sig << 8 | 0x7f\<close>
  that \<open>ptrace\<close> documents, \<open>pink_event_decide\<close> returns the event, and
  \<open>PINK_EVENT_NONE\<close> of any status without one.
\<close>

lemma pink_event_decide_stop:
  assumes "unat event < 2 ^ 16" and "unat sig < 2 ^ 8"
  shows "pink_event_decide (push_bit 16 event OR push_bit 8 sig OR 0x7f) = uint event \<and>
    pink_event_decide (push_bit 8 sig OR 0x7f) = PINK_EVENT_NONE"
proof -
  have event: "take_bit 16 event = event" and sig: "take_bit 8 sig = sig"
    using assms by (simp_all add: word_unat_eq_iff unat_take_bit)
  have low: "drop_bit 16 (push_bit 8 sig OR 0x7f) = 0"
    by (subst sig [symmetric]) (simp add: drop_bit_push_bit push_bit_take_bit drop_bit_take_bit)
  moreover have "drop_bit 16 (push_bit 16 event) = event"
    using event by (auto intro!: bit_word_eqI simp: bit_simps) (metis bit_take_bit_iff)
  ultimately have "drop_bit 16 (push_bit 16 event OR push_bit 8 sig OR 0x7f) = event"
    by (simp only: drop_bit_or or.assoc or.right_neutral)
  with low show ?thesis by (simp only: pink_event_decide_def event_consts) simp
qed

lemma pink_event_decide_stop_ref:
  "pink_event_decide 0x3057f = PINK_EVENT_CLONE \<and> pink_event_decide 0x057f = PINK_EVENT_NONE"
  using pink_event_decide_stop [of 3 5] by (simp add: event_consts)

end
