(* ===== verification/Pink_Word.thy ===== *)
theory Pink_Word
  imports Pink_Trace
begin

text \<open>
  The word accessors of \<^verbatim>\<open>pinktrace/read.c\<close> and \<^verbatim>\<open>pinktrace/write.c\<close>
  (\<open>PTRACE_PEEKUSER\<close>, \<open>PTRACE_PEEKDATA\<close>, \<open>PTRACE_POKEUSER\<close>,
  \<open>PTRACE_POKEDATA\<close>), what the library relies on when it calls them, and the
  fields of register blocks as the bytes they occupy.
\<close>

unbundle bit_operations_syntax

section \<open>Words of the tracee\<close>

text \<open>The status and, on success, the word stored through \<open>res\<close>.\<close>

definition pink_read_word_user ::
    "('l::len word, 'k) kernel \<Rightarrow> int \<Rightarrow> 'l word \<Rightarrow> 'k world \<Rightarrow> int \<times> 'l word option \<times> 'k world" where
  "pink_read_word_user K pid off w =
     (case pink_ptrace K PTRACE_PEEKUSER pid off (Scalar 0) w of (r, res, _, w') \<Rightarrow> (r, res, w'))"

definition pink_read_word_data ::
    "('l::len word, 'k) kernel \<Rightarrow> int \<Rightarrow> 'l word \<Rightarrow> 'k world \<Rightarrow> int \<times> 'l word option \<times> 'k world" where
  "pink_read_word_data K pid off w =
     (case pink_ptrace K PTRACE_PEEKDATA pid off (Scalar 0) w of (r, res, _, w') \<Rightarrow> (r, res, w'))"

definition pink_write_word_user ::
    "('l::len word, 'k) kernel \<Rightarrow> int \<Rightarrow> 'l word \<Rightarrow> 'l word \<Rightarrow> 'k world \<Rightarrow> int \<times> 'k world" where
  "pink_write_word_user K pid off val = ptrace_status K PTRACE_POKEUSER pid off (Scalar val)"

definition pink_write_word_data ::
    "('l::len word, 'k) kernel \<Rightarrow> int \<Rightarrow> 'l word \<Rightarrow> 'l word \<Rightarrow> 'k world \<Rightarrow> int \<times> 'k world" where
  "pink_write_word_data K pid off val = ptrace_status K PTRACE_POKEDATA pid off (Scalar val)"

interpretation write_user: status_call "\<lambda>K. pink_write_word_user K pid off val" for pid off val
  unfolding pink_write_word_user_def by (rule status_call_intro)

interpretation write_data: status_call "\<lambda>K. pink_write_word_data K pid off val" for pid off val
  unfolding pink_write_word_data_def by (rule status_call_intro)

section \<open>What ptrace(2) documents of the four requests\<close>

text \<open>
  \<open>mem k\<close> is the address space of the tracee in kernel state \<open>k\<close>. A peek of
  a word whose bytes are all mapped returns the bytes, in the order of the machine;
  any other peek fails with \<open>EIO\<close> or \<open>EFAULT\<close>, ``more or less arbitrarily''.
\<close>

definition peek_contract ::
    "bool \<Rightarrow> ('l::len word, 'k) kernel \<Rightarrow> int \<Rightarrow> ('k \<Rightarrow> 'l mem) \<Rightarrow> bool" where
  "peek_contract big K pid mem \<longleftrightarrow>
     (\<forall>k a. case read_mem (mem k) a (sizeof_long TYPE('l)) of
        Some bs \<Rightarrow> sys_ptrace K PTRACE_PEEKDATA pid a (Scalar 0) k = (of_bytes big bs, None, [], k)
      | None \<Rightarrow> (\<exists>e\<in>{EIO, EFAULT}.
          sys_ptrace K PTRACE_PEEKDATA pid a (Scalar 0) k = (- 1, Some e, [], k)))"

text \<open>
  A poke replaces the bytes of a mapped word and nothing else; a poke of a word
  that is not mapped fails and changes nothing.
\<close>

definition poke_contract ::
    "bool \<Rightarrow> ('l::len word, 'k) kernel \<Rightarrow> int \<Rightarrow> ('k \<Rightarrow> 'l mem) \<Rightarrow> bool" where
  "poke_contract big K pid mem \<longleftrightarrow>
     (\<forall>k a v. case read_mem (mem k) a (sizeof_long TYPE('l)) of
        Some _ \<Rightarrow> (\<exists>k'. sys_ptrace K PTRACE_POKEDATA pid a (Scalar v) k = (0, None, [], k') \<and>
          mem k' = write_mem (mem k) a (to_bytes big (sizeof_long TYPE('l)) v))
      | None \<Rightarrow> (\<exists>e\<in>{EIO, EFAULT}.
          sys_ptrace K PTRACE_POKEDATA pid a (Scalar v) k = (- 1, Some e, [], k)))"

text \<open>
  What \<open>process_vm_readv(2)\<close> documents for one block: the bytes, if all of them
  are mapped; otherwise \<open>EFAULT\<close>, or a transfer of a part of the mapped bytes.
\<close>

definition readv_contract :: "('l::len word, 'k) kernel \<Rightarrow> int \<Rightarrow> ('k \<Rightarrow> 'l mem) \<Rightarrow> bool" where
  "readv_contract K pid mem \<longleftrightarrow>
     (\<forall>k a n. let bs = mapped_prefix (mem k) a n in
        if length bs = n then sys_process_vm_readv K pid a n k = (Inr bs, k)
        else sys_process_vm_readv K pid a n k = (Inl EFAULT, k) \<or>
          (\<exists>j. 0 < j \<and> j \<le> length bs \<and> sys_process_vm_readv K pid a n k = (Inr (take j bs), k)))"

text \<open>What \<open>process_vm_writev(2)\<close> documents, likewise.\<close>

definition writev_contract :: "('l::len word, 'k) kernel \<Rightarrow> int \<Rightarrow> ('k \<Rightarrow> 'l mem) \<Rightarrow> bool" where
  "writev_contract K pid mem \<longleftrightarrow>
     (\<forall>k a bs. read_mem (mem k) a (length bs) \<noteq> None \<longrightarrow>
        (\<exists>k'. sys_process_vm_writev K pid a bs k = (Inr (length bs), k') \<and>
           mem k' = write_mem (mem k) a bs))"

text \<open>Mappings are made of pages, so the bytes of an aligned word are mapped together.\<close>

definition word_granular :: "nat \<Rightarrow> 'l::len mem \<Rightarrow> bool" where
  "word_granular s m \<longleftrightarrow>
     (\<forall>a i. unat a mod s = 0 \<longrightarrow> i < s \<longrightarrow> (m (a + of_nat i) = None \<longleftrightarrow> m a = None))"

text \<open>The kernel serves the tracee's memory as documented.\<close>

definition vm_services ::
    "pink_config \<Rightarrow> ('l::len word, 'k) kernel \<Rightarrow> int \<Rightarrow> ('k \<Rightarrow> 'l mem) \<Rightarrow> 'k world \<Rightarrow> bool" where
  "vm_services c K pid mem w \<longleftrightarrow>
     long_width TYPE('l) \<and> peek_contract (big_endian c) K pid mem \<and> readv_contract K pid mem \<and>
     word_granular (sizeof_long TYPE('l)) (mem (kern w))"

lemma read_word_data_mapped:
  assumes "peek_contract big K pid mem"
    and "read_mem (mem (kern w)) a (sizeof_long TYPE('l)) = Some bs"
  shows "pink_read_word_data K pid (a :: 'l::len word) w = (0, Some (of_bytes big bs), w\<lparr>errno := 0\<rparr>)"
proof -
  have "sys_ptrace K PTRACE_PEEKDATA pid a (Scalar 0) (kern w) = (of_bytes big bs, None, [], kern w)"
    using assms(1) [unfolded peek_contract_def, THEN spec [of _ "kern w"], THEN spec [of _ a]] assms(2) by simp
  then show ?thesis by (simp add: pink_read_word_data_def pink_ptrace_def)
qed

lemma read_word_data_unmapped:
  assumes "peek_contract big K pid mem"
    and "read_mem (mem (kern w)) a (sizeof_long TYPE('l)) = None"
  shows "pink_read_word_data K pid (a :: 'l::len word) w = (- EFAULT, None, w\<lparr>errno := EFAULT\<rparr>)"
proof -
  obtain e where "e \<in> {EIO, EFAULT}"
    and "sys_ptrace K PTRACE_PEEKDATA pid a (Scalar 0) (kern w) = (- 1, Some e, [], kern w)"
    using assms(1) [unfolded peek_contract_def, THEN spec [of _ "kern w"], THEN spec [of _ a]] assms(2) by auto
  then show ?thesis
    by (auto simp: pink_read_word_data_def pink_ptrace_def Let_def errno_consts)
qed

lemma write_word_data_mapped:
  assumes "poke_contract big K pid mem"
    and "read_mem (mem (kern w)) a (sizeof_long TYPE('l)) = Some bs"
  shows "\<exists>k'. pink_write_word_data K pid (a :: 'l::len word) v w = (0, \<lparr>errno = 0, kern = k'\<rparr>) \<and>
    mem k' = write_mem (mem (kern w)) a (to_bytes big (sizeof_long TYPE('l)) v)"
proof -
  obtain k' where "sys_ptrace K PTRACE_POKEDATA pid a (Scalar v) (kern w) = (0, None, [], k')"
    and "mem k' = write_mem (mem (kern w)) a (to_bytes big (sizeof_long TYPE('l)) v)"
    using assms(1) [unfolded poke_contract_def, THEN spec [of _ "kern w"], THEN spec [of _ a], THEN spec [of _ v]] assms(2) by auto
  then show ?thesis
    by (intro exI [of _ k']) (simp add: pink_write_word_data_def ptrace_status_def pink_ptrace_def)
qed

lemma write_word_data_unmapped:
  assumes "poke_contract big K pid mem"
    and "read_mem (mem (kern w)) a (sizeof_long TYPE('l)) = None"
  shows "pink_write_word_data K pid (a :: 'l::len word) v w = (- EFAULT, w\<lparr>errno := EFAULT\<rparr>)"
proof -
  obtain e where "e \<in> {EIO, EFAULT}"
    and "sys_ptrace K PTRACE_POKEDATA pid a (Scalar v) (kern w) = (- 1, Some e, [], kern w)"
    using assms(1) [unfolded poke_contract_def, THEN spec [of _ "kern w"], THEN spec [of _ a], THEN spec [of _ v]] assms(2) by auto
  then show ?thesis
    by (auto simp: pink_write_word_data_def ptrace_status_def pink_ptrace_def Let_def errno_consts)
qed

text \<open>The word that holds the byte at an address.\<close>

lemma aligned_next:
  fixes addr :: "'l::len word"
  assumes "long_width TYPE('l)"
  defines "s \<equiv> sizeof_long TYPE('l)"
  shows "unat ((addr AND - of_nat s) + of_nat s) mod s = 0"
    and "(addr AND - of_nat s) + of_nat (unat addr mod s) = addr"
    and "unat (addr AND - of_nat s) mod s = 0"
proof -
  obtain p where p: "s = 2 ^ p" "p < LENGTH('l)"
    using long_width_size [OF assms(1)] by (auto simp: s_def)
  have base: "addr AND - of_nat s = addr - of_nat (unat addr mod s)"
    by (rule word_base_eq [OF p])
  then show "(addr AND - of_nat s) + of_nat (unat addr mod s) = addr" by simp
  have "(addr AND - of_nat s) AND (of_nat s - 1) = 0"
    by (auto intro!: bit_word_eqI simp: p(1) bit_simps minus_exp_eq_not_mask
        simp flip: mask_eq_exp_minus_1)
  then have al: "unat (addr AND - of_nat s) mod s = 0"
    using residue_eq [OF p, of "addr AND - of_nat s"] by simp
  then show "unat (addr AND - of_nat s) mod s = 0" .
  have "s dvd 2 ^ LENGTH('l)" using p by (simp add: le_imp_power_dvd)
  then have "unat ((addr AND - of_nat s) + of_nat s) mod s =
      (unat (addr AND - of_nat s) + unat (of_nat s :: 'l word)) mod s"
    by (rule mod_add_word)
  moreover have "unat (of_nat s :: 'l word) mod s = 0"
    using \<open>s dvd 2 ^ LENGTH('l)\<close> by (simp add: unsigned_of_nat take_bit_eq_mod mod_mod_cancel)
  ultimately show "unat ((addr AND - of_nat s) + of_nat s) mod s = 0"
    using al by (metis add.right_neutral mod_add_eq mod_0)
qed

lemma aligned_base:
  fixes addr :: "'l::len word"
  assumes "long_width TYPE('l)" and "unat addr mod sizeof_long TYPE('l) = 0"
  shows "addr AND - of_nat (sizeof_long TYPE('l)) = addr"
  using aligned_next(2) [OF assms(1), of addr] assms(2) by simp

lemma residue_long:
  fixes addr :: "'l::len word"
  assumes "long_width TYPE('l)"
  shows "unat (addr AND (of_nat (sizeof_long TYPE('l)) - 1)) = unat addr mod sizeof_long TYPE('l)"
  using long_width_size [OF assms] residue_eq by blast

lemma peek_at:
  fixes addr :: "'l::len word" and K :: "('l word, 'k) kernel"
  assumes "long_width TYPE('l)" and "peek_contract big K pid mem"
    and "word_granular (sizeof_long TYPE('l)) (mem (kern w))"
  defines "s \<equiv> sizeof_long TYPE('l)"
  shows "if mem (kern w) addr = None
    then pink_read_word_data K pid (addr AND - of_nat s) w = (- EFAULT, None, w\<lparr>errno := EFAULT\<rparr>)
    else \<exists>val x. pink_read_word_data K pid (addr AND - of_nat s) w = (0, Some val, w\<lparr>errno := 0\<rparr>) \<and>
      to_bytes big s val = x \<and> length x = s \<and>
      (\<forall>j \<le> s - unat addr mod s.
         mapped_prefix (mem (kern w)) addr j = take j (drop (unat addr mod s) x) \<and>
         length (mapped_prefix (mem (kern w)) addr j) = j)"
proof -
  let ?m = "mem (kern w)" and ?b = "addr AND - of_nat s" and ?r = "unat addr mod s"
  have s: "0 < s" "?r < s" by (simp_all add: s_def)
  have gran: "?m (?b + of_nat i) = None \<longleftrightarrow> ?m ?b = None" if "i < s" for i
    using assms(3) [unfolded word_granular_def, THEN spec [of _ ?b], THEN spec [of _ i]]
      aligned_next(3) [OF assms(1), of addr] that by (simp add: s_def)
  have addr: "?b + of_nat ?r = addr"
    using aligned_next(2) [OF assms(1), of addr] by (simp add: s_def)
  show ?thesis
  proof (cases "?m addr")
    case None
    then have "read_mem ?m ?b s = None"
      using gran [OF s(2)] s(1) addr by (auto simp: read_mem_None_iff intro!: exI [of _ ?r] s(2))
    with None show ?thesis
      using read_word_data_unmapped [OF assms(2), of w] by (simp add: s_def)
  next
    case (Some b)
    then have "read_mem ?m ?b s \<noteq> None"
      using gran [OF s(2)] gran addr by (auto simp: read_mem_None_iff)
    then obtain x where x: "read_mem ?m ?b s = Some x" by blast
    then have len: "length x = s" by (rule length_read_mem)
    have "to_bytes big s (of_bytes big x :: 'l word) = x"
      using len long_width_size [OF assms(1)] by (auto simp: s_def)
    moreover have "read_mem ?m addr j = Some (take j (drop ?r x))" if "j \<le> s - ?r" for j
      using read_mem_sub [OF x, of ?r j] that s(2) addr by simp
    then have "mapped_prefix ?m addr j = take j (drop ?r x) \<and> length (mapped_prefix ?m addr j) = j"
      if "j \<le> s - ?r" for j
      using that by (auto simp: read_mem_iff_mapped_prefix)
    ultimately show ?thesis
      using Some x len read_word_data_mapped [OF assms(2), of w] by (simp add: s_def)
  qed
qed

lemma next_word:
  fixes addr :: "'l::len word"
  assumes "long_width TYPE('l)"
  defines "s \<equiv> sizeof_long TYPE('l)"
  shows "(addr AND - of_nat s) + of_nat s = addr + of_nat (s - unat addr mod s)"
proof -
  have "unat addr mod s < s" by (simp add: s_def)
  then have "(of_nat s :: 'l word) = of_nat (unat addr mod s) + of_nat (s - unat addr mod s)"
    by (metis of_nat_add le_add_diff_inverse less_imp_le)
  then show ?thesis
    using aligned_next(2) [OF assms(1), of addr] by (metis add.assoc s_def)
qed

text \<open>The reference kernel keeps all of it.\<close>

lemma ref_peek: "peek_contract big (ref_kernel big) pid t_mem"
  by (auto simp: peek_contract_def ref_kernel_def split: option.split)

lemma ref_poke: "poke_contract big (ref_kernel big) pid t_mem"
  by (auto simp: poke_contract_def ref_kernel_def split: option.split)

lemma ref_readv_ok: "readv_contract (ref_kernel big) pid t_mem"
  by (auto simp: readv_contract_def ref_kernel_def ref_readv_def Let_def)

lemma ref_writev_ok: "writev_contract (ref_kernel big) pid t_mem"
  by (auto simp: writev_contract_def ref_kernel_def ref_writev_def split: option.split)

lemma ref_vm_services:
  fixes w :: "'l::len word tracee world"
  assumes "long_width TYPE('l)" and "word_granular (sizeof_long TYPE('l)) (t_mem (kern w))"
  shows "vm_services c (ref_kernel (big_endian c)) pid t_mem w"
  using assms by (simp add: vm_services_def ref_peek ref_readv_ok)

lemma word_granular_total: "(\<And>a. m a \<noteq> None) \<Longrightarrow> word_granular s m"
  by (simp add: word_granular_def del: not_None_eq)

section \<open>Fields of a register block\<close>

text \<open>
  The \<open>i\<close>-th of a row of fields of \<open>s\<close> bytes each, as C lays out a structure
  whose members have one type. Structures of a \<open>union\<close> share the bytes.
\<close>

definition get_field :: "bool \<Rightarrow> nat \<Rightarrow> nat \<Rightarrow> byte list \<Rightarrow> 'a::len word" where
  "get_field big s i bs = of_bytes big (take s (drop (s * i) bs))"

definition put_field :: "bool \<Rightarrow> nat \<Rightarrow> nat \<Rightarrow> 'a::len word \<Rightarrow> byte list \<Rightarrow> byte list" where
  "put_field big s i v bs = take (s * i) bs @ to_bytes big s v @ drop (s * i + s) bs"

lemma length_put_field [simp]:
  "s * i + s \<le> length bs \<Longrightarrow> length (put_field big s i v bs) = length bs"
  by (simp add: put_field_def)

lemma get_put_field [simp]:
  assumes "s * i + s \<le> length bs" and "LENGTH('a) \<le> 8 * s"
  shows "get_field big s i (put_field big s i v bs) = (v :: 'a::len word)"
  using assms by (simp add: get_field_def put_field_def)

text \<open>Fields that do not overlap do not see each other, whatever their sizes.\<close>

lemma nth_put_field:
  assumes "s * i + s \<le> length bs" and "j < length bs" and "j < s * i \<or> s * i + s \<le> j"
  shows "put_field big s i v bs ! j = bs ! j"
  using assms by (auto simp: put_field_def nth_append min_def)

lemma get_put_field_other:
  assumes "s * i + s \<le> length bs" and "t * j + t \<le> length bs"
    and "t * j + t \<le> s * i \<or> s * i + s \<le> t * j"
  shows "get_field big t j (put_field big' s i v bs) = get_field big t j bs"
proof -
  have "take t (drop (t * j) (put_field big' s i v bs)) = take t (drop (t * j) bs)"
    by (rule nth_equalityI) (use assms in \<open>auto simp: nth_put_field\<close>)
  then show ?thesis by (simp add: get_field_def)
qed

end
