(* ===== verification/Pink_Regset.thy ===== *)
theory Pink_Regset
  imports Pink_Word
begin

text \<open>
  The register set of a traced process: \<open>struct pink_regset\<close> of
  \<^verbatim>\<open>pinktrace/private.h\<close> and the operations of \<^verbatim>\<open>pinktrace/regset.c\<close>.
  The register blocks are kept as bytes, so that the two structures of each
  \<open>union\<close> overlay each other as they do in memory.
\<close>

unbundle bit_operations_syntax

section \<open>Register layouts\<close>

text \<open>\<open>struct i386_user_regs_struct\<close>; on i386 also \<open>struct user_regs_struct\<close>.\<close>

datatype i386_reg =
    EBX | ECX | EDX | ESI | EDI | EBP | EAX | XDS | XES | XFS | XGS | ORIG_EAX | EIP | XCS
  | EFLAGS | ESP | XSS

primrec i386_index :: "i386_reg \<Rightarrow> nat" where
  "i386_index EBX = 0" | "i386_index ECX = 1" | "i386_index EDX = 2" | "i386_index ESI = 3"
| "i386_index EDI = 4" | "i386_index EBP = 5" | "i386_index EAX = 6" | "i386_index XDS = 7"
| "i386_index XES = 8" | "i386_index XFS = 9" | "i386_index XGS = 10"
| "i386_index ORIG_EAX = 11" | "i386_index EIP = 12" | "i386_index XCS = 13"
| "i386_index EFLAGS = 14" | "i386_index ESP = 15" | "i386_index XSS = 16"

text \<open>\<open>struct user_regs_struct\<close> of x86-64, in the order of \<^verbatim>\<open>sys/user.h\<close> and
  with the indices of \<^verbatim>\<open>sys/reg.h\<close>.\<close>

datatype x86_64_reg =
    R15 | R14 | R13 | R12 | RBP | RBX | R11 | R10 | R9 | R8 | RAX | RCX | RDX | RSI | RDI
  | ORIG_RAX | RIP | CS | RFLAGS | RSP | SS | FS_BASE | GS_BASE | DS | ES | FS | GS

primrec x86_64_index :: "x86_64_reg \<Rightarrow> nat" where
  "x86_64_index R15 = 0" | "x86_64_index R14 = 1" | "x86_64_index R13 = 2"
| "x86_64_index R12 = 3" | "x86_64_index RBP = 4" | "x86_64_index RBX = 5"
| "x86_64_index R11 = 6" | "x86_64_index R10 = 7" | "x86_64_index R9 = 8"
| "x86_64_index R8 = 9" | "x86_64_index RAX = 10" | "x86_64_index RCX = 11"
| "x86_64_index RDX = 12" | "x86_64_index RSI = 13" | "x86_64_index RDI = 14"
| "x86_64_index ORIG_RAX = 15" | "x86_64_index RIP = 16" | "x86_64_index CS = 17"
| "x86_64_index RFLAGS = 18" | "x86_64_index RSP = 19" | "x86_64_index SS = 20"
| "x86_64_index FS_BASE = 21" | "x86_64_index GS_BASE = 22" | "x86_64_index DS = 23"
| "x86_64_index ES = 24" | "x86_64_index FS = 25" | "x86_64_index GS = 26"

definition i386_get :: "i386_reg \<Rightarrow> byte list \<Rightarrow> 32 word" where
  "i386_get r bs = get_field False 4 (i386_index r) bs"

definition i386_put :: "i386_reg \<Rightarrow> 32 word \<Rightarrow> byte list \<Rightarrow> byte list" where
  "i386_put r v bs = put_field False 4 (i386_index r) v bs"

definition x86_64_get :: "x86_64_reg \<Rightarrow> byte list \<Rightarrow> 64 word" where
  "x86_64_get r bs = get_field False 8 (x86_64_index r) bs"

text \<open>
  Indices in \<open>struct pt_regs\<close> of PowerPC (\<^verbatim>\<open>asm/ptrace.h\<close>) and of ARM:
  rows of \<open>unsigned long\<close>.
\<close>

definition PPC_MSR :: nat where "PPC_MSR = 33"
definition PPC_ORIG_R3 :: nat where "PPC_ORIG_R3 = 34"
definition PPC_CCR :: nat where "PPC_CCR = 38"
definition ARM_r7 :: nat where "ARM_r7 = 7"
definition ARM_ip :: nat where "ARM_ip = 12"
definition ARM_pc :: nat where "ARM_pc = 15"
definition ARM_cpsr :: nat where "ARM_cpsr = 16"
definition ARM_ORIG_r0 :: nat where "ARM_ORIG_r0 = 17"

lemmas pt_regs_consts = PPC_MSR_def PPC_ORIG_R3_def PPC_CCR_def ARM_r7_def ARM_ip_def ARM_pc_def
  ARM_cpsr_def ARM_ORIG_r0_def

section \<open>The structure\<close>

text \<open>
  \<open>rs_regs\<close> is the register block of the architecture (both members of the
  unions), \<open>rs_io_len\<close> the \<open>iov_len\<close> of \<open>aarch64_io\<close> and \<open>x86_io\<close>.
\<close>

record pink_regset =
  rs_io_len :: nat
  rs_regs :: "byte list"
  rs_ia32 :: bool
  rs_abi :: int

definition sizeof_regs :: "'l::len itself \<Rightarrow> pink_config \<Rightarrow> nat" where
  "sizeof_regs t c =
     (case cfg_arch c of
        AARCH64 \<Rightarrow> 34 * 8
      | ARM \<Rightarrow> 18 * 4
      | I386 \<Rightarrow> 17 * 4
      | X86_64 \<Rightarrow> 27 * 8
      | X32 \<Rightarrow> 27 * 8
      | POWERPC \<Rightarrow> 44 * sizeof_long t
      | IA64 \<Rightarrow> 0)"

definition regset_wf :: "'l::len itself \<Rightarrow> pink_config \<Rightarrow> pink_regset \<Rightarrow> bool" where
  "regset_wf t c rs \<longleftrightarrow> length (rs_regs rs) = sizeof_regs t c"

definition pink_regset_zero :: "'l::len itself \<Rightarrow> pink_config \<Rightarrow> pink_regset" where
  "pink_regset_zero t c =
     \<lparr>rs_io_len = 0, rs_regs = replicate (sizeof_regs t c) 0, rs_ia32 = False, rs_abi = 0\<rparr>"

text \<open>
  \<open>None\<close> where nothing is stored through \<open>regptr\<close>. The size asked for stands
  for \<open>sizeof(struct pink_regset)\<close>.
\<close>

definition pink_regset_alloc ::
    "pink_config \<Rightarrow> ('l::len word, 'k) kernel \<Rightarrow> 'k world \<Rightarrow> int \<times> pink_regset option \<times> 'k world" where
  "pink_regset_alloc c K w =
     (case sys_malloc K (sizeof_regs TYPE('l) c) (kern w) of
        (Inl e, k) \<Rightarrow> (- e, None, \<lparr>errno = e, kern = k\<rparr>)
      | (Inr _, k) \<Rightarrow> (0, Some (pink_regset_zero TYPE('l) c), w\<lparr>kern := k\<rparr>))"

definition pink_regset_free :: "('l::len word, 'k) kernel \<Rightarrow> 'k world \<Rightarrow> 'k world" where
  "pink_regset_free K w = w\<lparr>kern := sys_free K (kern w)\<rparr>"

section \<open>Filling a register set\<close>

definition NT_PRSTATUS :: "32 word" where "NT_PRSTATUS = 1"

definition X32_SYSCALL_BIT :: "64 word" where "X32_SYSCALL_BIT = 0x40000000"

text \<open>
  The assignments of the old method, in the order of the code: the i386 fields
  are stored over the x86-64 block they are read from.
\<close>

definition i386_from_x86_64 :: "(i386_reg \<times> x86_64_reg) list" where
  "i386_from_x86_64 =
     [(EBX, RBX), (ECX, RCX), (EDX, RDX), (ESI, RSI), (EDI, RDI), (EBP, RBP), (EAX, RAX),
      (ORIG_EAX, ORIG_RAX), (EIP, RIP), (ESP, RSP)]"

fun overlay_i386 :: "(i386_reg \<times> x86_64_reg) list \<Rightarrow> byte list \<Rightarrow> byte list" where
  "overlay_i386 [] bs = bs"
| "overlay_i386 ((d, s) # rest) bs = overlay_i386 rest (i386_put d (ucast (x86_64_get s bs)) bs)"

text \<open>The ABI of an x86 register set, from the length the kernel gave and \<open>orig_rax\<close>.\<close>

definition x86_abi :: "pink_config \<Rightarrow> nat \<Rightarrow> byte list \<Rightarrow> int" where
  "x86_abi c io_len bs =
     (if io_len = 17 * 4 then PINK_ABI_I386
      else if x86_64_get ORIG_RAX bs AND X32_SYSCALL_BIT \<noteq> 0 then PINK_ABI_X32 c
      else PINK_ABI_X86_64)"

definition fill_get_regs ::
    "pink_config \<Rightarrow> ('l::len word, 'k) kernel \<Rightarrow> int \<Rightarrow> pink_regset \<Rightarrow> 'k world \<Rightarrow>
     int \<times> pink_regset \<times> 'k world" where
  "fill_get_regs c K pid rs w =
     (case pink_trace_get_regs c K pid (rs_regs rs) w of
        (r, buf, w') \<Rightarrow> (if r < 0 then r else 0, rs\<lparr>rs_regs := buf\<rparr>, w'))"

definition fill_aarch64 ::
    "pink_config \<Rightarrow> ('l::len word, 'k) kernel \<Rightarrow> int \<Rightarrow> pink_regset \<Rightarrow> 'k world \<Rightarrow>
     (int \<times> pink_regset \<times> 'k world) outcome" where
  "fill_aarch64 c K pid rs w =
     (if have_feature c HAVE_GETREGSET
      then (case pink_trace_get_regset c K pid (rs_regs rs) NT_PRSTATUS w of
              (r, buf, n, w') \<Rightarrow>
                (let rs' = rs\<lparr>rs_regs := buf, rs_io_len := n\<rparr> in
                 if r < 0 then Ret (r, rs', w')
                 else if n = 34 * 8 then Ret (0, rs'\<lparr>rs_abi := PINK_ABI_AARCH64\<rparr>, w')
                 else if n = 18 * 4 then Ret (0, rs'\<lparr>rs_abi := PINK_ABI_ARM\<rparr>, w')
                 else Fault Abort))
      else Ret (- ENOSYS, rs, w))"

definition fill_x86_64 ::
    "pink_config \<Rightarrow> ('l::len word, 'k) kernel \<Rightarrow> int \<Rightarrow> pink_regset \<Rightarrow> 'k world \<Rightarrow>
     int \<times> pink_regset \<times> 'k world" where
  "fill_x86_64 c K pid rs w =
     (if have_feature c HAVE_GETREGSET
      then (case pink_trace_get_regset c K pid (rs_regs rs) NT_PRSTATUS w of
              (r, buf, n, w') \<Rightarrow>
                (let rs' = rs\<lparr>rs_regs := buf, rs_io_len := n\<rparr> in
                 if r < 0 then (r, rs', w')
                 else (0, rs'\<lparr>rs_abi := x86_abi c n buf\<rparr>, w')))
      else (case pink_trace_get_regs c K pid (rs_regs rs) w of
              (r, buf, w') \<Rightarrow>
                (let rs' = rs\<lparr>rs_io_len := 27 * 8, rs_regs := buf\<rparr> in
                 if r < 0 then (r, rs', w')
                 else if x86_64_get CS buf = 0x23
                 then (let buf' = overlay_i386 i386_from_x86_64 buf
                       in (0, rs'\<lparr>rs_io_len := 17 * 4, rs_regs := buf',
                             rs_abi := x86_abi c (17 * 4) buf'\<rparr>, w'))
                 else (0, rs'\<lparr>rs_abi := x86_abi c (27 * 8) buf\<rparr>, w'))))"

text \<open>
  \<open>pink_regset_fill\<close>, one line per branch of the preprocessor. On X32 the
  code names \<open>PINK_ABI_X86_64\<close>, which only \<open>PINK_ARCH_X86_64\<close> declares.
\<close>

definition pink_regset_fill ::
    "pink_config \<Rightarrow> ('l::len word, 'k) kernel \<Rightarrow> int \<Rightarrow> pink_regset \<Rightarrow> 'k world \<Rightarrow>
     (int \<times> pink_regset \<times> 'k world) outcome" where
  "pink_regset_fill c K pid rs0 w =
     (let rs = (if PINK_ABIS_SUPPORTED c = 1 then rs0\<lparr>rs_abi := PINK_ABI_DEFAULT\<rparr> else rs0) in
      case cfg_arch c of
        AARCH64 \<Rightarrow> fill_aarch64 c K pid rs w
      | ARM \<Rightarrow> Ret (fill_get_regs c K pid rs w)
      | POWERPC \<Rightarrow>
          Ret (case fill_get_regs c K pid rs w of
                 (r, rs', w') \<Rightarrow>
                   if r < 0 then (r, rs', w')
                   else if powerpc64 c
                   then (let msr = get_field (big_endian c) (sizeof_long TYPE('l)) PPC_MSR
                                     (rs_regs rs') :: 'l word
                         in (0, rs'\<lparr>rs_abi := (if msr AND 0 \<noteq> 0 then 0 else 1)\<rparr>, w'))
                   else (0, rs', w'))
      | I386 \<Rightarrow> Ret (fill_get_regs c K pid rs w)
      | X86_64 \<Rightarrow> Ret (fill_x86_64 c K pid rs w)
      | X32 \<Rightarrow> Fault Not_built
      | IA64 \<Rightarrow>
          (case pink_read_word_user K pid (of_nat (pt_offset c PT_CR_IPSR)) w of
             (r, psr, w') \<Rightarrow>
               (case psr of
                  Some v \<Rightarrow> Ret (0, rs\<lparr>rs_ia32 := bit v 34\<rparr>, w')
                | None \<Rightarrow> Ret (r, rs, w'))))"

section \<open>Lemmas\<close>

lemma length_i386_put [simp]: "68 \<le> length bs \<Longrightarrow> length (i386_put r v bs) = length bs"
  by (cases r) (simp_all add: i386_put_def)

lemma i386_get_put [simp]: "68 \<le> length bs \<Longrightarrow> i386_get r (i386_put r v bs) = v"
  by (cases r) (simp_all add: i386_put_def i386_get_def)

lemma i386_index_inj: "i386_index r = i386_index s \<longleftrightarrow> r = s"
  by (cases r; cases s) simp_all

lemma i386_index_bound: "i386_index r < 17"
  by (cases r) simp_all

lemma x86_64_index_bound: "x86_64_index r < 27"
  by (cases r) simp_all

lemma i386_get_put_other [simp]:
  assumes "68 \<le> length bs" and "r \<noteq> s"
  shows "i386_get r (i386_put s v bs) = i386_get r bs"
proof -
  have "i386_index r \<noteq> i386_index s" using assms(2) by (simp add: i386_index_inj)
  with i386_index_bound [of r] i386_index_bound [of s] assms(1) show ?thesis
    unfolding i386_get_def i386_put_def by (intro get_put_field_other) linarith+
qed

text \<open>The low half of a 64-bit field is a 32-bit field of twice the index.\<close>

lemma low_half:
  assumes "8 * i + 8 \<le> length bs"
  shows "(ucast (get_field False 8 i bs :: 64 word) :: 32 word) = get_field False 4 (2 * i) bs"
proof (rule bit_word_eqI)
  fix n assume "n < LENGTH(32)"
  then have "n < 32" "n div 8 < 4" by simp_all
  then show "bit (ucast (get_field False 8 i bs :: 64 word) :: 32 word) n =
      bit (get_field False 4 (2 * i) bs :: 32 word) n"
    using assms by (simp add: get_field_def of_bytes_def bit_le_word bit_simps algebra_simps)
qed

lemma low_half_put:
  assumes "216 \<le> length bs" and "i386_index d < 2 * x86_64_index s"
  shows "(ucast (x86_64_get s (i386_put d v bs)) :: 32 word) = ucast (x86_64_get s bs)"
proof -
  have "get_field False 4 (2 * x86_64_index s) (i386_put d v bs) =
      (get_field False 4 (2 * x86_64_index s) bs :: 32 word)"
    unfolding i386_put_def using assms x86_64_index_bound [of s]
    by (intro get_put_field_other) linarith+
  moreover have "8 * x86_64_index s + 8 \<le> length (i386_put d v bs)"
    using assms x86_64_index_bound [of s] by simp
  ultimately show ?thesis
    using assms x86_64_index_bound [of s] by (simp add: x86_64_get_def low_half)
qed

lemma length_overlay_i386 [simp]:
  "68 \<le> length bs \<Longrightarrow> length (overlay_i386 asg bs) = length bs"
  by (induction asg bs rule: overlay_i386.induct) simp_all

text \<open>
  An assignment list in which every source lies behind the targets of the
  earlier assignments reads what the sources held at the start.
\<close>

fun sources_intact :: "(i386_reg \<times> x86_64_reg) list \<Rightarrow> bool" where
  "sources_intact [] = True"
| "sources_intact ((d, s) # rest) \<longleftrightarrow>
     (\<forall>(d', s') \<in> set rest. d' \<noteq> d \<and> i386_index d < 2 * x86_64_index s') \<and> sources_intact rest"

lemma overlay_i386_other:
  assumes "68 \<le> length bs" and "\<forall>(d', s') \<in> set asg. d' \<noteq> d"
  shows "i386_get d (overlay_i386 asg bs) = i386_get d bs"
  using assms by (induction asg bs rule: overlay_i386.induct) auto

lemma overlay_i386_get:
  assumes "216 \<le> length bs" and "sources_intact asg" and "(d, s) \<in> set asg"
  shows "i386_get d (overlay_i386 asg bs) = ucast (x86_64_get s bs)"
  using assms
proof (induction asg bs rule: overlay_i386.induct)
  case (2 d0 s0 rest bs)
  let ?bs = "i386_put d0 (ucast (x86_64_get s0 bs)) bs"
  show ?case
  proof (cases "(d, s) \<in> set rest")
    case True
    then have "i386_get d (overlay_i386 rest ?bs) = ucast (x86_64_get s ?bs)"
      using 2 by simp
    moreover have "(ucast (x86_64_get s ?bs) :: 32 word) = ucast (x86_64_get s bs)"
      using 2 True by (intro low_half_put) auto
    ultimately show ?thesis by simp
  next
    case False
    then have "d = d0" "s = s0" using 2 by auto
    moreover have "i386_get d0 (overlay_i386 rest ?bs) = i386_get d0 ?bs"
      using 2 by (intro overlay_i386_other) auto
    ultimately show ?thesis using 2 by simp
  qed
qed simp

section \<open>Properties of filling\<close>

text \<open>
  What \<open>ptrace(2)\<close> documents of \<open>PTRACE_GETREGSET\<close> with \<open>NT_PRSTATUS\<close>: the
  registers, if the buffer is large enough, and their length in \<open>iov_len\<close>.
\<close>

definition getregset_contract :: "('l::len word, 'k) kernel \<Rightarrow> int \<Rightarrow> ('k \<Rightarrow> byte list) \<Rightarrow> bool" where
  "getregset_contract K pid regs \<longleftrightarrow>
     (\<forall>k buf. length (regs k) \<le> length buf \<longrightarrow>
        sys_ptrace K PTRACE_GETREGSET pid (scast NT_PRSTATUS) (Iovec buf) k = (0, None, regs k, k))"

lemma ref_getregset: "getregset_contract (ref_kernel big) pid t_regs"
  by (simp add: getregset_contract_def ref_kernel_def)

lemma get_regset_filled:
  assumes "getregset_contract K pid regs" and "length (regs (kern w)) \<le> length buf"
    and "have_feature c HAVE_GETREGSET"
  shows "pink_trace_get_regset c K pid buf NT_PRSTATUS w =
    (0, overwrite buf (regs (kern w)), length (regs (kern w)), w\<lparr>errno := 0\<rparr>)"
  using assms by (simp add: pink_trace_get_regset_def pink_ptrace_def getregset_contract_def)

lemma get_field_overwrite:
  assumes "s * i + s \<le> length out" and "length out \<le> length buf"
  shows "get_field big s i (overwrite buf out) = get_field big s i out"
  using assms by (simp add: get_field_def overwrite_def drop_append)

lemma regset_fill_x86_64_eq:
  fixes K :: "('l::len word, 'k) kernel"
  assumes "cfg_arch c = X86_64" and "have_feature c HAVE_GETREGSET"
    and "getregset_contract K pid regs" and "regset_wf TYPE('l) c rs"
    and "length (regs (kern w)) = 68 \<or> length (regs (kern w)) = 216"
  shows "pink_regset_fill c K pid rs w =
    Ret (0, rs\<lparr>rs_regs := overwrite (rs_regs rs) (regs (kern w)), rs_io_len := length (regs (kern w)),
      rs_abi := (if length (regs (kern w)) = 68 then PINK_ABI_I386
         else if bit (x86_64_get ORIG_RAX (regs (kern w))) 30 then PINK_ABI_X32 c
         else PINK_ABI_X86_64)\<rparr>, w\<lparr>errno := 0\<rparr>)"
proof -
  let ?r = "regs (kern w)"
  have len: "length (rs_regs rs) = 216"
    using assms(1,4) by (simp add: regset_wf_def sizeof_regs_def)
  then have get: "pink_trace_get_regset c K pid (rs_regs rs) NT_PRSTATUS w =
      (0, overwrite (rs_regs rs) ?r, length ?r, w\<lparr>errno := 0\<rparr>)"
    using assms(5) by (intro get_regset_filled [OF assms(3) _ assms(2)]) auto
  have "x86_64_get ORIG_RAX (overwrite (rs_regs rs) ?r) = x86_64_get ORIG_RAX ?r" if "length ?r = 216"
    using that len by (simp add: x86_64_get_def get_field_overwrite)
  moreover have "x AND X32_SYSCALL_BIT \<noteq> 0 \<longleftrightarrow> bit x 30" for x :: "64 word"
    unfolding X32_SYSCALL_BIT_def using and_exp_eq_0_iff_not_bit [of x 30] by simp
  ultimately have "x86_abi c (length ?r) (overwrite (rs_regs rs) ?r) =
      (if length ?r = 68 then PINK_ABI_I386
       else if bit (x86_64_get ORIG_RAX ?r) 30 then PINK_ABI_X32 c else PINK_ABI_X86_64)"
    using assms(5) by (cases "length ?r = 68") (simp_all add: x86_abi_def)
  with assms(1,2) show ?thesis
    by (simp add: pink_regset_fill_def fill_x86_64_def get PINK_ABIS_SUPPORTED_def)
qed

lemma regset_fill_keeps_wf:
  fixes K :: "('l::len word, 'k) kernel"
  assumes "regset_wf TYPE('l) c rs" and "pink_regset_fill c K pid rs w = Ret (r, rs', w')"
  shows "regset_wf TYPE('l) c rs'"
  using assms
  by (cases "cfg_arch c")
    (auto simp: pink_regset_fill_def fill_aarch64_def fill_x86_64_def fill_get_regs_def regset_wf_def
      sizeof_regs_def pink_trace_get_regset_def pink_trace_get_regs_def Let_def
      split: if_splits prod.splits option.splits)

text \<open>
  (C7) Filling a register set keeps its shape, and a successful fill leaves an ABI
  number of the architecture: the index \<open>pink_abi_wordsize\<close> and the readers
  switch on is always in range.
\<close>

theorem pink_regset_fill_wf:
  fixes K :: "('l::len word, 'k) kernel"
  assumes "regset_wf TYPE('l) c rs" and "pink_regset_fill c K pid rs w = Ret (0, rs', w')"
  shows "regset_wf TYPE('l) c rs' \<and> valid_abi c (rs_abi rs')"
  using assms
  by (cases "cfg_arch c")
    (auto simp: pink_regset_fill_def fill_aarch64_def fill_x86_64_def fill_get_regs_def regset_wf_def
      sizeof_regs_def valid_abi_def PINK_ABIS_SUPPORTED_def abi_consts x86_abi_def
      pink_trace_get_regset_def pink_trace_get_regs_def Let_def ENOSYS_def
      split: if_splits prod.splits option.splits)

theorem pink_regset_fill_wf_witness:
  "\<exists>rs' w'. pink_regset_fill (ref_config X86_64) (ref_kernel False :: (64 word, 64 word tracee) kernel) 7
       (pink_regset_zero TYPE(64) (ref_config X86_64))
       \<lparr>errno = 0, kern = \<lparr>t_mem = Map.empty, t_user = Map.empty, t_regs = replicate 216 0\<rparr>\<rparr> =
       Ret (0, rs', w') \<and>
     regset_wf TYPE(64) (ref_config X86_64) rs' \<and> valid_abi (ref_config X86_64) (rs_abi rs')"
proof -
  let ?c = "ref_config X86_64" and ?K = "ref_kernel False :: (64 word, 64 word tracee) kernel"
  let ?k = "\<lparr>t_mem = Map.empty, t_user = Map.empty, t_regs = replicate 216 0\<rparr> :: 64 word tracee"
  have wf: "regset_wf TYPE(64) ?c (pink_regset_zero TYPE(64) ?c)"
    by (simp add: regset_wf_def pink_regset_zero_def)
  moreover have "\<exists>rs' w'. pink_regset_fill ?c ?K 7 (pink_regset_zero TYPE(64) ?c)
      \<lparr>errno = 0, kern = ?k\<rparr> = Ret (0, rs', w')"
    using get_regset_filled [OF ref_getregset [of False 7], of "\<lparr>errno = 0, kern = ?k\<rparr>" "replicate 216 0" ?c]
    by (simp add: pink_regset_fill_def fill_x86_64_def PINK_ABIS_SUPPORTED_def
        pink_regset_zero_def sizeof_regs_def Let_def)
  ultimately show ?thesis using pink_regset_fill_wf [OF wf] by blast
qed

text \<open>
  (C27) The ABI of an x86-64 tracee: filled from \<open>PTRACE_GETREGSET\<close>, the set holds
  the registers the kernel has, and its ABI is i386 exactly for a block of the
  size of the i386 structure, x32 for a 64-bit block whose \<open>orig_rax\<close> has bit 30
  set, and x86-64 otherwise.
\<close>

theorem pink_regset_fill_x86_64:
  fixes K :: "('l::len word, 'k) kernel"
  assumes "cfg_arch c = X86_64" and "have_feature c HAVE_GETREGSET"
    and "getregset_contract K pid regs" and "regset_wf TYPE('l) c rs"
    and "length (regs (kern w)) = 68 \<or> length (regs (kern w)) = 216"
  shows "\<exists>rs'. pink_regset_fill c K pid rs w = Ret (0, rs', w\<lparr>errno := 0\<rparr>) \<and>
    take (rs_io_len rs') (rs_regs rs') = regs (kern w) \<and>
    rs_abi rs' =
      (if length (regs (kern w)) = 68 then PINK_ABI_I386
       else if bit (x86_64_get ORIG_RAX (regs (kern w))) 30 then PINK_ABI_X32 c
       else PINK_ABI_X86_64)"
proof -
  have "take (length (regs (kern w))) (overwrite (rs_regs rs) (regs (kern w))) = regs (kern w)"
    using assms(1,4,5) by (auto simp: overwrite_def regset_wf_def sizeof_regs_def)
  then show ?thesis using regset_fill_x86_64_eq [OF assms] by simp
qed

theorem pink_regset_fill_x86_64_witness:
  "\<exists>rs'. pink_regset_fill (ref_config X86_64) (ref_kernel False :: (64 word, 64 word tracee) kernel) 7
       (pink_regset_zero TYPE(64) (ref_config X86_64))
       \<lparr>errno = 3, kern = \<lparr>t_mem = Map.empty, t_user = Map.empty, t_regs = replicate 68 0\<rparr>\<rparr> =
       Ret (0, rs', \<lparr>errno = 0, kern = \<lparr>t_mem = Map.empty, t_user = Map.empty, t_regs = replicate 68 0\<rparr>\<rparr>) \<and>
     rs_abi rs' = PINK_ABI_I386"
  using pink_regset_fill_x86_64 [of "ref_config X86_64" "ref_kernel False :: (64 word, 64 word tracee) kernel"
      7 t_regs "pink_regset_zero TYPE(64) (ref_config X86_64)"
      "\<lparr>errno = 3, kern = \<lparr>t_mem = Map.empty, t_user = Map.empty, t_regs = replicate 68 0\<rparr>\<rparr>"]
    ref_getregset [of False 7]
  by (auto simp: regset_wf_def pink_regset_zero_def)



text \<open>
  On ARM, PowerPC and i386 the registers come from \<open>pink_trace_get_regs\<close>,
  which is compiled to a failure because no configuration defines
  \<open>PINK_HAVE_GETREGS\<close>: filling a register set always fails with \<open>ENOSYS\<close>.
\<close>

lemma pink_regset_fill_no_getregs:
  assumes "system_h c" and "cfg_arch c \<in> {ARM, POWERPC, I386}"
  shows "\<exists>rs'. pink_regset_fill c K pid rs w = Ret (- ENOSYS, rs', w)"
  using assms
  by (auto simp: pink_regset_fill_def fill_get_regs_def system_h_def pink_trace_get_regs_def ENOSYS_def Let_def)

lemma pink_regset_fill_no_getregs_ref:
  "\<exists>rs'. pink_regset_fill (ref_config I386) (ref_kernel False :: (32 word, 32 word tracee) kernel) 7
      (pink_regset_zero TYPE(32) (ref_config I386))
      \<lparr>errno = 0, kern = \<lparr>t_mem = Map.empty, t_user = Map.empty, t_regs = []\<rparr>\<rparr> =
    Ret (- ENOSYS, rs', \<lparr>errno = 0, kern = \<lparr>t_mem = Map.empty, t_user = Map.empty, t_regs = []\<rparr>\<rparr>)"
  using pink_regset_fill_no_getregs [of "ref_config I386"]
  by (simp add: system_h_def)

end
