(* ===== verification/Pink_Vm.thy ===== *)
theory Pink_Vm
  imports Pink_Regset
begin

text \<open>
  \<^verbatim>\<open>pinktrace/vm.c\<close>: copying between the tracer and the memory of a
  tracee, word by word with \<open>ptrace(2)\<close> (\<open>pink_vm_l\<dots>\<close>) or with one system
  call per block (\<open>pink_vm_c\<dots>\<close>). A read returns the value of the C function
  and the bytes stored from \<open>dest[0]\<close> on.
\<close>

unbundle bit_operations_syntax

section \<open>Word by word\<close>

text \<open>
  One function per loop. \<open>u.x\<close> is the bytes of \<open>u.val\<close>; the counters are 32-bit
  unsigned integers, converted to \<open>ssize_t\<close>, as wide as \<open>long\<close>, on return. A word
  is stored exactly when \<open>pink_read_word_data\<close> does not fail, so the test
  \<open>r < 0\<close> is the test for \<open>None\<close>.
\<close>

definition ssize_of_uint :: "'l::len itself \<Rightarrow> 32 word \<Rightarrow> int" where
  "ssize_of_uint t n = sint (ucast n :: 'l word)"

text \<open>An iteration that copies nothing resets the residue, and the next one copies.\<close>

lemma copy_progress:
  "0 < len \<Longrightarrow> \<not> len - min (sizeof_long t - residue) len < len \<Longrightarrow> 0 < residue"
  using sizeof_long_pos [of t] by (cases residue) auto

function lread_loop ::
    "pink_config \<Rightarrow> ('l::len word, 'k) kernel \<Rightarrow> int \<Rightarrow> nat \<Rightarrow> 'l word \<Rightarrow> nat \<Rightarrow> 32 word \<Rightarrow>
     byte list \<Rightarrow> 'k world \<Rightarrow> int \<times> byte list \<times> 'k world" where
  "lread_loop c K pid residue addr len count_read dest w =
     (if len = 0 then (ssize_of_uint TYPE('l) count_read, dest, w)
      else
        let base = addr AND - of_nat (sizeof_long TYPE('l)) in
        (case pink_read_word_data K pid base w of
           (r, None, w') \<Rightarrow> (- 1, dest, w'\<lparr>errno := - r\<rparr>)
         | (r, Some val, w') \<Rightarrow>
             let x = to_bytes (big_endian c) (sizeof_long TYPE('l)) val;
                 m = min (sizeof_long TYPE('l) - residue) len
             in lread_loop c K pid 0 (base + of_nat (sizeof_long TYPE('l))) (len - m)
                  (count_read + of_nat m) (dest @ take m (drop residue x)) w'))"
  by pat_completeness auto
termination
  by (relation "measures [\<lambda>(c, K, pid, residue, addr, len, n, dest, w). len,
        \<lambda>(c, K, pid, residue, addr, len, n, dest, w). residue]") (auto dest: copy_progress)

definition pink_vm_lread ::
    "pink_config \<Rightarrow> ('l::len word, 'k) kernel \<Rightarrow> int \<Rightarrow> pink_regset \<Rightarrow> 'l word \<Rightarrow> nat \<Rightarrow>
     'k world \<Rightarrow> int \<times> byte list \<times> 'k world" where
  "pink_vm_lread c K pid regset addr len w =
     (let residue = unat (addr AND (of_nat (sizeof_long TYPE('l)) - 1))
      in lread_loop c K pid residue addr len 0 [] w)"

text \<open>The index of the first NUL.\<close>

fun find_nul :: "byte list \<Rightarrow> nat option" where
  "find_nul [] = None"
| "find_nul (b # bs) = (if b = 0 then Some 0 else map_option Suc (find_nul bs))"

function lread_nul_loop ::
    "pink_config \<Rightarrow> ('l::len word, 'k) kernel \<Rightarrow> int \<Rightarrow> nat \<Rightarrow> 'l word \<Rightarrow> nat \<Rightarrow> 32 word \<Rightarrow>
     byte list \<Rightarrow> 'k world \<Rightarrow> int \<times> byte list \<times> 'k world" where
  "lread_nul_loop c K pid residue addr len count_read dest w =
     (if len = 0 then (ssize_of_uint TYPE('l) count_read, dest, w)
      else
        let base = addr AND - of_nat (sizeof_long TYPE('l)) in
        (case pink_read_word_data K pid base w of
           (r, None, w') \<Rightarrow> (- 1, dest, w'\<lparr>errno := - r\<rparr>)
         | (r, Some val, w') \<Rightarrow>
             let x = to_bytes (big_endian c) (sizeof_long TYPE('l)) val;
                 m = min (sizeof_long TYPE('l) - residue) len;
                 dest' = dest @ take m (drop residue x)
             in case find_nul (drop residue x) of
                  Some i \<Rightarrow> (int (length dest) + int (residue + i), dest', w')
                | None \<Rightarrow>
                    lread_nul_loop c K pid 0 (base + of_nat (sizeof_long TYPE('l))) (len - m)
                      (count_read + of_nat m) dest' w'))"
  by pat_completeness auto
termination
  by (relation "measures [\<lambda>(c, K, pid, residue, addr, len, n, dest, w). len,
        \<lambda>(c, K, pid, residue, addr, len, n, dest, w). residue]") (auto dest: copy_progress)

definition pink_vm_lread_nul ::
    "pink_config \<Rightarrow> ('l::len word, 'k) kernel \<Rightarrow> int \<Rightarrow> pink_regset \<Rightarrow> 'l word \<Rightarrow> nat \<Rightarrow>
     'k world \<Rightarrow> int \<times> byte list \<times> 'k world" where
  "pink_vm_lread_nul c K pid regset addr len w =
     (let residue = unat (addr AND (of_nat (sizeof_long TYPE('l)) - 1))
      in lread_nul_loop c K pid residue addr len 0 [] w)"

text \<open>
  \<open>src\<close> is the whole object the pointer points into. The bytes of \<open>u.x\<close> that are
  not copied have no determinate value: \<open>junk n\<close> is what they hold in the
  iteration that starts with \<open>n\<close> bytes left. The result of a failure
  \<open>count_written > 0 ? count_written : -1\<close> has type \<open>unsigned int\<close>.
\<close>

function lwrite_loop ::
    "pink_config \<Rightarrow> ('l::len word, 'k) kernel \<Rightarrow> int \<Rightarrow> (nat \<Rightarrow> byte list) \<Rightarrow> nat \<Rightarrow> 'l word \<Rightarrow>
     byte list \<Rightarrow> nat \<Rightarrow> 32 word \<Rightarrow> 'k world \<Rightarrow> (int \<times> 'k world) outcome" where
  "lwrite_loop c K pid junk residue addr src len count_written w =
     (if len = 0 then Ret (ssize_of_uint TYPE('l) count_written, w)
      else
        let base = addr AND - of_nat (sizeof_long TYPE('l));
            m = min (sizeof_long TYPE('l) - residue) len
        in if length src < residue + m then Fault Undefined
        else
          let x = take m (drop residue src) @ drop m (junk len);
              val = of_bytes (big_endian c) x
          in (case pink_write_word_data K pid base val w of
                (r, w') \<Rightarrow>
                  if r < 0
                  then Ret (ssize_of_uint TYPE('l) (if count_written > 0 then count_written else - 1),
                            w'\<lparr>errno := - r\<rparr>)
                  else lwrite_loop c K pid junk 0 (base + of_nat (sizeof_long TYPE('l)))
                         (drop m src) (len - m) (count_written + of_nat m) w'))"
  by pat_completeness auto
termination
  by (relation "measures [\<lambda>(c, K, pid, junk, residue, addr, src, len, n, w). len,
        \<lambda>(c, K, pid, junk, residue, addr, src, len, n, w). residue]") (auto dest: copy_progress)

definition pink_vm_lwrite ::
    "pink_config \<Rightarrow> ('l::len word, 'k) kernel \<Rightarrow> (nat \<Rightarrow> byte list) \<Rightarrow> int \<Rightarrow> pink_regset \<Rightarrow>
     'l word \<Rightarrow> byte list \<Rightarrow> nat \<Rightarrow> 'k world \<Rightarrow> (int \<times> 'k world) outcome" where
  "pink_vm_lwrite c K junk pid regset addr src len w =
     (let residue = unat (addr AND (of_nat (sizeof_long TYPE('l)) - 1))
      in lwrite_loop c K pid junk residue addr src len 0 w)"

declare lread_loop.simps [simp del] lread_nul_loop.simps [simp del] lwrite_loop.simps [simp del]

section \<open>One system call per block\<close>

definition setup_addr ::
    "pink_config \<Rightarrow> pink_regset \<Rightarrow> 'l::len word \<Rightarrow> 'l word outcome" where
  "setup_addr c regset addr =
     (if PINK_ABIS_SUPPORTED c > 1 \<and> sizeof_long TYPE('l) > 4
      then obind (pink_abi_wordsize TYPE('l) c (rs_abi regset)) (\<lambda>wsize.
             Ret (if wsize < sizeof_long TYPE('l) then addr AND (push_bit (8 * wsize) 1 - 1)
                  else addr))
      else Ret addr)"

text \<open>
  \<open>process_vm_readv\<close> of one block: the C library's function or the raw system
  call where \<open>PINK_HAVE_PROCESS_VM_READV\<close>, a failure with \<open>ENOSYS\<close> otherwise.
\<close>

definition process_vm_readv ::
    "pink_config \<Rightarrow> ('l::len word, 'k) kernel \<Rightarrow> int \<Rightarrow> 'l word \<Rightarrow> nat \<Rightarrow> 'k world \<Rightarrow>
     int \<times> byte list \<times> 'k world" where
  "process_vm_readv c K pid addr n w =
     (if have_feature c HAVE_PROCESS_VM_READV
      then (case sys_process_vm_readv K pid addr n (kern w) of
              (Inl e, k) \<Rightarrow> (- 1, [], \<lparr>errno = e, kern = k\<rparr>)
            | (Inr bs, k) \<Rightarrow> (int (length bs), bs, \<lparr>errno = errno w, kern = k\<rparr>))
      else (- 1, [], w\<lparr>errno := ENOSYS\<rparr>))"

definition process_vm_writev ::
    "pink_config \<Rightarrow> ('l::len word, 'k) kernel \<Rightarrow> int \<Rightarrow> 'l word \<Rightarrow> byte list \<Rightarrow> 'k world \<Rightarrow>
     int \<times> 'k world" where
  "process_vm_writev c K pid addr bs w =
     (if have_feature c HAVE_PROCESS_VM_WRITEV
      then (case sys_process_vm_writev K pid addr bs (kern w) of
              (Inl e, k) \<Rightarrow> (- 1, \<lparr>errno = e, kern = k\<rparr>)
            | (Inr n, k) \<Rightarrow> (int n, \<lparr>errno = errno w, kern = k\<rparr>))
      else (- 1, w\<lparr>errno := ENOSYS\<rparr>))"

definition pink_vm_cread ::
    "pink_config \<Rightarrow> ('l::len word, 'k) kernel \<Rightarrow> int \<Rightarrow> pink_regset \<Rightarrow> 'l word \<Rightarrow> nat \<Rightarrow>
     'k world \<Rightarrow> (int \<times> byte list \<times> 'k world) outcome" where
  "pink_vm_cread c K pid regset addr len w =
     (if have_feature c HAVE_PROCESS_VM_READV
      then obind (setup_addr c regset addr) (\<lambda>addr'. Ret (process_vm_readv c K pid addr' len w))
      else Ret (process_vm_readv c K pid addr len w))"

text \<open>
  The length of the next block: at most 256, and not across the end of the page
  in which \<open>addr\<close> lies. \<open>chunk_len\<close> is a 32-bit signed integer, whose overflow is
  undefined. \<open>addr\<close> is the address the string starts at, in every iteration.
\<close>

definition chunk_len :: "'l::len word \<Rightarrow> nat \<Rightarrow> int outcome" where
  "chunk_len addr len =
     (let n = sint (word_of_nat len :: 32 word);
          chunk = (if n > 256 then 256 else n);
          end_in_page = uint ((addr + word_of_int chunk) AND 4095);
          r = chunk - end_in_page
      in if r < - (2 ^ 31) then Fault Undefined
         else Ret (if r > 0 then r else chunk))"

partial_function (option) cread_nul_loop ::
    "pink_config \<Rightarrow> ('l::len word, 'k) kernel \<Rightarrow> int \<Rightarrow> 'l word \<Rightarrow> 'l word \<Rightarrow> nat \<Rightarrow> int \<Rightarrow>
     byte list \<Rightarrow> 'k world \<Rightarrow> (int \<times> byte list \<times> 'k world) outcome option" where
  "cread_nul_loop c K pid addr remote len count_read dest w =
     (if len = 0 then Some (Ret (count_read, dest, w))
      else
        (case chunk_len addr len of
           Fault e \<Rightarrow> Some (Fault e)
         | Ret chunk \<Rightarrow>
             (case process_vm_readv c K pid remote (unat (word_of_int chunk :: 'l word)) w of
                (l, bs, w') \<Rightarrow>
                  let r = sint (word_of_int l :: 32 word);
                      dest' = dest @ bs
                  in if r < 0
                     then Some (Ret (if count_read > 0 then count_read else - 1, dest', w'))
                     else (case find_nul (take (nat r) bs) of
                             Some i \<Rightarrow> Some (Ret (count_read + int i + 1, dest', w'))
                           | None \<Rightarrow>
                               cread_nul_loop c K pid addr (remote + word_of_int r)
                                 (len - nat r) (count_read + r) dest' w'))))"

text \<open>A loop that never ends has no value.\<close>

definition pink_vm_cread_nul ::
    "pink_config \<Rightarrow> ('l::len word, 'k) kernel \<Rightarrow> int \<Rightarrow> pink_regset \<Rightarrow> 'l word \<Rightarrow> nat \<Rightarrow>
     'k world \<Rightarrow> (int \<times> byte list \<times> 'k world) outcome" where
  "pink_vm_cread_nul c K pid regset addr len w =
     obind (setup_addr c regset addr) (\<lambda>addr'.
       case cread_nul_loop c K pid addr' addr' len 0 [] w of
         None \<Rightarrow> Fault Diverges
       | Some r \<Rightarrow> r)"

text \<open>The first \<open>len\<close> bytes of the object \<open>src\<close> are handed to the kernel.\<close>

definition pink_vm_cwrite ::
    "pink_config \<Rightarrow> ('l::len word, 'k) kernel \<Rightarrow> int \<Rightarrow> pink_regset \<Rightarrow> 'l word \<Rightarrow> byte list \<Rightarrow>
     nat \<Rightarrow> 'k world \<Rightarrow> (int \<times> 'k world) outcome" where
  "pink_vm_cwrite c K pid regset addr src len w =
     (if have_feature c HAVE_PROCESS_VM_WRITEV
      then obind (setup_addr c regset addr) (\<lambda>addr'.
             Ret (process_vm_writev c K pid addr' (take len src) w))
      else Ret (process_vm_writev c K pid addr (take len src) w))"

section \<open>Reading word by word\<close>

lemma ssize_of_uint_of_nat:
  assumes "long_width TYPE('l::len)" and "n < 2 ^ 31"
  shows "ssize_of_uint TYPE('l) (of_nat n) = int n"
proof -
  have "take_bit 32 n = n"
    using assms(2) by (simp add: take_bit_nat_eq_self_iff)
  moreover have "signed_take_bit (LENGTH('l) - Suc 0) (int n) = int n"
    using assms by (auto simp: long_width_def signed_take_bit_int_eq_self_iff)
  ultimately show ?thesis
    by (simp add: ssize_of_uint_def unsigned_of_nat signed_of_nat)
qed

lemma lread_loop_correct:
  fixes addr :: "'l::len word" and K :: "('l word, 'k) kernel"
  assumes "long_width TYPE('l)" and "peek_contract (big_endian c) K pid mem"
    and "word_granular (sizeof_long TYPE('l)) (mem (kern w))"
    and "residue = unat addr mod sizeof_long TYPE('l)"
    and "length dest + len < 2 ^ 31" and "count = of_nat (length dest)"
  shows "lread_loop c K pid residue addr len count dest w =
    (let bs = mapped_prefix (mem (kern w)) addr len in
     (if length bs = len then int (length dest + len) else - 1, dest @ bs,
      if len = 0 then w else w\<lparr>errno := if length bs = len then 0 else EFAULT\<rparr>))"
  using assms(3-6)
proof (induction len arbitrary: residue addr count dest w rule: less_induct)
  case (less len)
  let ?s = "sizeof_long TYPE('l)" and ?m = "mem (kern w)"
  let ?b = "addr AND - of_nat ?s"
  define n where "n = min (?s - residue) len"
  note at = peek_at [OF assms(1,2) less.prems(1), of addr]
  consider "len = 0" | "len \<noteq> 0" "?m addr = None" | "len \<noteq> 0" "?m addr \<noteq> None" by blast
  then show ?case
  proof cases
    case 1
    then show ?thesis
      using ssize_of_uint_of_nat [OF assms(1), of "length dest"] less.prems
      by (simp add: lread_loop.simps)
  next
    case 2
    with at show ?thesis
      by (simp add: lread_loop.simps [of c K pid residue] mapped_prefix_Nil EFAULT_def)
  next
    case 3
    with at obtain val x where
      read: "pink_read_word_data K pid ?b w = (0, Some val, w\<lparr>errno := 0\<rparr>)"
      and x: "to_bytes (big_endian c) ?s val = x" "length x = ?s"
      and pre: "mapped_prefix ?m addr n = take n (drop residue x)"
        "length (mapped_prefix ?m addr n) = n"
      using less.prems(2) by (auto simp: n_def)
    have n: "0 < n" "n \<le> len" and res: "residue < ?s"
      using 3(1) less.prems(2) by (auto simp: n_def)
    have step: "lread_loop c K pid residue addr len count dest w =
        lread_loop c K pid 0 (?b + of_nat ?s) (len - n) (count + of_nat n)
          (dest @ take n (drop residue x)) (w\<lparr>errno := 0\<rparr>)"
      using 3(1) read x by (simp add: lread_loop.simps [of c K pid residue] n_def Let_def)
    define y where "y = take n (drop residue x)"
    define b' where "b' = ?b + of_nat ?s"
    have y: "length y = n" using pre by (simp add: y_def)
    have tail: "mapped_prefix ?m addr len = y @ mapped_prefix ?m b' (len - n)"
    proof (cases "n = len")
      case True
      with pre show ?thesis by (simp add: y_def)
    next
      case False
      then have "n = ?s - residue" by (simp add: n_def min_def split: if_splits)
      then have "residue + n = ?s" using res by simp
      then have "(of_nat ?s :: 'l word) = of_nat residue + of_nat n" by (metis of_nat_add)
      then have "?b + of_nat ?s = addr + of_nat n"
        using aligned_next(2) [OF assms(1), of addr] less.prems(2) by (metis add.assoc)
      with mapped_prefix_add [of ?m addr n "len - n"] pre n show ?thesis
        by (simp add: y_def b'_def)
    qed
    have "unat b' mod ?s = 0" unfolding b'_def by (rule aligned_next(1) [OF assms(1)])
    then show ?thesis
      unfolding step y_def [symmetric] b'_def [symmetric] using n y less.prems(1,3,4)
      by (subst less.IH) (auto simp: tail Let_def)
  qed
qed

lemma find_nul_None: "find_nul bs = None \<longleftrightarrow> 0 \<notin> set bs"
  by (induction bs) auto

lemma find_nul_append:
  "find_nul (as @ bs) =
     (case find_nul as of Some i \<Rightarrow> Some i | None \<Rightarrow> map_option (\<lambda>i. length as + i) (find_nul bs))"
proof (induction as)
  case Nil
  then show ?case by (cases "find_nul bs") simp_all
next
  case (Cons a as)
  then show ?case by (cases "find_nul as"; cases "find_nul bs") simp_all
qed

lemma find_nul_less: "find_nul bs = Some i \<Longrightarrow> i < length bs"
  by (induction bs arbitrary: i) (auto split: if_splits)

lemma find_nul_take: "find_nul (take k bs) = Some i \<Longrightarrow> find_nul bs = Some i"
  using find_nul_append [of "take k bs" "drop k bs"] by simp

text \<open>The first NUL of a string lies in its first \<open>t\<close> bytes or behind them.\<close>

lemma find_nul_mapped:
  assumes "length (mapped_prefix m a t) = t" and "find_nul (mapped_prefix m a len) = Some n"
  shows "case find_nul (mapped_prefix m a t) of
      Some i \<Rightarrow> i = n \<and> n < min t len
    | None \<Rightarrow> t < len \<and>
        (\<exists>n'. n = t + n' \<and> find_nul (mapped_prefix m (a + of_nat t) (len - t)) = Some n')"
proof (cases "t < len")
  case True
  then have "mapped_prefix m a len =
      mapped_prefix m a t @ mapped_prefix m (a + of_nat t) (len - t)"
    using assms(1) by (intro mapped_prefix_split) simp_all
  with assms True show ?thesis
    by (cases "find_nul (mapped_prefix m a t)") (auto simp: find_nul_append dest: find_nul_less)
next
  case False
  then have "find_nul (take len (mapped_prefix m a t)) = Some n"
    using assms mapped_prefix_take [of m a t len] by simp
  then have "find_nul (mapped_prefix m a t) = Some n" by (rule find_nul_take)
  moreover have "n < len"
    using find_nul_less [OF assms(2)] length_mapped_prefix [of m a len] by linarith
  ultimately show ?thesis using False by simp
qed

lemma lread_nul_loop_correct:
  fixes addr :: "'l::len word" and K :: "('l word, 'k) kernel"
  assumes "long_width TYPE('l)" and "peek_contract (big_endian c) K pid mem"
    and "word_granular (sizeof_long TYPE('l)) (mem (kern w))"
    and "residue = unat addr mod sizeof_long TYPE('l)"
    and "find_nul (mapped_prefix (mem (kern w)) addr len) = Some n"
  shows "\<exists>k. n < k \<and> k \<le> len \<and> lread_nul_loop c K pid residue addr len count dest w =
    (int (length dest) + int n + (if n < sizeof_long TYPE('l) - residue then int residue else 0),
     dest @ mapped_prefix (mem (kern w)) addr k, w\<lparr>errno := 0\<rparr>)"
  using assms(3-5)
proof (induction len arbitrary: residue addr count dest w n rule: less_induct)
  case (less len)
  let ?s = "sizeof_long TYPE('l)" and ?m = "mem (kern w)"
  let ?b = "addr AND - of_nat ?s"
  define t where "t = ?s - residue"
  have len: "len \<noteq> 0" and mapped: "?m addr \<noteq> None"
    using less.prems(3) by (auto simp: mapped_prefix_Nil intro: ccontr)
  obtain val x where
    read: "pink_read_word_data K pid ?b w = (0, Some val, w\<lparr>errno := 0\<rparr>)"
    and x: "to_bytes (big_endian c) ?s val = x" "length x = ?s"
    and pre: "\<And>j. j \<le> t \<Longrightarrow> mapped_prefix ?m addr j = take j (drop residue x)"
    using peek_at [OF assms(1,2) less.prems(1), of addr] mapped less.prems(2) by (auto simp: t_def)
  have t: "0 < t" "length (drop residue x) = t" using x(2) less.prems(2) by (simp_all add: t_def)
  have z: "mapped_prefix ?m addr t = drop residue x" using pre [of t] t by simp
  note step = lread_nul_loop.simps [of c K pid residue addr len count dest w]
  note nul = find_nul_mapped [of ?m addr t len n, unfolded z, OF t(2) less.prems(3)]
  show ?case
  proof (cases "find_nul (drop residue x)")
    case (Some i)
    with nul show ?thesis
      using step len read x pre [of "min t len"]
      by (intro exI [of _ "min t len"]) (simp add: Let_def t_def [symmetric])
  next
    case None
    with nul obtain n' where n': "t < len" "n = t + n'"
      "find_nul (mapped_prefix ?m (addr + of_nat t) (len - t)) = Some n'" by auto
    have nxt: "?b + of_nat ?s = addr + of_nat t"
      using next_word [OF assms(1), of addr] less.prems(2) by (simp add: t_def)
    have "unat (addr + of_nat t) mod ?s = 0"
      using aligned_next(1) [OF assms(1), of addr] nxt by simp
    then have "\<exists>k. n' < k \<and> k \<le> len - t \<and>
        lread_nul_loop c K pid 0 (addr + of_nat t) (len - t) (count + of_nat t)
          (dest @ drop residue x) (w\<lparr>errno := 0\<rparr>) =
        (int (length dest + t) + int n', dest @ drop residue x @
          mapped_prefix ?m (addr + of_nat t) k, w\<lparr>errno := 0\<rparr>)"
      using less.IH [of "len - t" "w\<lparr>errno := 0\<rparr>" 0 "addr + of_nat t" n'
          "count + of_nat t" "dest @ drop residue x"] n' t less.prems(1)
      by (simp cong: if_cong)
    then obtain k where k: "n' < k" "k \<le> len - t" and
      rest: "lread_nul_loop c K pid 0 (addr + of_nat t) (len - t) (count + of_nat t)
          (dest @ drop residue x) (w\<lparr>errno := 0\<rparr>) =
        (int (length dest + t) + int n', dest @ drop residue x @
          mapped_prefix ?m (addr + of_nat t) k, w\<lparr>errno := 0\<rparr>)" by blast
    have "mapped_prefix ?m addr (t + k) = drop residue x @ mapped_prefix ?m (addr + of_nat t) k"
      using mapped_prefix_add [of ?m addr t k] z t by simp
    with k rest n' show ?thesis
      using step len read x None nxt
      by (intro exI [of _ "t + k"]) (simp add: Let_def min_absorb1 t_def [symmetric])
  qed
qed

section \<open>Writing word by word\<close>

text \<open>
  The bytes of the last word behind the data, and the bytes of all the words
  that a write of \<open>len\<close> bytes touches.
\<close>

definition tail_junk :: "nat \<Rightarrow> (nat \<Rightarrow> byte list) \<Rightarrow> nat \<Rightarrow> byte list" where
  "tail_junk s junk len = (if len mod s = 0 then [] else drop (len mod s) (junk (len mod s)))"

definition round_up :: "nat \<Rightarrow> nat \<Rightarrow> nat" where
  "round_up s len = s * ((len + s - 1) div s)"

lemma round_up_step: "s < len \<Longrightarrow> round_up s len = s + round_up s (len - s)"
proof -
  assume "s < len"
  then have eq: "len + s - 1 = (len - s + s - 1) + s" by simp
  have "(X + s) div s = X div s + 1" if "s \<noteq> 0" for X using that by (rule div_add_self2)
  then have "s * ((X + s) div s) = s + s * (X div s)" for X by (cases "s = 0") (simp_all add: algebra_simps)
  then show ?thesis unfolding round_up_def eq .
qed

lemma round_up_last: "0 < len \<Longrightarrow> len \<le> s \<Longrightarrow> round_up s len = s"
proof -
  assume "0 < len" and "len \<le> s"
  then have "(len + s - 1) div s = 1"
    by (intro div_nat_eqI) auto
  then show ?thesis by (simp add: round_up_def)
qed

lemma lwrite_loop_done:
  "lwrite_loop c (K :: ('l::len word, 'k) kernel) pid junk r addr src 0 n w =
    Ret (ssize_of_uint TYPE('l) n, w)"
  by (subst lwrite_loop.simps) simp

lemma lwrite_loop_step:
  fixes addr :: "'l::len word" and K :: "('l word, 'k) kernel"
  defines "s \<equiv> sizeof_long TYPE('l)"
  assumes "long_width TYPE('l)" and "poke_contract (big_endian c) K pid mem"
    and "length (junk len) = s" and "unat addr mod s = 0" and "0 < len" and "m = min s len"
    and "m \<le> length src" and "read_mem (mem (kern w)) addr s \<noteq> None"
  shows "\<exists>k'. lwrite_loop c K pid junk 0 addr src len n w =
      lwrite_loop c K pid junk 0 (addr + of_nat s) (drop m src) (len - m) (n + of_nat m)
        \<lparr>errno = 0, kern = k'\<rparr> \<and>
    mem k' = write_mem (mem (kern w)) addr (take m src @ drop m (junk len))"
proof -
  define x where "x = take m src @ drop m (junk len)"
  have "LENGTH('l) = 8 * s" using long_width_size [OF assms(2)] by (auto simp: s_def)
  moreover have "length x = s" using assms(4,7,8) by (simp add: x_def)
  ultimately have x: "to_bytes (big_endian c) s (of_bytes (big_endian c) x :: 'l word) = x" by simp
  obtain bs where "read_mem (mem (kern w)) addr s = Some bs" using assms(9) by blast
  then obtain k' where k': "pink_write_word_data K pid addr (of_bytes (big_endian c) x) w =
      (0, \<lparr>errno = 0, kern = k'\<rparr>)" "mem k' = write_mem (mem (kern w)) addr x"
    using write_word_data_mapped [OF assms(3), of w addr bs "of_bytes (big_endian c) x"] x
    by (auto simp: s_def)
  have base: "addr AND - of_nat s = addr"
    using aligned_base [OF assms(2)] assms(5) by (simp add: s_def)
  have "lwrite_loop c K pid junk 0 addr src len n w =
      lwrite_loop c K pid junk 0 (addr + of_nat s) (drop m src) (len - m) (n + of_nat m)
        \<lparr>errno = 0, kern = k'\<rparr>"
    using assms(6,8) k'(1)
    by (subst lwrite_loop.simps) (simp add: s_def [symmetric] base x_def Let_def assms(7) [symmetric])
  with k'(2) show ?thesis by (auto simp: x_def)
qed

text \<open>What a write of \<open>len\<close> bytes to an aligned address stores.\<close>

definition lwrite_image :: "nat \<Rightarrow> (nat \<Rightarrow> byte list) \<Rightarrow> byte list \<Rightarrow> nat \<Rightarrow> byte list" where
  "lwrite_image s junk src len = take len src @ tail_junk s junk len"

lemma lwrite_image_last:
  "0 < len \<Longrightarrow> len \<le> s \<Longrightarrow> length (junk len) = s \<Longrightarrow>
    lwrite_image s junk src len = take (min s len) src @ drop (min s len) (junk len)"
  by (cases "len = s") (simp_all add: lwrite_image_def tail_junk_def)

lemma lwrite_image_more:
  "s < len \<Longrightarrow> lwrite_image s junk src len = take s src @ lwrite_image s junk (drop s src) (len - s)"
  using take_add [of s "len - s" src] by (simp add: lwrite_image_def tail_junk_def le_mod_geq)

lemma lwrite_loop_aligned:
  fixes addr :: "'l::len word" and K :: "('l word, 'k) kernel"
  defines "s \<equiv> sizeof_long TYPE('l)"
  assumes "long_width TYPE('l)" and "poke_contract (big_endian c) K pid mem"
    and "\<And>n. length (junk n) = s"
    and "unat addr mod s = 0" and "len \<le> length src" and "n0 + len < 2 ^ 31"
    and "read_mem (mem (kern w)) addr (round_up s len) \<noteq> None"
  shows "\<exists>w'. lwrite_loop c K pid junk 0 addr src len (of_nat n0) w = Ret (int (n0 + len), w') \<and>
    mem (kern w') = write_mem (mem (kern w)) addr (lwrite_image s junk src len)"
  using assms(5-)
proof (induction len arbitrary: addr src n0 w rule: less_induct)
  case (less len)
  let ?m = "mem (kern w)"
  define m where "m = min s len"
  have "0 < s" by (simp add: s_def)
  have step: "\<exists>k'. lwrite_loop c K pid junk 0 addr src len (of_nat n0) w =
      lwrite_loop c K pid junk 0 (addr + of_nat s) (drop m src) (len - m) (of_nat n0 + of_nat m)
        \<lparr>errno = 0, kern = k'\<rparr> \<and>
      mem k' = write_mem ?m addr (take m src @ drop m (junk len))"
    if "0 < len" "read_mem ?m addr s \<noteq> None"
    unfolding s_def
    by (rule lwrite_loop_step [OF assms(2,3)])
      (use that less.prems(1,2) assms(4) in \<open>simp_all add: m_def s_def\<close>)
  consider "len = 0" | "0 < len" "len \<le> s" | "s < len" by linarith
  then show ?case
  proof cases
    case 1
    then show ?thesis
      using ssize_of_uint_of_nat [OF assms(2), of n0] less.prems(3)
      by (simp add: lwrite_loop_done lwrite_image_def tail_junk_def)
  next
    case 2
    have m: "m = len" using 2 by (simp add: m_def)
    have "read_mem ?m addr s \<noteq> None" using less.prems(4) round_up_last [OF 2] by simp
    with step [OF 2(1)] obtain k' where go: "lwrite_loop c K pid junk 0 addr src len (of_nat n0) w =
        lwrite_loop c K pid junk 0 (addr + of_nat s) (drop len src) 0 (of_nat n0 + of_nat len)
          \<lparr>errno = 0, kern = k'\<rparr>"
      and mem: "mem k' = write_mem ?m addr (take len src @ drop len (junk len))"
      unfolding m by auto
    have "ssize_of_uint TYPE('l) (of_nat n0 + of_nat len) = int (n0 + len)"
      using ssize_of_uint_of_nat [OF assms(2), of "n0 + len"] less.prems(3) by simp
    with go mem show ?thesis
      using lwrite_image_last [of len s junk src] 2 assms(4) by (simp add: lwrite_loop_done min_absorb2)
  next
    case 3
    have m: "m = s" using 3 by (simp add: m_def)
    have "read_mem ?m addr (s + round_up s (len - s)) \<noteq> None"
      using less.prems(4) round_up_step [OF 3] by simp
    then have first: "read_mem ?m addr s \<noteq> None"
      and rest: "read_mem ?m (addr + of_nat s) (round_up s (len - s)) \<noteq> None"
      by (auto simp: read_mem_add split: option.splits)
    from step [OF _ first] 3 assms(4) [of len] obtain k' where go: "lwrite_loop c K pid junk 0 addr src len (of_nat n0) w =
        lwrite_loop c K pid junk 0 (addr + of_nat s) (drop s src) (len - s) (of_nat (n0 + s))
          \<lparr>errno = 0, kern = k'\<rparr>"
      and mem: "mem k' = write_mem ?m addr (take s src)"
      unfolding m by auto
    have "unat (addr + of_nat s) mod s = 0"
      using aligned_next(1) [OF assms(2), of addr] aligned_base [OF assms(2)] less.prems(1)
      by (simp add: s_def)
    then have "\<exists>w'. lwrite_loop c K pid junk 0 (addr + of_nat s) (drop s src) (len - s)
          (of_nat (n0 + s)) \<lparr>errno = 0, kern = k'\<rparr> = Ret (int (n0 + s + (len - s)), w') \<and>
        mem (kern w') = write_mem (mem k') (addr + of_nat s) (lwrite_image s junk (drop s src) (len - s))"
      using less.IH [of "len - s" "addr + of_nat s" "drop s src" "n0 + s" "\<lparr>errno = 0, kern = k'\<rparr>"]
        3 \<open>0 < s\<close> less.prems(2,3) diff_le_mono [OF less.prems(2), of s]
        read_mem_write_mem_mapped [OF rest, of addr "take s src"] by (simp add: mem)
    then show ?thesis
      using go mem 3 less.prems(2) by (simp add: lwrite_image_more write_mem_append)
  qed
qed

text \<open>A write whose first word is not mapped.\<close>

lemma lwrite_first_fails:
  fixes addr :: "'l::len word" and K :: "('l word, 'k) kernel"
  defines "s \<equiv> sizeof_long TYPE('l)"
  assumes "long_width TYPE('l)" and "poke_contract (big_endian c) K pid mem"
    and "0 < len" and "unat addr mod s + len \<le> length src"
    and "read_mem (mem (kern w)) (addr AND - of_nat s) s = None"
  shows "pink_vm_lwrite c K junk pid regset addr src len w =
    Ret (if LENGTH('l) = 64 then 2 ^ 32 - 1 else - 1, w\<lparr>errno := EFAULT\<rparr>)"
proof -
  have "ssize_of_uint TYPE('l) (- 1) = (if LENGTH('l) = 64 then 2 ^ 32 - 1 else - 1)"
    using assms(2) by (auto simp: ssize_of_uint_def long_width_def sint_uint unsigned_ucast_eq
        take_bit_eq_mod unsigned_minus_1_eq_mask mask_eq_exp_minus_1 signed_take_bit_int_eq_self_iff)
  moreover have "pink_write_word_data K pid (addr AND - of_nat s) v w =
      (- EFAULT, w\<lparr>errno := EFAULT\<rparr>)" for v
    using write_word_data_unmapped [OF assms(3), of w] assms(6) by (simp add: s_def)
  ultimately show ?thesis
    using assms(4,5) residue_long [OF assms(2), of addr]
    by (simp add: pink_vm_lwrite_def lwrite_loop.simps [of c K pid junk _ addr] s_def [symmetric]
        EFAULT_def Let_def)
qed

section \<open>Reading and writing with one system call\<close>

lemma readv_mapped:
  assumes "readv_contract K pid mem" and "length (mapped_prefix (mem (kern w)) a n) = n"
    and "have_feature c HAVE_PROCESS_VM_READV"
  shows "process_vm_readv c K pid a n w = (int n, mapped_prefix (mem (kern w)) a n, w)"
  using assms(1) [unfolded readv_contract_def Let_def, THEN spec [of _ "kern w"], THEN spec [of _ a],
      THEN spec [of _ n]] assms(2,3)
  by (simp add: process_vm_readv_def)

lemma readv_unmapped:
  assumes "readv_contract K pid mem" and "length (mapped_prefix (mem (kern w)) a n) \<noteq> n"
    and "have_feature c HAVE_PROCESS_VM_READV"
  shows "process_vm_readv c K pid a n w = (- 1, [], w\<lparr>errno := EFAULT\<rparr>) \<or>
    (\<exists>j. 0 < j \<and> j \<le> length (mapped_prefix (mem (kern w)) a n) \<and>
      process_vm_readv c K pid a n w = (int j, take j (mapped_prefix (mem (kern w)) a n), w))"
  using assms(1) [unfolded readv_contract_def Let_def, THEN spec [of _ "kern w"], THEN spec [of _ a],
      THEN spec [of _ n]] assms(2,3)
  by (auto simp: process_vm_readv_def min_absorb2)

lemma chunk_len_range:
  assumes "0 < len" and "len < 2 ^ 31"
  shows "\<exists>ch. chunk_len (addr :: 'l::len word) len = Ret (int ch) \<and> 0 < ch \<and> ch \<le> 256 \<and> ch \<le> len"
proof -
  have n: "sint (word_of_nat len :: 32 word) = int len"
    using assms(2) by (simp add: signed_of_nat signed_take_bit_int_eq_self_iff)
  define chunk where "chunk = min 256 len"
  define e where "e = uint ((addr + word_of_nat chunk) AND 4095)"
  have "e = uint (addr + word_of_nat chunk) AND take_bit LENGTH('l) 4095"
    by (simp add: e_def unsigned_and_eq)
  moreover have "take_bit LENGTH('l) (4095 :: int) \<le> 4095"
    by (simp add: take_bit_int_less_eq_self_iff)
  ultimately have e: "0 \<le> e" "e \<le> 4095"
    using AND_upper2 [of "take_bit LENGTH('l) (4095 :: int)" "uint (addr + word_of_nat chunk)"]
    by simp_all
  define ch where "ch = (if int chunk - e > 0 then nat (int chunk - e) else chunk)"
  have "(if int len > 256 then 256 else int len) = int chunk" by (simp add: chunk_def)
  then have "chunk_len addr len = Ret (int ch)"
    using e unfolding chunk_len_def n Let_def by (simp add: e_def [symmetric] ch_def)
  moreover have "0 < ch \<and> ch \<le> 256 \<and> ch \<le> len"
    using e assms(1) by (auto simp: ch_def chunk_def)
  ultimately show ?thesis by blast
qed

lemma cread_nul_loop_correct:
  fixes addr :: "'l::len word" and K :: "('l word, 'k) kernel"
  assumes "long_width TYPE('l)" and "readv_contract K pid mem"
    and "have_feature c HAVE_PROCESS_VM_READV"
    and "find_nul (mapped_prefix (mem (kern w)) remote len) = Some n"
    and "length (mapped_prefix (mem (kern w)) remote (min len (n + 256))) = min len (n + 256)"
    and "len < 2 ^ 31"
  shows "\<exists>k. n < k \<and> k \<le> len \<and> cread_nul_loop c K pid addr remote len count dest w =
    Some (Ret (count + int n + 1, dest @ mapped_prefix (mem (kern w)) remote k, w))"
  using assms(4-6)
proof (induction len arbitrary: remote count dest n rule: less_induct)
  case (less len)
  let ?m = "mem (kern w)"
  have "0 < len" using less.prems(1) by (cases len) auto
  with less.prems(3) obtain ch where ch: "chunk_len addr len = Ret (int ch)"
    "0 < ch" "ch \<le> 256" "ch \<le> len" using chunk_len_range by blast
  define bs where "bs = mapped_prefix ?m remote ch"
  have full: "length (mapped_prefix ?m remote ch) = ch"
    using ch(3,4) mapped_prefix_take [OF less.prems(2), of ch] less.prems(2) by simp
  have conv: "unat (word_of_nat ch :: 'l word) = ch" "sint (word_of_nat ch :: 32 word) = int ch"
    using ch(3) assms(1)
    by (auto simp: long_width_def unsigned_of_nat take_bit_nat_eq_self_iff signed_of_nat
        signed_take_bit_int_eq_self_iff)
  have step: "cread_nul_loop c K pid addr remote len count dest w =
      (case find_nul bs of
         Some i \<Rightarrow> Some (Ret (count + int i + 1, dest @ bs, w))
       | None \<Rightarrow> cread_nul_loop c K pid addr (remote + of_nat ch) (len - ch) (count + int ch) (dest @ bs) w)"
    using \<open>0 < len\<close> ch(1) full
    by (subst cread_nul_loop.simps)
      (simp add: readv_mapped [OF assms(2) full assms(3)] conv bs_def Let_def split: option.split)
  note nul = find_nul_mapped [OF full less.prems(1), folded bs_def]
  show ?case
  proof (cases "find_nul bs")
    case (Some i)
    with nul step ch show ?thesis by (intro exI [of _ ch]) (simp add: bs_def)
  next
    case None
    with nul obtain n' where n': "n = ch + n'"
      "find_nul (mapped_prefix ?m (remote + of_nat ch) (len - ch)) = Some n'" by auto
    have "min len (n + 256) = ch + min (len - ch) (n' + 256)"
      using n'(1) ch(4) by simp
    then have "length (mapped_prefix ?m (remote + of_nat ch) (min (len - ch) (n' + 256))) =
        min (len - ch) (n' + 256)"
      using less.prems(2) full mapped_prefix_add [of ?m remote ch "min (len - ch) (n' + 256)"]
      by simp
    then obtain k where k: "n' < k" "k \<le> len - ch"
      "cread_nul_loop c K pid addr (remote + of_nat ch) (len - ch) (count + int ch) (dest @ bs) w =
        Some (Ret (count + int ch + int n' + 1,
          (dest @ bs) @ mapped_prefix ?m (remote + of_nat ch) k, w))"
      using less.IH [of "len - ch" "remote + of_nat ch" n' "count + int ch" "dest @ bs"]
        n'(2) ch(2,4) order.strict_trans1 [OF diff_le_self less.prems(3)] by auto
    with step None n'(1) full ch(4) show ?thesis
      by (intro exI [of _ "ch + k"]) (simp add: mapped_prefix_add bs_def)
  qed
qed

lemma pink_vm_cread_nul_eq:
  fixes addr :: "'l::len word"
  assumes "vm_services c K pid mem w" and "have_feature c HAVE_PROCESS_VM_READV"
    and "setup_addr c regset addr = Ret addr'" and "len < 2 ^ 31"
    and "find_nul (mapped_prefix (mem (kern w)) addr' len) = Some n"
    and "read_mem (mem (kern w)) addr' (min len (n + 256)) \<noteq> None"
  shows "\<exists>k. n < k \<and> k \<le> len \<and> pink_vm_cread_nul c K pid regset addr len w =
    Ret (int n + 1, mapped_prefix (mem (kern w)) addr' k, w)"
proof -
  have lw: "long_width TYPE('l)" and K: "readv_contract K pid mem"
    using assms(1) by (simp_all add: vm_services_def)
  obtain bs where "read_mem (mem (kern w)) addr' (min len (n + 256)) = Some bs"
    using assms(6) by blast
  then have "length (mapped_prefix (mem (kern w)) addr' (min len (n + 256))) = min len (n + 256)"
    by (simp only: read_mem_iff_mapped_prefix)
  from cread_nul_loop_correct [OF lw K assms(2,5) this assms(4), of addr' 0 "[]"] assms(3)
  show ?thesis by (auto simp: pink_vm_cread_nul_def)
qed

section \<open>The contract of a reader\<close>

text \<open>
  What every reader of a block promises: all the bytes, if they are mapped, and
  otherwise fewer than asked for, with \<open>EFAULT\<close> where the result is negative.
\<close>

locale vm_reader =
  fixes rd :: "pink_config \<Rightarrow> ('l::len word, 'k) kernel \<Rightarrow> int \<Rightarrow> pink_regset \<Rightarrow> 'l word \<Rightarrow> nat \<Rightarrow>
      'k world \<Rightarrow> (int \<times> byte list \<times> 'k world) outcome"
    and avail :: "pink_config \<Rightarrow> bool"
  assumes all_mapped:
    "vm_services c K pid mem w \<Longrightarrow> avail c \<Longrightarrow> setup_addr c regset addr = Ret addr \<Longrightarrow>
     0 < len \<Longrightarrow> len < 2 ^ 31 \<Longrightarrow> read_mem (mem (kern w)) addr len = Some bs \<Longrightarrow>
     \<exists>e. rd c K pid regset addr len w = Ret (int len, bs, w\<lparr>errno := e\<rparr>) \<and> (e = 0 \<or> e = errno w)"
  and not_mapped:
    "vm_services c K pid mem w \<Longrightarrow> avail c \<Longrightarrow> setup_addr c regset addr = Ret addr \<Longrightarrow>
     0 < len \<Longrightarrow> len < 2 ^ 31 \<Longrightarrow> read_mem (mem (kern w)) addr len = None \<Longrightarrow>
     \<exists>r d e. rd c K pid regset addr len w = Ret (r, d, w\<lparr>errno := e\<rparr>) \<and> r < int len \<and>
       (r < 0 \<longrightarrow> e = EFAULT)"
begin

lemma complete_iff:
  assumes "vm_services c K pid mem w" and "avail c" and "setup_addr c regset addr = Ret addr"
    and "0 < len" and "len < 2 ^ 31"
  shows "(\<exists>d w'. rd c K pid regset addr len w = Ret (int len, d, w')) \<longleftrightarrow>
    read_mem (mem (kern w)) addr len \<noteq> None"
  using all_mapped [OF assms] not_mapped [OF assms] by (cases "read_mem (mem (kern w)) addr len") fastforce+

text \<open>The tracee is not changed.\<close>

lemma kern_unchanged:
  assumes "vm_services c K pid mem w" and "avail c" and "setup_addr c regset addr = Ret addr"
    and "0 < len" and "len < 2 ^ 31" and "rd c K pid regset addr len w = Ret (r, d, w')"
  shows "kern w' = kern w"
  using all_mapped [OF assms(1-5)] not_mapped [OF assms(1-5)] assms(6)
  by (cases "read_mem (mem (kern w)) addr len") fastforce+

end

text \<open>Two readers.\<close>

locale vm_reader_pair = a: vm_reader rd avail + b: vm_reader rd' avail'
  for rd rd' :: "pink_config \<Rightarrow> ('l::len word, 'k) kernel \<Rightarrow> int \<Rightarrow> pink_regset \<Rightarrow> 'l word \<Rightarrow> nat \<Rightarrow>
      'k world \<Rightarrow> (int \<times> byte list \<times> 'k world) outcome" and avail avail'
begin

lemma agree:
  assumes "vm_services c K pid mem w" and "avail c" "avail' c" and "setup_addr c regset addr = Ret addr"
    and "0 < len" and "len < 2 ^ 31" and "read_mem (mem (kern w)) addr len = Some bs"
  shows "\<exists>w1 w2. rd c K pid regset addr len w = Ret (int len, bs, w1) \<and>
    rd' c K pid regset addr len w = Ret (int len, bs, w2) \<and> kern w1 = kern w \<and> kern w2 = kern w"
  using a.all_mapped [OF assms(1,2,4-7)] b.all_mapped [OF assms(1,3-7)] by fastforce

end

lemma pink_vm_lread_eq:
  fixes addr :: "'l::len word"
  assumes "vm_services c K pid mem w" and "len < 2 ^ 31"
  shows "pink_vm_lread c K pid regset addr len w =
    (let bs = mapped_prefix (mem (kern w)) addr len in
     (if length bs = len then int len else - 1, bs,
      if len = 0 then w else w\<lparr>errno := if length bs = len then 0 else EFAULT\<rparr>))"
proof -
  have lw: "long_width TYPE('l)" using assms(1) by (simp add: vm_services_def)
  show ?thesis
    unfolding pink_vm_lread_def Let_def residue_long [OF lw]
    by (subst lread_loop_correct [OF lw]) (use assms in \<open>auto simp: vm_services_def\<close>)
qed

interpretation lread: vm_reader "\<lambda>c K pid regset addr len w. Ret (pink_vm_lread c K pid regset addr len w)"
  "\<lambda>_. True"
proof
  fix c and K :: "('a word, 'b) kernel" and pid mem w regset len bs
    and addr :: "'a word"
  assume "vm_services c K pid mem w" "len < 2 ^ 31" "0 < (len :: nat)"
  note eq = pink_vm_lread_eq [OF this(1,2), of regset addr] this(3)
  show "\<exists>e. Ret (pink_vm_lread c K pid regset addr len w) = Ret (int len, bs, w\<lparr>errno := e\<rparr>) \<and>
      (e = 0 \<or> e = errno w)" if "read_mem (mem (kern w)) addr len = Some bs"
    using that eq by (auto simp: read_mem_iff_mapped_prefix)
  show "\<exists>r d e. Ret (pink_vm_lread c K pid regset addr len w) = Ret (r, d, w\<lparr>errno := e\<rparr>) \<and>
      r < int len \<and> (r < 0 \<longrightarrow> e = EFAULT)" if "read_mem (mem (kern w)) addr len = None"
  proof -
    have "length (mapped_prefix (mem (kern w)) addr len) \<noteq> len"
      using that read_mem_iff_mapped_prefix by (metis option.distinct(1))
    with eq show ?thesis by auto
  qed
qed

interpretation cread: vm_reader pink_vm_cread "\<lambda>c. have_feature c HAVE_PROCESS_VM_READV"
proof
  fix c and K :: "('a word, 'b) kernel" and pid mem w regset len bs
    and addr :: "'a word"
  assume vm: "vm_services c K pid mem w" and h: "have_feature c HAVE_PROCESS_VM_READV"
    and addr: "setup_addr c regset addr = Ret addr"
  have K: "readv_contract K pid mem" using vm by (simp add: vm_services_def)
  show "\<exists>e. pink_vm_cread c K pid regset addr len w = Ret (int len, bs, w\<lparr>errno := e\<rparr>) \<and>
      (e = 0 \<or> e = errno w)" if "read_mem (mem (kern w)) addr len = Some bs"
    using that h addr readv_mapped [OF K _ h, of w addr len]
    by (intro exI [of _ "errno w"]) (auto simp: read_mem_iff_mapped_prefix pink_vm_cread_def)
  show "\<exists>r d e. pink_vm_cread c K pid regset addr len w = Ret (r, d, w\<lparr>errno := e\<rparr>) \<and>
      r < int len \<and> (r < 0 \<longrightarrow> e = EFAULT)" if "read_mem (mem (kern w)) addr len = None"
  proof -
    have "length (mapped_prefix (mem (kern w)) addr len) < len"
      using that read_mem_iff_mapped_prefix length_mapped_prefix [of "mem (kern w)" addr len]
      by (metis option.distinct(1) le_neq_implies_less)
    moreover have "\<exists>e. w = w\<lparr>errno := e\<rparr>" by (rule exI [of _ "errno w"]) simp
    ultimately show ?thesis
      using readv_unmapped [OF K _ h, of w addr len] h addr by (auto simp: pink_vm_cread_def)
  qed
qed

interpretation lc: vm_reader_pair
  "\<lambda>c K pid regset addr len w. Ret (pink_vm_lread c K pid regset addr len w)" pink_vm_cread
  "\<lambda>_. True" "\<lambda>c. have_feature c HAVE_PROCESS_VM_READV" ..

section \<open>Properties of reading and writing\<close>

lemma ref_services:
  "vm_services (ref_config X86_64) (ref_kernel False) 7 t_mem \<lparr>errno = 0, kern = ref_tracee (nul :: 64 word)\<rparr>"
proof -
  have "word_granular (sizeof_long TYPE(64)) (t_mem (ref_tracee nul))"
    by (rule word_granular_total) simp
  then show ?thesis
    using ref_vm_services [of "\<lparr>errno = 0, kern = ref_tracee nul\<rparr>" "ref_config X86_64" 7]
    by (simp add: long_width_def)
qed

lemma ref_setup_addr [simp]:
  "setup_addr (ref_config X86_64) (pink_regset_zero TYPE(64) (ref_config X86_64)) (addr :: 64 word) = Ret addr"
  by (simp add: setup_addr_def PINK_ABIS_SUPPORTED_def sizeof_long_def pink_abi_wordsize_def
      abi_wordsize_def pink_regset_zero_def)

text \<open>
  (C1) \<open>pink_vm_lread\<close> against the address space: for any address, aligned or
  not, it stores the mapped bytes that start there, at most \<open>len\<close>; it returns
  \<open>len\<close> if all of them are mapped and -1 with \<open>errno\<close> set to \<open>EFAULT\<close> if not,
  and it does not change the tracee.
\<close>

theorem pink_vm_lread_spec:
  fixes addr :: "'l::len word"
  assumes "vm_services c K pid mem w" and "len < 2 ^ 31"
  shows "pink_vm_lread c K pid regset addr len w =
    (let bs = mapped_prefix (mem (kern w)) addr len in
     (if length bs = len then int len else - 1, bs,
      if len = 0 then w else w\<lparr>errno := if length bs = len then 0 else EFAULT\<rparr>))"
  by (rule pink_vm_lread_eq [OF assms])

theorem pink_vm_lread_spec_witness:
  "pink_vm_lread (ref_config X86_64) (ref_kernel False) 7 (pink_regset_zero TYPE(64) (ref_config X86_64))
     (0x1006 :: 64 word) 4 \<lparr>errno = 0, kern = ref_tracee 0x1008\<rparr> =
     (4, [1, 1, 0, 1], \<lparr>errno = 0, kern = ref_tracee 0x1008\<rparr>)"
  using pink_vm_lread_spec [OF ref_services [of "0x1008"], where len = 4 and addr = "0x1006"
      and regset = "pink_regset_zero TYPE(64) (ref_config X86_64)"]
  by (simp add: mapped_prefix_numeral read_mem_numeral)



text \<open>
  (C26) \<open>pink_vm_lread_nul\<close> on a string whose terminating NUL is among the first
  \<open>len\<close> bytes stores the string with its NUL. It returns the length of the string
  without the NUL; but if the string starts at an unaligned address and ends in the
  same word, the offset of the start in that word is added.
\<close>

theorem pink_vm_lread_nul_spec:
  fixes addr :: "'l::len word"
  assumes "vm_services c K pid mem w"
    and "find_nul (mapped_prefix (mem (kern w)) addr len) = Some n"
  shows "\<exists>k. n < k \<and> k \<le> len \<and> pink_vm_lread_nul c K pid regset addr len w =
    (int n + (let r = unat addr mod sizeof_long TYPE('l)
              in if n < sizeof_long TYPE('l) - r then int r else 0),
     mapped_prefix (mem (kern w)) addr k, w\<lparr>errno := 0\<rparr>)"
proof -
  have lw: "long_width TYPE('l)" and K: "peek_contract (big_endian c) K pid mem"
    and m: "word_granular (sizeof_long TYPE('l)) (mem (kern w))"
    using assms(1) by (simp_all add: vm_services_def)
  show ?thesis
    using lread_nul_loop_correct [OF lw K m refl assms(2), of 0 "[]"]
    by (simp add: pink_vm_lread_nul_def residue_long [OF lw] Let_def)
qed

theorem pink_vm_lread_nul_spec_witness:
  "\<exists>k. 2 < k \<and> k \<le> 4 \<and> pink_vm_lread_nul (ref_config X86_64) (ref_kernel False) 7
     (pink_regset_zero TYPE(64) (ref_config X86_64)) (0x1001 :: 64 word) 4
     \<lparr>errno = 0, kern = ref_tracee 0x1003\<rparr> =
     (3, mapped_prefix (t_mem (ref_tracee 0x1003)) (0x1001 :: 64 word) k,
      \<lparr>errno = 0, kern = ref_tracee 0x1003\<rparr>)"
  using pink_vm_lread_nul_spec [OF ref_services [of "0x1003"], where len = 4 and addr = "0x1001" and n = 2
      and regset = "pink_regset_zero TYPE(64) (ref_config X86_64)"]
  by (simp add: mapped_prefix_numeral sizeof_long_def)



text \<open>
  (C21) \<open>pink_vm_lwrite\<close> to an aligned address of mapped words returns \<open>len\<close>, and
  the tracee's memory is what it was with the \<open>len\<close> bytes of \<open>src\<close> stored at the
  address, followed by indeterminate bytes up to the end of the last word.
\<close>

theorem pink_vm_lwrite_aligned:
  fixes addr :: "'l::len word" and K :: "('l word, 'k) kernel"
  assumes "long_width TYPE('l)" and "poke_contract (big_endian c) K pid mem"
    and "\<And>n. length (junk n) = sizeof_long TYPE('l)"
    and "unat addr mod sizeof_long TYPE('l) = 0" and "len \<le> length src" and "len < 2 ^ 31"
    and "read_mem (mem (kern w)) addr (round_up (sizeof_long TYPE('l)) len) \<noteq> None"
  shows "\<exists>w'. pink_vm_lwrite c K junk pid regset addr src len w = Ret (int len, w') \<and>
    mem (kern w') = write_mem (mem (kern w)) addr
      (take len src @ tail_junk (sizeof_long TYPE('l)) junk len)"
  using lwrite_loop_aligned [OF assms(1-5), of 0 w] assms(4,6,7)
  by (simp add: pink_vm_lwrite_def residue_long [OF assms(1)] lwrite_image_def)

theorem pink_vm_lwrite_aligned_witness:
  "\<exists>w'. pink_vm_lwrite (ref_config X86_64) (ref_kernel False) (\<lambda>_. replicate 8 9) 7
      (pink_regset_zero TYPE(64) (ref_config X86_64)) (0x1000 :: 64 word) [5, 6] 2
      \<lparr>errno = 0, kern = ref_tracee 0\<rparr> = Ret (2, w') \<and>
    t_mem (kern w') = write_mem (t_mem (ref_tracee 0)) 0x1000 ([5, 6] @ replicate 6 9)"
  using pink_vm_lwrite_aligned [where c = "ref_config X86_64" and junk = "\<lambda>_. replicate 8 9"
      and K = "ref_kernel False :: (64 word, 64 word tracee) kernel" and mem = t_mem and pid = 7
      and addr = "0x1000" and src = "[5, 6]" and len = 2 and w = "\<lparr>errno = 0, kern = ref_tracee 0\<rparr>"
      and regset = "pink_regset_zero TYPE(64) (ref_config X86_64)"]
    ref_poke [of False 7, where 'a = 64]
  by (simp add: long_width_def sizeof_long_def round_up_def tail_junk_def read_mem_numeral)

text \<open>
  A failed write is not reported as one on a 64-bit machine: if the first word
  is not mapped, the result \<open>-1\<close> is converted through \<open>unsigned int\<close>, so that
  \<open>pink_vm_lwrite\<close> returns 4294967295 where \<open>long\<close> has 64 bits, and \<open>-1\<close> only where
  it has 32.
\<close>

lemma pink_vm_lwrite_fault:
  fixes addr :: "'l::len word" and K :: "('l word, 'k) kernel"
  defines "s \<equiv> sizeof_long TYPE('l)"
  assumes "long_width TYPE('l)" and "poke_contract (big_endian c) K pid mem"
    and "0 < len" and "unat addr mod s + len \<le> length src"
    and "read_mem (mem (kern w)) (addr AND - of_nat s) s = None"
  shows "pink_vm_lwrite c K junk pid regset addr src len w =
    Ret (if LENGTH('l) = 64 then 4294967295 else - 1, w\<lparr>errno := EFAULT\<rparr>)"
  using lwrite_first_fails [OF assms(2-4)] assms(5,6) by (simp add: s_def)

lemma pink_vm_lwrite_fault_ref:
  "pink_vm_lwrite (ref_config X86_64) (ref_kernel False) (\<lambda>_. replicate 8 9) 7
      (pink_regset_zero TYPE(64) (ref_config X86_64)) (0x1000 :: 64 word) [5, 6] 2
      \<lparr>errno = 0, kern = \<lparr>t_mem = Map.empty, t_user = Map.empty, t_regs = []\<rparr>\<rparr> =
    Ret (4294967295, \<lparr>errno = EFAULT, kern = \<lparr>t_mem = Map.empty, t_user = Map.empty, t_regs = []\<rparr>\<rparr>)"
  using pink_vm_lwrite_fault [where c = "ref_config X86_64" and junk = "\<lambda>_. replicate 8 9"
      and K = "ref_kernel False :: (64 word, 64 word tracee) kernel" and mem = t_mem and pid = 7
      and addr = "0x1000" and src = "[5, 6]" and len = 2
      and w = "\<lparr>errno = 0, kern = \<lparr>t_mem = Map.empty, t_user = Map.empty, t_regs = []\<rparr>\<rparr>"
      and regset = "pink_regset_zero TYPE(64) (ref_config X86_64)"]
    ref_poke [of False 7, where 'a = 64]
  by (simp add: long_width_def sizeof_long_def read_mem_numeral)

lemma process_vm_readv_progress:
  assumes "readv_contract K pid mem" and "0 < n"
  shows "\<exists>l bs e. process_vm_readv c K pid a n w = (l, bs, w\<lparr>errno := e\<rparr>) \<and>
    (l = - 1 \<or> l = int (length bs) \<and> 0 < length bs \<and> length bs \<le> n)"
proof (cases "have_feature c HAVE_PROCESS_VM_READV")
  case True
  have id: "\<exists>e. w = w\<lparr>errno := e\<rparr>" by (rule exI [of _ "errno w"]) simp
  show ?thesis
  proof (cases "length (mapped_prefix (mem (kern w)) a n) = n")
    case full: True
    show ?thesis using readv_mapped [OF assms(1) full True] full assms(2) id by auto
  next
    case False
    have "length (mapped_prefix (mem (kern w)) a n) \<le> n" by (rule length_mapped_prefix)
    with readv_unmapped [OF assms(1) False True] id show ?thesis by (auto simp: min_absorb2)
  qed
qed (auto simp: process_vm_readv_def)

lemma cread_nul_loop_ends:
  fixes addr :: "'l::len word"
  assumes "long_width TYPE('l)" and "readv_contract K pid mem" and "len < 2 ^ 31"
  shows "\<exists>r d e. cread_nul_loop c K pid addr remote len count dest w = Some (Ret (r, d, w\<lparr>errno := e\<rparr>))"
  using assms(3)
proof (induction len arbitrary: remote count dest w rule: less_induct)
  case (less len)
  show ?case
  proof (cases "len = 0")
    case True
    then show ?thesis by (subst cread_nul_loop.simps) (auto intro!: exI [of _ "errno w"])
  next
    case False
    then obtain ch where ch: "chunk_len addr len = Ret (int ch)" "0 < ch" "ch \<le> 256"
      using chunk_len_range [of len addr] less.prems by auto
    then have u: "unat (word_of_nat ch :: 'l word) = ch" using unat_small [OF assms(1)] by simp
    obtain l bs e where rd: "process_vm_readv c K pid remote ch w = (l, bs, w\<lparr>errno := e\<rparr>)"
      and l: "l = - 1 \<or> l = int (length bs) \<and> 0 < length bs \<and> length bs \<le> ch"
      using process_vm_readv_progress [OF assms(2) ch(2)] by blast
    show ?thesis
    proof (cases "l = - 1")
      case True
      with False ch(1) rd u show ?thesis
        by (subst cread_nul_loop.simps) (simp add: Let_def, blast)
    next
      case n: False
      with l ch(3) have sint: "sint (word_of_int l :: 32 word) = int (length bs)" "0 < length bs"
        by (auto simp: signed_of_nat signed_take_bit_int_eq_self_iff)
      obtain r d e' where IH: "cread_nul_loop c K pid addr (remote + of_nat (length bs)) (len - length bs)
          (count + int (length bs)) (dest @ bs) (w\<lparr>errno := e\<rparr>) = Some (Ret (r, d, w\<lparr>errno := e'\<rparr>))"
        using less.IH [of "len - length bs" "remote + of_nat (length bs)" "count + int (length bs)" "dest @ bs"
            "w\<lparr>errno := e\<rparr>"] less.prems False sint(2) by fastforce
      then show ?thesis
        using False ch(1) rd u sint(1)
        by (subst cread_nul_loop.simps) (auto simp: Let_def split: option.split)
    qed
  qed
qed

text \<open>
  (C10) \<open>pink_vm_cread_nul\<close> always ends: whatever is mapped and whether or not the
  string has an end, it returns for every buffer of less than 2 gigabytes and does
  not change the tracee.
\<close>

theorem pink_vm_cread_nul_terminates:
  fixes addr :: "'l::len word"
  assumes "vm_services c K pid mem w" and "setup_addr c regset addr = Ret addr'" and "len < 2 ^ 31"
  shows "\<exists>r d w'. pink_vm_cread_nul c K pid regset addr len w = Ret (r, d, w') \<and> kern w' = kern w"
proof -
  have "long_width TYPE('l)" "readv_contract K pid mem" using assms(1) by (simp_all add: vm_services_def)
  from cread_nul_loop_ends [OF this assms(3), of c addr' addr' 0 "[]" w] assms(2)
  show ?thesis by (auto simp: pink_vm_cread_nul_def)
qed

theorem pink_vm_cread_nul_terminates_witness:
  "\<exists>r d w'. pink_vm_cread_nul (ref_config X86_64) (ref_kernel False) 7
     (pink_regset_zero TYPE(64) (ref_config X86_64)) (0x1001 :: 64 word) 1000
     \<lparr>errno = 0, kern = ref_tracee 0x1000\<rparr> = Ret (r, d, w') \<and> kern w' = ref_tracee 0x1000"
  using pink_vm_cread_nul_terminates [OF ref_services [of "0x1000"] ref_setup_addr, of 1000 "0x1001"] by simp

end
