(* ===== verification/Pink_Tables.thy ===== *)
theory Pink_Tables
  imports Main
begin

text \<open>
  The tables of names under \<^verbatim>\<open>pinktrace/linux\<close>: error numbers, signals
  and the system calls of each architecture, as the C compiler reads them.
  \<open>None\<close> is \<open>NULL\<close>. Two adjacent string literals are one string in C: in the
  tables of PowerPC and x32 a missing comma joins two entries into one.
\<close>

section \<open>Error numbers and signals\<close>

text \<open>Entry 58 depends on the architecture.\<close>

definition errnoent_a :: "string option list" where
  "errnoent_a =
     [Some ''ERRNO_0'', Some ''EPERM'', Some ''ENOENT'', Some ''ESRCH'', Some ''EINTR'',
      Some ''EIO'', Some ''ENXIO'', Some ''E2BIG'', Some ''ENOEXEC'', Some ''EBADF'',
      Some ''ECHILD'', Some ''EAGAIN'', Some ''ENOMEM'', Some ''EACCES'', Some ''EFAULT'',
      Some ''ENOTBLK'', Some ''EBUSY'', Some ''EEXIST'', Some ''EXDEV'', Some ''ENODEV'',
      Some ''ENOTDIR'', Some ''EISDIR'', Some ''EINVAL'', Some ''ENFILE'', Some ''EMFILE'',
      Some ''ENOTTY'', Some ''ETXTBSY'', Some ''EFBIG'', Some ''ENOSPC'', Some ''ESPIPE'',
      Some ''EROFS'', Some ''EMLINK'', Some ''EPIPE'', Some ''EDOM'', Some ''ERANGE'',
      Some ''EDEADLK'', Some ''ENAMETOOLONG'', Some ''ENOLCK'', Some ''ENOSYS'',
      Some ''ENOTEMPTY'', Some ''ELOOP'', Some ''ERRNO_41'', Some ''ENOMSG'', Some ''EIDRM'',
      Some ''ECHRNG'', Some ''EL2NSYNC'', Some ''EL3HLT'', Some ''EL3RST'', Some ''ELNRNG'',
      Some ''EUNATCH'', Some ''ENOCSI'', Some ''EL2HLT'', Some ''EBADE'', Some ''EBADR'',
      Some ''EXFULL'', Some ''ENOANO'', Some ''EBADRQC'', Some ''EBADSLT'']"

definition errnoent_b :: "string option list" where
  "errnoent_b =
     [Some ''EBFONT'', Some ''ENOSTR'', Some ''ENODATA'', Some ''ETIME'', Some ''ENOSR'',
      Some ''ENONET'', Some ''ENOPKG'', Some ''EREMOTE'', Some ''ENOLINK'', Some ''EADV'',
      Some ''ESRMNT'', Some ''ECOMM'', Some ''EPROTO'', Some ''EMULTIHOP'', Some ''EDOTDOT'',
      Some ''EBADMSG'', Some ''EOVERFLOW'', Some ''ENOTUNIQ'', Some ''EBADFD'', Some ''EREMCHG'',
      Some ''ELIBACC'', Some ''ELIBBAD'', Some ''ELIBSCN'', Some ''ELIBMAX'', Some ''ELIBEXEC'',
      Some ''EILSEQ'', Some ''ERESTART'', Some ''ESTRPIPE'', Some ''EUSERS'', Some ''ENOTSOCK'',
      Some ''EDESTADDRREQ'', Some ''EMSGSIZE'', Some ''EPROTOTYPE'', Some ''ENOPROTOOPT'',
      Some ''EPROTONOSUPPORT'', Some ''ESOCKTNOSUPPORT'', Some ''EOPNOTSUPP'',
      Some ''EPFNOSUPPORT'', Some ''EAFNOSUPPORT'', Some ''EADDRINUSE'', Some ''EADDRNOTAVAIL'',
      Some ''ENETDOWN'', Some ''ENETUNREACH'', Some ''ENETRESET'', Some ''ECONNABORTED'',
      Some ''ECONNRESET'', Some ''ENOBUFS'', Some ''EISCONN'', Some ''ENOTCONN'',
      Some ''ESHUTDOWN'', Some ''ETOOMANYREFS'', Some ''ETIMEDOUT'', Some ''ECONNREFUSED'',
      Some ''EHOSTDOWN'', Some ''EHOSTUNREACH'', Some ''EALREADY'', Some ''EINPROGRESS'',
      Some ''ESTALE'', Some ''EUCLEAN'', Some ''ENOTNAM'', Some ''ENAVAIL'', Some ''EISNAM'',
      Some ''EREMOTEIO'', Some ''EDQUOT'', Some ''ENOMEDIUM'', Some ''EMEDIUMTYPE'',
      Some ''ECANCELED'', Some ''ENOKEY'', Some ''EKEYEXPIRED'', Some ''EKEYREVOKED'',
      Some ''EKEYREJECTED'', Some ''EOWNERDEAD'', Some ''ENOTRECOVERABLE'', Some ''ERFKILL'',
      Some ''EHWPOISON'', Some ''ERRNO_134'', Some ''ERRNO_135'', Some ''ERRNO_136'',
      Some ''ERRNO_137'', Some ''ERRNO_138'', Some ''ERRNO_139'', Some ''ERRNO_140'',
      Some ''ERRNO_141'', Some ''ERRNO_142'', Some ''ERRNO_143'', Some ''ERRNO_144'',
      Some ''ERRNO_145'', Some ''ERRNO_146'', Some ''ERRNO_147'', Some ''ERRNO_148'',
      Some ''ERRNO_149'', Some ''ERRNO_150'', Some ''ERRNO_151'', Some ''ERRNO_152'',
      Some ''ERRNO_153'', Some ''ERRNO_154'', Some ''ERRNO_155'', Some ''ERRNO_156'',
      Some ''ERRNO_157'', Some ''ERRNO_158'', Some ''ERRNO_159'', Some ''ERRNO_160'',
      Some ''ERRNO_161'', Some ''ERRNO_162'', Some ''ERRNO_163'', Some ''ERRNO_164'',
      Some ''ERRNO_165'', Some ''ERRNO_166'', Some ''ERRNO_167'', Some ''ERRNO_168'',
      Some ''ERRNO_169'', Some ''ERRNO_170'', Some ''ERRNO_171'', Some ''ERRNO_172'',
      Some ''ERRNO_173'', Some ''ERRNO_174'', Some ''ERRNO_175'', Some ''ERRNO_176'',
      Some ''ERRNO_177'', Some ''ERRNO_178'', Some ''ERRNO_179'', Some ''ERRNO_180'',
      Some ''ERRNO_181'', Some ''ERRNO_182'', Some ''ERRNO_183'', Some ''ERRNO_184'',
      Some ''ERRNO_185'', Some ''ERRNO_186'', Some ''ERRNO_187'', Some ''ERRNO_188'',
      Some ''ERRNO_189'', Some ''ERRNO_190'', Some ''ERRNO_191'', Some ''ERRNO_192'',
      Some ''ERRNO_193'', Some ''ERRNO_194'', Some ''ERRNO_195'', Some ''ERRNO_196'',
      Some ''ERRNO_197'', Some ''ERRNO_198'']"

definition errnoent_c :: "string option list" where
  "errnoent_c =
     [Some ''ERRNO_199'', Some ''ERRNO_200'', Some ''ERRNO_201'', Some ''ERRNO_202'',
      Some ''ERRNO_203'', Some ''ERRNO_204'', Some ''ERRNO_205'', Some ''ERRNO_206'',
      Some ''ERRNO_207'', Some ''ERRNO_208'', Some ''ERRNO_209'', Some ''ERRNO_210'',
      Some ''ERRNO_211'', Some ''ERRNO_212'', Some ''ERRNO_213'', Some ''ERRNO_214'',
      Some ''ERRNO_215'', Some ''ERRNO_216'', Some ''ERRNO_217'', Some ''ERRNO_218'',
      Some ''ERRNO_219'', Some ''ERRNO_220'', Some ''ERRNO_221'', Some ''ERRNO_222'',
      Some ''ERRNO_223'', Some ''ERRNO_224'', Some ''ERRNO_225'', Some ''ERRNO_226'',
      Some ''ERRNO_227'', Some ''ERRNO_228'', Some ''ERRNO_229'', Some ''ERRNO_230'',
      Some ''ERRNO_231'', Some ''ERRNO_232'', Some ''ERRNO_233'', Some ''ERRNO_234'',
      Some ''ERRNO_235'', Some ''ERRNO_236'', Some ''ERRNO_237'', Some ''ERRNO_238'',
      Some ''ERRNO_239'', Some ''ERRNO_240'', Some ''ERRNO_241'', Some ''ERRNO_242'',
      Some ''ERRNO_243'', Some ''ERRNO_244'', Some ''ERRNO_245'', Some ''ERRNO_246'',
      Some ''ERRNO_247'', Some ''ERRNO_248'', Some ''ERRNO_249'', Some ''ERRNO_250'',
      Some ''ERRNO_251'', Some ''ERRNO_252'', Some ''ERRNO_253'', Some ''ERRNO_254'',
      Some ''ERRNO_255'', Some ''ERRNO_256'', Some ''ERRNO_257'', Some ''ERRNO_258'',
      Some ''ERRNO_259'', Some ''ERRNO_260'', Some ''ERRNO_261'', Some ''ERRNO_262'',
      Some ''ERRNO_263'', Some ''ERRNO_264'', Some ''ERRNO_265'', Some ''ERRNO_266'',
      Some ''ERRNO_267'', Some ''ERRNO_268'', Some ''ERRNO_269'', Some ''ERRNO_270'',
      Some ''ERRNO_271'', Some ''ERRNO_272'', Some ''ERRNO_273'', Some ''ERRNO_274'',
      Some ''ERRNO_275'', Some ''ERRNO_276'', Some ''ERRNO_277'', Some ''ERRNO_278'',
      Some ''ERRNO_279'', Some ''ERRNO_280'', Some ''ERRNO_281'', Some ''ERRNO_282'',
      Some ''ERRNO_283'', Some ''ERRNO_284'', Some ''ERRNO_285'', Some ''ERRNO_286'',
      Some ''ERRNO_287'', Some ''ERRNO_288'', Some ''ERRNO_289'', Some ''ERRNO_290'',
      Some ''ERRNO_291'', Some ''ERRNO_292'', Some ''ERRNO_293'', Some ''ERRNO_294'',
      Some ''ERRNO_295'', Some ''ERRNO_296'', Some ''ERRNO_297'', Some ''ERRNO_298'',
      Some ''ERRNO_299'', Some ''ERRNO_300'', Some ''ERRNO_301'', Some ''ERRNO_302'',
      Some ''ERRNO_303'', Some ''ERRNO_304'', Some ''ERRNO_305'', Some ''ERRNO_306'',
      Some ''ERRNO_307'', Some ''ERRNO_308'', Some ''ERRNO_309'', Some ''ERRNO_310'',
      Some ''ERRNO_311'', Some ''ERRNO_312'', Some ''ERRNO_313'', Some ''ERRNO_314'',
      Some ''ERRNO_315'', Some ''ERRNO_316'', Some ''ERRNO_317'', Some ''ERRNO_318'',
      Some ''ERRNO_319'', Some ''ERRNO_320'', Some ''ERRNO_321'', Some ''ERRNO_322'',
      Some ''ERRNO_323'', Some ''ERRNO_324'', Some ''ERRNO_325'', Some ''ERRNO_326'',
      Some ''ERRNO_327'', Some ''ERRNO_328'', Some ''ERRNO_329'', Some ''ERRNO_330'',
      Some ''ERRNO_331'', Some ''ERRNO_332'', Some ''ERRNO_333'', Some ''ERRNO_334'',
      Some ''ERRNO_335'', Some ''ERRNO_336'', Some ''ERRNO_337'', Some ''ERRNO_338'']"

definition errnoent_d :: "string option list" where
  "errnoent_d =
     [Some ''ERRNO_339'', Some ''ERRNO_340'', Some ''ERRNO_341'', Some ''ERRNO_342'',
      Some ''ERRNO_343'', Some ''ERRNO_344'', Some ''ERRNO_345'', Some ''ERRNO_346'',
      Some ''ERRNO_347'', Some ''ERRNO_348'', Some ''ERRNO_349'', Some ''ERRNO_350'',
      Some ''ERRNO_351'', Some ''ERRNO_352'', Some ''ERRNO_353'', Some ''ERRNO_354'',
      Some ''ERRNO_355'', Some ''ERRNO_356'', Some ''ERRNO_357'', Some ''ERRNO_358'',
      Some ''ERRNO_359'', Some ''ERRNO_360'', Some ''ERRNO_361'', Some ''ERRNO_362'',
      Some ''ERRNO_363'', Some ''ERRNO_364'', Some ''ERRNO_365'', Some ''ERRNO_366'',
      Some ''ERRNO_367'', Some ''ERRNO_368'', Some ''ERRNO_369'', Some ''ERRNO_370'',
      Some ''ERRNO_371'', Some ''ERRNO_372'', Some ''ERRNO_373'', Some ''ERRNO_374'',
      Some ''ERRNO_375'', Some ''ERRNO_376'', Some ''ERRNO_377'', Some ''ERRNO_378'',
      Some ''ERRNO_379'', Some ''ERRNO_380'', Some ''ERRNO_381'', Some ''ERRNO_382'',
      Some ''ERRNO_383'', Some ''ERRNO_384'', Some ''ERRNO_385'', Some ''ERRNO_386'',
      Some ''ERRNO_387'', Some ''ERRNO_388'', Some ''ERRNO_389'', Some ''ERRNO_390'',
      Some ''ERRNO_391'', Some ''ERRNO_392'', Some ''ERRNO_393'', Some ''ERRNO_394'',
      Some ''ERRNO_395'', Some ''ERRNO_396'', Some ''ERRNO_397'', Some ''ERRNO_398'',
      Some ''ERRNO_399'', Some ''ERRNO_400'', Some ''ERRNO_401'', Some ''ERRNO_402'',
      Some ''ERRNO_403'', Some ''ERRNO_404'', Some ''ERRNO_405'', Some ''ERRNO_406'',
      Some ''ERRNO_407'', Some ''ERRNO_408'', Some ''ERRNO_409'', Some ''ERRNO_410'',
      Some ''ERRNO_411'', Some ''ERRNO_412'', Some ''ERRNO_413'', Some ''ERRNO_414'',
      Some ''ERRNO_415'', Some ''ERRNO_416'', Some ''ERRNO_417'', Some ''ERRNO_418'',
      Some ''ERRNO_419'', Some ''ERRNO_420'', Some ''ERRNO_421'', Some ''ERRNO_422'',
      Some ''ERRNO_423'', Some ''ERRNO_424'', Some ''ERRNO_425'', Some ''ERRNO_426'',
      Some ''ERRNO_427'', Some ''ERRNO_428'', Some ''ERRNO_429'', Some ''ERRNO_430'',
      Some ''ERRNO_431'', Some ''ERRNO_432'', Some ''ERRNO_433'', Some ''ERRNO_434'',
      Some ''ERRNO_435'', Some ''ERRNO_436'', Some ''ERRNO_437'', Some ''ERRNO_438'',
      Some ''ERRNO_439'', Some ''ERRNO_440'', Some ''ERRNO_441'', Some ''ERRNO_442'',
      Some ''ERRNO_443'', Some ''ERRNO_444'', Some ''ERRNO_445'', Some ''ERRNO_446'',
      Some ''ERRNO_447'', Some ''ERRNO_448'', Some ''ERRNO_449'', Some ''ERRNO_450'',
      Some ''ERRNO_451'', Some ''ERRNO_452'', Some ''ERRNO_453'', Some ''ERRNO_454'',
      Some ''ERRNO_455'', Some ''ERRNO_456'', Some ''ERRNO_457'', Some ''ERRNO_458'',
      Some ''ERRNO_459'', Some ''ERRNO_460'', Some ''ERRNO_461'', Some ''ERRNO_462'',
      Some ''ERRNO_463'', Some ''ERRNO_464'', Some ''ERRNO_465'', Some ''ERRNO_466'',
      Some ''ERRNO_467'', Some ''ERRNO_468'', Some ''ERRNO_469'', Some ''ERRNO_470'',
      Some ''ERRNO_471'', Some ''ERRNO_472'', Some ''ERRNO_473'', Some ''ERRNO_474'',
      Some ''ERRNO_475'', Some ''ERRNO_476'', Some ''ERRNO_477'', Some ''ERRNO_478'']"

definition errnoent_e :: "string option list" where
  "errnoent_e =
     [Some ''ERRNO_479'', Some ''ERRNO_480'', Some ''ERRNO_481'', Some ''ERRNO_482'',
      Some ''ERRNO_483'', Some ''ERRNO_484'', Some ''ERRNO_485'', Some ''ERRNO_486'',
      Some ''ERRNO_487'', Some ''ERRNO_488'', Some ''ERRNO_489'', Some ''ERRNO_490'',
      Some ''ERRNO_491'', Some ''ERRNO_492'', Some ''ERRNO_493'', Some ''ERRNO_494'',
      Some ''ERRNO_495'', Some ''ERRNO_496'', Some ''ERRNO_497'', Some ''ERRNO_498'',
      Some ''ERRNO_499'', Some ''ERRNO_500'', Some ''ERRNO_501'', Some ''ERRNO_502'',
      Some ''ERRNO_503'', Some ''ERRNO_504'', Some ''ERRNO_505'', Some ''ERRNO_506'',
      Some ''ERRNO_507'', Some ''ERRNO_508'', Some ''ERRNO_509'', Some ''ERRNO_510'',
      Some ''ERRNO_511'', Some ''ERESTARTSYS'', Some ''ERESTARTNOINTR'', Some ''ERESTARTNOHAND'',
      Some ''ENOIOCTLCMD'', Some ''ERESTART_RESTARTBLOCK'', Some ''EPROBE_DEFER'',
      Some ''EOPENSTALE'', Some ''ERRNO_519'', Some ''ERRNO_520'', Some ''EBADHANDLE'',
      Some ''ENOTSYNC'', Some ''EBADCOOKIE'', Some ''ENOTSUPP'', Some ''ETOOSMALL'',
      Some ''ESERVERFAULT'', Some ''EBADTYPE'', Some ''EJUKEBOX'', Some ''EIOCBQUEUED'',
      Some ''ERECALLCONFLICT'']"

definition errnoent :: "bool \<Rightarrow> string option list" where
  "errnoent powerpc =
     errnoent_a @ [Some (if powerpc then ''EDEADLOCK'' else ''ERRNO_58'')] @ errnoent_b @ errnoent_c @ errnoent_d @ errnoent_e"

lemmas errnoent_defs = errnoent_def errnoent_a_def errnoent_b_def errnoent_c_def errnoent_d_def errnoent_e_def

lemma length_errnoent [simp]: "length (errnoent powerpc) = 531"
  by (simp add: errnoent_defs)

definition signalent :: "string option list" where
  "signalent =
     [Some ''SIG_0'', Some ''SIGHUP'', Some ''SIGINT'', Some ''SIGQUIT'', Some ''SIGILL'',
      Some ''SIGTRAP'', Some ''SIGABRT'', Some ''SIGBUS'', Some ''SIGFPE'', Some ''SIGKILL'',
      Some ''SIGUSR1'', Some ''SIGSEGV'', Some ''SIGUSR2'', Some ''SIGPIPE'', Some ''SIGALRM'',
      Some ''SIGTERM'', Some ''SIGSTKFLT'', Some ''SIGCHLD'', Some ''SIGCONT'', Some ''SIGSTOP'',
      Some ''SIGTSTP'', Some ''SIGTTIN'', Some ''SIGTTOU'', Some ''SIGURG'', Some ''SIGXCPU'',
      Some ''SIGXFSZ'', Some ''SIGVTALRM'', Some ''SIGPROF'', Some ''SIGWINCH'', Some ''SIGIO'',
      Some ''SIGPWR'', Some ''SIGSYS'', Some ''SIGRTMIN'']"

definition signalent_ia64 :: "string option list" where
  "signalent_ia64 =
     [Some ''SIG_0'', Some ''SIGHUP'', Some ''SIGINT'', Some ''SIGQUIT'', Some ''SIGILL'',
      Some ''SIGTRAP'', Some ''SIGABRT'', Some ''SIGBUS'', Some ''SIGFPE'', Some ''SIGKILL'',
      Some ''SIGUSR1'', Some ''SIGSEGV'', Some ''SIGUSR2'', Some ''SIGPIPE'', Some ''SIGALRM'',
      Some ''SIGTERM'', Some ''SIGSTKFLT'', Some ''SIGCHLD'', Some ''SIGCONT'', Some ''SIGSTOP'',
      Some ''SIGTSTP'', Some ''SIGTTIN'', Some ''SIGTTOU'', Some ''SIGURG'', Some ''SIGXCPU'',
      Some ''SIGXFSZ'', Some ''SIGVTALRM'', Some ''SIGPROF'', Some ''SIGWINCH'', Some ''SIGIO'',
      Some ''SIGPWR'', Some ''SIGSYS'', Some ''SIGRT0'', Some ''SIGRT1'', Some ''SIGRT2'',
      Some ''SIGRT3'', Some ''SIGRT4'', Some ''SIGRT5'', Some ''SIGRT6'', Some ''SIGRT7'',
      Some ''SIGRT8'', Some ''SIGRT9'', Some ''SIGRT10'', Some ''SIGRT11'', Some ''SIGRT12'',
      Some ''SIGRT13'', Some ''SIGRT14'', Some ''SIGRT15'', Some ''SIGRT16'', Some ''SIGRT17'',
      Some ''SIGRT18'', Some ''SIGRT19'', Some ''SIGRT20'', Some ''SIGRT21'', Some ''SIGRT22'',
      Some ''SIGRT23'', Some ''SIGRT24'', Some ''SIGRT25'', Some ''SIGRT26'', Some ''SIGRT27'',
      Some ''SIGRT28'', Some ''SIGRT29'', Some ''SIGRT30'', Some ''SIGRT31'']"

section \<open>System calls\<close>

definition sysent_aarch64_a :: "string option list" where
  "sysent_aarch64_a =
     [Some ''io_setup'', Some ''io_destroy'', Some ''io_submit'', Some ''io_cancel'',
      Some ''io_getevents'', Some ''setxattr'', Some ''lsetxattr'', Some ''fsetxattr'',
      Some ''getxattr'', Some ''lgetxattr'', Some ''fgetxattr'', Some ''listxattr'',
      Some ''llistxattr'', Some ''flistxattr'', Some ''removexattr'', Some ''lremovexattr'',
      Some ''fremovexattr'', Some ''getcwd'', Some ''lookup_dcookie'', Some ''eventfd2'',
      Some ''epoll_create1'', Some ''epoll_ctl'', Some ''epoll_pwait'', Some ''dup'',
      Some ''dup3'', Some ''fcntl'', Some ''inotify_init1'', Some ''inotify_add_watch'',
      Some ''inotify_rm_watch'', Some ''ioctl'', Some ''ioprio_set'', Some ''ioprio_get'',
      Some ''flock'', Some ''mknodat'', Some ''mkdirat'', Some ''unlinkat'', Some ''symlinkat'',
      Some ''linkat'', Some ''renameat'', Some ''umount2'', Some ''mount'', Some ''pivot_root'',
      Some ''nfsservctl'', Some ''statfs'', Some ''fstatfs'', Some ''truncate'',
      Some ''ftruncate'', Some ''fallocate'', Some ''faccessat'', Some ''chdir'',
      Some ''fchdir'', Some ''chroot'', Some ''fchmod'', Some ''fchmodat'', Some ''fchownat'',
      Some ''fchown'', Some ''openat'', Some ''close'', Some ''vhangup'', Some ''pipe2'',
      Some ''quotactl'', Some ''getdents64'', Some ''lseek'', Some ''read'', Some ''write'',
      Some ''readv'', Some ''writev'', Some ''pread64'', Some ''pwrite64'', Some ''preadv'',
      Some ''pwritev'', Some ''sendfile'', Some ''pselect6'', Some ''ppoll'', Some ''signalfd4'',
      Some ''vmsplice'', Some ''splice'', Some ''tee'', Some ''readlinkat'', Some ''newfstatat'',
      Some ''fstat'', Some ''sync'', Some ''fsync'', Some ''fdatasync'',
      Some ''sync_file_range'', Some ''timerfd_create'', Some ''timerfd_settime'',
      Some ''timerfd_gettime'', Some ''utimensat'', Some ''acct'', Some ''capget'',
      Some ''capset'', Some ''personality'', Some ''exit'', Some ''exit_group'', Some ''waitid'',
      Some ''set_tid_address'', Some ''unshare'', Some ''futex'', Some ''set_robust_list'',
      Some ''get_robust_list'', Some ''nanosleep'', Some ''getitimer'', Some ''setitimer'',
      Some ''kexec_load'', Some ''init_module'', Some ''delete_module'', Some ''timer_create'',
      Some ''timer_gettime'', Some ''timer_getoverrun'', Some ''timer_settime'',
      Some ''timer_delete'', Some ''clock_settime'', Some ''clock_gettime'',
      Some ''clock_getres'', Some ''clock_nanosleep'', Some ''syslog'', Some ''ptrace'',
      Some ''sched_setparam'', Some ''sched_setscheduler'', Some ''sched_getscheduler'',
      Some ''sched_getparam'', Some ''sched_setaffinity'', Some ''sched_getaffinity'',
      Some ''sched_yield'', Some ''sched_get_priority_max'', Some ''sched_get_priority_min'',
      Some ''sched_rr_get_interval'', Some ''restart_syscall'', Some ''kill'', Some ''tkill'',
      Some ''tgkill'', Some ''sigaltstack'', Some ''rt_sigsuspend'', Some ''rt_sigaction'',
      Some ''rt_sigprocmask'', Some ''rt_sigpending'', Some ''rt_sigtimedwait'',
      Some ''rt_sigqueueinfo'', Some ''rt_sigreturn'', Some ''setpriority'',
      Some ''getpriority'', Some ''reboot'', Some ''setregid'', Some ''setgid'']"

definition sysent_aarch64_b :: "string option list" where
  "sysent_aarch64_b =
     [Some ''setreuid'', Some ''setuid'', Some ''setresuid'', Some ''getresuid'',
      Some ''setresgid'', Some ''getresgid'', Some ''setfsuid'', Some ''setfsgid'',
      Some ''times'', Some ''setpgid'', Some ''getpgid'', Some ''getsid'', Some ''setsid'',
      Some ''getgroups'', Some ''setgroups'', Some ''uname'', Some ''sethostname'',
      Some ''setdomainname'', Some ''getrlimit'', Some ''setrlimit'', Some ''getrusage'',
      Some ''umask'', Some ''prctl'', Some ''getcpu'', Some ''gettimeofday'',
      Some ''settimeofday'', Some ''adjtimex'', Some ''getpid'', Some ''getppid'',
      Some ''getuid'', Some ''geteuid'', Some ''getgid'', Some ''getegid'', Some ''gettid'',
      Some ''sysinfo'', Some ''mq_open'', Some ''mq_unlink'', Some ''mq_timedsend'',
      Some ''mq_timedreceive'', Some ''mq_notify'', Some ''mq_getsetattr'', Some ''msgget'',
      Some ''msgctl'', Some ''msgrcv'', Some ''msgsnd'', Some ''semget'', Some ''semctl'',
      Some ''semtimedop'', Some ''semop'', Some ''shmget'', Some ''shmctl'', Some ''shmat'',
      Some ''shmdt'', Some ''socket'', Some ''socketpair'', Some ''bind'', Some ''listen'',
      Some ''accept'', Some ''connect'', Some ''getsockname'', Some ''getpeername'',
      Some ''sendto'', Some ''recvfrom'', Some ''setsockopt'', Some ''getsockopt'',
      Some ''shutdown'', Some ''sendmsg'', Some ''recvmsg'', Some ''readahead'', Some ''brk'',
      Some ''munmap'', Some ''mremap'', Some ''add_key'', Some ''request_key'', Some ''keyctl'',
      Some ''clone'', Some ''execve'', Some ''mmap'', Some ''fadvise64'', Some ''swapon'',
      Some ''swapoff'', Some ''mprotect'', Some ''msync'', Some ''mlock'', Some ''munlock'',
      Some ''mlockall'', Some ''munlockall'', Some ''mincore'', Some ''madvise'',
      Some ''remap_file_pages'', Some ''mbind'', Some ''get_mempolicy'', Some ''set_mempolicy'',
      Some ''migrate_pages'', Some ''move_pages'', Some ''rt_tgsigqueueinfo'',
      Some ''perf_event_open'', Some ''accept4'', Some ''recvmmsg'', None, None, None, None,
      None, None, None, None, None, None, None, None, None, None, None, None, Some ''wait4'',
      Some ''prlimit64'', Some ''fanotify_init'', Some ''fanotify_mark'',
      Some ''name_to_handle_at'', Some ''open_by_handle_at'', Some ''clock_adjtime'',
      Some ''syncfs'', Some ''setns'', Some ''sendmmsg'', Some ''process_vm_readv'',
      Some ''process_vm_writev'', Some ''kcmp'', Some ''finit_module'', Some ''sched_setattr'',
      Some ''sched_getattr'', Some ''renameat2'', Some ''seccomp'', Some ''getrandom'',
      Some ''memfd_create'', Some ''bpf'', Some ''execveat'', Some ''userfaultfd'',
      Some ''membarrier'', Some ''mlock2'', Some ''copy_file_range'', Some ''preadv2'',
      Some ''pwritev2'', Some ''pkey_mprotect'']"

definition sysent_aarch64_c :: "string option list" where
  "sysent_aarch64_c =
     [Some ''pkey_alloc'', Some ''pkey_free'', Some ''statx'', Some ''io_pgetevents'',
      Some ''rseq'', Some ''kexec_file_load'', None, None, None, None, None, None, None, None,
      None, None, None, None, None, None, None, None, None, None, None, None, None, None, None,
      None, None, None, None, None, None, None, None, None, None, None, None, None, None, None,
      None, None, None, None, None, None, None, None, None, None, None, None, None, None, None,
      None, None, None, None, None, None, None, None, None, None, None, None, None, None, None,
      None, None, None, None, None, None, None, None, None, None, None, None, None, None, None,
      None, None, None, None, None, None, None, None, None, None, None, None, None, None, None,
      None, None, None, None, None, None, None, None, None, None, None, None, None, None, None,
      None, None, None, None, None, None, None, None, None, None, None, None, None, None, None,
      None, Some ''pidfd_send_signal'', Some ''io_uring_setup'', Some ''io_uring_enter'',
      Some ''io_uring_register'', Some ''open_tree'', Some ''move_mount'', Some ''fsopen'',
      Some ''fsconfig'', Some ''fsmount'']"

definition sysent_aarch64_d :: "string option list" where
  "sysent_aarch64_d =
     [Some ''fspick'', Some ''pidfd_open'', Some ''clone3'', Some ''close_range'',
      Some ''openat2'', Some ''pidfd_getfd'', Some ''faccessat2'', Some ''process_madvise'',
      Some ''epoll_pwait2'', Some ''mount_setattr'']"

definition sysent_aarch64 :: "string option list" where
  "sysent_aarch64 = sysent_aarch64_a @ sysent_aarch64_b @ sysent_aarch64_c @ sysent_aarch64_d"

lemmas sysent_aarch64_defs = sysent_aarch64_def sysent_aarch64_a_def sysent_aarch64_b_def sysent_aarch64_c_def sysent_aarch64_d_def

lemma length_sysent_aarch64 [simp]: "length sysent_aarch64 = 443"
  by (simp add: sysent_aarch64_defs)

definition sysent_arm_a :: "string option list" where
  "sysent_arm_a =
     [Some ''restart_syscall'', Some ''exit'', Some ''fork'', Some ''read'', Some ''write'',
      Some ''open'', Some ''close'', Some ''waitpid'', Some ''creat'', Some ''link'',
      Some ''unlink'', Some ''execve'', Some ''chdir'', Some ''time'', Some ''mknod'',
      Some ''chmod'', Some ''lchown'', Some ''break'', Some ''oldstat'', Some ''lseek'',
      Some ''getpid'', Some ''mount'', Some ''oldumount'', Some ''setuid'', Some ''getuid'',
      Some ''stime'', Some ''ptrace'', Some ''alarm'', Some ''oldfstat'', Some ''pause'',
      Some ''utime'', Some ''stty'', Some ''gtty'', Some ''access'', Some ''nice'',
      Some ''ftime'', Some ''sync'', Some ''kill'', Some ''rename'', Some ''mkdir'',
      Some ''rmdir'', Some ''dup'', Some ''pipe'', Some ''times'', Some ''prof'', Some ''brk'',
      Some ''setgid'', Some ''getgid'', Some ''signal'', Some ''geteuid'', Some ''getegid'',
      Some ''acct'', Some ''umount'', Some ''lock'', Some ''ioctl'', Some ''fcntl'',
      Some ''mpx'', Some ''setpgid'', Some ''ulimit'', Some ''oldolduname'', Some ''umask'',
      Some ''chroot'', Some ''ustat'', Some ''dup2'', Some ''getppid'', Some ''getpgrp'',
      Some ''setsid'', Some ''sigaction'', Some ''siggetmask'', Some ''sigsetmask'',
      Some ''setreuid'', Some ''setregid'', Some ''sigsuspend'', Some ''sigpending'',
      Some ''sethostname'', Some ''setrlimit'', Some ''old_getrlimit'', Some ''getrusage'',
      Some ''gettimeofday'', Some ''settimeofday'', Some ''getgroups'', Some ''setgroups'',
      Some ''oldselect'', Some ''symlink'', Some ''oldlstat'', Some ''readlink'',
      Some ''uselib'', Some ''swapon'', Some ''reboot'', Some ''readdir'', Some ''old_mmap'',
      Some ''munmap'', Some ''truncate'', Some ''ftruncate'', Some ''fchmod'', Some ''fchown'',
      Some ''getpriority'', Some ''setpriority'', Some ''profil'', Some ''statfs'',
      Some ''fstatfs'', Some ''ioperm'', Some ''socketcall'', Some ''syslog'',
      Some ''setitimer'', Some ''getitimer'', Some ''stat'', Some ''lstat'', Some ''fstat'',
      Some ''olduname'', Some ''iopl'', Some ''vhangup'', Some ''idle'', Some ''syscall'',
      Some ''wait4'', Some ''swapoff'', Some ''sysinfo'', Some ''ipc'', Some ''fsync'',
      Some ''sigreturn'', Some ''clone'', Some ''setdomainname'', Some ''uname'',
      Some ''modify_ldt'', Some ''adjtimex'', Some ''mprotect'', Some ''sigprocmask'',
      Some ''create_module'', Some ''init_module'', Some ''delete_module'',
      Some ''get_kernel_syms'', Some ''quotactl'', Some ''getpgid'', Some ''fchdir'',
      Some ''bdflush'', Some ''sysfs'', Some ''personality'', Some ''afs_syscall'',
      Some ''setfsuid'', Some ''setfsgid'', Some ''_llseek'', Some ''getdents'', Some ''select'',
      Some ''flock'', Some ''msync'']"

definition sysent_arm_b :: "string option list" where
  "sysent_arm_b =
     [Some ''readv'', Some ''writev'', Some ''getsid'', Some ''fdatasync'', Some ''_sysctl'',
      Some ''mlock'', Some ''munlock'', Some ''mlockall'', Some ''munlockall'',
      Some ''sched_setparam'', Some ''sched_getparam'', Some ''sched_setscheduler'',
      Some ''sched_getscheduler'', Some ''sched_yield'', Some ''sched_get_priority_max'',
      Some ''sched_get_priority_min'', Some ''sched_rr_get_interval'', Some ''nanosleep'',
      Some ''mremap'', Some ''setresuid'', Some ''getresuid'', Some ''vm86'',
      Some ''query_module'', Some ''poll'', Some ''nfsservctl'', Some ''setresgid'',
      Some ''getresgid'', Some ''prctl'', Some ''rt_sigreturn'', Some ''rt_sigaction'',
      Some ''rt_sigprocmask'', Some ''rt_sigpending'', Some ''rt_sigtimedwait'',
      Some ''rt_sigqueueinfo'', Some ''rt_sigsuspend'', Some ''pread'', Some ''pwrite'',
      Some ''chown'', Some ''getcwd'', Some ''capget'', Some ''capset'', Some ''sigaltstack'',
      Some ''sendfile'', Some ''getpmsg'', Some ''putpmsg'', Some ''vfork'', Some ''getrlimit'',
      Some ''mmap2'', Some ''truncate64'', Some ''ftruncate64'', Some ''stat64'',
      Some ''lstat64'', Some ''fstat64'', Some ''lchown32'', Some ''getuid32'',
      Some ''getgid32'', Some ''geteuid32'', Some ''getegid32'', Some ''setreuid32'',
      Some ''setregid32'', Some ''getgroups32'', Some ''setgroups32'', Some ''fchown32'',
      Some ''setresuid32'', Some ''getresuid32'', Some ''setresgid32'', Some ''getresgid32'',
      Some ''chown32'', Some ''setuid32'', Some ''setgid32'', Some ''setfsuid32'',
      Some ''setfsgid32'', Some ''getdents64'', Some ''pivot_root'', Some ''mincore'',
      Some ''madvise'', Some ''fcntl64'', Some ''SYS_222'', Some ''SYS_223'', Some ''gettid'',
      Some ''readahead'', Some ''setxattr'', Some ''lsetxattr'', Some ''fsetxattr'',
      Some ''getxattr'', Some ''lgetxattr'', Some ''fgetxattr'', Some ''listxattr'',
      Some ''llistxattr'', Some ''flistxattr'', Some ''removexattr'', Some ''lremovexattr'',
      Some ''fremovexattr'', Some ''tkill'', Some ''sendfile64'', Some ''futex'',
      Some ''sched_setaffinity'', Some ''sched_getaffinity'', Some ''io_setup'',
      Some ''io_destroy'', Some ''io_getevents'', Some ''io_submit'', Some ''io_cancel'',
      Some ''exit_group'', Some ''lookup_dcookie'', Some ''epoll_create'', Some ''epoll_ctl'',
      Some ''epoll_wait'', Some ''remap_file_pages'', Some ''SYS_254'', Some ''SYS_255'',
      Some ''set_tid_address'', Some ''timer_create'', Some ''timer_settime'',
      Some ''timer_gettime'', Some ''timer_getoverrun'', Some ''timer_delete'',
      Some ''clock_settime'', Some ''clock_gettime'', Some ''clock_getres'',
      Some ''clock_nanosleep'', Some ''statfs64'', Some ''fstatfs64'', Some ''tgkill'',
      Some ''utimes'', Some ''fadvise64_64'', Some ''pciconfig_iobase'', Some ''pciconfig_read'',
      Some ''pciconfig_write'', Some ''mq_open'', Some ''mq_unlink'', Some ''mq_timedsend'',
      Some ''mq_timedreceive'', Some ''mq_notify'', Some ''mq_getsetattr'', Some ''waitid'',
      Some ''socket'', Some ''bind'', Some ''connect'', Some ''listen'', Some ''accept'',
      Some ''getsockname'', Some ''getpeername'', Some ''socketpair'', Some ''send'']"

definition sysent_arm_c :: "string option list" where
  "sysent_arm_c =
     [Some ''sendto'', Some ''recv'', Some ''recvfrom'', Some ''shutdown'', Some ''setsockopt'',
      Some ''getsockopt'', Some ''sendmsg'', Some ''recvmsg'', Some ''semop'', Some ''semget'',
      Some ''semctl'', Some ''msgsnd'', Some ''msgrcv'', Some ''msgget'', Some ''msgctl'',
      Some ''shmat'', Some ''shmdt'', Some ''shmget'', Some ''shmctl'', Some ''add_key'',
      Some ''request_key'', Some ''keyctl'', Some ''semtimedop'', Some ''vserver'',
      Some ''ioprio_set'', Some ''ioprio_get'', Some ''inotify_init'',
      Some ''inotify_add_watch'', Some ''inotify_rm_watch'', Some ''mbind'',
      Some ''set_mempolicy'', Some ''get_mempolicy'', Some ''openat'', Some ''mkdirat'',
      Some ''mknodat'', Some ''fchownat'', Some ''futimesat'', Some ''newfstatat'',
      Some ''unlinkat'', Some ''renameat'', Some ''linkat'', Some ''symlinkat'',
      Some ''readlinkat'', Some ''fchmodat'', Some ''faccessat'', Some ''PSELECT6'',
      Some ''ppoll'', Some ''unshare'', Some ''set_robust_list'', Some ''get_robust_list'',
      Some ''splice'', Some ''SYS_341'', Some ''tee'', Some ''vmsplice'', Some ''move_pages'',
      Some ''getcpu'', Some ''epoll_pwait'', Some ''kexec_load'', Some ''utimensat'',
      Some ''signalfd'', Some ''timerfd'', Some ''eventfd'', Some ''fallocate'',
      Some ''timerfd_settime'', Some ''timerfd_gettime'', Some ''signalfd4'', Some ''eventfd2'',
      Some ''epoll_create1'', Some ''dup3'', Some ''pipe2'', Some ''inotify_init1'',
      Some ''preadv'', Some ''pwritev'', Some ''rt_tgsigqueueinfo'', Some ''perf_event_open'',
      Some ''recvmmsg'', Some ''accept4'', Some ''fanotify_init'', Some ''fanotify_mark'',
      Some ''prlimit64'', Some ''name_to_handle_at'', Some ''open_by_handle_at'',
      Some ''clock_adjtime'', Some ''syncfs'', Some ''sendmmsg'', Some ''setns'',
      Some ''process_vm_readv'', Some ''process_vm_writev'', Some ''kcmp'',
      Some ''finit_module'', Some ''sched_setattr'', Some ''sched_getattr'', Some ''renameat2'',
      Some ''seccomp'', Some ''getrandom'', Some ''memfd_create'', Some ''bpf'',
      Some ''execveat'', Some ''cmpxchg'', None, Some ''breakpoint'', Some ''cacheflush'',
      Some ''usr26'', Some ''usr32'', Some ''set_tls'']"

definition sysent_arm :: "string option list" where
  "sysent_arm = sysent_arm_a @ sysent_arm_b @ sysent_arm_c"

lemmas sysent_arm_defs = sysent_arm_def sysent_arm_a_def sysent_arm_b_def sysent_arm_c_def

lemma length_sysent_arm [simp]: "length sysent_arm = 395"
  by (simp add: sysent_arm_defs)

definition sysent_i386_a :: "string option list" where
  "sysent_i386_a =
     [Some ''restart_syscall'', Some ''_exit'', Some ''fork'', Some ''read'', Some ''write'',
      Some ''open'', Some ''close'', Some ''waitpid'', Some ''creat'', Some ''link'',
      Some ''unlink'', Some ''execve'', Some ''chdir'', Some ''time'', Some ''mknod'',
      Some ''chmod'', Some ''lchown'', Some ''break'', Some ''oldstat'', Some ''lseek'',
      Some ''getpid'', Some ''mount'', Some ''oldumount'', Some ''setuid'', Some ''getuid'',
      Some ''stime'', Some ''ptrace'', Some ''alarm'', Some ''oldfstat'', Some ''pause'',
      Some ''utime'', Some ''stty'', Some ''gtty'', Some ''access'', Some ''nice'',
      Some ''ftime'', Some ''sync'', Some ''kill'', Some ''rename'', Some ''mkdir'',
      Some ''rmdir'', Some ''dup'', Some ''pipe'', Some ''times'', Some ''prof'', Some ''brk'',
      Some ''setgid'', Some ''getgid'', Some ''signal'', Some ''geteuid'', Some ''getegid'',
      Some ''acct'', Some ''umount'', Some ''lock'', Some ''ioctl'', Some ''fcntl'',
      Some ''mpx'', Some ''setpgid'', Some ''ulimit'', Some ''oldolduname'', Some ''umask'',
      Some ''chroot'', Some ''ustat'', Some ''dup2'', Some ''getppid'', Some ''getpgrp'',
      Some ''setsid'', Some ''sigaction'', Some ''siggetmask'', Some ''sigsetmask'',
      Some ''setreuid'', Some ''setregid'', Some ''sigsuspend'', Some ''sigpending'',
      Some ''sethostname'', Some ''setrlimit'', Some ''old_getrlimit'', Some ''getrusage'',
      Some ''gettimeofday'', Some ''settimeofday'', Some ''getgroups'', Some ''setgroups'',
      Some ''oldselect'', Some ''symlink'', Some ''oldlstat'', Some ''readlink'',
      Some ''uselib'', Some ''swapon'', Some ''reboot'', Some ''readdir'', Some ''old_mmap'',
      Some ''munmap'', Some ''truncate'', Some ''ftruncate'', Some ''fchmod'', Some ''fchown'',
      Some ''getpriority'', Some ''setpriority'', Some ''profil'', Some ''statfs'',
      Some ''fstatfs'', Some ''ioperm'', Some ''socketcall'', Some ''syslog'',
      Some ''setitimer'', Some ''getitimer'', Some ''stat'', Some ''lstat'', Some ''fstat'',
      Some ''olduname'', Some ''iopl'', Some ''vhangup'', Some ''idle'', Some ''vm86old'',
      Some ''wait4'', Some ''swapoff'', Some ''sysinfo'', Some ''ipc'', Some ''fsync'',
      Some ''sigreturn'', Some ''clone'', Some ''setdomainname'', Some ''uname'',
      Some ''modify_ldt'', Some ''adjtimex'', Some ''mprotect'', Some ''sigprocmask'',
      Some ''create_module'', Some ''init_module'', Some ''delete_module'',
      Some ''get_kernel_syms'', Some ''quotactl'', Some ''getpgid'', Some ''fchdir'',
      Some ''bdflush'', Some ''sysfs'', Some ''personality'', Some ''afs_syscall'',
      Some ''setfsuid'', Some ''setfsgid'', Some ''_llseek'', Some ''getdents'', Some ''select'',
      Some ''flock'', Some ''msync'']"

definition sysent_i386_b :: "string option list" where
  "sysent_i386_b =
     [Some ''readv'', Some ''writev'', Some ''getsid'', Some ''fdatasync'', Some ''_sysctl'',
      Some ''mlock'', Some ''munlock'', Some ''mlockall'', Some ''munlockall'',
      Some ''sched_setparam'', Some ''sched_getparam'', Some ''sched_setscheduler'',
      Some ''sched_getscheduler'', Some ''sched_yield'', Some ''sched_get_priority_max'',
      Some ''sched_get_priority_min'', Some ''sched_rr_get_interval'', Some ''nanosleep'',
      Some ''mremap'', Some ''setresuid'', Some ''getresuid'', Some ''vm86'',
      Some ''query_module'', Some ''poll'', Some ''nfsservctl'', Some ''setresgid'',
      Some ''getresgid'', Some ''prctl'', Some ''rt_sigreturn'', Some ''rt_sigaction'',
      Some ''rt_sigprocmask'', Some ''rt_sigpending'', Some ''rt_sigtimedwait'',
      Some ''rt_sigqueueinfo'', Some ''rt_sigsuspend'', Some ''pread64'', Some ''pwrite64'',
      Some ''chown'', Some ''getcwd'', Some ''capget'', Some ''capset'', Some ''sigaltstack'',
      Some ''sendfile'', Some ''getpmsg'', Some ''putpmsg'', Some ''vfork'', Some ''getrlimit'',
      Some ''mmap2'', Some ''truncate64'', Some ''ftruncate64'', Some ''stat64'',
      Some ''lstat64'', Some ''fstat64'', Some ''lchown32'', Some ''getuid32'',
      Some ''getgid32'', Some ''geteuid32'', Some ''getegid32'', Some ''setreuid32'',
      Some ''setregid32'', Some ''getgroups32'', Some ''setgroups32'', Some ''fchown32'',
      Some ''setresuid32'', Some ''getresuid32'', Some ''setresgid32'', Some ''getresgid32'',
      Some ''chown32'', Some ''setuid32'', Some ''setgid32'', Some ''setfsuid32'',
      Some ''setfsgid32'', Some ''pivot_root'', Some ''mincore'', Some ''madvise'',
      Some ''getdents64'', Some ''fcntl64'', Some ''SYS_222'', Some ''SYS_223'', Some ''gettid'',
      Some ''readahead'', Some ''setxattr'', Some ''lsetxattr'', Some ''fsetxattr'',
      Some ''getxattr'', Some ''lgetxattr'', Some ''fgetxattr'', Some ''listxattr'',
      Some ''llistxattr'', Some ''flistxattr'', Some ''removexattr'', Some ''lremovexattr'',
      Some ''fremovexattr'', Some ''tkill'', Some ''sendfile64'', Some ''futex'',
      Some ''sched_setaffinity'', Some ''sched_getaffinity'', Some ''set_thread_area'',
      Some ''get_thread_area'', Some ''io_setup'', Some ''io_destroy'', Some ''io_getevents'',
      Some ''io_submit'', Some ''io_cancel'', Some ''fadvise64'', Some ''SYS_251'',
      Some ''exit_group'', Some ''lookup_dcookie'', Some ''epoll_create'', Some ''epoll_ctl'',
      Some ''epoll_wait'', Some ''remap_file_pages'', Some ''set_tid_address'',
      Some ''timer_create'', Some ''timer_settime'', Some ''timer_gettime'',
      Some ''timer_getoverrun'', Some ''timer_delete'', Some ''clock_settime'',
      Some ''clock_gettime'', Some ''clock_getres'', Some ''clock_nanosleep'', Some ''statfs64'',
      Some ''fstatfs64'', Some ''tgkill'', Some ''utimes'', Some ''fadvise64_64'',
      Some ''vserver'', Some ''mbind'', Some ''get_mempolicy'', Some ''set_mempolicy'',
      Some ''mq_open'', Some ''mq_unlink'', Some ''mq_timedsend'', Some ''mq_timedreceive'',
      Some ''mq_notify'', Some ''mq_getsetattr'', Some ''sys_kexec_load'', Some ''waitid'',
      Some ''SYS_285'', Some ''add_key'', Some ''request_key'', Some ''keyctl'',
      Some ''ioprio_set'']"

definition sysent_i386_c :: "string option list" where
  "sysent_i386_c =
     [Some ''ioprio_get'', Some ''inotify_init'', Some ''inotify_add_watch'',
      Some ''inotify_rm_watch'', Some ''migrate_pages'', Some ''openat'', Some ''mkdirat'',
      Some ''mknodat'', Some ''fchownat'', Some ''futimesat'', Some ''fstatat64'',
      Some ''unlinkat'', Some ''renameat'', Some ''linkat'', Some ''symlinkat'',
      Some ''readlinkat'', Some ''fchmodat'', Some ''faccessat'', Some ''pselect6'',
      Some ''ppoll'', Some ''unshare'', Some ''set_robust_list'', Some ''get_robust_list'',
      Some ''splice'', Some ''sync_file_range'', Some ''tee'', Some ''vmsplice'',
      Some ''move_pages'', Some ''getcpu'', Some ''epoll_pwait'', Some ''utimensat'',
      Some ''signalfd'', Some ''timerfd_create'', Some ''eventfd'', Some ''fallocate'',
      Some ''timerfd_settime'', Some ''timerfd_gettime'', Some ''signalfd4'', Some ''eventfd2'',
      Some ''epoll_create1'', Some ''dup3'', Some ''pipe2'', Some ''inotify_init1'',
      Some ''preadv'', Some ''pwritev'', Some ''rt_tgsigqueueinfo'', Some ''perf_event_open'',
      Some ''recvmmsg'', Some ''fanotify_init'', Some ''fanotify_mark'', Some ''prlimit64'',
      Some ''name_to_handle_at'', Some ''open_by_handle_at'', Some ''clock_adjtime'',
      Some ''syncfs'', Some ''sendmmsg'', Some ''setns'', Some ''process_vm_readv'',
      Some ''process_vm_writev'', Some ''kcmp'', Some ''finit_module'', Some ''sched_setattr'',
      Some ''sched_getattr'', Some ''renameat2'', Some ''seccomp'', Some ''getrandom'',
      Some ''memfd_create'', Some ''bpf'', Some ''execveat'', Some ''socket'',
      Some ''socketpair'', Some ''bind'', Some ''connect'', Some ''listen'', Some ''accept4'',
      Some ''getsockopt'', Some ''setsockopt'', Some ''getsockname'', Some ''getpeername'',
      Some ''sendto'', Some ''sendmsg'', Some ''recvfrom'', Some ''recvmsg'', Some ''shutdown'',
      Some ''userfaultfd'', Some ''membarrier'', Some ''mlock2'', Some ''copy_file_range'',
      Some ''preadv2'', Some ''pwritev2'', Some ''pkey_mprotect'', Some ''pkey_alloc'',
      Some ''pkey_free'', Some ''statx'', Some ''arch_prctl'', Some ''io_pgetevents'',
      Some ''rseq'', Some ''SYS_387'', Some ''SYS_388'', Some ''SYS_389'', Some ''SYS_390'',
      Some ''SYS_391'', Some ''SYS_392'', Some ''semget'', Some ''semctl'', Some ''shmget'',
      Some ''shmctl'', Some ''shmat'', Some ''shmdt'', Some ''msgget'', Some ''msgsnd'',
      Some ''msgrcv'', Some ''msgctl'', Some ''clock_gettime64'', Some ''clock_settime64'',
      Some ''clock_adjtime64'', Some ''clock_getres_time64'', Some ''clock_nanosleep_time64'',
      Some ''timer_gettime64'', Some ''timer_settime64'', Some ''timerfd_gettime64'',
      Some ''timerfd_settime64'', Some ''utimensat_time64'', Some ''pselect6_time64'',
      Some ''ppoll_time64'', Some ''SYS_415'', Some ''io_pgetevents_time64'',
      Some ''recvmmsg_time64'', Some ''mq_timedsend_time64'', Some ''mq_timedreceive_time64'',
      Some ''semtimedop_time64'', Some ''rt_sigtimedwait_time64'', Some ''futex_time64'',
      Some ''sched_rr_get_interval_time64'', Some ''pidfd_send_signal'', Some ''io_uring_setup'',
      Some ''io_uring_enter'', Some ''io_uring_register'', Some ''open_tree'',
      Some ''move_mount'', Some ''fsopen'', Some ''fsconfig'', Some ''fsmount'', Some ''fspick'',
      Some ''pidfd_open'']"

definition sysent_i386_d :: "string option list" where
  "sysent_i386_d =
     [Some ''clone3'', Some ''close_range'', Some ''openat2'', Some ''pidfd_getfd'',
      Some ''faccessat2'', Some ''process_madvise'', Some ''epoll_pwait2'']"

definition sysent_i386 :: "string option list" where
  "sysent_i386 = sysent_i386_a @ sysent_i386_b @ sysent_i386_c @ sysent_i386_d"

lemmas sysent_i386_defs = sysent_i386_def sysent_i386_a_def sysent_i386_b_def sysent_i386_c_def sysent_i386_d_def

lemma length_sysent_i386 [simp]: "length sysent_i386 = 442"
  by (simp add: sysent_i386_defs)

definition sysent_ia64_a :: "string option list" where
  "sysent_ia64_a =
     [Some ''ni_syscall'', Some ''exit'', Some ''read'', Some ''write'', Some ''open'',
      Some ''close'', Some ''creat'', Some ''link'', Some ''unlink'', Some ''execve'',
      Some ''chdir'', Some ''fchdir'', Some ''utimes'', Some ''mknod'', Some ''chmod'',
      Some ''chown'', Some ''lseek'', Some ''getpid'', Some ''getppid'', Some ''mount'',
      Some ''umount'', Some ''setuid'', Some ''getuid'', Some ''geteuid'', Some ''ptrace'',
      Some ''access'', Some ''sync'', Some ''fsync'', Some ''fdatasync'', Some ''kill'',
      Some ''rename'', Some ''mkdir'', Some ''rmdir'', Some ''dup'', Some ''pipe'',
      Some ''times'', Some ''brk'', Some ''setgid'', Some ''getgid'', Some ''getegid'',
      Some ''acct'', Some ''ioctl'', Some ''fcntl'', Some ''umask'', Some ''chroot'',
      Some ''ustat'', Some ''dup2'', Some ''setreuid'', Some ''setregid'', Some ''getresuid'',
      Some ''setresuid'', Some ''getresgid'', Some ''setresgid'', Some ''getgroups'',
      Some ''setgroups'', Some ''getpgid'', Some ''setpgid'', Some ''setsid'', Some ''getsid'',
      Some ''sethostname'', Some ''setrlimit'', Some ''getrlimit'', Some ''getrusage'',
      Some ''gettimeofday'', Some ''settimeofday'', Some ''select'', Some ''poll'',
      Some ''symlink'', Some ''readlink'', Some ''uselib'', Some ''swapon'', Some ''swapoff'',
      Some ''reboot'', Some ''truncate'', Some ''ftruncate'', Some ''fchmod'', Some ''fchown'',
      Some ''getpriority'', Some ''setpriority'', Some ''statfs'', Some ''fstatfs'',
      Some ''gettid'', Some ''semget'', Some ''semop'', Some ''semctl'', Some ''msgget'',
      Some ''msgsnd'', Some ''msgrcv'', Some ''msgctl'', Some ''shmget'', Some ''shmat'',
      Some ''shmdt'', Some ''shmctl'', Some ''syslog'', Some ''setitimer'', Some ''getitimer'',
      Some ''stat'', Some ''lstat'', Some ''fstat'', Some ''vhangup'', Some ''lchown'',
      Some ''vm86'', Some ''wait4'', Some ''sysinfo'', Some ''clone'', Some ''setdomainname'',
      Some ''uname'', Some ''adjtimex'', Some ''create_module'', Some ''init_module'',
      Some ''delete_module'', Some ''get_kernel_syms'', Some ''query_module'', Some ''quotactl'',
      Some ''bdflush'', Some ''sysfs'', Some ''personality'', Some ''afs_syscall'',
      Some ''setfsuid'', Some ''setfsgid'', Some ''getdents'', Some ''flock'', Some ''readv'',
      Some ''writev'', Some ''pread'', Some ''pwrite'', Some ''_sysctl'', Some ''mmap'',
      Some ''munmap'', Some ''mlock'', Some ''mlockall'', Some ''mprotect'', Some ''mremap'',
      Some ''msync'', Some ''munlock'', Some ''munlockall'', Some ''sched_getparam'',
      Some ''sched_setparam'', Some ''sched_getscheduler'', Some ''sched_setscheduler'',
      Some ''sched_yield'', Some ''sched_get_priority_max'', Some ''sched_get_priority_min'',
      Some ''sched_rr_get_interval'', Some ''nanosleep'']"

definition sysent_ia64_b :: "string option list" where
  "sysent_ia64_b =
     [Some ''nfsservctl'', Some ''prctl'', Some ''getpagesize'', Some ''mmap2'',
      Some ''pciconfig_read'', Some ''pciconfig_write'', Some ''perfmonctl'',
      Some ''sigaltstack'', Some ''rt_sigaction'', Some ''rt_sigpending'',
      Some ''rt_sigprocmask'', Some ''rt_sigqueueinfo'', Some ''rt_sigreturn'',
      Some ''rt_sigsuspend'', Some ''rt_sigtimedwait'', Some ''getcwd'', Some ''capget'',
      Some ''capset'', Some ''sendfile'', Some ''getpmsg'', Some ''putpmsg'', Some ''socket'',
      Some ''bind'', Some ''connect'', Some ''listen'', Some ''accept'', Some ''getsockname'',
      Some ''getpeername'', Some ''socketpair'', Some ''send'', Some ''sendto'', Some ''recv'',
      Some ''recvfrom'', Some ''shutdown'', Some ''setsockopt'', Some ''getsockopt'',
      Some ''sendmsg'', Some ''recvmsg'', Some ''pivot_root'', Some ''mincore'',
      Some ''madvise'', Some ''stat'', Some ''lstat'', Some ''fstat'', Some ''clone2'',
      Some ''getdents64'', Some ''getunwind'', Some ''readahead'', Some ''setxattr'',
      Some ''lsetxattr'', Some ''fsetxattr'', Some ''getxattr'', Some ''lgetxattr'',
      Some ''fgetxattr'', Some ''listxattr'', Some ''llistxattr'', Some ''flistxattr'',
      Some ''removexattr'', Some ''lremovexattr'', Some ''fremovexattr'', Some ''tkill'',
      Some ''futex'', Some ''sched_setaffinity'', Some ''sched_getaffinity'',
      Some ''set_tid_address'', Some ''fadvise64'', Some ''tgkill'', Some ''exit_group'',
      Some ''lookup_dcookie'', Some ''io_setup'', Some ''io_destroy'', Some ''io_getevents'',
      Some ''io_submit'', Some ''io_cancel'', Some ''epoll_create'', Some ''epoll_ctl'',
      Some ''epoll_wait'', Some ''restart_syscall'', Some ''semtimedop'', Some ''timer_create'',
      Some ''timer_settime'', Some ''timer_gettime'', Some ''timer_getoverrun'',
      Some ''timer_delete'', Some ''clock_settime'', Some ''clock_gettime'',
      Some ''clock_getres'', Some ''clock_nanosleep'', Some ''fstatfs64'', Some ''statfs64'',
      Some ''mbind'', Some ''get_mempolicy'', Some ''set_mempolicy'', Some ''mq_open'',
      Some ''mq_unlink'', Some ''mq_timedsend'', Some ''mq_timedreceive'', Some ''mq_notify'',
      Some ''mq_getsetattr'', Some ''kexec_load'', Some ''vserver'', Some ''waitid'',
      Some ''add_key'', Some ''request_key'', Some ''keyctl'', Some ''ioprio_set'',
      Some ''ioprio_get'', Some ''move_pages'', Some ''inotify_init'',
      Some ''inotify_add_watch'', Some ''inotify_rm_watch'', Some ''migrate_pages'',
      Some ''openat'', Some ''mkdirat'', Some ''mknodat'', Some ''fchownat'', Some ''futimesat'',
      Some ''newfstatat'', Some ''unlinkat'', Some ''renameat'', Some ''linkat'',
      Some ''symlinkat'', Some ''readlinkat'', Some ''fchmodat'', Some ''faccessat'',
      Some ''pselect6'', Some ''ppoll'', Some ''unshare'', Some ''set_robust_list'',
      Some ''get_robust_list'', Some ''splice'', Some ''sync_file_range'', Some ''tee'',
      Some ''vmsplice'', None, Some ''getcpu'', Some ''epoll_pwait'', None, Some ''signalfd'',
      Some ''timerfd'', Some ''eventfd'', Some ''preadv'', Some ''pwritev'',
      Some ''rt_tgsigqueueinfo'', Some ''recvmmsg'']"

definition sysent_ia64_c :: "string option list" where
  "sysent_ia64_c =
     [Some ''fanotify_init'', Some ''fanotify_mark'', Some ''prlimit64'',
      Some ''name_to_handle_at'', Some ''open_by_handle_at'', Some ''clock_adjtime'',
      Some ''syncfs'', Some ''setns'', Some ''sendmmsg'', Some ''process_vm_readv'',
      Some ''process_vm_writev'', Some ''accept4'', Some ''finit_module'']"

definition sysent_ia64 :: "string option list" where
  "sysent_ia64 = sysent_ia64_a @ sysent_ia64_b @ sysent_ia64_c"

lemmas sysent_ia64_defs = sysent_ia64_def sysent_ia64_a_def sysent_ia64_b_def sysent_ia64_c_def

lemma length_sysent_ia64 [simp]: "length sysent_ia64 = 303"
  by (simp add: sysent_ia64_defs)

definition sysent_powerpc_a :: "string option list" where
  "sysent_powerpc_a =
     [Some ''restart_syscall'', Some ''exit'', Some ''fork'', Some ''read'', Some ''write'',
      Some ''open'', Some ''close'', Some ''waitpid'', Some ''creat'', Some ''link'',
      Some ''unlink'', Some ''execve'', Some ''chdir'', Some ''time'', Some ''mknod'',
      Some ''chmod'', Some ''lchown'', Some ''break'', Some ''oldstat'', Some ''lseek'',
      Some ''getpid'', Some ''mount'', Some ''oldumount'', Some ''setuid'', Some ''getuid'',
      Some ''stime'', Some ''ptrace'', Some ''alarm'', Some ''oldfstat'', Some ''pause'',
      Some ''utime'', Some ''stty'', Some ''gtty'', Some ''access'', Some ''nice'',
      Some ''ftime'', Some ''sync'', Some ''kill'', Some ''rename'', Some ''mkdir'',
      Some ''rmdir'', Some ''dup'', Some ''pipe'', Some ''times'', Some ''prof'', Some ''brk'',
      Some ''setgid'', Some ''getgid'', Some ''signal'', Some ''geteuid'', Some ''getegid'',
      Some ''acct'', Some ''umount'', Some ''lock'', Some ''ioctl'', Some ''fcntl'',
      Some ''sys_mpx'', Some ''setpgid'', Some ''ulimit'', Some ''oldolduname'', Some ''umask'',
      Some ''chroot'', Some ''ustat'', Some ''dup2'', Some ''getppid'', Some ''getpgrp'',
      Some ''setsid'', Some ''sigaction'', Some ''sgetmask'', Some ''ssetmask'',
      Some ''setreuid'', Some ''setregid'', Some ''sigsuspend'', Some ''sigpending'',
      Some ''sethostname'', Some ''setrlimit'', Some ''oldgetrlimit'', Some ''getrusage'',
      Some ''gettimeofday'', Some ''settimeofday'', Some ''getgroups'', Some ''setgroups'',
      Some ''oldselect'', Some ''symlink'', Some ''oldlstat'', Some ''readlink'',
      Some ''uselib'', Some ''swapon'', Some ''reboot'', Some ''readdir'', Some ''mmap'',
      Some ''munmap'', Some ''truncate'', Some ''ftruncate'', Some ''fchmod'', Some ''fchown'',
      Some ''getpriority'', Some ''setpriority'', Some ''profil'', Some ''statfs'',
      Some ''fstatfs'', Some ''ioperm'', Some ''socketcall'', Some ''syslog'',
      Some ''setitimer'', Some ''getitimer'', Some ''stat'', Some ''lstat'', Some ''fstat'',
      Some ''olduname'', Some ''SYS_110'', Some ''vhangup'', Some ''idle'', Some ''SYS_113'',
      Some ''wait4'', Some ''swapoff'', Some ''sysinfo'', Some ''ipc'', Some ''fsync'',
      Some ''sigreturn'', Some ''clone'', Some ''setdomainname'', Some ''uname'',
      Some ''SYS_123'', Some ''adjtimex'', Some ''mprotect'', Some ''sigprocmask'',
      Some ''create_module'', Some ''init_module'', Some ''delete_module'',
      Some ''get_kernel_syms'', Some ''quotactl'', Some ''getpgid'', Some ''fchdir'',
      Some ''bdflush'', Some ''sysfs'', Some ''personality'', Some ''afs_syscall'',
      Some ''setfsuid'', Some ''setfsgid'', Some ''_llseek'', Some ''getdents'', Some ''select'',
      Some ''flock'', Some ''msync'']"

definition sysent_powerpc_b :: "string option list" where
  "sysent_powerpc_b =
     [Some ''readv'', Some ''writev'', Some ''getsid'', Some ''fdatasync'', Some ''_sysctl'',
      Some ''mlock'', Some ''munlock'', Some ''mlockall'', Some ''munlockall'',
      Some ''sched_setparam'', Some ''sched_getparam'', Some ''sched_setscheduler'',
      Some ''sched_getscheduler'', Some ''sched_yield'', Some ''sched_get_priority_max'',
      Some ''sched_get_priority_min'', Some ''sched_rr_get_interval'', Some ''nanosleep'',
      Some ''mremap'', Some ''setresuid'', Some ''getresuid'', Some ''query_module'',
      Some ''poll'', Some ''nfsservctl'', Some ''setresgid'', Some ''getresgid'', Some ''prctl'',
      Some ''rt_sigreturn'', Some ''rt_sigaction'', Some ''rt_sigprocmask'',
      Some ''rt_sigpending'', Some ''rt_sigtimedwait'', Some ''rt_sigqueueinfo'',
      Some ''rt_sigsuspend'', Some ''pread64'', Some ''pwrite64'', Some ''chown'',
      Some ''getcwd'', Some ''capget'', Some ''capset'', Some ''sigaltstack'', Some ''sendfile'',
      Some ''getpmsg'', Some ''putpmsg'', Some ''vfork'', Some ''getrlimit'', Some ''readahead'',
      Some ''mmap2'', Some ''truncate64'', Some ''ftruncate64'', Some ''stat64'',
      Some ''lstat64'', Some ''fstat64'', Some ''pciconfig_read'', Some ''pciconfig_write'',
      Some ''pciconfig_iobase'', Some ''MOL'', Some ''getdents64'', Some ''pivot_root'',
      Some ''fcntl64'', Some ''madvise'', Some ''mincore'', Some ''gettid'', Some ''tkill'',
      Some ''setxattr'', Some ''lsetxattr'', Some ''fsetxattr'', Some ''getxattr'',
      Some ''lgetxattr'', Some ''fgetxattr'', Some ''listxattr'', Some ''llistxattr'',
      Some ''flistxattr'', Some ''removexattr'', Some ''lremovexattr'', Some ''fremovexattr'',
      Some ''futex'', Some ''sched_setaffinity'', Some ''sched_getaffinity'', Some ''SYS_224'',
      Some ''tux'', Some ''sendfile64'', Some ''io_setup'', Some ''io_destroy'',
      Some ''io_getevents'', Some ''io_submit'', Some ''io_cancel'', Some ''set_tid_address'',
      Some ''fadvise64'', Some ''exit_group'', Some ''lookup_dcookie'', Some ''epoll_create'',
      Some ''epoll_ctl'', Some ''epoll_wait'', Some ''remap_file_pages'', Some ''timer_create'',
      Some ''timer_settime'', Some ''timer_gettime'', Some ''timer_getoverrun'',
      Some ''timer_delete'', Some ''clock_settime'', Some ''clock_gettime'',
      Some ''clock_getres'', Some ''clock_nanosleep'', Some ''swapcontext'', Some ''tgkill'',
      Some ''utimes'', Some ''statfs64'', Some ''fstatfs64'', Some ''fadvise64_64'',
      Some ''rtas'', Some ''debug_setcontext'', Some ''vserver'', Some ''SYS_258'',
      Some ''mbind'', Some ''get_mempolicy'', Some ''set_mempolicy'', Some ''mq_open'',
      Some ''mq_unlink'', Some ''mq_timedsend'', Some ''mq_timedreceive'', Some ''mq_notify'',
      Some ''mq_getsetattr'', Some ''sys_kexec_load'', Some ''add_key'', Some ''request_key'',
      Some ''keyctl'', Some ''waitid'', Some ''ioprio_set'', Some ''ioprio_get'',
      Some ''inotify_init'', Some ''inotify_add_watch'', Some ''inotify_rm_watch'',
      Some ''spu_run'', Some ''spu_create'', Some ''pselect6'', Some ''ppoll'', Some ''unshare'',
      Some ''splice'', Some ''tee'', Some ''vmsplice'', Some ''openat'', Some ''mkdirat'',
      Some ''mknodat'', Some ''fchownat'']"

definition sysent_powerpc_c :: "string option list" where
  "sysent_powerpc_c =
     [Some ''futimesat'', Some ''newfstatat'', Some ''unlinkat'', Some ''renameat'',
      Some ''linkat'', Some ''symlinkat'', Some ''readlinkat'', Some ''fchmodat'',
      Some ''faccessat'', Some ''set_robust_list'', Some ''get_robust_list'',
      Some ''move_pages'', Some ''getcpu'', Some ''epoll_pwait'', Some ''SYS_304'',
      Some ''signalfd'', Some ''timerfd'', Some ''eventfd'', Some ''SYS_308'',
      Some ''fallocate'', Some ''subpage_prot'', Some ''timerfd_settime'',
      Some ''timerfd_gettime'', Some ''signalfd4'', Some ''eventfd2'', Some ''epoll_create1'',
      Some ''dup3'', Some ''pipe2'', Some ''inotify_init1'', Some ''perf_event_openpreadv'',
      Some ''pwritev'', Some ''rt_tgsigqueueinfo'', Some ''fanotify_init'',
      Some ''fanotify_mark'', Some ''prlimit64'', Some ''socket'', Some ''bind'',
      Some ''connect'', Some ''listen'', Some ''accept'', Some ''getsockname'',
      Some ''getpeername'', Some ''socketpair'', Some ''send'', Some ''sendto'', Some ''recv'',
      Some ''recvfrom'', Some ''shutdown'', Some ''setsockopt'', Some ''getsockopt'',
      Some ''sendmsg'', Some ''recvmsg'', Some ''recvmmsg'', Some ''accept4'',
      Some ''name_to_handle_at'', Some ''open_by_handle_at'', Some ''clock_adjtime'',
      Some ''syncfs'', Some ''sendmmsg'', Some ''setns'', Some ''process_vm_readv'',
      Some ''process_vm_writev'', Some ''kcmp'', Some ''finit_module'']"

definition sysent_powerpc :: "string option list" where
  "sysent_powerpc = sysent_powerpc_a @ sysent_powerpc_b @ sysent_powerpc_c"

lemmas sysent_powerpc_defs = sysent_powerpc_def sysent_powerpc_a_def sysent_powerpc_b_def sysent_powerpc_c_def

lemma length_sysent_powerpc [simp]: "length sysent_powerpc = 354"
  by (simp add: sysent_powerpc_defs)

definition sysent_x32_a :: "string option list" where
  "sysent_x32_a =
     [Some ''read'', Some ''write'', Some ''open'', Some ''close'', Some ''stat'',
      Some ''fstat'', Some ''lstat'', Some ''poll'', Some ''lseek'', Some ''mmap'',
      Some ''mprotect'', Some ''munmap'', Some ''brk'', Some ''rt_sigaction#64'',
      Some ''rt_sigprocmask'', Some ''rt_sigreturn#64'', Some ''ioctl#64'', Some ''pread'',
      Some ''pwrite'', Some ''readv#64'', Some ''writev#64'', Some ''access'', Some ''pipe'',
      Some ''select'', Some ''sched_yield'', Some ''mremap'', Some ''msync'', Some ''mincore'',
      Some ''madvise'', Some ''shmget'', Some ''shmat'', Some ''shmctl'', Some ''dup'',
      Some ''dup2'', Some ''pause'', Some ''nanosleep'', Some ''getitimer'', Some ''alarm'',
      Some ''setitimer'', Some ''getpid'', Some ''sendfile'', Some ''socket'', Some ''connect'',
      Some ''accept'', Some ''sendto'', Some ''recvfrom#64'', Some ''sendmsg#64'',
      Some ''recvmsg#64'', Some ''shutdown'', Some ''bind'', Some ''listen'',
      Some ''getsockname'', Some ''getpeername'', Some ''socketpair'', Some ''setsockopt#64'',
      Some ''getsockopt#64'', Some ''clone'', Some ''fork'', Some ''vfork'', Some ''execve#64'',
      Some ''_exit'', Some ''wait4'', Some ''kill'', Some ''uname'', Some ''semget'',
      Some ''semop'', Some ''semctl'', Some ''shmdt'', Some ''msgget'', Some ''msgsnd'',
      Some ''msgrcv'', Some ''msgctl'', Some ''fcntl'', Some ''flock'', Some ''fsync'',
      Some ''fdatasync'', Some ''truncate'', Some ''ftruncate'', Some ''getdents'',
      Some ''getcwd'', Some ''chdir'', Some ''fchdir'', Some ''rename'', Some ''mkdir'',
      Some ''rmdir'', Some ''creat'', Some ''link'', Some ''unlink'', Some ''symlink'',
      Some ''readlink'', Some ''chmod'', Some ''fchmod'', Some ''chown'', Some ''fchown'',
      Some ''lchown'', Some ''umask'', Some ''gettimeofday'', Some ''getrlimit'',
      Some ''getrusage'', Some ''sysinfo'', Some ''times'', Some ''ptrace#64'', Some ''getuid'',
      Some ''syslog'', Some ''getgid'', Some ''setuid'', Some ''setgid'', Some ''geteuid'',
      Some ''getegid'', Some ''setpgid'', Some ''getppid'', Some ''getpgrp'', Some ''setsid'',
      Some ''setreuid'', Some ''setregid'', Some ''getgroups'', Some ''setgroups'',
      Some ''setresuid'', Some ''getresuid'', Some ''setresgid'', Some ''getresgid'',
      Some ''getpgid'', Some ''setfsuid'', Some ''setfsgid'', Some ''getsid'', Some ''capget'',
      Some ''capset'', Some ''rt_sigpending#64'', Some ''rt_sigtimedwait#64'',
      Some ''rt_sigqueueinfo#64'', Some ''rt_sigsuspend'', Some ''sigaltstack#64'',
      Some ''utime'', Some ''mknod'', Some ''uselib#64'', Some ''personality'', Some ''ustat'',
      Some ''statfs'', Some ''fstatfs'', Some ''sysfs'', Some ''getpriority'',
      Some ''setpriority'', Some ''sched_setparam'', Some ''sched_getparam'',
      Some ''sched_setscheduler'']"

definition sysent_x32_b :: "string option list" where
  "sysent_x32_b =
     [Some ''sched_getscheduler'', Some ''sched_get_priority_max'',
      Some ''sched_get_priority_min'', Some ''sched_rr_get_interval'', Some ''mlock'',
      Some ''munlock'', Some ''mlockall'', Some ''munlockall'', Some ''vhangup'',
      Some ''modify_ldt'', Some ''pivot_root'', Some ''_sysctl#64'', Some ''prctl'',
      Some ''arch_prctl'', Some ''adjtimex'', Some ''setrlimit'', Some ''chroot'', Some ''sync'',
      Some ''acct'', Some ''settimeofday'', Some ''mount'', Some ''umount'', Some ''swapon'',
      Some ''swapoff'', Some ''reboot'', Some ''sethostname'', Some ''setdomainname'',
      Some ''iopl'', Some ''ioperm'', Some ''create_module#64'', Some ''init_module'',
      Some ''delete_module'', Some ''get_kernel_syms#64'', Some ''query_module#64'',
      Some ''quotactl'', Some ''nfsservctl#64'', Some ''getpmsg'', Some ''putpmsg'',
      Some ''afs_syscall'', Some ''tuxcall'', Some ''security'', Some ''gettid'',
      Some ''readahead'', Some ''setxattr'', Some ''lsetxattr'', Some ''fsetxattr'',
      Some ''getxattr'', Some ''lgetxattr'', Some ''fgetxattr'', Some ''listxattr'',
      Some ''llistxattr'', Some ''flistxattr'', Some ''removexattr'', Some ''lremovexattr'',
      Some ''fremovexattr'', Some ''tkill'', Some ''time'', Some ''futex'',
      Some ''sched_setaffinity'', Some ''sched_getaffinity'', Some ''set_thread_area#64'',
      Some ''io_setup#64'', Some ''io_destroy'', Some ''io_getevents'', Some ''io_submit#64'',
      Some ''io_cancel'', Some ''get_thread_area#64'', Some ''lookup_dcookie'',
      Some ''epoll_create'', Some ''epoll_ctl_old#64'', Some ''epoll_wait_old#64'',
      Some ''remap_file_pages'', Some ''getdents64'', Some ''set_tid_address'',
      Some ''restart_syscall'', Some ''semtimedop'', Some ''fadvise64'',
      Some ''timer_create#64'', Some ''timer_settime'', Some ''timer_gettime'',
      Some ''timer_getoverrun'', Some ''timer_delete'', Some ''clock_settime'',
      Some ''clock_gettime'', Some ''clock_getres'', Some ''clock_nanosleep'',
      Some ''exit_group'', Some ''epoll_wait'', Some ''epoll_ctl'', Some ''tgkill'',
      Some ''utimes'', Some ''vserver#64'', Some ''mbind'', Some ''set_mempolicy'',
      Some ''get_mempolicy'', Some ''mq_open'', Some ''mq_unlink'', Some ''mq_timedsend'',
      Some ''mq_timedreceive'', Some ''mq_notify#64mq_getsetattr'', Some ''kexec_load#64'',
      Some ''waitid#64'', Some ''add_key'', Some ''request_key'', Some ''keyctl'',
      Some ''ioprio_set'', Some ''ioprio_get'', Some ''inotify_init'',
      Some ''inotify_add_watch'', Some ''inotify_rm_watch'', Some ''migrate_pages'',
      Some ''openat'', Some ''mkdirat'', Some ''mknodat'', Some ''fchownat'', Some ''futimesat'',
      Some ''newfstatat'', Some ''unlinkat'', Some ''renameat'', Some ''linkat'',
      Some ''symlinkat'', Some ''readlinkat'', Some ''fchmodat'', Some ''faccessat'',
      Some ''pselect6'', Some ''ppoll'', Some ''unshare'', Some ''set_robust_list#64'',
      Some ''get_robust_list#64'', Some ''splice'', Some ''tee'', Some ''sync_file_range'',
      Some ''vmsplice#64'', Some ''move_pages#64'', Some ''utimensat'', Some ''epoll_pwait'',
      Some ''signalfd'', Some ''timerfd_create'', Some ''eventfd'', Some ''fallocate'',
      Some ''timerfd_settime'', Some ''timerfd_gettime'', Some ''accept4'', Some ''signalfd4'']"

definition sysent_x32_c :: "string option list" where
  "sysent_x32_c =
     [Some ''eventfd2'', Some ''epoll_create1'', Some ''dup3'', Some ''pipe2'',
      Some ''inotify_init1'', Some ''preadv#64'', Some ''pwritev#64'',
      Some ''rt_tgsigqueueinfo#64'', Some ''perf_event_open'', Some ''recvmmsg#64'',
      Some ''fanotify_init'', Some ''fanotify_mark'', Some ''prlimit64'',
      Some ''name_to_handle_at'', Some ''open_by_handle_at'', Some ''clock_adjtime'',
      Some ''syncfs'', Some ''sendmmsg#64'', Some ''setns'', Some ''getcpu'',
      Some ''process_vm_readv#64'', Some ''process_vm_writev#64'', Some ''kcmp'',
      Some ''finit_module'', Some ''sched_setattr'', Some ''sched_getattr'', Some ''renameat2'',
      Some ''seccomp'', Some ''getrandom'', Some ''memfd_create'', Some ''kexec_file_load'',
      Some ''bpf'', Some ''execveat#64'', Some ''userfaultfd'', Some ''membarrier'',
      Some ''mlock2'', Some ''copy_file_range'', Some ''preadv2#64'', Some ''pwritev2#64'',
      Some ''pkey_mprotect'', Some ''pkey_alloc'', Some ''pkey_free'', Some ''statx'',
      Some ''io_pgetevents'', Some ''rseq'', None, None, None, None, None, None, None, None,
      None, None, None, None, None, None, None, None, None, None, None, None, None, None, None,
      None, None, None, None, None, None, None, None, None, None, None, None, None, None, None,
      None, None, None, None, None, None, None, None, None, None, None, None, None, None, None,
      None, None, None, None, None, None, None, None, None, None, None, None, None, None, None,
      None, None, None, None, None, None, None, None, None, None, None, None, None, None, None,
      None, None, None, None, None, None, Some ''pidfd_send_signal'', Some ''io_uring_setup'',
      Some ''io_uring_enter'', Some ''io_uring_register'', Some ''open_tree'',
      Some ''move_mount'', Some ''fsopen'', Some ''fsconfig'', Some ''fsmount'',
      Some ''fspick'']"

definition sysent_x32_d :: "string option list" where
  "sysent_x32_d =
     [Some ''pidfd_open'', Some ''clone3'', Some ''close_range'', Some ''openat2'',
      Some ''pidfd_getfd'', Some ''faccessat2'', Some ''process_madvise'', Some ''epoll_pwait2'',
      None, None, None, None, None, None, None, None, None, None, None, None, None, None, None,
      None, None, None, None, None, None, None, None, None, None, None, None, None, None, None,
      None, None, None, None, None, None, None, None, None, None, None, None, None, None, None,
      None, None, None, None, None, None, None, None, None, None, None, None, None, None, None,
      None, None, None, None, None, None, None, None, None, None, Some ''rt_sigaction'',
      Some ''rt_sigreturn'', Some ''ioctl'', Some ''readv'', Some ''writev'', Some ''recvfrom'',
      Some ''sendmsg'', Some ''recvmsg'', Some ''execve'', Some ''ptrace'',
      Some ''rt_sigpending'', Some ''rt_sigtimedwait'', Some ''rt_sigqueueinfo'',
      Some ''sigaltstack'', Some ''timer_create'', Some ''mq_notify'', Some ''kexec_load'',
      Some ''waitid'', Some ''set_robust_list'', Some ''get_robust_list'', Some ''vmsplice'',
      Some ''move_pages'', Some ''preadv'', Some ''pwritev'', Some ''rt_tgsigqueueinfo'',
      Some ''recvmmsg'', Some ''sendmmsg'', Some ''process_vm_readv'',
      Some ''process_vm_writev'', Some ''setsockopt'', Some ''getsockopt'', Some ''io_setup'',
      Some ''io_submit'', Some ''execveat'', Some ''preadv2'', Some ''pwritev2'']"

definition sysent_x32 :: "string option list" where
  "sysent_x32 = sysent_x32_a @ sysent_x32_b @ sysent_x32_c @ sysent_x32_d"

lemmas sysent_x32_defs = sysent_x32_def sysent_x32_a_def sysent_x32_b_def sysent_x32_c_def sysent_x32_d_def

lemma length_sysent_x32 [simp]: "length sysent_x32 = 547"
  by (simp add: sysent_x32_defs)

definition sysent_x86_64_a :: "string option list" where
  "sysent_x86_64_a =
     [Some ''read'', Some ''write'', Some ''open'', Some ''close'', Some ''stat'',
      Some ''fstat'', Some ''lstat'', Some ''poll'', Some ''lseek'', Some ''mmap'',
      Some ''mprotect'', Some ''munmap'', Some ''brk'', Some ''rt_sigaction'',
      Some ''rt_sigprocmask'', Some ''rt_sigreturn'', Some ''ioctl'', Some ''pread'',
      Some ''pwrite'', Some ''readv'', Some ''writev'', Some ''access'', Some ''pipe'',
      Some ''select'', Some ''sched_yield'', Some ''mremap'', Some ''msync'', Some ''mincore'',
      Some ''madvise'', Some ''shmget'', Some ''shmat'', Some ''shmctl'', Some ''dup'',
      Some ''dup2'', Some ''pause'', Some ''nanosleep'', Some ''getitimer'', Some ''alarm'',
      Some ''setitimer'', Some ''getpid'', Some ''sendfile'', Some ''socket'', Some ''connect'',
      Some ''accept'', Some ''sendto'', Some ''recvfrom'', Some ''sendmsg'', Some ''recvmsg'',
      Some ''shutdown'', Some ''bind'', Some ''listen'', Some ''getsockname'',
      Some ''getpeername'', Some ''socketpair'', Some ''setsockopt'', Some ''getsockopt'',
      Some ''clone'', Some ''fork'', Some ''vfork'', Some ''execve'', Some ''_exit'',
      Some ''wait4'', Some ''kill'', Some ''uname'', Some ''semget'', Some ''semop'',
      Some ''semctl'', Some ''shmdt'', Some ''msgget'', Some ''msgsnd'', Some ''msgrcv'',
      Some ''msgctl'', Some ''fcntl'', Some ''flock'', Some ''fsync'', Some ''fdatasync'',
      Some ''truncate'', Some ''ftruncate'', Some ''getdents'', Some ''getcwd'', Some ''chdir'',
      Some ''fchdir'', Some ''rename'', Some ''mkdir'', Some ''rmdir'', Some ''creat'',
      Some ''link'', Some ''unlink'', Some ''symlink'', Some ''readlink'', Some ''chmod'',
      Some ''fchmod'', Some ''chown'', Some ''fchown'', Some ''lchown'', Some ''umask'',
      Some ''gettimeofday'', Some ''getrlimit'', Some ''getrusage'', Some ''sysinfo'',
      Some ''times'', Some ''ptrace'', Some ''getuid'', Some ''syslog'', Some ''getgid'',
      Some ''setuid'', Some ''setgid'', Some ''geteuid'', Some ''getegid'', Some ''setpgid'',
      Some ''getppid'', Some ''getpgrp'', Some ''setsid'', Some ''setreuid'', Some ''setregid'',
      Some ''getgroups'', Some ''setgroups'', Some ''setresuid'', Some ''getresuid'',
      Some ''setresgid'', Some ''getresgid'', Some ''getpgid'', Some ''setfsuid'',
      Some ''setfsgid'', Some ''getsid'', Some ''capget'', Some ''capset'',
      Some ''rt_sigpending'', Some ''rt_sigtimedwait'', Some ''rt_sigqueueinfo'',
      Some ''rt_sigsuspend'', Some ''sigaltstack'', Some ''utime'', Some ''mknod'',
      Some ''uselib'', Some ''personality'', Some ''ustat'', Some ''statfs'', Some ''fstatfs'',
      Some ''sysfs'', Some ''getpriority'', Some ''setpriority'', Some ''sched_setparam'',
      Some ''sched_getparam'', Some ''sched_setscheduler'']"

definition sysent_x86_64_b :: "string option list" where
  "sysent_x86_64_b =
     [Some ''sched_getscheduler'', Some ''sched_get_priority_max'',
      Some ''sched_get_priority_min'', Some ''sched_rr_get_interval'', Some ''mlock'',
      Some ''munlock'', Some ''mlockall'', Some ''munlockall'', Some ''vhangup'',
      Some ''modify_ldt'', Some ''pivot_root'', Some ''_sysctl'', Some ''prctl'',
      Some ''arch_prctl'', Some ''adjtimex'', Some ''setrlimit'', Some ''chroot'', Some ''sync'',
      Some ''acct'', Some ''settimeofday'', Some ''mount'', Some ''umount'', Some ''swapon'',
      Some ''swapoff'', Some ''reboot'', Some ''sethostname'', Some ''setdomainname'',
      Some ''iopl'', Some ''ioperm'', Some ''create_module'', Some ''init_module'',
      Some ''delete_module'', Some ''get_kernel_syms'', Some ''query_module'', Some ''quotactl'',
      Some ''nfsservctl'', Some ''getpmsg'', Some ''putpmsg'', Some ''afs_syscall'',
      Some ''tuxcall'', Some ''security'', Some ''gettid'', Some ''readahead'',
      Some ''setxattr'', Some ''lsetxattr'', Some ''fsetxattr'', Some ''getxattr'',
      Some ''lgetxattr'', Some ''fgetxattr'', Some ''listxattr'', Some ''llistxattr'',
      Some ''flistxattr'', Some ''removexattr'', Some ''lremovexattr'', Some ''fremovexattr'',
      Some ''tkill'', Some ''time'', Some ''futex'', Some ''sched_setaffinity'',
      Some ''sched_getaffinity'', Some ''set_thread_area'', Some ''io_setup'',
      Some ''io_destroy'', Some ''io_getevents'', Some ''io_submit'', Some ''io_cancel'',
      Some ''get_thread_area'', Some ''lookup_dcookie'', Some ''epoll_create'',
      Some ''epoll_ctl_old'', Some ''epoll_wait_old'', Some ''remap_file_pages'',
      Some ''getdents64'', Some ''set_tid_address'', Some ''restart_syscall'',
      Some ''semtimedop'', Some ''fadvise64'', Some ''timer_create'', Some ''timer_settime'',
      Some ''timer_gettime'', Some ''timer_getoverrun'', Some ''timer_delete'',
      Some ''clock_settime'', Some ''clock_gettime'', Some ''clock_getres'',
      Some ''clock_nanosleep'', Some ''exit_group'', Some ''epoll_wait'', Some ''epoll_ctl'',
      Some ''tgkill'', Some ''utimes'', Some ''vserver'', Some ''mbind'', Some ''set_mempolicy'',
      Some ''get_mempolicy'', Some ''mq_open'', Some ''mq_unlink'', Some ''mq_timedsend'',
      Some ''mq_timedreceive'', Some ''mq_notify'', Some ''mq_getsetattr'', Some ''kexec_load'',
      Some ''waitid'', Some ''add_key'', Some ''request_key'', Some ''keyctl'',
      Some ''ioprio_set'', Some ''ioprio_get'', Some ''inotify_init'',
      Some ''inotify_add_watch'', Some ''inotify_rm_watch'', Some ''migrate_pages'',
      Some ''openat'', Some ''mkdirat'', Some ''mknodat'', Some ''fchownat'', Some ''futimesat'',
      Some ''newfstatat'', Some ''unlinkat'', Some ''renameat'', Some ''linkat'',
      Some ''symlinkat'', Some ''readlinkat'', Some ''fchmodat'', Some ''faccessat'',
      Some ''pselect6'', Some ''ppoll'', Some ''unshare'', Some ''set_robust_list'',
      Some ''get_robust_list'', Some ''splice'', Some ''tee'', Some ''sync_file_range'',
      Some ''vmsplice'', Some ''move_pages'', Some ''utimensat'', Some ''epoll_pwait'',
      Some ''signalfd'', Some ''timerfd_create'', Some ''eventfd'', Some ''fallocate'',
      Some ''timerfd_settime'', Some ''timerfd_gettime'', Some ''accept4'', Some ''signalfd4'']"

definition sysent_x86_64_c :: "string option list" where
  "sysent_x86_64_c =
     [Some ''eventfd2'', Some ''epoll_create1'', Some ''dup3'', Some ''pipe2'',
      Some ''inotify_init1'', Some ''preadv'', Some ''pwritev'', Some ''rt_tgsigqueueinfo'',
      Some ''perf_event_open'', Some ''recvmmsg'', Some ''fanotify_init'',
      Some ''fanotify_mark'', Some ''prlimit64'', Some ''name_to_handle_at'',
      Some ''open_by_handle_at'', Some ''clock_adjtime'', Some ''syncfs'', Some ''sendmmsg'',
      Some ''setns'', Some ''getcpu'', Some ''process_vm_readv'', Some ''process_vm_writev'',
      Some ''kcmp'', Some ''finit_module'', Some ''sched_setattr'', Some ''sched_getattr'',
      Some ''renameat2'', Some ''seccomp'', Some ''getrandom'', Some ''memfd_create'',
      Some ''kexec_file_load'', Some ''bpf'', Some ''execveat'', Some ''userfaultfd'',
      Some ''membarrier'', Some ''mlock2'', Some ''copy_file_range'', Some ''preadv2'',
      Some ''pwritev2'', Some ''pkey_mprotect'', Some ''pkey_alloc'', Some ''pkey_free'',
      Some ''statx'', Some ''io_pgetevents'', Some ''rseq'', None, None, None, None, None, None,
      None, None, None, None, None, None, None, None, None, None, None, None, None, None, None,
      None, None, None, None, None, None, None, None, None, None, None, None, None, None, None,
      None, None, None, None, None, None, None, None, None, None, None, None, None, None, None,
      None, None, None, None, None, None, None, None, None, None, None, None, None, None, None,
      None, None, None, None, None, None, None, None, None, None, None, None, None, None, None,
      None, None, None, None, None, None, None, None, Some ''pidfd_send_signal'',
      Some ''io_uring_setup'', Some ''io_uring_enter'', Some ''io_uring_register'',
      Some ''open_tree'', Some ''move_mount'', Some ''fsopen'', Some ''fsconfig'',
      Some ''fsmount'', Some ''fspick'']"

definition sysent_x86_64_d :: "string option list" where
  "sysent_x86_64_d =
     [Some ''pidfd_open'', Some ''clone3'', Some ''close_range'', Some ''openat2'',
      Some ''pidfd_getfd'', Some ''faccessat2'', Some ''process_madvise'',
      Some ''epoll_pwait2'']"

definition sysent_x86_64 :: "string option list" where
  "sysent_x86_64 = sysent_x86_64_a @ sysent_x86_64_b @ sysent_x86_64_c @ sysent_x86_64_d"

lemmas sysent_x86_64_defs = sysent_x86_64_def sysent_x86_64_a_def sysent_x86_64_b_def sysent_x86_64_c_def sysent_x86_64_d_def

lemma length_sysent_x86_64 [simp]: "length sysent_x86_64 = 442"
  by (simp add: sysent_x86_64_defs)

end
