(* ===== verification/Pink_Name.thy ===== *)
theory Pink_Name
  imports Pink_Trace Pink_Tables
begin

text \<open>
  \<^verbatim>\<open>pinktrace/name.c\<close>: names of system calls, error numbers, signals,
  events, socket families and socket subcalls, and the way back from the names.
  A name is a \<open>string\<close> without NUL, and \<open>None\<close> is the null pointer.
\<close>

unbundle bit_operations_syntax

section \<open>Tables of pairs\<close>

text \<open>
  An array of \<open>struct xlat\<close> without the terminating entry, whose string is
  \<open>NULL\<close>.
\<close>

type_synonym xlat = "string \<times> int"

fun xname :: "xlat list \<Rightarrow> int \<Rightarrow> string option" where
  "xname [] val = None"
| "xname ((s, v) # xs) val = (if v = val then Some s else xname xs val)"

fun xfind :: "xlat list \<Rightarrow> string \<Rightarrow> int" where
  "xfind [] str = - 1"
| "xfind ((s, v) # xs) str = (if str = s then v else xfind xs str)"

definition xlookup :: "xlat list \<Rightarrow> string option \<Rightarrow> int" where
  "xlookup xs str = (case str of None \<Rightarrow> - 1 | Some s \<Rightarrow> if s = [] then - 1 else xfind xs s)"

definition events :: "xlat list" where
  "events =
     [(''FORK'', PINK_EVENT_FORK), (''VFORK'', PINK_EVENT_VFORK), (''CLONE'', PINK_EVENT_CLONE),
      (''EXEC'', PINK_EVENT_EXEC), (''VFORK_DONE'', PINK_EVENT_VFORK_DONE),
      (''EXIT'', PINK_EVENT_EXIT), (''SECCOMP'', PINK_EVENT_SECCOMP), (''STOP'', PINK_EVENT_STOP)]"

text \<open>\<open>enum pink_socket_subcall\<close> numbers the calls from 1.\<close>

datatype pink_socket_subcall =
    SUBCALL_SOCKET | SUBCALL_BIND | SUBCALL_CONNECT | SUBCALL_LISTEN | SUBCALL_ACCEPT
  | SUBCALL_GETSOCKNAME | SUBCALL_GETPEERNAME | SUBCALL_SOCKETPAIR | SUBCALL_SEND
  | SUBCALL_RECV | SUBCALL_SENDTO | SUBCALL_RECVFROM | SUBCALL_SHUTDOWN | SUBCALL_SETSOCKOPT
  | SUBCALL_GETSOCKOPT | SUBCALL_SENDMSG | SUBCALL_RECVMSG | SUBCALL_ACCEPT4

primrec subcall_value :: "pink_socket_subcall \<Rightarrow> int" where
  "subcall_value SUBCALL_SOCKET = 1"
| "subcall_value SUBCALL_BIND = 2"
| "subcall_value SUBCALL_CONNECT = 3"
| "subcall_value SUBCALL_LISTEN = 4"
| "subcall_value SUBCALL_ACCEPT = 5"
| "subcall_value SUBCALL_GETSOCKNAME = 6"
| "subcall_value SUBCALL_GETPEERNAME = 7"
| "subcall_value SUBCALL_SOCKETPAIR = 8"
| "subcall_value SUBCALL_SEND = 9"
| "subcall_value SUBCALL_RECV = 10"
| "subcall_value SUBCALL_SENDTO = 11"
| "subcall_value SUBCALL_RECVFROM = 12"
| "subcall_value SUBCALL_SHUTDOWN = 13"
| "subcall_value SUBCALL_SETSOCKOPT = 14"
| "subcall_value SUBCALL_GETSOCKOPT = 15"
| "subcall_value SUBCALL_SENDMSG = 16"
| "subcall_value SUBCALL_RECVMSG = 17"
| "subcall_value SUBCALL_ACCEPT4 = 18"

definition socket_subcalls :: "xlat list" where
  "socket_subcalls =
     [(''bind'', subcall_value SUBCALL_BIND), (''connect'', subcall_value SUBCALL_CONNECT),
      (''listen'', subcall_value SUBCALL_LISTEN), (''accept'', subcall_value SUBCALL_ACCEPT),
      (''getsockname'', subcall_value SUBCALL_GETSOCKNAME),
      (''getpeername'', subcall_value SUBCALL_GETPEERNAME),
      (''socketpair'', subcall_value SUBCALL_SOCKETPAIR), (''send'', subcall_value SUBCALL_SEND),
      (''recv'', subcall_value SUBCALL_RECV), (''sendto'', subcall_value SUBCALL_SENDTO),
      (''recvfrom'', subcall_value SUBCALL_RECVFROM),
      (''shutdown'', subcall_value SUBCALL_SHUTDOWN),
      (''setsockopt'', subcall_value SUBCALL_SETSOCKOPT),
      (''getsockopt'', subcall_value SUBCALL_GETSOCKOPT),
      (''sendmsg'', subcall_value SUBCALL_SENDMSG), (''recvmsg'', subcall_value SUBCALL_RECVMSG),
      (''accept4'', subcall_value SUBCALL_ACCEPT4)]"

text \<open>
  The socket families. The \<open>AF_*\<close> constants come from \<^verbatim>\<open>sys/socket.h\<close>: \<open>af\<close>
  gives the value of each, and \<open>None\<close> for one that is not defined.
\<close>

definition addrfam_names :: "string list" where
  "addrfam_names =
     [''AF_ALG'', ''AF_APPLETALK'', ''AF_ASH'', ''AF_ATMPVC'', ''AF_ATMSVC'', ''AF_AX25'',
      ''AF_BLUETOOTH'', ''AF_BRIDGE'', ''AF_CAIF'', ''AF_CAN'', ''AF_DECnet'', ''AF_ECONET'',
      ''AF_FILE'', ''AF_IB'', ''AF_IEEE802154'', ''AF_IMPLINK'', ''AF_INET'', ''AF_INET6'',
      ''AF_IPX'', ''AF_IRDA'', ''AF_ISDN'', ''AF_ISO'', ''AF_IUCV'', ''AF_KCM'', ''AF_KEY'',
      ''AF_LLC'', ''AF_LOCAL'', ''AF_MAX'', ''AF_MPLS'', ''AF_NETBEUI'', ''AF_NETLINK'',
      ''AF_NETROM'', ''AF_NFC'', ''AF_PACKET'', ''AF_PHONET'', ''AF_PPPOX'', ''AF_QIPCRTR'',
      ''AF_RDS'', ''AF_ROSE'', ''AF_ROUTE'', ''AF_RXRPC'', ''AF_SECURITY'', ''AF_SNA'',
      ''AF_SMC'', ''AF_TIPC'', ''AF_UNIX'', ''AF_UNSPEC'', ''AF_VSOCK'', ''AF_WANPIPE'',
      ''AF_X25'', ''AF_XDP'']"

definition addrfams :: "(string \<Rightarrow> nat option) \<Rightarrow> xlat list" where
  "addrfams af = concat (map (\<lambda>s. case af s of None \<Rightarrow> [] | Some v \<Rightarrow> [(s, int v)]) addrfam_names)"

definition pink_name_event :: "int \<Rightarrow> string option" where
  "pink_name_event event = xname events event"

definition pink_lookup_event :: "string option \<Rightarrow> int" where
  "pink_lookup_event name = xlookup events name"

definition pink_name_socket_family :: "(string \<Rightarrow> nat option) \<Rightarrow> int \<Rightarrow> string option" where
  "pink_name_socket_family af family = xname (addrfams af) family"

definition pink_lookup_socket_family :: "(string \<Rightarrow> nat option) \<Rightarrow> string option \<Rightarrow> int" where
  "pink_lookup_socket_family af name = xlookup (addrfams af) name"

definition pink_name_socket_subcall :: "int \<Rightarrow> string option" where
  "pink_name_socket_subcall subcall = xname socket_subcalls subcall"

definition pink_lookup_socket_subcall :: "string option \<Rightarrow> int" where
  "pink_lookup_socket_subcall name = xlookup socket_subcalls name"

section \<open>Tables by number\<close>

text \<open>Which table each ABI of an architecture includes.\<close>

definition sysent_vec :: "pink_config \<Rightarrow> string option list list" where
  "sysent_vec c =
     (case cfg_arch c of
        AARCH64 \<Rightarrow> [sysent_aarch64, sysent_arm]
      | ARM \<Rightarrow> [sysent_arm]
      | I386 \<Rightarrow> [sysent_i386]
      | X86_64 \<Rightarrow> [sysent_x86_64, sysent_i386, sysent_x32]
      | X32 \<Rightarrow> [sysent_x32, sysent_i386]
      | POWERPC \<Rightarrow> (if powerpc64 c then [sysent_powerpc, sysent_powerpc] else [sysent_powerpc])
      | IA64 \<Rightarrow> [sysent_ia64])"

definition errnoent_vec :: "pink_config \<Rightarrow> string option list list" where
  "errnoent_vec c = replicate (PINK_ABIS_SUPPORTED c) (errnoent (cfg_arch c = POWERPC))"

definition signalent_vec :: "pink_config \<Rightarrow> string option list list" where
  "signalent_vec c =
     (if cfg_arch c = IA64 then [signalent_ia64] else replicate (PINK_ABIS_SUPPORTED c) signalent)"

text \<open>\<open>nerrnos0\<close>, \<open>nerrnos1\<close> and \<open>nerrnos2\<close>; \<open>None\<close> where the array does not exist.\<close>

definition nerrnos :: "pink_config \<Rightarrow> int \<Rightarrow> nat option" where
  "nerrnos c abi = (if valid_abi c abi then Some (length (errnoent_vec c ! nat abi)) else None)"

definition ARM_FIRST_SHUFFLED_SYSCALL :: nat where "ARM_FIRST_SHUFFLED_SYSCALL = 388"
definition ARM_LAST_SPECIAL_SYSCALL :: nat where "ARM_LAST_SPECIAL_SYSCALL = 5"
definition SYSCALL_OFFSET :: nat where "SYSCALL_OFFSET = 1024"

definition shuffle_scno :: "'l::len word \<Rightarrow> 'l word" where
  "shuffle_scno scno =
     (let first = of_nat ARM_FIRST_SHUFFLED_SYSCALL; second = first + 1;
          last = of_nat ARM_LAST_SPECIAL_SYSCALL
      in if scno < first then scno
         else if scno = first then 0x000ffff0
         else if scno = 0x000ffff0 then first
         else if scno \<ge> 0x000f0000 \<and> scno \<le> 0x000f0000 + last then scno - 0x000f0000 + second
         else if scno \<le> second + last then scno + 0x000f0000 - second
         else scno)"

text \<open>Only the builds for ARM and AArch64 have the function; elsewhere it is a cast.\<close>

definition arch_shuffle :: "pink_config \<Rightarrow> 'l::len word \<Rightarrow> 'l word" where
  "arch_shuffle c scno = (if cfg_arch c \<in> {ARM, AARCH64} then shuffle_scno scno else scno)"

definition pink_name_syscall :: "pink_config \<Rightarrow> 'l::len word \<Rightarrow> int \<Rightarrow> string option" where
  "pink_name_syscall c scno abi =
     (if abi < 0 \<or> abi \<ge> int (PINK_ABIS_SUPPORTED c) then None
      else
        let sysent = sysent_vec c ! nat abi;
            scno1 = (if cfg_arch c = IA64 then scno - of_nat SYSCALL_OFFSET else scno);
            scno2 = arch_shuffle c scno1
        in if sint scno2 < 0 \<or> sint scno2 \<ge> int (length sysent) then None
           else sysent ! nat (sint scno2))"

text \<open>The loop of the lookups: the first index that holds the name.\<close>

fun find_name :: "string option list \<Rightarrow> string \<Rightarrow> nat option" where
  "find_name [] name = None"
| "find_name (e # es) name = (if e = Some name then Some 0 else map_option Suc (find_name es name))"

definition pink_lookup_syscall :: "pink_config \<Rightarrow> string option \<Rightarrow> int \<Rightarrow> 'l::len word" where
  "pink_lookup_syscall c name abi =
     (case name of
        None \<Rightarrow> - 1
      | Some s \<Rightarrow>
          if s = [] then - 1
          else if abi < 0 \<or> abi \<ge> int (PINK_ABIS_SUPPORTED c) then - 1
          else (case find_name (sysent_vec c ! nat abi) s of
                  None \<Rightarrow> - 1
                | Some i \<Rightarrow> if cfg_arch c = IA64 then of_nat i + of_nat SYSCALL_OFFSET
                            else arch_shuffle c (of_nat i)))"

text \<open>\<open>pink_name_errno\<close> and \<open>pink_name_signal\<close> have the same body over their tables.\<close>

definition name_entry :: "pink_config \<Rightarrow> string option list list \<Rightarrow> int \<Rightarrow> int \<Rightarrow> string option" where
  "name_entry c vec n abi =
     (if abi < 0 \<or> abi \<ge> int (PINK_ABIS_SUPPORTED c) then None
      else if n < 0 \<or> n \<ge> int (length (vec ! nat abi)) then None
      else vec ! nat abi ! nat n)"

definition lookup_entry :: "pink_config \<Rightarrow> string option list list \<Rightarrow> string option \<Rightarrow> int \<Rightarrow> int" where
  "lookup_entry c vec name abi =
     (case name of
        None \<Rightarrow> - 1
      | Some s \<Rightarrow>
          if s = [] then - 1
          else if abi < 0 \<or> abi \<ge> int (PINK_ABIS_SUPPORTED c) then - 1
          else (case find_name (vec ! nat abi) s of None \<Rightarrow> - 1 | Some i \<Rightarrow> int i))"

definition pink_name_errno :: "pink_config \<Rightarrow> int \<Rightarrow> int \<Rightarrow> string option" where
  "pink_name_errno c err_no abi = name_entry c (errnoent_vec c) err_no abi"

definition pink_lookup_errno :: "pink_config \<Rightarrow> string option \<Rightarrow> int \<Rightarrow> int" where
  "pink_lookup_errno c name abi = lookup_entry c (errnoent_vec c) name abi"

definition pink_name_signal :: "pink_config \<Rightarrow> int \<Rightarrow> int \<Rightarrow> string option" where
  "pink_name_signal c sig abi = name_entry c (signalent_vec c) sig abi"

definition pink_lookup_signal :: "pink_config \<Rightarrow> string option \<Rightarrow> int \<Rightarrow> int" where
  "pink_lookup_signal c name abi = lookup_entry c (signalent_vec c) name abi"

section \<open>The contract of a table of names\<close>

text \<open>
  Every pair of a naming function and a lookup promises: what has a name is found
  under it again, a null pointer and the empty string are not found, and the value
  for a failed lookup has no name.
\<close>

locale name_table =
  fixes name :: "'n \<Rightarrow> string option" and lookup :: "string option \<Rightarrow> 'n" and fail :: 'n
  assumes name_fail: "name fail = None"
    and named: "name n = Some s \<Longrightarrow> s \<noteq> [] \<Longrightarrow> name (lookup (Some s)) = Some s"
    and null: "lookup None = fail"
    and empty: "lookup (Some []) = fail"
begin

lemma found: "name n = Some s \<Longrightarrow> s \<noteq> [] \<Longrightarrow> lookup (Some s) \<noteq> fail"
  using named name_fail by fastforce

lemma lookup_inj:
  "name m = Some s \<Longrightarrow> name n = Some t \<Longrightarrow> s \<noteq> [] \<Longrightarrow> t \<noteq> [] \<Longrightarrow>
    lookup (Some s) = lookup (Some t) \<Longrightarrow> s = t"
  using named by (metis option.inject)

lemma lookup_canonical:
  "name n = Some s \<Longrightarrow> s \<noteq> [] \<Longrightarrow> lookup (name (lookup (Some s))) = lookup (Some s)"
  using named by metis

end

lemma xname_in: "xname xs v = Some s \<Longrightarrow> (s, v) \<in> set xs"
  by (induction xs) (auto split: if_splits)

lemma xfind_distinct: "distinct (map fst xs) \<Longrightarrow> (s, v) \<in> set xs \<Longrightarrow> xfind xs s = v"
  by (induction xs) (force split: if_splits)+

lemma xname_None: "v \<notin> snd ` set xs \<Longrightarrow> xname xs v = None"
  by (induction xs) (auto split: if_splits)

lemma xlookup_xname:
  "distinct (map fst xs) \<Longrightarrow> xname xs v = Some s \<Longrightarrow> s \<noteq> [] \<Longrightarrow> xlookup xs (Some s) = v"
  by (simp add: xlookup_def xfind_distinct xname_in)

lemma xlat_name_table:
  assumes "distinct (map fst xs)" and "\<forall>x\<in>set xs. 0 \<le> snd x"
  shows "name_table (xname xs) (xlookup xs) (- 1)"
proof
  show "xname xs (- 1) = None" using assms(2) by (intro xname_None) auto
  show "xname xs (xlookup xs (Some s)) = Some s" if "xname xs n = Some s" "s \<noteq> []" for n s
    using xlookup_xname [OF assms(1) that] that by simp
qed (simp_all add: xlookup_def)

lemma events_distinct: "distinct (map fst events)"
  by (simp add: events_def)

lemma subcalls_distinct: "distinct (map fst socket_subcalls)"
  by (simp add: socket_subcalls_def)

lemma addrfam_names_distinct: "distinct addrfam_names"
  by (simp add: addrfam_names_def)

lemma addrfams_distinct: "distinct (map fst (addrfams af))"
proof -
  have "map fst (concat (map (\<lambda>s. case af s of None \<Rightarrow> [] | Some v \<Rightarrow> [(s, int v)]) ns)) =
      filter (\<lambda>s. af s \<noteq> None) ns" for ns
    by (induction ns) (auto split: option.split)
  with addrfam_names_distinct show ?thesis by (simp add: addrfams_def)
qed

lemma events_nonneg: "\<forall>x\<in>set events. 0 \<le> snd x"
  by (simp add: events_def event_consts)

lemma subcalls_nonneg: "\<forall>x\<in>set socket_subcalls. 0 \<le> snd x"
  by (simp add: socket_subcalls_def)

lemma addrfams_nonneg: "\<forall>x\<in>set (addrfams af). 0 \<le> snd x"
  by (auto simp: addrfams_def split: option.splits)

interpretation event: name_table pink_name_event pink_lookup_event "- 1"
  unfolding pink_name_event_def pink_lookup_event_def
  by (rule xlat_name_table [OF events_distinct events_nonneg])

interpretation family: name_table "pink_name_socket_family af" "pink_lookup_socket_family af" "- 1" for af
  unfolding pink_name_socket_family_def pink_lookup_socket_family_def
  by (rule xlat_name_table [OF addrfams_distinct addrfams_nonneg])

interpretation subcall: name_table pink_name_socket_subcall pink_lookup_socket_subcall "- 1"
  unfolding pink_name_socket_subcall_def pink_lookup_socket_subcall_def
  by (rule xlat_name_table [OF subcalls_distinct subcalls_nonneg])

lemma find_name_Some:
  "es ! j = Some s \<Longrightarrow> j < length es \<Longrightarrow> \<exists>i\<le>j. find_name es s = Some i \<and> es ! i = Some s"
proof (induction es arbitrary: j)
  case (Cons e es)
  then show ?case by (cases j) (fastforce simp: less_Suc_eq_le)+
qed simp

lemma find_name_None: "find_name es s = None \<longleftrightarrow> Some s \<notin> set es"
  by (induction es) auto

lemma entry_name_table: "name_table (\<lambda>n. name_entry c vec n abi) (\<lambda>s. lookup_entry c vec s abi) (- 1)"
proof
  fix n s
  assume "name_entry c vec n abi = Some s" and "s \<noteq> []"
  moreover from this obtain i where "i \<le> nat n" "find_name (vec ! nat abi) s = Some i"
    "vec ! nat abi ! i = Some s"
    using find_name_Some [of "vec ! nat abi" "nat n" s]
    by (auto simp: name_entry_def nat_less_iff split: if_splits)
  ultimately show "name_entry c vec (lookup_entry c vec (Some s) abi) abi = Some s"
    by (auto simp: name_entry_def lookup_entry_def split: if_splits)
qed (simp_all add: name_entry_def lookup_entry_def)

interpretation errno_name: name_table "\<lambda>n. pink_name_errno c n abi" "\<lambda>s. pink_lookup_errno c s abi" "- 1" for c abi
  unfolding pink_name_errno_def pink_lookup_errno_def by (rule entry_name_table)

interpretation signal_name: name_table "\<lambda>n. pink_name_signal c n abi" "\<lambda>s. pink_lookup_signal c s abi" "- 1" for c abi
  unfolding pink_name_signal_def pink_lookup_signal_def by (rule entry_name_table)

text \<open>Shuffling a number twice gives it back, on both widths of \<open>long\<close>.\<close>

lemma shuffle_scno_unat:
  fixes n :: "'l::len word"
  assumes "long_width TYPE('l)"
  shows "unat (shuffle_scno n) =
    (let k = unat n
     in if k < 388 then k else if k = 388 then 0xffff0 else if k = 0xffff0 then 388
        else if 0xf0000 \<le> k \<and> k \<le> 0xf0005 then k - 0xf0000 + 389
        else if k \<le> 394 then k + 0xf0000 - 389 else k)"
proof -
  define k where "k = unat n"
  have n: "n = word_of_nat k" by (simp add: k_def)
  have less: "n < word_of_nat m \<longleftrightarrow> k < m" and leq: "n \<le> word_of_nat m \<longleftrightarrow> k \<le> m"
    and geq: "word_of_nat m \<le> n \<longleftrightarrow> m \<le> k" and eq: "n = word_of_nat m \<longleftrightarrow> k = m" if "m < 2 ^ 31" for m
    using unat_small [OF assms that]
    by (simp_all add: word_less_nat_alt word_le_nat_alt word_unat_eq_iff k_def)
  have shuffle: "shuffle_scno n =
      (if k < 388 then n else if k = 388 then 0xffff0 else if k = 0xffff0 then 388
       else if 0xf0000 \<le> k \<and> k \<le> 0xf0005 then n - 0xf0000 + 389
       else if k \<le> 394 then n + 0xf0000 - 389 else n)"
    using less [of 388] eq [of 388] eq [of "0xffff0"] geq [of "0xf0000"] leq [of "0xf0005"] leq [of 394]
    by (simp add: shuffle_scno_def ARM_FIRST_SHUFFLED_SYSCALL_def ARM_LAST_SPECIAL_SYSCALL_def)
  have down: "unat (n - 0xf0000 + 389) = k - 0xf0000 + 389" if "0xf0000 \<le> k" "k \<le> 0xf0005"
  proof -
    have "n - 0xf0000 + 389 = word_of_nat (k - 0xf0000 + 389)"
      using that(1) by (simp add: n of_nat_diff)
    with unat_small [OF assms, of "k - 0xf0000 + 389"] that(2) show ?thesis by simp
  qed
  have up: "unat (n + 0xf0000 - 389) = k + 0xf0000 - 389" if "k \<le> 394"
  proof -
    have "n + 0xf0000 - 389 = word_of_nat (k + 0xf0000 - 389)"
      by (simp add: n of_nat_diff)
    with unat_small [OF assms, of "k + 0xf0000 - 389"] that show ?thesis by simp
  qed
  show ?thesis
    using down up unat_small [OF assms, of 388] unat_small [OF assms, of "0xffff0"]
    unfolding shuffle Let_def k_def [symmetric] by (simp add: k_def [symmetric])
qed

lemma shuffle_scno_involution:
  fixes n :: "'l::len word"
  assumes "long_width TYPE('l)"
  shows "shuffle_scno (shuffle_scno n) = n"
  unfolding word_unat_eq_iff shuffle_scno_unat [OF assms] Let_def by auto

lemma length_sysent_vec [simp]: "length (sysent_vec c) = PINK_ABIS_SUPPORTED c"
  by (simp add: sysent_vec_def PINK_ABIS_SUPPORTED_def split: arch.split)

lemma length_sysent: "t \<in> set (sysent_vec c) \<Longrightarrow> length t \<le> 547"
  by (auto simp: sysent_vec_def split: arch.splits if_splits)

text \<open>The names of system calls are C strings that are not empty.\<close>

fun c_name :: "string option \<Rightarrow> bool" where
  "c_name None = True"
| "c_name (Some s) = (s \<noteq> [] \<and> CHR 0x00 \<notin> set s)"

lemma sysent_c_names:
  "list_all c_name sysent_aarch64" "list_all c_name sysent_arm" "list_all c_name sysent_i386" "list_all c_name sysent_ia64"
  "list_all c_name sysent_powerpc" "list_all c_name sysent_x32" "list_all c_name sysent_x86_64"
  by (simp_all add: sysent_aarch64_defs sysent_arm_defs sysent_i386_defs sysent_ia64_defs sysent_powerpc_defs
      sysent_x32_defs sysent_x86_64_defs)

lemma sysent_vec_c_names: "t \<in> set (sysent_vec c) \<Longrightarrow> list_all c_name t"
  by (auto simp: sysent_vec_def sysent_c_names split: arch.splits if_splits)

lemma guarded_nth:
  assumes "(if a < 0 \<or> a \<ge> int n then None else if j < 0 \<or> j \<ge> int (length es) then None else es ! nat j) = Some s"
  shows "nat a < n \<and> Some s \<in> set es"
  using assms
  by (auto simp: nat_less_iff not_le not_less in_set_conv_nth intro!: exI [of _ "nat j"] split: if_split_asm)

lemma pink_name_syscall_c_name:
  assumes "pink_name_syscall c scno abi = Some s"
  shows "s \<noteq> [] \<and> CHR 0x00 \<notin> set s"
proof -
  note name = guarded_nth [OF assms [unfolded pink_name_syscall_def Let_def]]
  then have "list_all c_name (sysent_vec c ! nat abi)"
    by (intro sysent_vec_c_names [of _ c] nth_mem) simp
  with name show ?thesis
    by (auto simp: list_all_iff)
qed

lemma shuffle_minus_1:
  assumes "long_width TYPE('l::len)"
  shows "shuffle_scno (- 1 :: 'l word) = - 1"
proof -
  have "2 ^ 32 - 1 \<le> unat (- 1 :: 'l word)"
    using assms by (auto simp: long_width_def unsigned_minus_1_eq_mask mask_eq_exp_minus_1)
  then show ?thesis
    unfolding word_unat_eq_iff shuffle_scno_unat [OF assms] Let_def by simp
qed

lemma syscall_name_table:
  assumes "long_width TYPE('l::len)"
  shows "name_table (\<lambda>n :: 'l word. pink_name_syscall c n abi) (\<lambda>s. pink_lookup_syscall c s abi) (- 1)"
proof
  have "- 1 - word_of_nat SYSCALL_OFFSET = (word_of_int (- 1025) :: 'l word)"
    by (simp add: SYSCALL_OFFSET_def)
  moreover have "signed_take_bit (LENGTH('l) - Suc 0) (- 1025 :: int) = - 1025"
    using assms by (auto simp: long_width_def signed_take_bit_int_eq_self_iff)
  ultimately have "sint (- 1 - word_of_nat SYSCALL_OFFSET :: 'l word) < 0"
    by (simp only: signed_of_int) simp
  then show "pink_name_syscall c (- 1 :: 'l word) abi = None"
    using shuffle_minus_1 [OF assms] by (simp add: pink_name_syscall_def arch_shuffle_def Let_def)
  fix n :: "'l word" and s
  assume name: "pink_name_syscall c n abi = Some s" and "s \<noteq> []"
  let ?t = "sysent_vec c ! nat abi"
  have abi: "\<not> (abi < 0 \<or> abi \<ge> int (PINK_ABIS_SUPPORTED c))"
    using name by (auto simp: pink_name_syscall_def)
  then have "?t \<in> set (sysent_vec c)" by (intro nth_mem) (auto simp: nat_less_iff)
  then have len: "length ?t \<le> 547" by (rule length_sysent)
  obtain z where z: "\<not> z < 0" "\<not> int (length ?t) \<le> z" "?t ! nat z = Some s"
    using name abi by (auto simp: pink_name_syscall_def Let_def split: if_splits)
  have "nat z < length ?t" using z by (simp add: nat_less_iff)
  then obtain i where i: "find_name ?t s = Some i" "?t ! i = Some s" "i < length ?t"
    using find_name_Some [OF z(3)] by fastforce
  have "sint (word_of_nat i :: 'l word) = int i"
    using i(3) len by (intro sint_small [OF assms]) simp
  then show "pink_name_syscall c (pink_lookup_syscall c (Some s) abi :: 'l word) abi = Some s"
    using abi i \<open>s \<noteq> []\<close> shuffle_scno_involution [OF assms, of "word_of_nat i"]
    by (auto simp: pink_name_syscall_def pink_lookup_syscall_def arch_shuffle_def Let_def)
qed (simp_all add: pink_lookup_syscall_def)

interpretation syscall_name_32: name_table
  "\<lambda>n :: 32 word. pink_name_syscall c n abi" "\<lambda>s. pink_lookup_syscall c s abi" "- 1" for c abi
  by (rule syscall_name_table) (simp add: long_width_def)

interpretation syscall_name_64: name_table
  "\<lambda>n :: 64 word. pink_name_syscall c n abi" "\<lambda>s. pink_lookup_syscall c s abi" "- 1" for c abi
  by (rule syscall_name_table) (simp add: long_width_def)

lemma signalent_names: "distinct signalent" "None \<notin> set signalent" "Some [] \<notin> set signalent"
  "length signalent = 33"
  by (simp_all add: signalent_def)

lemma find_name_distinct:
  "distinct es \<Longrightarrow> i < length es \<Longrightarrow> es ! i = Some s \<Longrightarrow> find_name es s = Some i"
proof (induction es arbitrary: i)
  case (Cons e es)
  then show ?case by (cases i) (auto dest: nth_mem)
qed simp

section \<open>Properties\<close>

text \<open>
  Shuffling the numbers of ARM system calls is an involution on both widths of
  \<open>long\<close>, as the comment of the function demands.
\<close>

lemma shuffle_scno_involutive:
  "shuffle_scno (shuffle_scno m) = (m :: 32 word) \<and> shuffle_scno (shuffle_scno n) = (n :: 64 word)"
  by (simp add: shuffle_scno_involution long_width_def)

text \<open>
  (C29) System call names: the number found for the name of a system call names the
  same call, on every architecture and ABI, whatever the table holds twice and
  however the numbers are shuffled or offset; and two names are never found under
  one number.
\<close>

theorem pink_lookup_syscall_name:
  fixes m n :: "'l::len word"
  assumes "long_width TYPE('l)" and "pink_name_syscall c m abi = Some s" and "s \<noteq> []"
    and "pink_name_syscall c n abi = Some t" and "t \<noteq> []"
  shows "pink_name_syscall c (pink_lookup_syscall c (Some s) abi :: 'l word) abi = Some s \<and>
    (pink_lookup_syscall c (Some s) abi = (pink_lookup_syscall c (Some t) abi :: 'l word) \<longleftrightarrow> s = t)"
proof -
  note table = syscall_name_table [OF assms(1), of c abi]
  show ?thesis
    using name_table.named [OF table assms(2,3)] name_table.lookup_inj [OF table assms(2,4,3,5)]
    by blast
qed

theorem pink_lookup_syscall_name_witness:
  "pink_name_syscall (ref_config ARM) (0xf0002 :: 32 word) 0 = Some ''cacheflush'' \<and>
   pink_name_syscall (ref_config ARM)
     (pink_lookup_syscall (ref_config ARM) (Some ''cacheflush'') 0 :: 32 word) 0 = Some ''cacheflush''"
proof -
  have "pink_name_syscall (ref_config ARM) (0xf0002 :: 32 word) 0 = Some ''cacheflush''"
    by (simp add: pink_name_syscall_def PINK_ABIS_SUPPORTED_def sysent_vec_def arch_shuffle_def
        shuffle_scno_def ARM_FIRST_SHUFFLED_SYSCALL_def ARM_LAST_SPECIAL_SYSCALL_def
        sysent_arm_defs)
  from pink_lookup_syscall_name [OF _ this _ this] this show ?thesis by (simp add: long_width_def)
qed

text \<open>
  Error number names: the number found for a name that the table has is the
  first one with that name, and it has that name again; a null pointer, the empty
  string and a name outside of the table give -1, which has no name.
\<close>

lemma pink_lookup_errno_name:
  assumes "valid_abi c abi" and "s \<noteq> []"
  shows "(if Some s \<in> set (errnoent (cfg_arch c = POWERPC))
      then pink_name_errno c (pink_lookup_errno c (Some s) abi) abi = Some s
      else pink_lookup_errno c (Some s) abi = - 1) \<and>
    pink_lookup_errno c None abi = - 1 \<and> pink_lookup_errno c (Some []) abi = - 1 \<and>
    pink_name_errno c (- 1) abi = None"
proof -
  let ?t = "errnoent (cfg_arch c = POWERPC)"
  have vec: "errnoent_vec c ! nat abi = ?t"
    using assms(1) by (simp add: errnoent_vec_def valid_abi_def nat_less_iff)
  show ?thesis
  proof (cases "Some s \<in> set ?t")
    case True
    then obtain j where j: "j < length ?t" "?t ! j = Some s" by (auto simp: in_set_conv_nth)
    then have "pink_name_errno c (int j) abi = Some s"
      using assms(1) vec by (simp add: pink_name_errno_def name_entry_def valid_abi_def)
    with True show ?thesis
      using errno_name.named [OF _ assms(2)] errno_name.null errno_name.empty errno_name.name_fail by auto
  next
    case False
    then have "find_name ?t s = None" by (simp add: find_name_None)
    with False show ?thesis
      using errno_name.null errno_name.empty errno_name.name_fail assms vec
      by (simp add: pink_lookup_errno_def lookup_entry_def valid_abi_def)
  qed
qed

lemma pink_lookup_errno_name_ref:
  "pink_name_errno (ref_config X86_64) (pink_lookup_errno (ref_config X86_64) (Some ''EPERM'') 0) 0 =
     Some ''EPERM''"
proof -
  have "Some ''EPERM'' \<in> set (errnoent False)" by (simp add: errnoent_def errnoent_a_def)
  with pink_lookup_errno_name [of "ref_config X86_64" 0 "''EPERM''"] show ?thesis
    by (simp add: valid_abi_def PINK_ABIS_SUPPORTED_def)
qed

text \<open>
  Signal names are unambiguous: on every architecture but IA-64 each signal
  from 0 to 32 has a name, and the name is found under that very number.
\<close>

lemma pink_lookup_signal_inverse:
  assumes "valid_abi c abi" and "cfg_arch c \<noteq> IA64" and "0 \<le> sig" and "sig \<le> 32"
  shows "pink_lookup_signal c (pink_name_signal c sig abi) abi = sig"
proof -
  have "nat sig < length signalent" using assms(4) signalent_names(4) by simp
  moreover from this obtain s where "signalent ! nat sig = Some s" "s \<noteq> []"
    using signalent_names by (metis nth_mem option.exhaust)
  moreover have "signalent_vec c ! nat abi = signalent"
    using assms(1,2) by (simp add: signalent_vec_def valid_abi_def nat_less_iff)
  ultimately show ?thesis
    using assms find_name_distinct [OF signalent_names(1), of "nat sig"]
    by (simp add: pink_lookup_signal_def pink_name_signal_def name_entry_def lookup_entry_def valid_abi_def)
qed

lemma pink_lookup_signal_inverse_ref:
  "pink_lookup_signal (ref_config X86_64) (pink_name_signal (ref_config X86_64) 9 2) 2 = 9"
  using pink_lookup_signal_inverse [of "ref_config X86_64" 2 9]
  by (simp add: valid_abi_def PINK_ABIS_SUPPORTED_def)

text \<open>
  The table of socket subcalls lacks \<open>socket\<close>: every subcall but that one has a
  name under which it is found, and \<open>PINK_SOCKET_SUBCALL_SOCKET\<close> has none.
\<close>

lemma pink_name_socket_subcall_total:
  "if x = SUBCALL_SOCKET then pink_name_socket_subcall (subcall_value x) = None
   else pink_lookup_socket_subcall (pink_name_socket_subcall (subcall_value x)) = subcall_value x"
  by (cases x) (simp_all add: pink_name_socket_subcall_def pink_lookup_socket_subcall_def
      socket_subcalls_def xlookup_def)

text \<open>
  Names of the system calls of x32 are off by one: because of a missing comma,
  the name of call 520, which the table itself notes as \<open>execve\<close>, is that of call
  521, and \<open>execve\<close> is found under 519.
\<close>

lemma x32_names_shifted:
  assumes "cfg_arch c = X86_64"
  shows "pink_name_syscall c (520 :: 64 word) (PINK_ABI_X32 c) = Some ''ptrace'' \<and>
    pink_name_syscall c (519 :: 64 word) (PINK_ABI_X32 c) = Some ''execve'' \<and>
    pink_name_syscall c (244 :: 64 word) (PINK_ABI_X32 c) = Some ''mq_notify#64mq_getsetattr''"
  using assms
  by (simp add: pink_name_syscall_def PINK_ABIS_SUPPORTED_def PINK_ABI_X32_def sysent_vec_def
      arch_shuffle_def sysent_x32_defs)

lemma x32_names_shifted_ref:
  "pink_name_syscall (ref_config X86_64) (520 :: 64 word) 2 = Some ''ptrace''"
  using x32_names_shifted [of "ref_config X86_64"] by (simp add: PINK_ABI_X32_def)

text \<open>
  One name per socket family number: where the C library defines \<open>AF_FILE\<close>
  with the number of \<open>AF_UNIX\<close>, the family of Unix sockets is called \<open>AF_FILE\<close>,
  although \<open>AF_UNIX\<close> is found under the same number.
\<close>

lemma unix_family_named_file:
  assumes "af ''AF_UNIX'' = Some u" and "af ''AF_FILE'' = Some u"
    and "\<forall>s\<in>set addrfam_names. af s = Some u \<longrightarrow> s \<in> {''AF_FILE'', ''AF_LOCAL'', ''AF_UNIX''}"
  shows "pink_name_socket_family af (pink_lookup_socket_family af (Some ''AF_UNIX'')) = Some ''AF_FILE''"
proof -
  have first: "xname (concat (map (\<lambda>s. case af s of None \<Rightarrow> [] | Some v \<Rightarrow> [(s, int v)]) (pre @ x # post)))
      (int u) = Some x" if "\<forall>s\<in>set pre. af s \<noteq> Some u" "af x = Some u" for pre x post
    using that by (induction pre) (auto split: option.split)
  obtain pre post where names: "addrfam_names = pre @ ''AF_FILE'' # post"
      "set pre \<inter> {''AF_FILE'', ''AF_LOCAL'', ''AF_UNIX''} = {}"
    by (rule that [of "take 12 addrfam_names" "drop 13 addrfam_names"]) (simp_all add: addrfam_names_def)
  have "set pre \<subseteq> set addrfam_names" unfolding names(1) by auto
  then have "\<forall>s\<in>set pre. af s \<noteq> Some u" using assms(3) names(2) by blast
  then have "xname (addrfams af) (int u) = Some ''AF_FILE''"
    unfolding addrfams_def names(1) using assms(2) by (rule first)
  moreover have "(''AF_UNIX'', int u) \<in> set (addrfams af)"
    using assms(1) by (auto simp: addrfams_def addrfam_names_def split: option.splits)
  then have "pink_lookup_socket_family af (Some ''AF_UNIX'') = int u"
    using xfind_distinct [OF addrfams_distinct] by (simp add: pink_lookup_socket_family_def xlookup_def)
  ultimately show ?thesis by (simp add: pink_name_socket_family_def)
qed

lemma unix_family_named_file_ref:
  "pink_name_socket_family (\<lambda>s. if s \<in> {''AF_FILE'', ''AF_UNIX''} then Some 1 else None)
     (pink_lookup_socket_family (\<lambda>s. if s \<in> {''AF_FILE'', ''AF_UNIX''} then Some 1 else None)
       (Some ''AF_UNIX'')) = Some ''AF_FILE''"
  using unix_family_named_file [of "\<lambda>s. if s \<in> {''AF_FILE'', ''AF_UNIX''} then Some 1 else None" 1]
  by auto

end
