(* ===== verification/Pink_Read.thy ===== *)
theory Pink_Read
  imports Pink_Vm Pink_Name
begin

text \<open>
  \<^verbatim>\<open>pinktrace/read.c\<close>: what a register set says about the system call of a
  tracee (number, arguments, return value), and reading blocks, strings and arrays
  of strings from its memory.
\<close>

unbundle bit_operations_syntax

section \<open>Registers\<close>

text \<open>
  Rows of \<open>unsigned long\<close> (\<open>struct pt_regs\<close> of ARM and PowerPC), of 64-bit words
  (\<open>struct user_pt_regs\<close>) and of \<open>uint32_t\<close> (\<open>struct arm_pt_regs\<close>).
\<close>

definition ulong_get :: "pink_config \<Rightarrow> nat \<Rightarrow> byte list \<Rightarrow> 'l::len word" where
  "ulong_get c i bs = get_field (big_endian c) (sizeof_long TYPE('l)) i bs"

definition aarch64_get :: "pink_config \<Rightarrow> nat \<Rightarrow> byte list \<Rightarrow> 64 word" where
  "aarch64_get c i bs = get_field (big_endian c) 8 i bs"

definition arm_get :: "pink_config \<Rightarrow> nat \<Rightarrow> byte list \<Rightarrow> 32 word" where
  "arm_get c i bs = get_field (big_endian c) 4 i bs"

definition pink_read_abi :: "pink_regset \<Rightarrow> int \<times> int" where
  "pink_read_abi regset = (0, rs_abi regset)"

text \<open>A result is a status and what was stored through the pointer, if anything.\<close>

definition pink_read_syscall ::
    "pink_config \<Rightarrow> ('l::len word, 'k) kernel \<Rightarrow> int \<Rightarrow> pink_regset \<Rightarrow> 'k world \<Rightarrow>
     int \<times> 'l word option \<times> 'k world" where
  "pink_read_syscall c K pid regset w =
     (let bs = rs_regs regset; abi = rs_abi regset in
      case cfg_arch c of
        AARCH64 \<Rightarrow>
          if abi = PINK_ABI_AARCH64 then (0, Some (ucast (aarch64_get c 8 bs)), w)
          else if abi = PINK_ABI_ARM then (0, Some (ucast (arm_get c 7 bs)), w)
          else (- EINVAL, None, w)
      | ARM \<Rightarrow>
          if ulong_get c ARM_ip bs \<noteq> (0 :: 'l word) then (- EFAULT, None, w)
          else if ulong_get c ARM_cpsr bs AND (0x20 :: 'l word) \<noteq> 0
          then (0, Some (ulong_get c ARM_r7 bs), w)
          else (case pink_read_word_data K pid (ulong_get c ARM_pc bs - 4) w of
                  (r, None, w') \<Rightarrow> (r, None, w')
                | (r, Some sysval, w') \<Rightarrow>
                    if sysval = 0xef000000 then (0, Some (ulong_get c ARM_r7 bs), w')
                    else if sysval AND 0x0ff00000 \<noteq> 0x0f900000 then (- EFAULT, None, w')
                    else (0, Some (sysval AND 0x000fffff), w'))
      | IA64 \<Rightarrow>
          pink_read_word_user K pid
            (of_nat (pt_offset c (if rs_ia32 regset then PT_R1 else PT_R15))) w
      | POWERPC \<Rightarrow> (0, Some (ulong_get c 0 bs), w)
      | I386 \<Rightarrow> (0, Some (ucast (i386_get ORIG_EAX bs)), w)
      | _ \<Rightarrow>
          if abi = PINK_ABI_I386 then (0, Some (ucast (i386_get ORIG_EAX bs)), w)
          else
            let sysnum = ucast (x86_64_get ORIG_RAX bs) :: 'l word
            in (0, Some (if abi = PINK_ABI_X32 c then sysnum - ucast X32_SYSCALL_BIT else sysnum), w))"

section \<open>Return values\<close>

text \<open>
  The number of error numbers of the ABI decides which values are negated error
  numbers; an ABI without a table aborts. The comparison is one of unsigned
  numbers, of 32 bits for an ABI whose words are narrower than \<open>long\<close>.
\<close>

definition is_negated_errno :: "pink_config \<Rightarrow> 'l::len word \<Rightarrow> int \<Rightarrow> bool outcome" where
  "is_negated_errno c val abi =
     (case nerrnos c abi of
        None \<Rightarrow> Fault Abort
      | Some n \<Rightarrow>
          (let max = - (of_nat n) :: 'l word in
           if PINK_ABIS_SUPPORTED c > 1 \<and> sizeof_long TYPE('l) > 4
           then obind (pink_abi_wordsize TYPE('l) c abi) (\<lambda>wordsize.
                  if wordsize < sizeof_long TYPE('l)
                  then Ret ((ucast val :: 32 word) > ucast max)
                  else Ret (val > max))
           else Ret (val > max)))"

definition is_negated_errno_x32 :: "pink_config \<Rightarrow> 64 word \<Rightarrow> int \<Rightarrow> bool outcome" where
  "is_negated_errno_x32 c val abi =
     (case nerrnos c abi of
        None \<Rightarrow> Fault Abort
      | Some n \<Rightarrow>
          (let max = - (of_nat n) :: 64 word in
           Ret (if abi \<noteq> 0 then (ucast val :: 32 word) > ucast max else val > max)))"

text \<open>The value and the error, an \<open>int\<close>, of what the return register holds.\<close>

definition split_retval :: "pink_config \<Rightarrow> 'l::len word \<Rightarrow> int \<Rightarrow> ('l word \<times> int) outcome" where
  "split_retval c val abi =
     obind (is_negated_errno c val abi) (\<lambda>negated.
       Ret (if negated then (- 1, sint (ucast (- val) :: 32 word)) else (val, 0)))"

text \<open>\<open>is_negated_errno_x32\<close> is called with one argument, which is not C.\<close>

definition pink_read_retval ::
    "pink_config \<Rightarrow> ('l::len word, 'k) kernel \<Rightarrow> int \<Rightarrow> pink_regset \<Rightarrow> 'k world \<Rightarrow>
     (int \<times> ('l word \<times> int) option \<times> 'k world) outcome" where
  "pink_read_retval c K pid regset w =
     (let bs = rs_regs regset; abi = rs_abi regset;
          done = (\<lambda>val. obind (split_retval c val abi) (\<lambda>v. Ret (0, Some v, w)))
      in
      case cfg_arch c of
        AARCH64 \<Rightarrow>
          if abi = PINK_ABI_ARM then done (ucast (arm_get c 0 bs))
          else done (ucast (aarch64_get c 0 bs))
      | ARM \<Rightarrow> done (ulong_get c 0 bs)
      | IA64 \<Rightarrow>
          (case pink_read_word_user K pid (of_nat (pt_offset c PT_R8)) w of
             (r, None, w') \<Rightarrow> Ret (r, None, w')
           | (_, Some r8, w') \<Rightarrow>
               (case pink_read_word_user K pid (of_nat (pt_offset c PT_R10)) w' of
                  (r, None, w'') \<Rightarrow> Ret (r, None, w'')
                | (_, Some r10, w'') \<Rightarrow>
                    if rs_ia32 regset
                    then obind (split_retval c (scast (ucast r8 :: 32 word)) abi) (\<lambda>v. Ret (0, Some v, w''))
                    else Ret (0, Some (if r10 \<noteq> 0 then (- 1, sint (ucast r8 :: 32 word)) else (r8, 0)), w'')))
      | POWERPC \<Rightarrow>
          (let ppc_result = ulong_get c 3 bs
           in done (if ulong_get c PPC_CCR bs AND (0x10000000 :: 'l word) \<noteq> 0
                    then - ppc_result else ppc_result))
      | I386 \<Rightarrow> done (ucast (i386_get EAX bs))
      | X86_64 \<Rightarrow>
          done (if abi = PINK_ABI_I386 then scast (i386_get EAX bs) else ucast (x86_64_get RAX bs))
      | X32 \<Rightarrow> Fault Not_built)"

section \<open>Arguments\<close>

text \<open>The register of an argument, as the \<open>switch\<close>es list them; \<open>None\<close> is the abort.\<close>

definition x86_64_arg :: "nat \<Rightarrow> x86_64_reg option" where
  "x86_64_arg i = (if i < 6 then Some ([RDI, RSI, RDX, R10, R8, R9] ! i) else None)"

definition i386_arg :: "nat \<Rightarrow> i386_reg option" where
  "i386_arg i = (if i < 6 then Some ([EBX, ECX, EDX, ESI, EDI, EBP] ! i) else None)"

definition ia32_argreg :: "ia64_reg list" where
  "ia32_argreg = [PT_R11, PT_R9, PT_R10, PT_R14, PT_R15, PT_R13]"

text \<open>
  On IA-64 the arguments of a 64-bit call are read with the length and the
  destination of \<open>pink_read_vm_data_full\<close> swapped: the kernel would be told to
  store at address 8.
\<close>

definition pink_read_argument ::
    "pink_config \<Rightarrow> ('l::len word, 'k) kernel \<Rightarrow> int \<Rightarrow> pink_regset \<Rightarrow> nat \<Rightarrow> 'k world \<Rightarrow>
     (int \<times> 'l word option \<times> 'k world) outcome" where
  "pink_read_argument c K pid regset arg_index w =
     (let bs = rs_regs regset; abi = rs_abi regset in
      if arg_index \<ge> PINK_MAX_ARGS then Ret (- EINVAL, None, w)
      else
        case cfg_arch c of
          AARCH64 \<Rightarrow>
            if abi = PINK_ABI_AARCH64 then Ret (0, Some (ucast (aarch64_get c arg_index bs)), w)
            else Ret (0, Some (ucast (arm_get c arg_index bs)), w)
        | ARM \<Rightarrow>
            Ret (0, Some (ulong_get c (if arg_index = 0 then ARM_ORIG_r0 else arg_index) bs), w)
        | IA64 \<Rightarrow>
            if \<not> rs_ia32 regset then
              (case pink_read_word_user K pid (of_nat (pt_offset c PT_RBS_END)) w of
                 (r, None, w') \<Rightarrow> Ret (r, None, w')
               | (_, Some rbs_end, w') \<Rightarrow>
                   (case pink_read_word_user K pid (of_nat (pt_offset c PT_CFM)) w' of
                      (r, None, w'') \<Rightarrow> Ret (r, None, w'')
                    | (_, Some cfm, w'') \<Rightarrow> Fault Undefined))
            else
              (case pink_read_word_user K pid (of_nat (pt_offset c (ia32_argreg ! arg_index))) w of
                 (r, None, w') \<Rightarrow> Ret (r, None, w')
               | (_, Some myval, w') \<Rightarrow> Ret (0, Some (myval AND 0xffffffff), w'))
        | POWERPC \<Rightarrow>
            Ret (0, Some (ulong_get c (if arg_index = 0 then PPC_ORIG_R3 else arg_index + 3) bs), w)
        | I386 \<Rightarrow>
            (case i386_arg arg_index of
               None \<Rightarrow> Fault Abort
             | Some reg \<Rightarrow> Ret (0, Some (ucast (i386_get reg bs)), w))
        | _ \<Rightarrow>
            if abi \<noteq> PINK_ABI_I386 then
              (case x86_64_arg arg_index of
                 None \<Rightarrow> Fault Abort
               | Some reg \<Rightarrow> Ret (0, Some (ucast (x86_64_get reg bs)), w))
            else
              (case i386_arg arg_index of
                 None \<Rightarrow> Fault Abort
               | Some reg \<Rightarrow> Ret (0, Some (scast (i386_get reg bs)), w)))"

section \<open>Memory\<close>

text \<open>What is in the buffer after a second reader stored \<open>d\<close> over \<open>d0\<close>.\<close>

definition stored_over :: "byte list \<Rightarrow> byte list \<Rightarrow> byte list" where
  "stored_over d d0 = d @ drop (length d) d0"

definition pink_read_vm_data ::
    "pink_config \<Rightarrow> ('l::len word, 'k) kernel \<Rightarrow> int \<Rightarrow> pink_regset \<Rightarrow> 'l word \<Rightarrow> nat \<Rightarrow>
     'k world \<Rightarrow> (int \<times> byte list \<times> 'k world) outcome" where
  "pink_read_vm_data c K pid regset addr len w =
     obind (pink_vm_cread c K pid regset addr len (w\<lparr>errno := 0\<rparr>)) (\<lambda>(r, d, w').
       if errno w' = ENOSYS \<or> errno w' = EPERM
       then (case pink_vm_lread c K pid regset addr len w' of
               (r', d', w'') \<Rightarrow> Ret (r', stored_over d' d, w''))
       else Ret (r, d, w'))"

definition pink_read_vm_data_full ::
    "pink_config \<Rightarrow> ('l::len word, 'k) kernel \<Rightarrow> int \<Rightarrow> pink_regset \<Rightarrow> 'l word \<Rightarrow> nat \<Rightarrow>
     'k world \<Rightarrow> (int \<times> byte list \<times> 'k world) outcome" where
  "pink_read_vm_data_full c K pid regset addr len w =
     obind (pink_read_vm_data c K pid regset addr len (w\<lparr>errno := 0\<rparr>)) (\<lambda>(l, d, w').
       Ret (if l < 0 then - errno w' else if int len \<noteq> l then - EFAULT else 0, d, w'))"

definition pink_read_vm_data_nul ::
    "pink_config \<Rightarrow> ('l::len word, 'k) kernel \<Rightarrow> int \<Rightarrow> pink_regset \<Rightarrow> 'l word \<Rightarrow> nat \<Rightarrow>
     'k world \<Rightarrow> (int \<times> byte list \<times> 'k world) outcome" where
  "pink_read_vm_data_nul c K pid regset addr len w =
     obind (pink_vm_cread_nul c K pid regset addr len (w\<lparr>errno := 0\<rparr>)) (\<lambda>(r, d, w').
       if errno w' = ENOSYS \<or> errno w' = EPERM
       then (case pink_vm_lread_nul c K pid regset addr len w' of
               (r', d', w'') \<Rightarrow> Ret (r', stored_over d' d, w''))
       else Ret (r, d, w'))"

text \<open>
  \<open>cp0\<close> is what the uninitialised union \<open>cp\<close> holds at first. The result is the
  return value, the bytes stored from \<open>dest[0]\<close> on, what is stored through
  \<open>nullptr\<close>, and the world.
\<close>

definition pink_read_string_array ::
    "pink_config \<Rightarrow> ('l::len word, 'k) kernel \<Rightarrow> byte list \<Rightarrow> int \<Rightarrow> pink_regset \<Rightarrow> 'l word \<Rightarrow> nat \<Rightarrow>
     nat \<Rightarrow> 'k world \<Rightarrow> (int \<times> byte list \<times> bool option \<times> 'k world) outcome" where
  "pink_read_string_array c K cp0 pid regset arg arr_index dest_len w =
     obind (pink_abi_wordsize TYPE('l) c (rs_abi regset)) (\<lambda>wsize.
     obind (pink_read_vm_data c K pid regset (arg + of_nat (arr_index * wsize)) wsize (w\<lparr>errno := 0\<rparr>))
       (\<lambda>(_, d, w').
         let cp = stored_over d cp0;
             p = (if wsize < sizeof_long TYPE('l)
                  then ucast (of_bytes (big_endian c) (take 4 cp) :: 32 word)
                  else of_bytes (big_endian c) cp) :: 'l word
         in if errno w' \<noteq> 0 then Ret (0, [], None, w')
            else if p = 0 then Ret (0, [], Some True, w')
            else obind (pink_read_vm_data_nul c K pid regset p dest_len w') (\<lambda>(r, s, w'').
                   Ret (r, s, Some False, w''))))"

lemma read_vm_data_fallback:
  assumes "\<not> have_feature c HAVE_PROCESS_VM_READV"
  shows "pink_read_vm_data c K pid regset addr len w =
    Ret (pink_vm_lread c K pid regset addr len (w\<lparr>errno := ENOSYS\<rparr>))"
  using assms
  by (simp add: pink_read_vm_data_def pink_vm_cread_def process_vm_readv_def stored_over_def
      split: prod.split)

interpretation read_vm_data: vm_reader pink_read_vm_data "\<lambda>_. True"
proof
  fix c and K :: "('a word, 'b) kernel" and pid mem w regset len bs
    and addr :: "'a word"
  assume vm: "vm_services c K pid mem w"
    and addr: "setup_addr c regset addr = Ret addr" and len: "0 < (len :: nat)" "len < 2 ^ 31"
  have vm': "vm_services c K pid mem (w\<lparr>errno := e\<rparr>)" for e
    using vm by (simp add: vm_services_def)
  note lmap = lread.all_mapped [OF vm' TrueI addr len] and lunm = lread.not_mapped [OF vm' TrueI addr len]
  note cmap = cread.all_mapped [OF vm' _ addr len] and cunm = cread.not_mapped [OF vm' _ addr len]
  show "\<exists>e. pink_read_vm_data c K pid regset addr len w = Ret (int len, bs, w\<lparr>errno := e\<rparr>) \<and>
      (e = 0 \<or> e = errno w)" if m: "read_mem (mem (kern w)) addr len = Some bs"
  proof (cases "have_feature c HAVE_PROCESS_VM_READV")
    case True
    then show ?thesis
      using cmap [of 0 bs] m by (auto simp: pink_read_vm_data_def ENOSYS_def EPERM_def)
  next
    case False
    then show ?thesis
      using pink_vm_lread_eq [OF vm' [of ENOSYS] len(2), of regset addr] len(1) m
      by (auto simp: read_vm_data_fallback read_mem_iff_mapped_prefix)
  qed
  show "\<exists>r d e. pink_read_vm_data c K pid regset addr len w = Ret (r, d, w\<lparr>errno := e\<rparr>) \<and>
      r < int len \<and> (r < 0 \<longrightarrow> e = EFAULT)" if m: "read_mem (mem (kern w)) addr len = None"
  proof (cases "have_feature c HAVE_PROCESS_VM_READV")
    case True
    with cunm [of 0] m obtain r d e where r: "pink_vm_cread c K pid regset addr len (w\<lparr>errno := 0\<rparr>) =
        Ret (r, d, w\<lparr>errno := e\<rparr>)" "r < int len" "r < 0 \<longrightarrow> e = EFAULT" by auto
    from lunm [of e] m obtain r' d' e' where "pink_vm_lread c K pid regset addr len (w\<lparr>errno := e\<rparr>) =
        (r', d', w\<lparr>errno := e'\<rparr>)" "r' < int len" "r' < 0 \<longrightarrow> e' = EFAULT" by auto
    with r show ?thesis by (auto simp: pink_read_vm_data_def)
  next
    case False
    then show ?thesis
      using lunm [of ENOSYS] m by (auto simp: read_vm_data_fallback)
  qed
qed
text \<open>\<open>pink_read_vm_data_full\<close> for any reader of a block.\<close>

lemma read_vm_data_full_cases:
  fixes addr :: "'l::len word"
  assumes "vm_services c K pid mem w" and "setup_addr c regset addr = Ret addr"
    and "0 < len" and "len < 2 ^ 31"
  shows "\<exists>r d w'. pink_read_vm_data_full c K pid regset addr len w = Ret (r, d, w') \<and> kern w' = kern w \<and>
    (case read_mem (mem (kern w)) addr len of Some bs \<Rightarrow> r = 0 \<and> d = bs | None \<Rightarrow> r = - EFAULT)"
proof -
  have vm: "vm_services c K pid mem (w\<lparr>errno := 0\<rparr>)" using assms(1) by (simp add: vm_services_def)
  note mapped = read_vm_data.all_mapped [OF vm TrueI assms(2-)]
    and unmapped = read_vm_data.not_mapped [OF vm TrueI assms(2-)]
  show ?thesis
  proof (cases "read_mem (mem (kern w)) addr len")
    case None
    with unmapped show ?thesis by (auto simp: pink_read_vm_data_full_def)
  next
    case (Some bs)
    with mapped show ?thesis by (auto simp: pink_read_vm_data_full_def)
  qed
qed

section \<open>Negated error numbers\<close>

lemma nerrnos_valid: "valid_abi c abi \<Longrightarrow> nerrnos c abi = Some 531"
  by (simp add: nerrnos_def errnoent_vec_def valid_abi_def nat_less_iff)

lemma above_negated:
  fixes val :: "'a::len word"
  assumes "0 < n" and "n \<le> 2 ^ LENGTH('a)"
  shows "- of_nat n < val \<longleftrightarrow> (\<exists>e\<in>{1..<n}. val = - of_nat e)"
proof -
  have neg: "uint (- of_nat e :: 'a word) = 2 ^ LENGTH('a) - int e" if "1 \<le> e" "e \<le> n" for e
  proof -
    have "int e \<le> 2 ^ LENGTH('a)" using that(2) assms(2) by (metis of_nat_le_iff of_nat_numeral of_nat_power order_trans)
    with that(1) have "(2 ^ LENGTH('a) + - int e) mod 2 ^ LENGTH('a) = 2 ^ LENGTH('a) - int e"
      by (intro trans [OF mod_pos_pos_trivial]) simp_all
    then have "(- int e) mod 2 ^ LENGTH('a) = 2 ^ LENGTH('a) - int e" by (simp only: mod_add_self1)
    then show ?thesis by (metis of_int_minus of_int_of_nat_eq uint_word_of_int)
  qed
  show ?thesis
  proof
    assume "- of_nat n < val"
    then have lt: "2 ^ LENGTH('a) - int n < uint val"
      using neg [of n] assms(1) by (simp add: word_less_def)
    define e where "e = nat (2 ^ LENGTH('a) - uint val)"
    have e: "int e = 2 ^ LENGTH('a) - uint val" by (simp add: e_def order_less_imp_le)
    with lt uint_lt2p [of val] have "e \<in> {1..<n}" unfolding atLeastLessThan_iff by linarith
    moreover from this e have "uint val = uint (- of_nat e :: 'a word)" by (subst neg) auto
    then have "val = - of_nat e" by (simp only: word_uint_eq_iff)
    ultimately show "\<exists>e\<in>{1..<n}. val = - of_nat e" by blast
  next
    assume "\<exists>e\<in>{1..<n}. val = - of_nat e"
    then obtain e where "1 \<le> e" "e < n" "val = - of_nat e" by auto
    then show "- of_nat n < val" using neg [of e] neg [of n] by (simp add: word_less_def)
  qed
qed

lemma ucast32_eq_iff:
  fixes v u :: "'a::len word"
  shows "(ucast v :: 32 word) = ucast u \<longleftrightarrow> take_bit 32 v = take_bit 32 u"
  by (simp add: bit_eq_iff bit_simps) (metis bit_imp_le_length not_le)

lemma ucast32_of_int:
  "32 \<le> LENGTH('a::len) \<Longrightarrow> (ucast (word_of_int k :: 'a word) :: 32 word) = word_of_int k"
  by (simp add: bit_eq_iff bit_simps)

lemma ucast32_uminus:
  assumes "32 \<le> LENGTH('a::len)"
  shows "(ucast (- v :: 'a word) :: 32 word) = - ucast v"
  using ucast32_of_int [OF assms, of "uint v"] ucast32_of_int [OF assms, of "- uint v"] by simp

lemma ucast32_of_nat:
  "32 \<le> LENGTH('a::len) \<Longrightarrow> (ucast (of_nat n :: 'a word) :: 32 word) = of_nat n"
  using ucast32_of_int [where k = "int n" and 'a = 'a] by simp

lemma wordsize_cases:
  assumes "arch_long TYPE('l::len) c" and "valid_abi c abi"
  shows "pink_abi_wordsize TYPE('l) c abi = Ret (sizeof_long TYPE('l)) \<or>
    pink_abi_wordsize TYPE('l) c abi = Ret 4 \<and> PINK_ABIS_SUPPORTED c > 1 \<and> LENGTH('l) = 64"
proof -
  have "abi = 0 \<or> abi = 1 \<or> abi = 2" using assms(2) PINK_ABIS_SUPPORTED_bounds [of c]
    by (auto simp: valid_abi_def)
  then show ?thesis
    using assms
    by (cases "cfg_arch c")
      (auto simp: pink_abi_wordsize_def abi_wordsize_def PINK_ABIS_SUPPORTED_def arch_long_def
        valid_abi_def sizeof_long_def nth_Cons' split: if_splits)
qed

lemma is_negated_errno_eq:
  fixes val :: "'l::len word"
  assumes arch: "arch_long TYPE('l) c" and abi: "valid_abi c abi"
    and ws: "pink_abi_wordsize TYPE('l) c abi = Ret ws"
  shows "is_negated_errno c val abi =
    Ret (\<exists>e\<in>{1..530}. take_bit (8 * ws) val = take_bit (8 * ws) (- of_nat e))"
proof -
  have lw: "long_width TYPE('l)" by (rule arch_long_width [OF arch])
  define N :: nat where "N = 531"
  have range: "{1..<N} = {1..530}" by (auto simp: N_def)
  have nerrnos: "nerrnos c abi = Some N" using nerrnos_valid [OF abi] by (simp add: N_def)
  have full: "(- of_nat N < val) = (\<exists>e\<in>{1..530}. val = - of_nat e)"
    unfolding range [symmetric] by (rule above_negated) (use lw in \<open>auto simp: long_width_def N_def\<close>)
  have low: "((- of_nat N :: 32 word) < ucast val) = (\<exists>e\<in>{1..530}. take_bit 32 val = take_bit 32 (- of_nat e))"
  proof -
    have "32 \<le> LENGTH('l)" using lw by (auto simp: long_width_def)
    then show ?thesis
      unfolding range [symmetric] ucast32_eq_iff [symmetric] by (subst above_negated) (simp_all only: ucast32_uminus ucast32_of_nat, simp_all add: N_def)
  qed
  from wordsize_cases [OF arch abi] show ?thesis
  proof
    assume "pink_abi_wordsize TYPE('l) c abi = Ret (sizeof_long TYPE('l))"
    moreover from this have "8 * ws = LENGTH('l)" using ws lw by (auto simp: sizeof_long_def long_width_def)
    ultimately show ?thesis
      using full ws by (simp add: is_negated_errno_def nerrnos Let_def take_bit_word_eq_self)
  next
    assume *: "pink_abi_wordsize TYPE('l) c abi = Ret 4 \<and> PINK_ABIS_SUPPORTED c > 1 \<and> LENGTH('l) = 64"
    then have "(ucast (- of_nat N :: 'l word) :: 32 word) = - of_nat N" by (simp add: ucast32_uminus ucast32_of_nat)
    with * low ws show ?thesis
      by (simp add: is_negated_errno_def nerrnos Let_def sizeof_long_def)
  qed
qed

lemma split_retval_eq:
  fixes val :: "'l::len word"
  assumes arch: "arch_long TYPE('l) c" and abi: "valid_abi c abi"
    and ws: "pink_abi_wordsize TYPE('l) c abi = Ret ws"
  shows "e \<in> {1..530} \<Longrightarrow> take_bit (8 * ws) val = take_bit (8 * ws) (- of_nat e) \<Longrightarrow>
      split_retval c val abi = Ret (- 1, int e)"
    and "\<forall>e\<in>{1..530}. take_bit (8 * ws) val \<noteq> take_bit (8 * ws) (- of_nat e) \<Longrightarrow>
      split_retval c val abi = Ret (val, 0)"
proof -
  note neg = is_negated_errno_eq [OF assms, of val]
  show "split_retval c val abi = Ret (- 1, int e)"
    if e: "e \<in> {1..530}" and eq: "take_bit (8 * ws) val = take_bit (8 * ws) (- of_nat e)"
  proof -
    have lw: "32 \<le> LENGTH('l)" "4 \<le> sizeof_long TYPE('l)"
      using arch_long_width [OF arch] by (auto simp: long_width_def sizeof_long_def)
    with wordsize_cases [OF arch abi] ws have "32 \<le> 8 * ws" by auto
    with eq have "take_bit 32 val = take_bit 32 (- of_nat e)"
      by (metis min.absorb1 take_bit_take_bit)
    then have "(ucast val :: 32 word) = - of_nat e"
      using lw by (simp add: ucast32_eq_iff [symmetric] ucast32_uminus ucast32_of_nat)
    then have "sint (ucast (- val) :: 32 word) = int e"
      using e lw by (simp add: ucast32_uminus signed_of_nat signed_take_bit_int_eq_self_iff)
    then show ?thesis using neg e eq by (auto simp: split_retval_def)
  qed
  show "split_retval c val abi = Ret (val, 0)"
    if "\<forall>e\<in>{1..530}. take_bit (8 * ws) val \<noteq> take_bit (8 * ws) (- of_nat e)"
    using that neg by (auto simp: split_retval_def)
qed

section \<open>Arrays of strings\<close>

lemma of_bytes_addr:
  assumes "arch_long TYPE('l::len) c" and "valid_abi c (rs_abi regset)"
    and "pink_abi_wordsize TYPE('l) c (rs_abi regset) = Ret ws" and "length bs = ws"
  shows "setup_addr c regset (of_bytes big bs :: 'l word) = Ret (of_bytes big bs)"
proof -
  have "ws = sizeof_long TYPE('l) \<or> ws = 4" using wordsize_cases [OF assms(1,2)] assms(3) by auto
  moreover have "(of_bytes big bs :: 'l word) AND (push_bit 32 1 - 1) = of_bytes big bs" if "length bs = 4"
  proof -
    have "push_bit 32 1 - 1 = (mask 32 :: 'l word)" by (simp add: mask_eq_exp_minus_1 push_bit_eq_mult)
    moreover have "take_bit 32 (of_bytes big bs :: 'l word) = of_bytes big bs"
      using that by (intro bit_word_eqI) (auto simp: bit_simps of_bytes_def bit_le_word)
    ultimately show ?thesis by (simp only: take_bit_eq_mask)
  qed
  ultimately show ?thesis
    using assms(3,4) by (auto simp: setup_addr_def)
qed

lemma read_string_array_eq:
  fixes arg :: "'l::len word"
  assumes "vm_services c K pid mem w" and "arch_long TYPE('l) c" and "valid_abi c (rs_abi regset)"
    and ws: "pink_abi_wordsize TYPE('l) c (rs_abi regset) = Ret ws"
    and "a = arg + of_nat (i * ws)" and "setup_addr c regset a = Ret a"
    and "read_mem (mem (kern w)) a ws = Some bs" and "length cp0 = sizeof_long TYPE('l)"
  shows "pink_read_string_array c K cp0 pid regset arg i len w =
    (if of_bytes (big_endian c) bs = (0 :: 'l word) then Ret (0, [], Some True, w\<lparr>errno := 0\<rparr>)
     else obind (pink_read_vm_data_nul c K pid regset (of_bytes (big_endian c) bs) len (w\<lparr>errno := 0\<rparr>))
       (\<lambda>(r, s, w'). Ret (r, s, Some False, w')))"
proof -
  have wsc: "ws = sizeof_long TYPE('l) \<or> ws = 4" using wordsize_cases [OF assms(2,3)] ws by auto
  have lw: "sizeof_long TYPE('l) = 4 \<or> sizeof_long TYPE('l) = 8"
    using arch_long_width [OF assms(2)] by (auto simp: long_width_def sizeof_long_def)
  have vm: "vm_services c K pid mem (w\<lparr>errno := 0\<rparr>)" using assms(1) by (simp add: vm_services_def)
  have "length bs = ws" using assms(7) by (metis length_read_mem)
  then have cp: "stored_over bs cp0 = bs @ drop ws cp0" "take ws (stored_over bs cp0) = bs"
    by (simp_all add: stored_over_def)
  then have p: "(if ws < sizeof_long TYPE('l)
      then ucast (of_bytes (big_endian c) (take 4 (stored_over bs cp0)) :: 32 word)
      else of_bytes (big_endian c) (stored_over bs cp0)) = (of_bytes (big_endian c) bs :: 'l word)"
    using wsc assms(8) \<open>length bs = ws\<close> by (auto simp: ucast_of_bytes)
  have rd: "pink_read_vm_data c K pid regset a ws (w\<lparr>errno := 0\<rparr>) = Ret (int ws, bs, w\<lparr>errno := 0\<rparr>)"
    using read_vm_data.all_mapped [OF vm TrueI assms(6), of ws bs] wsc lw assms(7) by auto
  show ?thesis
    unfolding pink_read_string_array_def ws obind.simps assms(5) [symmetric] rd prod.case Let_def p by simp
qed

lemma read_vm_data_nul_ends:
  fixes addr :: "'l::len word"
  assumes "vm_services c K pid mem w" and "setup_addr c regset addr = Ret addr'" and "len < 2 ^ 31"
  shows "\<exists>l d w'. pink_read_vm_data_nul c K pid regset addr len w = Ret (l, d, w')"
proof -
  have "long_width TYPE('l)" "readv_contract K pid mem" using assms(1) by (simp_all add: vm_services_def)
  from cread_nul_loop_ends [OF this assms(3), of c addr' addr' 0 "[]" "w\<lparr>errno := 0\<rparr>"] assms(2)
  show ?thesis
    by (auto simp: pink_read_vm_data_nul_def pink_vm_cread_nul_def split: prod.split)
qed

section \<open>Arguments that are always there\<close>

lemma read_argument_cases:
  fixes K :: "('l::len word, 'k) kernel"
  assumes "cfg_arch c \<noteq> IA64"
  shows "\<exists>v. pink_read_argument c K pid regset i w =
    Ret (if i < 6 then (0, Some v, w) else (- EINVAL, None, w))"
  using assms
  by (cases "cfg_arch c")
    (simp_all add: pink_read_argument_def PINK_MAX_ARGS_def x86_64_arg_def i386_arg_def Let_def)

lemma read_argument_some:
  fixes K :: "('l::len word, 'k) kernel"
  assumes "cfg_arch c \<noteq> IA64" and "i < 6"
  shows "\<exists>v. pink_read_argument c K pid regset i w = Ret (0, Some v, w)"
  using read_argument_cases [OF assms(1), of K pid regset i w] assms(2) by simp

section \<open>Properties of reading\<close>

text \<open>
  (C4) \<open>pink_read_vm_data_full\<close> returns 0 exactly if all the bytes are mapped, and
  stores them; otherwise it returns \<open>-EFAULT\<close>. This holds with
  \<open>process_vm_readv\<close> and with the fallback to \<open>ptrace\<close>.
\<close>

theorem pink_read_vm_data_full_spec:
  fixes addr :: "'l::len word"
  assumes "vm_services c K pid mem w" and "setup_addr c regset addr = Ret addr"
    and "0 < len" and "len < 2 ^ 31"
  shows "\<exists>r d w'. pink_read_vm_data_full c K pid regset addr len w = Ret (r, d, w') \<and> kern w' = kern w \<and>
    (case read_mem (mem (kern w)) addr len of Some bs \<Rightarrow> r = 0 \<and> d = bs | None \<Rightarrow> r = - EFAULT)"
  by (rule read_vm_data_full_cases [OF assms])

theorem pink_read_vm_data_full_spec_witness:
  "\<exists>w'. pink_read_vm_data_full (ref_config X86_64) (ref_kernel False) 7
     (pink_regset_zero TYPE(64) (ref_config X86_64)) (0x1006 :: 64 word) 4
     \<lparr>errno = 0, kern = ref_tracee 0x1008\<rparr> = Ret (0, [1, 1, 0, 1], w')"
  using pink_read_vm_data_full_spec [OF ref_services [of "0x1008"], where len = 4 and addr = "0x1006"
      and regset = "pink_regset_zero TYPE(64) (ref_config X86_64)"]
  by (simp add: mapped_prefix_numeral read_mem_numeral) blast

text \<open>
  (C8) A value is taken for a negated error number exactly if, in the width of the
  tracee's ABI, it is the negation of one of 1 to 530, the error numbers of the
  tables: no supported ABI aborts.
\<close>

theorem is_negated_errno_range:
  fixes val :: "'l::len word"
  assumes "arch_long TYPE('l) c" and "valid_abi c abi"
    and "pink_abi_wordsize TYPE('l) c abi = Ret ws"
  shows "is_negated_errno c val abi =
    Ret (\<exists>e\<in>{1..530}. take_bit (8 * ws) val = take_bit (8 * ws) (- of_nat e))"
  by (rule is_negated_errno_eq [OF assms])

theorem is_negated_errno_range_witness:
  "is_negated_errno (ref_config X86_64) (0xfffffffe :: 64 word) 1 =
     Ret (\<exists>e\<in>{1..530}. take_bit 32 (0xfffffffe :: 64 word) = take_bit 32 (- of_nat e))"
  using is_negated_errno_range [of "ref_config X86_64" 1 4 "0xfffffffe :: 64 word"]
  by (simp add: arch_long_def valid_abi_def PINK_ABIS_SUPPORTED_def pink_abi_wordsize_def abi_wordsize_def)

text \<open>
  (C22) The result of a system call on x86-64: if, in the width of the ABI, the
  return register holds the negation of an error number, the value is -1 and the
  error that number; otherwise the value is the register's, sign-extended for a
  32-bit tracee, and there is no error.
\<close>

theorem pink_read_retval_x86_64:
  fixes val :: "64 word"
  assumes "cfg_arch c = X86_64" and "valid_abi c (rs_abi regset)"
    and "pink_abi_wordsize TYPE(64) c (rs_abi regset) = Ret ws"
    and "val = (if rs_abi regset = PINK_ABI_I386 then scast (i386_get EAX (rs_regs regset))
                else x86_64_get RAX (rs_regs regset))"
  shows "(\<forall>e\<in>{1..530}. take_bit (8 * ws) val = take_bit (8 * ws) (- of_nat e) \<longrightarrow>
      pink_read_retval c K pid regset w = Ret (0, Some (- 1, int e), w)) \<and>
    ((\<forall>e\<in>{1..530}. take_bit (8 * ws) val \<noteq> take_bit (8 * ws) (- of_nat e)) \<longrightarrow>
      pink_read_retval c K pid regset w = Ret (0, Some (val, 0), w))"
proof -
  have arch: "arch_long TYPE(64) c" using assms(1) by (simp add: arch_long_def)
  have "pink_read_retval c K pid regset w = obind (split_retval c val (rs_abi regset)) (\<lambda>v. Ret (0, Some v, w))"
    using assms(1,4) by (simp add: pink_read_retval_def Let_def)
  then show ?thesis
    using split_retval_eq(1) [OF arch assms(2,3), of _ val] split_retval_eq(2) [OF arch assms(2,3), of val]
    by auto
qed

theorem pink_read_retval_x86_64_witness:
  "pink_read_retval (ref_config X86_64) (ref_kernel False) 7
     ((pink_regset_zero TYPE(64) (ref_config X86_64))
       \<lparr>rs_regs := put_field False 8 (x86_64_index RAX) (- 2 :: 64 word) (replicate 216 0)\<rparr>) \<lparr>errno = 0, kern = ref_tracee 0\<rparr> =
     Ret (0, Some (- 1 :: 64 word, 2), \<lparr>errno = 0, kern = ref_tracee 0\<rparr>)"
proof -
  let ?rs = "(pink_regset_zero TYPE(64) (ref_config X86_64))
       \<lparr>rs_regs := put_field False 8 (x86_64_index RAX) (- 2 :: 64 word) (replicate 216 0)\<rparr>"
  have "rs_abi ?rs = 0" by (simp add: pink_regset_zero_def)
  moreover have "x86_64_get RAX (rs_regs ?rs) = - 2"
    by (simp add: x86_64_get_def)
  ultimately show ?thesis
    using pink_read_retval_x86_64 [of "ref_config X86_64" ?rs 8 "- 2" "ref_kernel False" 7 "\<lparr>errno = 0, kern = ref_tracee 0\<rparr>"]
    by (auto simp: valid_abi_def PINK_ABIS_SUPPORTED_def pink_abi_wordsize_def abi_wordsize_def
        PINK_ABI_I386_def dest!: bspec [of _ _ 2])
qed

text \<open>
  An x32 tracee of an x86-64 build: the low half of the 64-bit return
  register decides, so that a 64-bit result such as the offset 0x1fffffff0 of an
  \<open>lseek\<close> is reported as the error 16.
\<close>

lemma pink_read_retval_x32_truncates:
  fixes K :: "(64 word, 'k) kernel"
  assumes "cfg_arch c = X86_64" and "rs_abi regset = PINK_ABI_X32 c"
    and "x86_64_get RAX (rs_regs regset) = 0x1fffffff0"
  shows "pink_read_retval c K pid regset w = Ret (0, Some (- 1, 16), w)"
proof -
  have "split_retval c (0x1fffffff0 :: 64 word) 2 = Ret (- 1, int 16)"
    by (rule split_retval_eq(1) [of _ _ 4])
      (use assms(1) in \<open>simp_all add: arch_long_def valid_abi_def PINK_ABIS_SUPPORTED_def
        pink_abi_wordsize_def abi_wordsize_def\<close>)
  then show ?thesis
    using assms by (simp add: pink_read_retval_def PINK_ABI_X32_def PINK_ABI_I386_def Let_def)
qed

lemma pink_read_retval_x32_truncates_ref:
  "pink_read_retval (ref_config X86_64) (ref_kernel False) 7
     ((pink_regset_zero TYPE(64) (ref_config X86_64))
       \<lparr>rs_abi := 2, rs_regs := put_field False 8 (x86_64_index RAX) (0x1fffffff0 :: 64 word) (replicate 216 0)\<rparr>) \<lparr>errno = 0, kern = ref_tracee 0\<rparr> =
     Ret (0, Some (- 1 :: 64 word, 16), \<lparr>errno = 0, kern = ref_tracee 0\<rparr>)"
  by (rule pink_read_retval_x32_truncates) (simp_all add: PINK_ABI_X32_def x86_64_get_def)



text \<open>
  (C14) \<open>pink_read_string_array\<close>, where the element is mapped: a null pointer
  is the end of the array; otherwise, if the string the pointer leads to ends
  within the buffer and the 256 bytes from its NUL on (or what is left of the
  buffer) are mapped, the string is stored with its NUL, and its length with the
  NUL is returned. The pointer has the width of the tracee's ABI.
\<close>

theorem pink_read_string_array_spec:
  fixes arg p :: "'l::len word"
  assumes "vm_services c K pid mem w" and "arch_long TYPE('l) c" and "valid_abi c (rs_abi regset)"
    and "have_feature c HAVE_PROCESS_VM_READV"
    and "pink_abi_wordsize TYPE('l) c (rs_abi regset) = Ret ws"
    and "a = arg + of_nat (i * ws)" and "setup_addr c regset a = Ret a"
    and "read_mem (mem (kern w)) a ws = Some bs" and "p = of_bytes (big_endian c) bs"
    and "length cp0 = sizeof_long TYPE('l)" and "len < 2 ^ 31"
  shows "(p = 0 \<longrightarrow>
      pink_read_string_array c K cp0 pid regset arg i len w = Ret (0, [], Some True, w\<lparr>errno := 0\<rparr>)) \<and>
    (p \<noteq> 0 \<and> find_nul (mapped_prefix (mem (kern w)) p len) = Some n \<and>
      read_mem (mem (kern w)) p (min len (n + 256)) \<noteq> None \<longrightarrow>
      (\<exists>k. n < k \<and> k \<le> len \<and> pink_read_string_array c K cp0 pid regset arg i len w =
        Ret (int n + 1, mapped_prefix (mem (kern w)) p k, Some False, w\<lparr>errno := 0\<rparr>)))"
proof -
  note eq = read_string_array_eq [OF assms(1-3,5-8,10), folded assms(9), of len]
  have vm: "vm_services c K pid mem (w\<lparr>errno := 0\<rparr>)" using assms(1) by (simp add: vm_services_def)
  have p: "setup_addr c regset p = Ret p" unfolding assms(9) by (rule of_bytes_addr [OF assms(2,3,5) length_read_mem [OF assms(8)]])
  have "\<exists>k. n < k \<and> k \<le> len \<and> pink_read_vm_data_nul c K pid regset p len (w\<lparr>errno := 0\<rparr>) =
      Ret (int n + 1, mapped_prefix (mem (kern w)) p k, w\<lparr>errno := 0\<rparr>)"
    if "find_nul (mapped_prefix (mem (kern w)) p len) = Some n"
      "read_mem (mem (kern w)) p (min len (n + 256)) \<noteq> None"
    using pink_vm_cread_nul_eq [OF vm assms(4) p assms(11), of n] that
    by (auto simp: pink_read_vm_data_nul_def ENOSYS_def EPERM_def)
  then show ?thesis
    unfolding eq by (intro conjI impI) (simp, metis (no_types, lifting) obind.simps(1) prod.case)
qed

theorem pink_read_string_array_spec_witness:
  "\<exists>k. 2 < k \<and> k \<le> 4 \<and> pink_read_string_array (ref_config X86_64) (ref_kernel False) (replicate 8 0) 7
     (pink_regset_zero TYPE(64) (ref_config X86_64)) (0x1000 :: 64 word) 1 4
     \<lparr>errno = 0, kern = ref_tracee 0x0101010101010103\<rparr> =
     Ret (3, mapped_prefix (t_mem (ref_tracee 0x0101010101010103)) (0x0101010101010101 :: 64 word) k, Some False,
      \<lparr>errno = 0, kern = ref_tracee 0x0101010101010103\<rparr>)"
proof -
  let ?rs = "pink_regset_zero TYPE(64) (ref_config X86_64)"
  have ws: "pink_abi_wordsize TYPE(64) (ref_config X86_64) (rs_abi ?rs) = Ret 8" "valid_abi (ref_config X86_64) (rs_abi ?rs)"
    "arch_long TYPE(64) (ref_config X86_64)"
    by (simp_all add: pink_regset_zero_def valid_abi_def PINK_ABIS_SUPPORTED_def pink_abi_wordsize_def
        abi_wordsize_def arch_long_def)
  have bs: "read_mem (t_mem (ref_tracee (0x0101010101010103 :: 64 word))) 0x1008 8 = Some [1, 1, 1, 1, 1, 1, 1, 1]"
    by (simp add: read_mem_numeral)
  have p: "of_bytes (big_endian (ref_config X86_64)) [1, 1, 1, 1, 1, 1, 1, 1] = (0x0101010101010101 :: 64 word)"
    by (simp add: of_bytes_def)
  show ?thesis
    using pink_read_string_array_spec [OF ref_services ws(3,2) _ ws(1) refl _ _ p [symmetric], where i = 1
        and arg = "0x1000" and n = 2 and len = 4 and ?cp0.0 = "replicate 8 0"] bs
    by (simp add: mapped_prefix_numeral read_mem_numeral sizeof_long_def)
qed

end
