(* ===== verification/Pink_Write.thy ===== *)
theory Pink_Write
  imports Pink_Read
begin

text \<open>
  \<^verbatim>\<open>pinktrace/write.c\<close>: changing the system call number, the arguments, the
  return value and the memory of a tracee, and that the readers of
  \<^verbatim>\<open>pinktrace/read.c\<close> see what was written.
\<close>

unbundle bit_operations_syntax

section \<open>Writing registers\<close>

definition NT_ARM_SYSTEM_CALL :: "32 word" where "NT_ARM_SYSTEM_CALL = 0x404"

text \<open>Indices of \<^verbatim>\<open>asm/ptrace.h\<close> of PowerPC.\<close>

definition PT_PPC_R0 :: nat where "PT_PPC_R0 = 0"
definition PT_PPC_R3 :: nat where "PT_PPC_R3 = 3"

definition pink_write_syscall ::
    "pink_config \<Rightarrow> ('l::len word, 'k) kernel \<Rightarrow> int \<Rightarrow> pink_regset \<Rightarrow> 'l word \<Rightarrow> 'k world \<Rightarrow>
     int \<times> 'k world" where
  "pink_write_syscall c K pid regset sysnum w =
     (case cfg_arch c of
        AARCH64 \<Rightarrow>
          (let n = ucast (ucast sysnum :: 16 word) :: 32 word
           in pink_trace_set_regset c K pid (to_bytes (big_endian c) 4 n) NT_ARM_SYSTEM_CALL w)
      | ARM \<Rightarrow> ptrace_status K PTRACE_SET_SYSCALL pid 0 (Scalar (sysnum AND 0xffff)) w
      | IA64 \<Rightarrow>
          if rs_ia32 regset then pink_write_word_user K pid (of_nat (pt_offset c PT_R1)) sysnum w
          else pink_write_word_user K pid (of_nat (pt_offset c PT_R15)) sysnum w
      | POWERPC \<Rightarrow> pink_write_word_user K pid (of_nat (sizeof_long TYPE('l) * PT_PPC_R0)) sysnum w
      | I386 \<Rightarrow> pink_write_word_user K pid (of_nat (4 * i386_index ORIG_EAX)) sysnum w
      | _ \<Rightarrow> pink_write_word_user K pid (of_nat (8 * x86_64_index ORIG_RAX)) sysnum w)"

text \<open>The sign-extended negation of the \<open>int\<close> \<open>error\<close>, or the value if it is 0.\<close>

definition negated_or :: "32 word \<Rightarrow> 'l::len word \<Rightarrow> 'l word" where
  "negated_or error retval = (if error \<noteq> 0 then scast (- error) else retval)"

text \<open>
  The register set is a result: on AArch64 it is changed and handed to the kernel.
  The negation of the smallest \<open>int\<close> is undefined; on PowerPC nothing is negated.
  On ARM the function names members of \<open>struct pink_regset\<close> that exist on
  AArch64 only, and is not C.
\<close>

definition pink_write_retval ::
    "pink_config \<Rightarrow> ('l::len word, 'k) kernel \<Rightarrow> int \<Rightarrow> pink_regset \<Rightarrow> 'l word \<Rightarrow> 32 word \<Rightarrow>
     'k world \<Rightarrow> (int \<times> pink_regset \<times> 'k world) outcome" where
  "pink_write_retval c K pid regset retval error w =
     (let user = (\<lambda>off val w. case pink_write_word_user K pid (of_nat off) val w of
                    (r, w') \<Rightarrow> (r, regset, w'))
      in
      if error = 0x80000000 \<and> cfg_arch c \<notin> {ARM, POWERPC} then Fault Undefined else
      case cfg_arch c of
        AARCH64 \<Rightarrow>
          if rs_abi regset = PINK_ABI_ARM then Ret (user 0 (negated_or error retval) w)
          else
            (let regset' = regset\<lparr>rs_regs := put_field (big_endian c) 8 0
                   (ucast (negated_or error retval) :: 64 word) (rs_regs regset)\<rparr>
             in case pink_trace_set_regset c K pid (take (rs_io_len regset') (rs_regs regset')) NT_PRSTATUS w of
                  (r, w') \<Rightarrow> Ret (r, regset', w'))
      | ARM \<Rightarrow> Fault Not_built
      | IA64 \<Rightarrow>
          (let (r8, r10) = (if error \<noteq> 0 then (scast (- error), - 1) else (retval, 0))
           in case user (pt_offset c PT_R8) r8 w of
                (r, regset', w') \<Rightarrow>
                  if r < 0 then Ret (r, regset', w')
                  else Ret (user (pt_offset c PT_R10) r10 w'))
      | POWERPC \<Rightarrow>
          (let size = sizeof_long TYPE('l) in
           case pink_read_word_user K pid (of_nat (size * PPC_CCR)) w of
             (r, None, w') \<Rightarrow> Ret (r, regset, w')
           | (_, Some flags, w') \<Rightarrow>
               (let retval' = (if error \<noteq> 0 then scast error else retval);
                    flags' = (if error \<noteq> 0 then flags OR 0x10000000 else flags AND NOT 0x10000000)
                in case user (size * PT_PPC_R3) retval' w' of
                     (r, regset', w'') \<Rightarrow>
                       if r < 0 then Ret (r, regset', w'')
                       else Ret (user (size * PPC_CCR) flags' w'')))
      | I386 \<Rightarrow> Ret (user (4 * i386_index EAX) (negated_or error retval) w)
      | _ \<Rightarrow> Ret (user (8 * x86_64_index RAX) (negated_or error retval) w))"

text \<open>The x86-64 register that holds an argument of an i386 tracee.\<close>

definition x86_64_arg_i386 :: "nat \<Rightarrow> x86_64_reg option" where
  "x86_64_arg_i386 i = (if i < 6 then Some ([RBX, RCX, RDX, RSI, RDI, RBP] ! i) else None)"

text \<open>
  On IA-64 the function uses \<open>r\<close> and \<open>state\<close> without declaring them and calls
  \<open>pink_write_vm_data\<close> with one argument too few.
\<close>

definition pink_write_argument ::
    "pink_config \<Rightarrow> ('l::len word, 'k) kernel \<Rightarrow> int \<Rightarrow> pink_regset \<Rightarrow> nat \<Rightarrow> 'l word \<Rightarrow>
     'k world \<Rightarrow> (int \<times> pink_regset \<times> 'k world) outcome" where
  "pink_write_argument c K pid regset arg_index argval w =
     (let user = (\<lambda>off. case pink_write_word_user K pid (of_nat off) argval w of
                    (r, w') \<Rightarrow> Ret (r, regset, w'))
      in
      if cfg_arch c = IA64 then Fault Not_built
      else if arg_index \<ge> PINK_MAX_ARGS then Ret (- EINVAL, regset, w)
      else
        case cfg_arch c of
          AARCH64 \<Rightarrow>
            (let regset' = regset\<lparr>rs_regs :=
                   (if rs_abi regset = PINK_ABI_AARCH64
                    then put_field (big_endian c) 8 arg_index (ucast argval :: 64 word) (rs_regs regset)
                    else put_field (big_endian c) 4 arg_index (ucast argval :: 32 word) (rs_regs regset))\<rparr>
             in case pink_trace_set_regset c K pid (take (rs_io_len regset') (rs_regs regset')) NT_PRSTATUS w of
                  (r, w') \<Rightarrow> Ret (r, regset', w'))
        | ARM \<Rightarrow> user (sizeof_long TYPE('l) * (if arg_index = 0 then 17 else arg_index))
        | IA64 \<Rightarrow> Fault Not_built
        | POWERPC \<Rightarrow>
            user (if arg_index = 0 then sizeof_long TYPE('l) * PPC_ORIG_R3
                  else (arg_index + PT_PPC_R3) * sizeof_long TYPE('l))
        | I386 \<Rightarrow>
            (case i386_arg arg_index of
               None \<Rightarrow> Fault Abort
             | Some reg \<Rightarrow> user (4 * i386_index reg))
        | _ \<Rightarrow>
            if rs_abi regset = PINK_ABI_I386 then
              (case x86_64_arg_i386 arg_index of
                 None \<Rightarrow> Fault Abort
               | Some reg \<Rightarrow> user (8 * x86_64_index reg))
            else if rs_abi regset = PINK_ABI_X32 c \<or>
              cfg_arch c = X86_64 \<and> rs_abi regset = PINK_ABI_X86_64 then
              (case x86_64_arg arg_index of
                 None \<Rightarrow> Fault Abort
               | Some reg \<Rightarrow> user (8 * x86_64_index reg))
            else Ret (- EINVAL, regset, w))"

section \<open>Writing memory\<close>

definition pink_write_vm_data ::
    "pink_config \<Rightarrow> ('l::len word, 'k) kernel \<Rightarrow> (nat \<Rightarrow> byte list) \<Rightarrow> int \<Rightarrow> pink_regset \<Rightarrow> 'l word \<Rightarrow>
     byte list \<Rightarrow> nat \<Rightarrow> 'k world \<Rightarrow> (int \<times> 'k world) outcome" where
  "pink_write_vm_data c K junk pid regset addr src len w =
     obind (pink_vm_cwrite c K pid regset addr src len (w\<lparr>errno := 0\<rparr>)) (\<lambda>(r, w').
       if errno w' = ENOSYS \<or> errno w' = EPERM
       then pink_vm_lwrite c K junk pid regset addr src len w'
       else Ret (r, w'))"

section \<open>The six arguments as a file of registers\<close>

text \<open>
  What the readers and writers of arguments rely on: an argument written is the
  one read, as far as the width of the register goes (\<open>conv\<close>), and writing one
  leaves the others.
\<close>

locale arg_file =
  fixes get :: "nat \<Rightarrow> byte list \<Rightarrow> 64 word" and put :: "nat \<Rightarrow> 64 word \<Rightarrow> byte list \<Rightarrow> byte list"
    and conv :: "64 word \<Rightarrow> 64 word" and wf :: "byte list \<Rightarrow> bool"
  assumes get_put: "wf bs \<Longrightarrow> i < 6 \<Longrightarrow> get i (put i v bs) = conv v"
    and get_put_other: "wf bs \<Longrightarrow> i < 6 \<Longrightarrow> j < 6 \<Longrightarrow> i \<noteq> j \<Longrightarrow> get j (put i v bs) = get j bs"
    and wf_put: "wf bs \<Longrightarrow> i < 6 \<Longrightarrow> wf (put i v bs)"
begin

lemma get_put_if:
  "wf bs \<Longrightarrow> i < 6 \<Longrightarrow> j < 6 \<Longrightarrow> get j (put i v bs) = (if j = i then conv v else get j bs)"
  by (simp add: get_put get_put_other)

text \<open>After a sequence of writes an argument is the last one written to it.\<close>

lemma get_fold_put:
  assumes "wf bs" and "\<forall>(i, v)\<in>set ivs. i < 6" and "j < 6"
  shows "get j (fold (\<lambda>(i, v). put i v) ivs bs) =
    (case map_of (rev ivs) j of Some v \<Rightarrow> conv v | None \<Rightarrow> get j bs)"
  using assms
proof (induction ivs arbitrary: bs)
  case (Cons iv ivs)
  then show ?case
    by (cases iv) (simp add: wf_put get_put_if map_add_def split: option.split)
qed simp

lemma wf_fold_put:
  "wf bs \<Longrightarrow> \<forall>(i, v)\<in>set ivs. i < 6 \<Longrightarrow> wf (fold (\<lambda>(i, v). put i v) ivs bs)"
  by (induction ivs arbitrary: bs) (auto simp: wf_put)

end

definition x86_64_put :: "x86_64_reg \<Rightarrow> 64 word \<Rightarrow> byte list \<Rightarrow> byte list" where
  "x86_64_put r v bs = put_field False 8 (x86_64_index r) v bs"

lemma x86_64_index_inj: "x86_64_index r = x86_64_index s \<longleftrightarrow> r = s"
  by (cases r; cases s) simp_all

lemma length_x86_64_put [simp]: "length bs = 216 \<Longrightarrow> length (x86_64_put r v bs) = 216"
  using x86_64_index_bound [of r] by (simp add: x86_64_put_def)

lemma x86_64_get_put:
  assumes "length bs = 216"
  shows "x86_64_get r (x86_64_put s v bs) = (if r = s then v else x86_64_get r bs)"
proof (cases "r = s")
  case True
  then show ?thesis using assms x86_64_index_bound [of r] by (simp add: x86_64_get_def x86_64_put_def)
next
  case False
  then have "x86_64_index r < x86_64_index s \<or> x86_64_index s < x86_64_index r"
    using x86_64_index_inj by (meson linorder_neqE_nat)
  with False show ?thesis
    unfolding x86_64_get_def x86_64_put_def using assms x86_64_index_bound [of r] x86_64_index_bound [of s]
    by (subst get_put_field_other) auto
qed

text \<open>The argument of an x86-64 tracee in its block of registers, by its mode.\<close>

definition x86_arg_reg :: "bool \<Rightarrow> nat \<Rightarrow> x86_64_reg" where
  "x86_arg_reg ia32 i = the (if ia32 then x86_64_arg_i386 i else x86_64_arg i)"

definition sign_extend32 :: "bool \<Rightarrow> 64 word \<Rightarrow> 64 word" where
  "sign_extend32 ia32 v = (if ia32 then scast (ucast v :: 32 word) else v)"

lemma x86_arg_reg_inj: "i < 6 \<Longrightarrow> j < 6 \<Longrightarrow> x86_arg_reg ia32 i = x86_arg_reg ia32 j \<longleftrightarrow> i = j"
  by (auto simp: x86_arg_reg_def x86_64_arg_def x86_64_arg_i386_def numeral_eq_Suc less_Suc_eq)

interpretation x86_args: arg_file
  "\<lambda>i bs. sign_extend32 ia32 (x86_64_get (x86_arg_reg ia32 i) bs)"
  "\<lambda>i v. x86_64_put (x86_arg_reg ia32 i) v"
  "sign_extend32 ia32" "\<lambda>bs. length bs = 216 \<and> (x86_64_get CS bs = 0x23) = ia32" for ia32
proof
  have cs: "x86_arg_reg ia32 i \<noteq> CS" if "i < 6" for i
    using that by (auto simp: x86_arg_reg_def x86_64_arg_def x86_64_arg_i386_def numeral_eq_Suc less_Suc_eq)
  show "length (x86_64_put (x86_arg_reg ia32 i) v bs) = 216 \<and>
      (x86_64_get CS (x86_64_put (x86_arg_reg ia32 i) v bs) = 0x23) = ia32"
    if "length bs = 216 \<and> (x86_64_get CS bs = 0x23) = ia32" "i < 6" for bs i v
    using that cs [of i] by (auto simp: x86_64_get_put)
qed (auto simp: x86_64_get_put x86_arg_reg_inj)

section \<open>The registers of an x86-64 tracee\<close>

text \<open>
  The kernel keeps the 64-bit block \<open>struct user_regs_struct\<close> of the tracee,
  at the start of the USER area. \<open>PTRACE_GETREGSET\<close> shows it as it is, or, for a
  tracee whose code segment is the 32-bit one, as \<open>struct i386_user_regs_struct\<close>.
\<close>

definition i386_view :: "byte list \<Rightarrow> byte list" where
  "i386_view bs =
     concat (map (\<lambda>r. to_bytes False 4 (ucast (x86_64_get r bs) :: 32 word))
       [RBX, RCX, RDX, RSI, RDI, RBP, RAX, DS, ES, FS, GS, ORIG_RAX, RIP, CS, RFLAGS, RSP, SS])"

definition x86_view :: "byte list \<Rightarrow> byte list" where
  "x86_view bs = (if x86_64_get CS bs = 0x23 then i386_view bs else bs)"

definition x86_regs_contract :: "(64 word, 'k) kernel \<Rightarrow> int \<Rightarrow> ('k \<Rightarrow> byte list) \<Rightarrow> bool" where
  "x86_regs_contract K pid blk \<longleftrightarrow>
     getregset_contract K pid (\<lambda>k. x86_view (blk k)) \<and>
     (\<forall>k r v. length (blk k) = 216 \<and> x86_64_index r \<le> 15 \<longrightarrow>
        (\<exists>k'. sys_ptrace K PTRACE_POKEUSER pid (of_nat (8 * x86_64_index r)) (Scalar v) k = (0, None, [], k') \<and>
           blk k' = x86_64_put r v (blk k)))"

lemma length_i386_view [simp]: "length (i386_view bs) = 68"
  by (simp add: i386_view_def)

lemma i386_view_get:
  "i386_get EBX (i386_view bs) = ucast (x86_64_get RBX bs)"
  "i386_get ECX (i386_view bs) = ucast (x86_64_get RCX bs)"
  "i386_get EDX (i386_view bs) = ucast (x86_64_get RDX bs)"
  "i386_get ESI (i386_view bs) = ucast (x86_64_get RSI bs)"
  "i386_get EDI (i386_view bs) = ucast (x86_64_get RDI bs)"
  "i386_get EBP (i386_view bs) = ucast (x86_64_get RBP bs)"
  "i386_get EAX (i386_view bs) = ucast (x86_64_get RAX bs)"
  "i386_get ORIG_EAX (i386_view bs) = ucast (x86_64_get ORIG_RAX bs)"
  by (simp_all add: i386_get_def get_field_def i386_view_def)

text \<open>The register set after \<open>pink_regset_fill\<close>.\<close>

definition x86_filled :: "pink_config \<Rightarrow> pink_regset \<Rightarrow> byte list \<Rightarrow> pink_regset" where
  "x86_filled c rs bs =
     rs\<lparr>rs_regs := overwrite (rs_regs rs) (x86_view bs), rs_io_len := length (x86_view bs),
       rs_abi := (if x86_64_get CS bs = 0x23 then PINK_ABI_I386
                  else if bit (x86_64_get ORIG_RAX bs) 30 then PINK_ABI_X32 c
                  else PINK_ABI_X86_64)\<rparr>"

lemma fill_x86_filled:
  assumes "cfg_arch c = X86_64" and "have_feature c HAVE_GETREGSET"
    and "x86_regs_contract K pid blk" and "regset_wf TYPE(64) c rs" and "length (blk (kern w)) = 216"
  shows "pink_regset_fill c K pid rs w = Ret (0, x86_filled c rs (blk (kern w)), w\<lparr>errno := 0\<rparr>)"
proof -
  have "getregset_contract K pid (\<lambda>k. x86_view (blk k))" using assms(3) by (simp add: x86_regs_contract_def)
  from regset_fill_x86_64_eq [OF assms(1,2) this assms(4), of w] assms(5)
  show ?thesis by (simp add: x86_filled_def x86_view_def)
qed

lemma x86_filled_wf [simp]: "regset_wf TYPE(64) c (x86_filled c rs bs) \<longleftrightarrow> regset_wf TYPE(64) c rs"
  by (simp add: regset_wf_def x86_filled_def)

lemma x86_filled_get:
  assumes "length (rs_regs rs) = 216" and "length bs = 216"
  shows "x86_64_get CS bs \<noteq> 0x23 \<Longrightarrow> x86_64_get r (rs_regs (x86_filled c rs bs)) = x86_64_get r bs"
    and "x86_64_get CS bs = 0x23 \<Longrightarrow> i386_get d (rs_regs (x86_filled c rs bs)) = i386_get d (i386_view bs)"
proof -
  show "x86_64_get r (rs_regs (x86_filled c rs bs)) = x86_64_get r bs" if "x86_64_get CS bs \<noteq> 0x23"
    using that assms x86_64_index_bound [of r]
    by (simp add: x86_filled_def x86_view_def x86_64_get_def [of r] get_field_overwrite)
  show "i386_get d (rs_regs (x86_filled c rs bs)) = i386_get d (i386_view bs)" if "x86_64_get CS bs = 0x23"
    using that assms i386_index_bound [of d]
    by (simp add: x86_filled_def x86_view_def i386_get_def get_field_overwrite)
qed

lemma x86_filled_abi:
  assumes "cfg_arch c = X86_64"
  shows "rs_abi (x86_filled c rs bs) = PINK_ABI_I386 \<longleftrightarrow> x86_64_get CS bs = 0x23"
    and "rs_abi (x86_filled c rs bs) \<in> {PINK_ABI_I386, PINK_ABI_X32 c, PINK_ABI_X86_64}"
  using assms by (simp_all add: x86_filled_def abi_consts)

text \<open>Reading an argument of a filled set, and writing one.\<close>

lemma read_argument_filled:
  assumes "cfg_arch c = X86_64" and "length (rs_regs rs) = 216" and "length bs = 216" and "i < 6"
    and "ia32 = (x86_64_get CS bs = 0x23)"
  shows "pink_read_argument c K pid (x86_filled c rs bs) i w =
    Ret (0, Some (sign_extend32 ia32 (x86_64_get (x86_arg_reg ia32 i) bs)), w)"
proof -
  have "i = 0 \<or> i = 1 \<or> i = 2 \<or> i = 3 \<or> i = 4 \<or> i = 5" using assms(4) by auto
  then show ?thesis
    using assms x86_filled_abi(1) [OF assms(1), of rs bs]
    by (auto simp: pink_read_argument_def PINK_MAX_ARGS_def x86_arg_reg_def x86_64_arg_def i386_arg_def
        x86_64_arg_i386_def x86_filled_get [OF assms(2,3)] i386_view_get sign_extend32_def)
qed

lemma write_register:
  assumes "x86_regs_contract K pid blk" and "length (blk (kern w)) = 216" and "x86_64_index r \<le> 15"
  shows "\<exists>w'. pink_write_word_user K pid (of_nat (8 * x86_64_index r)) v w = (0, w') \<and>
    blk (kern w') = x86_64_put r v (blk (kern w))"
proof -
  obtain k' where "sys_ptrace K PTRACE_POKEUSER pid (of_nat (8 * x86_64_index r)) (Scalar v) (kern w) =
      (0, None, [], k')" "blk k' = x86_64_put r v (blk (kern w))"
    using assms unfolding x86_regs_contract_def by blast
  then show ?thesis by (simp add: pink_write_word_user_def ptrace_status_def pink_ptrace_def)
qed

lemma write_argument_filled:
  assumes "cfg_arch c = X86_64" and "x86_regs_contract K pid blk"
    and "length (blk (kern w)) = 216" and "i < 6" and "ia32 = (x86_64_get CS bs = 0x23)"
  shows "\<exists>w'. pink_write_argument c K pid (x86_filled c rs bs) i v w = Ret (0, x86_filled c rs bs, w') \<and>
    blk (kern w') = x86_64_put (x86_arg_reg ia32 i) v (blk (kern w))"
proof -
  let ?r = "x86_arg_reg ia32 i"
  have i: "i = 0 \<or> i = 1 \<or> i = 2 \<or> i = 3 \<or> i = 4 \<or> i = 5" using assms(4) by auto
  then have "x86_64_index ?r \<le> 15"
    by (auto simp: x86_arg_reg_def x86_64_arg_def x86_64_arg_i386_def)
  from write_register [OF assms(2,3) this, of v]
  obtain w' where w': "pink_write_word_user K pid (of_nat (8 * x86_64_index ?r)) v w = (0, w')"
    "blk (kern w') = x86_64_put ?r v (blk (kern w))" by blast
  have "pink_write_argument c K pid (x86_filled c rs bs) i v w =
      (case pink_write_word_user K pid (of_nat (8 * x86_64_index ?r)) v w of
         (r, w') \<Rightarrow> Ret (r, x86_filled c rs bs, w'))"
    using i assms(1,4,5) x86_filled_abi [OF assms(1), of rs bs]
    by (auto simp: pink_write_argument_def PINK_MAX_ARGS_def x86_arg_reg_def x86_64_arg_def
        x86_64_arg_i386_def Let_def simp del: of_nat_mult)
  with w' show ?thesis by simp
qed

lemma x86_filled_abi_cong:
  "x86_64_get CS bs = x86_64_get CS bs' \<Longrightarrow> x86_64_get ORIG_RAX bs = x86_64_get ORIG_RAX bs' \<Longrightarrow>
   rs_abi (x86_filled c rs bs) = rs_abi (x86_filled c rs' bs')"
  by (simp add: x86_filled_def)

text \<open>A sequence of calls of \<open>pink_write_argument\<close>, the results of which are not looked at.\<close>

fun write_arguments ::
    "pink_config \<Rightarrow> ('l::len word, 'k) kernel \<Rightarrow> int \<Rightarrow> pink_regset \<Rightarrow> (nat \<times> 'l word) list \<Rightarrow>
     'k world \<Rightarrow> 'k world outcome" where
  "write_arguments c K pid rs [] w = Ret w"
| "write_arguments c K pid rs ((i, v) # ivs) w =
     obind (pink_write_argument c K pid rs i v w) (\<lambda>(_, rs', w'). write_arguments c K pid rs' ivs w')"

lemma write_arguments_filled:
  assumes "cfg_arch c = X86_64" and "x86_regs_contract K pid blk"
    and "length (blk (kern w)) = 216" and "\<forall>(i, v)\<in>set ivs. i < 6" and "ia32 = (x86_64_get CS bs = 0x23)"
  shows "\<exists>w'. write_arguments c K pid (x86_filled c rs bs) ivs w = Ret w' \<and>
    blk (kern w') = fold (\<lambda>(i, v). x86_64_put (x86_arg_reg ia32 i) v) ivs (blk (kern w))"
  using assms(3,4)
proof (induction ivs arbitrary: w)
  case (Cons iv ivs)
  obtain i v where iv: "iv = (i, v)" by (cases iv)
  with write_argument_filled [OF assms(1,2) Cons.prems(1) _ assms(5), of i rs v] Cons.prems(2)
  obtain w1 where w1: "pink_write_argument c K pid (x86_filled c rs bs) i v w = Ret (0, x86_filled c rs bs, w1)"
    "blk (kern w1) = x86_64_put (x86_arg_reg ia32 i) v (blk (kern w))" by auto
  with Cons.IH [of w1] Cons.prems iv show ?case by simp
qed simp

lemma args_keep:
  assumes "length bs = 216" and "\<forall>(i, v)\<in>set ivs. i < 6" and "r = CS \<or> r = ORIG_RAX"
  shows "x86_64_get r (fold (\<lambda>(i, v). x86_64_put (x86_arg_reg ia32 i) v) ivs bs) = x86_64_get r bs"
  using assms(1,2)
proof (induction ivs arbitrary: bs)
  case (Cons iv ivs)
  have "x86_arg_reg ia32 i \<noteq> r" if "i < 6" for i
    using that assms(3)
    by (auto simp: x86_arg_reg_def x86_64_arg_def x86_64_arg_i386_def numeral_eq_Suc less_Suc_eq)
  with Cons show ?case by (cases iv) (auto simp: x86_64_get_put)
qed simp

text \<open>The return value of a filled set.\<close>

lemma read_retval_filled:
  assumes "cfg_arch c = X86_64" and "length (rs_regs rs) = 216" and "length bs = 216"
  shows "pink_read_retval c K pid (x86_filled c rs bs) w =
    obind (split_retval c (sign_extend32 (x86_64_get CS bs = 0x23) (x86_64_get RAX bs))
        (rs_abi (x86_filled c rs bs)))
      (\<lambda>v. Ret (0, Some v, w))"
  using assms(1) x86_filled_abi(1) [OF assms(1), of rs bs]
  by (auto simp: pink_read_retval_def x86_filled_get [OF assms(2,3)] i386_view_get sign_extend32_def Let_def)

lemma negated_error:
  assumes "sint error = int e" and "e \<in> {1..530}"
  shows "sign_extend32 ia32 (negated_or error v) = - of_nat e"
proof -
  have ne: "error \<noteq> 0" using assms by auto
  have sint: "sint (- error) = - int e"
    unfolding sint_word_minus assms(1) using assms(2) by (simp add: signed_take_bit_int_eq_self_iff)
  then have 1: "(scast (- error) :: 64 word) = - of_nat e" by (simp add: scast_eq)
  have "(ucast (- of_nat e :: 64 word) :: 32 word) = word_of_int (sint (- error))"
    by (simp add: ucast32_uminus ucast32_of_nat sint)
  then have "(ucast (- of_nat e :: 64 word) :: 32 word) = - error" by (simp only: of_int_sint scast_id)
  with 1 ne show ?thesis by (simp add: negated_or_def sign_extend32_def)
qed

lemma take_bit_sign_extend32: "n \<le> 32 \<or> \<not> ia32 \<Longrightarrow> take_bit n (sign_extend32 ia32 v) = take_bit n v"
  by (auto simp: sign_extend32_def bit_eq_iff bit_simps)

text \<open>What is made of the value that \<open>pink_write_retval\<close> writes.\<close>

lemma split_retval_written:
  fixes retval :: "64 word"
  assumes "cfg_arch c = X86_64"
    and ws: "pink_abi_wordsize TYPE(64) c (rs_abi (x86_filled c rs bs)) = Ret ws"
    and "sint error = int e"
    and "e \<in> {1..530} \<or> e = 0 \<and> (\<forall>e\<in>{1..530}. take_bit (8 * ws) retval \<noteq> take_bit (8 * ws) (- of_nat e))"
  defines "ia32 \<equiv> x86_64_get CS bs = 0x23"
  shows "split_retval c (sign_extend32 ia32 (negated_or error retval)) (rs_abi (x86_filled c rs bs)) =
    Ret (if e \<noteq> 0 then (- 1, int e) else (sign_extend32 ia32 retval, 0))"
proof -
  have arch: "arch_long TYPE(64) c" using assms(1) by (simp add: arch_long_def)
  have valid: "valid_abi c (rs_abi (x86_filled c rs bs))"
    using x86_filled_abi(2) [OF assms(1), of rs bs] assms(1)
    by (auto simp: valid_abi_def PINK_ABIS_SUPPORTED_def abi_consts)
  show ?thesis
  proof (cases "e = 0")
    case True
    with assms(3) have "error = 0" by (simp add: signed_eq_0_iff)
    have "8 * ws \<le> 32 \<or> \<not> ia32"
      using assms(1) ws x86_filled_abi(1) [OF assms(1), of rs bs]
      by (auto simp: ia32_def pink_abi_wordsize_def PINK_ABIS_SUPPORTED_def abi_wordsize_def abi_consts)
    then have "\<forall>e\<in>{1..530}. take_bit (8 * ws) (sign_extend32 ia32 retval) \<noteq> take_bit (8 * ws) (- of_nat e)"
      using assms(4) True by (simp add: take_bit_sign_extend32)
    with split_retval_eq(2) [OF arch valid ws] True \<open>error = 0\<close> show ?thesis by (simp add: negated_or_def)
  next
    case False
    then show ?thesis
      using split_retval_eq(1) [OF arch valid ws, of e] assms(3,4) negated_error [of error e] by simp
  qed
qed

section \<open>A kernel that serves the registers\<close>

text \<open>Its state is the block of registers.\<close>

fun ref_x86_ptrace ::
    "ptrace_request \<Rightarrow> int \<Rightarrow> 64 word \<Rightarrow> 64 word ptrace_data \<Rightarrow> byte list \<Rightarrow>
     64 word \<times> int option \<times> byte list \<times> byte list" where
  "ref_x86_ptrace PTRACE_POKEUSER pid a (Scalar v) k = (0, None, [], put_field False 8 (unat a div 8) v k)"
| "ref_x86_ptrace PTRACE_GETREGSET pid a (Iovec buf) k = (0, None, take (length buf) (x86_view k), k)"
| "ref_x86_ptrace req pid a d k = (0, None, [], k)"

definition ref_x86_kernel :: "(64 word, byte list) kernel" where
  "ref_x86_kernel =
     \<lparr>sys_ptrace = ref_x86_ptrace,
      sys_process_vm_readv = \<lambda>_ _ _ k. (Inl ENOSYS, k),
      sys_process_vm_writev = \<lambda>_ _ _ k. (Inl ENOSYS, k),
      sys_tkill = \<lambda>_ _ k. (Inr (), k), sys_tgkill = \<lambda>_ _ _ k. (Inr (), k), sys_kill = \<lambda>_ _ k. (Inr (), k),
      sys_malloc = \<lambda>_ k. (Inr (), k), sys_free = \<lambda>k. k\<rparr>"

lemma ref_x86_regs: "x86_regs_contract ref_x86_kernel pid (\<lambda>k. k)"
proof -
  have "unat (of_nat (8 * x86_64_index r) :: 64 word) div 8 = x86_64_index r" for r
    by (cases r) simp_all
  then show ?thesis
    by (auto simp: x86_regs_contract_def getregset_contract_def ref_x86_kernel_def x86_64_put_def simp del: of_nat_mult)
qed

section \<open>Properties of writing\<close>

text \<open>
  (C2) Arguments written are the arguments read. On x86-64, after any sequence of
  calls of \<open>pink_write_argument\<close> for a tracee of any of the three ABIs, a fresh
  register set gives for every argument the last value written to it, cut to 32
  bits and sign-extended for an i386 tracee, and the old value where none was
  written.
\<close>

theorem pink_write_argument_roundtrip:
  fixes K :: "(64 word, 'k) kernel"
  assumes "cfg_arch c = X86_64" and "have_feature c HAVE_GETREGSET"
    and "x86_regs_contract K pid blk" and "regset_wf TYPE(64) c rs" and "length (blk (kern w)) = 216"
    and "\<forall>(i, v)\<in>set ivs. i < 6"
  shows "\<exists>rs1 w1 w2 rs2 w3. pink_regset_fill c K pid rs w = Ret (0, rs1, w1) \<and>
    write_arguments c K pid rs1 ivs w1 = Ret w2 \<and> pink_regset_fill c K pid rs1 w2 = Ret (0, rs2, w3) \<and>
    (\<forall>j<6. pink_read_argument c K pid rs2 j w3 =
       (case map_of (rev ivs) j of
          Some v \<Rightarrow> Ret (0, Some (sign_extend32 (rs_abi rs1 = PINK_ABI_I386) v), w3)
        | None \<Rightarrow> pink_read_argument c K pid rs1 j w3))"
proof -
  define bs where "bs = blk (kern w)"
  define ia32 where "ia32 = (x86_64_get CS bs = 0x23)"
  let ?rs = "x86_filled c rs bs" and ?w = "w\<lparr>errno := 0\<rparr>"
  let ?bs = "fold (\<lambda>(i, v). x86_64_put (x86_arg_reg ia32 i) v) ivs bs"
  have len: "length bs = 216" "length (rs_regs rs) = 216"
    using assms(1,4,5) by (simp_all add: bs_def regset_wf_def sizeof_regs_def)
  then have len': "length (rs_regs ?rs) = 216" by (simp add: x86_filled_def)
  have bs': "length ?bs = 216 \<and> (x86_64_get CS ?bs = 0x23) = ia32"
    using x86_args.wf_fold_put [of bs ia32 ivs] assms(6) len by (simp add: ia32_def)
  obtain w2 where w2: "write_arguments c K pid ?rs ivs ?w = Ret w2" "blk (kern w2) = ?bs"
    using write_arguments_filled [OF assms(1,3) _ assms(6) ia32_def, of ?w rs] len by (auto simp: bs_def)
  have "pink_regset_fill c K pid ?rs w2 = Ret (0, x86_filled c ?rs ?bs, w2\<lparr>errno := 0\<rparr>)"
    using fill_x86_filled [OF assms(1-3), of ?rs w2] assms(4) bs' w2(2) by simp
  moreover have "pink_read_argument c K pid (x86_filled c ?rs ?bs) j w3 =
      (case map_of (rev ivs) j of
          Some v \<Rightarrow> Ret (0, Some (sign_extend32 ia32 v), w3)
        | None \<Rightarrow> pink_read_argument c K pid ?rs j w3)" if "j < 6" for j w3
    using read_argument_filled [OF assms(1) len' _ that, of ?bs ia32 K pid w3]
      read_argument_filled [OF assms(1) len(2,1) that ia32_def, of K pid w3] bs'
      x86_args.get_fold_put [of bs ia32 ivs j] assms(6) that len
    by (simp add: ia32_def [symmetric] split: option.split)
  moreover have "(rs_abi ?rs = PINK_ABI_I386) = ia32" by (simp add: x86_filled_abi [OF assms(1)] ia32_def)
  moreover have "pink_regset_fill c K pid rs w = Ret (0, ?rs, ?w)"
    using fill_x86_filled [OF assms(1-5)] by (simp add: bs_def)
  ultimately show ?thesis using w2(1) by fastforce
qed

theorem pink_write_argument_roundtrip_witness:
  "\<exists>rs1 w1 w2 rs2 w3. pink_regset_fill (ref_config X86_64) ref_x86_kernel 7
       (pink_regset_zero TYPE(64) (ref_config X86_64)) \<lparr>errno = 0, kern = replicate 216 0\<rparr> = Ret (0, rs1, w1) \<and>
     write_arguments (ref_config X86_64) ref_x86_kernel 7 rs1 [(0, 5), (3, 6), (0, 7)] w1 = Ret w2 \<and>
     pink_regset_fill (ref_config X86_64) ref_x86_kernel 7 rs1 w2 = Ret (0, rs2, w3) \<and>
     pink_read_argument (ref_config X86_64) ref_x86_kernel 7 rs2 0 w3 =
       Ret (0, Some (sign_extend32 (rs_abi rs1 = PINK_ABI_I386) 7), w3)"
  using pink_write_argument_roundtrip [of "ref_config X86_64", OF _ _ ref_x86_regs, where
      rs = "pink_regset_zero TYPE(64) (ref_config X86_64)" and w = "\<lparr>errno = 0, kern = replicate 216 0\<rparr>"
      and pid = 7 and ivs = "[(0, 5), (3, 6), (0, 7)]"]
  by (fastforce simp: regset_wf_def pink_regset_zero_def)

text \<open>
  (C6) A return value written is the one read: on x86-64, after
  \<open>pink_write_retval\<close> a fresh register set gives -1 and the error, if an error
  of the tables was given, and the value without an error, if none was given and
  the value is not itself a negated error number of the ABI.
\<close>

theorem pink_write_retval_roundtrip:
  fixes K :: "(64 word, 'k) kernel"
  assumes "cfg_arch c = X86_64" and "have_feature c HAVE_GETREGSET"
    and "x86_regs_contract K pid blk" and "regset_wf TYPE(64) c rs" and "length (blk (kern w)) = 216"
    and "pink_regset_fill c K pid rs w = Ret (0, rs1, w1)"
    and "pink_abi_wordsize TYPE(64) c (rs_abi rs1) = Ret ws"
    and "sint error = int e"
    and "e \<in> {1..530} \<or> e = 0 \<and> (\<forall>e\<in>{1..530}. take_bit (8 * ws) retval \<noteq> take_bit (8 * ws) (- of_nat e))"
  shows "\<exists>w2 rs2 w3. pink_write_retval c K pid rs1 retval error w1 = Ret (0, rs1, w2) \<and>
    pink_regset_fill c K pid rs1 w2 = Ret (0, rs2, w3) \<and>
    pink_read_retval c K pid rs2 w3 =
      Ret (0, Some (if e \<noteq> 0 then (- 1, int e) else (sign_extend32 (rs_abi rs1 = PINK_ABI_I386) retval, 0)), w3)"
proof -
  define bs where "bs = blk (kern w)"
  define ia32 where "ia32 = (x86_64_get CS bs = 0x23)"
  have rs1: "rs1 = x86_filled c rs bs" "w1 = w\<lparr>errno := 0\<rparr>"
    using assms(6) fill_x86_filled [OF assms(1-5)] by (simp_all add: bs_def)
  let ?bs = "x86_64_put RAX (negated_or error retval) bs"
  have len: "length bs = 216" "length (rs_regs rs) = 216"
    using assms(1,4,5) by (simp_all add: bs_def regset_wf_def sizeof_regs_def)
  then have len': "length (rs_regs rs1) = 216" by (simp add: rs1 x86_filled_def)
  have "error \<noteq> 0x80000000"
  proof
    assume "error = 0x80000000"
    with assms(8) show False by simp
  qed
  moreover obtain w2 where w2: "pink_write_word_user K pid (of_nat (8 * x86_64_index RAX)) (negated_or error retval) w1 = (0, w2)"
    "blk (kern w2) = ?bs"
    using write_register [OF assms(3), of w1 RAX "negated_or error retval"] len by (auto simp: rs1 bs_def)
  ultimately have "pink_write_retval c K pid rs1 retval error w1 = Ret (0, rs1, w2)"
    using assms(1) by (simp add: pink_write_retval_def Let_def)
  moreover have "pink_regset_fill c K pid rs1 w2 = Ret (0, x86_filled c rs1 ?bs, w2\<lparr>errno := 0\<rparr>)"
    using fill_x86_filled [OF assms(1-3), of rs1 w2] assms(4) w2(2) len by (simp add: rs1)
  moreover have abi: "rs_abi (x86_filled c rs1 ?bs) = rs_abi rs1"
    unfolding rs1 using len by (intro x86_filled_abi_cong) (simp_all add: x86_64_get_put)
  have "pink_read_retval c K pid (x86_filled c rs1 ?bs) w3 =
      obind (split_retval c (sign_extend32 ia32 (negated_or error retval)) (rs_abi rs1)) (\<lambda>v. Ret (0, Some v, w3))" for w3
    using read_retval_filled [OF assms(1) len', of ?bs K pid w3] len abi by (simp add: x86_64_get_put ia32_def)
  moreover have "split_retval c (sign_extend32 ia32 (negated_or error retval)) (rs_abi rs1) =
      Ret (if e \<noteq> 0 then (- 1, int e) else (sign_extend32 ia32 retval, 0))"
    using split_retval_written [OF assms(1) _ assms(8,9), of rs bs] assms(7) by (simp add: rs1 ia32_def)
  moreover have "(rs_abi rs1 = PINK_ABI_I386) = ia32" by (simp add: rs1 x86_filled_abi [OF assms(1)] ia32_def)
  ultimately show ?thesis by fastforce
qed

theorem pink_write_retval_roundtrip_witness:
  "\<exists>rs1 w1 w2 rs2 w3. pink_regset_fill (ref_config X86_64) ref_x86_kernel 7
       (pink_regset_zero TYPE(64) (ref_config X86_64)) \<lparr>errno = 0, kern = replicate 216 0\<rparr> = Ret (0, rs1, w1) \<and>
     pink_write_retval (ref_config X86_64) ref_x86_kernel 7 rs1 0 38 w1 = Ret (0, rs1, w2) \<and>
     pink_regset_fill (ref_config X86_64) ref_x86_kernel 7 rs1 w2 = Ret (0, rs2, w3) \<and>
     pink_read_retval (ref_config X86_64) ref_x86_kernel 7 rs2 w3 = Ret (0, Some (- 1, 38), w3)"
proof -
  let ?rs = "pink_regset_zero TYPE(64) (ref_config X86_64)" and ?w = "\<lparr>errno = 0, kern = replicate 216 0\<rparr>"
  let ?bs = "replicate 216 0 :: byte list"
  have wf: "regset_wf TYPE(64) (ref_config X86_64) ?rs" by (simp add: regset_wf_def pink_regset_zero_def)
  have fill: "pink_regset_fill (ref_config X86_64) ref_x86_kernel 7 ?rs ?w =
      Ret (0, x86_filled (ref_config X86_64) ?rs ?bs, ?w\<lparr>errno := 0\<rparr>)"
    using fill_x86_filled [OF _ _ ref_x86_regs wf, of ?w] by simp
  have "\<exists>ws. pink_abi_wordsize TYPE(64) (ref_config X86_64) (rs_abi (x86_filled (ref_config X86_64) ?rs ?bs)) = Ret ws"
    using x86_filled_abi(2) [of "ref_config X86_64" ?rs ?bs]
    by (auto simp: pink_abi_wordsize_def PINK_ABIS_SUPPORTED_def abi_wordsize_def abi_consts)
  then obtain ws where ws:
    "pink_abi_wordsize TYPE(64) (ref_config X86_64) (rs_abi (x86_filled (ref_config X86_64) ?rs ?bs)) = Ret ws" ..
  show ?thesis
    using pink_write_retval_roundtrip [OF _ _ ref_x86_regs wf _ fill ws, of 38 38 0] fill by auto
qed

text \<open>
  (C20) A system call number written is the one read, on x86-64: the low 32 bits of
  it for an i386 tracee; otherwise all of it, without the bit 30. That bit decides
  the ABI the tracee has from then on: the number that \<open>pink_read_syscall\<close> gives
  for an x32 tracee, written back as it is, makes the call one of the x86-64 ABI.
\<close>

theorem pink_write_syscall_roundtrip:
  fixes K :: "(64 word, 'k) kernel"
  assumes "cfg_arch c = X86_64" and "have_feature c HAVE_GETREGSET"
    and "x86_regs_contract K pid blk" and "regset_wf TYPE(64) c rs" and "length (blk (kern w)) = 216"
    and "pink_regset_fill c K pid rs w = Ret (0, rs1, w1)"
  shows "\<exists>w2 rs2 w3. pink_write_syscall c K pid rs1 n w1 = (0, w2) \<and>
    pink_regset_fill c K pid rs1 w2 = Ret (0, rs2, w3) \<and>
    pink_read_syscall c K pid rs2 w3 =
      (0, Some (if rs_abi rs1 = PINK_ABI_I386 then ucast (ucast n :: 32 word)
                else if bit n 30 then n - 0x40000000 else n), w3) \<and>
    rs_abi rs2 = (if rs_abi rs1 = PINK_ABI_I386 then PINK_ABI_I386
                  else if bit n 30 then PINK_ABI_X32 c else PINK_ABI_X86_64)"
proof -
  define bs where "bs = blk (kern w)"
  let ?bs = "x86_64_put ORIG_RAX n bs"
  have rs1: "rs1 = x86_filled c rs bs" "w1 = w\<lparr>errno := 0\<rparr>"
    using assms(6) fill_x86_filled [OF assms(1-5)] by (simp_all add: bs_def)
  have len: "length bs = 216" "length (rs_regs rs) = 216"
    using assms(1,4,5) by (simp_all add: bs_def regset_wf_def sizeof_regs_def)
  then have len': "length (rs_regs rs1) = 216" by (simp add: rs1 x86_filled_def)
  have ia32: "rs_abi rs1 = PINK_ABI_I386 \<longleftrightarrow> x86_64_get CS bs = 0x23"
    by (simp add: rs1 x86_filled_abi [OF assms(1)])
  obtain w2 where w2: "pink_write_syscall c K pid rs1 n w1 = (0, w2)" "blk (kern w2) = ?bs"
    using write_register [OF assms(3), of w1 ORIG_RAX n] len assms(1)
    by (auto simp: rs1 bs_def pink_write_syscall_def)
  have "pink_regset_fill c K pid rs1 w2 = Ret (0, x86_filled c rs1 ?bs, w2\<lparr>errno := 0\<rparr>)"
    using fill_x86_filled [OF assms(1-3), of rs1 w2] assms(4) w2(2) len by (simp add: rs1)
  moreover have abi: "rs_abi (x86_filled c rs1 ?bs) = (if rs_abi rs1 = PINK_ABI_I386 then PINK_ABI_I386
      else if bit n 30 then PINK_ABI_X32 c else PINK_ABI_X86_64)"
    using len assms(1) by (simp add: rs1 x86_filled_def x86_64_get_put abi_consts)
  moreover have "pink_read_syscall c K pid (x86_filled c rs1 ?bs) w3 =
      (0, Some (if rs_abi rs1 = PINK_ABI_I386 then ucast (ucast n :: 32 word)
                else if bit n 30 then n - 0x40000000 else n), w3)" for w3
    using abi assms(1) len ia32
    by (auto simp: pink_read_syscall_def x86_filled_get [OF len'] i386_view_get x86_64_get_put
        X32_SYSCALL_BIT_def abi_consts)
  ultimately show ?thesis using w2(1) by fastforce
qed

theorem pink_write_syscall_roundtrip_witness:
  "\<exists>rs1 w1 w2 rs2 w3. pink_regset_fill (ref_config X86_64) ref_x86_kernel 7
       (pink_regset_zero TYPE(64) (ref_config X86_64)) \<lparr>errno = 0, kern = replicate 216 0\<rparr> = Ret (0, rs1, w1) \<and>
     pink_write_syscall (ref_config X86_64) ref_x86_kernel 7 rs1 39 w1 = (0, w2) \<and>
     pink_regset_fill (ref_config X86_64) ref_x86_kernel 7 rs1 w2 = Ret (0, rs2, w3) \<and>
     pink_read_syscall (ref_config X86_64) ref_x86_kernel 7 rs2 w3 = (0, Some 39, w3)"
proof -
  let ?rs = "pink_regset_zero TYPE(64) (ref_config X86_64)" and ?w = "\<lparr>errno = 0, kern = replicate 216 0\<rparr>"
  have wf: "regset_wf TYPE(64) (ref_config X86_64) ?rs" by (simp add: regset_wf_def pink_regset_zero_def)
  have fill: "pink_regset_fill (ref_config X86_64) ref_x86_kernel 7 ?rs ?w =
      Ret (0, x86_filled (ref_config X86_64) ?rs (replicate 216 0), ?w\<lparr>errno := 0\<rparr>)"
    using fill_x86_filled [OF _ _ ref_x86_regs wf, of ?w] by simp
  show ?thesis
    using pink_write_syscall_roundtrip [OF _ _ ref_x86_regs wf _ fill, of 39] fill
    by (auto simp: bit_numeral_rec)
qed

section \<open>The registers of an AArch64 tracee\<close>

text \<open>\<open>PTRACE_SETREGSET\<close> replaces the registers that \<open>PTRACE_GETREGSET\<close> shows.\<close>

definition setregset_contract :: "('l::len word, 'k) kernel \<Rightarrow> int \<Rightarrow> ('k \<Rightarrow> byte list) \<Rightarrow> bool" where
  "setregset_contract K pid regs \<longleftrightarrow>
     (\<forall>k bs. length bs = length (regs k) \<longrightarrow>
        (\<exists>k'. sys_ptrace K PTRACE_SETREGSET pid (scast NT_PRSTATUS) (Iovec bs) k = (0, None, [], k') \<and>
           regs k' = bs))"

lemma ref_setregset: "setregset_contract (ref_kernel big) pid t_regs"
  by (simp add: setregset_contract_def ref_kernel_def)

interpretation aarch64_args: arg_file "aarch64_get c" "put_field (big_endian c) 8" "\<lambda>v. v"
  "\<lambda>bs. length bs = 272" for c
  by unfold_locales (auto simp: aarch64_get_def intro!: get_put_field_other)

interpretation arm_args: arg_file "\<lambda>i bs. ucast (arm_get c i bs)"
  "\<lambda>i v. put_field (big_endian c) 4 i (ucast v :: 32 word)" "\<lambda>v. ucast (ucast v :: 32 word)"
  "\<lambda>bs. length bs = 272" for c
  by unfold_locales (auto simp: arm_get_def intro!: arg_cong [of _ _ ucast] get_put_field_other)

lemma fill_aarch64_eq:
  fixes K :: "('l::len word, 'k) kernel"
  assumes "cfg_arch c = AARCH64" and "have_feature c HAVE_GETREGSET"
    and "getregset_contract K pid regs" and "regset_wf TYPE('l) c rs"
    and "length (regs (kern w)) = 272 \<or> length (regs (kern w)) = 72"
  shows "pink_regset_fill c K pid rs w =
    Ret (0, rs\<lparr>rs_regs := overwrite (rs_regs rs) (regs (kern w)), rs_io_len := length (regs (kern w)),
      rs_abi := (if length (regs (kern w)) = 272 then PINK_ABI_AARCH64 else PINK_ABI_ARM)\<rparr>, w\<lparr>errno := 0\<rparr>)"
proof -
  have "length (regs (kern w)) \<le> length (rs_regs rs)"
    using assms(1,4,5) by (auto simp: regset_wf_def sizeof_regs_def)
  from get_regset_filled [OF assms(3) this assms(2)] assms(1,2,5) show ?thesis
    by (auto simp: pink_regset_fill_def fill_aarch64_def PINK_ABIS_SUPPORTED_def Let_def)
qed

text \<open>
  (C19) On AArch64 \<open>pink_write_argument\<close> changes the caller's register set and the
  tracee alike: the set it leaves is the one a fresh fill gives; it has the
  argument written, cut to 32 bits for an ARM tracee, and the other arguments of
  before.
\<close>

theorem pink_write_argument_aarch64:
  fixes K :: "(64 word, 'k) kernel"
  assumes "cfg_arch c = AARCH64" and "have_feature c HAVE_GETREGSET" and "have_feature c HAVE_SETREGSET"
    and "getregset_contract K pid regs" and "setregset_contract K pid regs" and "regset_wf TYPE(64) c rs"
    and "length (regs (kern w)) = 272 \<or> length (regs (kern w)) = 72"
    and "pink_regset_fill c K pid rs w = Ret (0, rs1, w1)" and "i < 6"
  shows "\<exists>rs2 w2. pink_write_argument c K pid rs1 i v w1 = Ret (0, rs2, w2) \<and>
    pink_regset_fill c K pid rs2 w2 = Ret (0, rs2, w2\<lparr>errno := 0\<rparr>) \<and>
    (\<forall>j<6. pink_read_argument c K pid rs2 j w2 =
       (if j = i then Ret (0, Some (if rs_abi rs1 = PINK_ABI_ARM then ucast (ucast v :: 32 word) else v), w2)
        else pink_read_argument c K pid rs1 j w2))"
proof -
  let ?n = "length (regs (kern w))"
  have rs1: "length (rs_regs rs1) = 272" "rs_io_len rs1 = ?n"
    "rs_abi rs1 = (if ?n = 272 then PINK_ABI_AARCH64 else PINK_ABI_ARM)" "kern w1 = kern w"
    using assms(1,6,8) fill_aarch64_eq [OF assms(1,2,4,6,7)] by (auto simp: regset_wf_def sizeof_regs_def)
  define bs where "bs = (if rs_abi rs1 = PINK_ABI_AARCH64
      then put_field (big_endian c) 8 i v (rs_regs rs1)
      else put_field (big_endian c) 4 i (ucast v :: 32 word) (rs_regs rs1))"
  let ?rs = "rs1\<lparr>rs_regs := bs\<rparr>"
  have bs: "length bs = 272" using rs1(1) assms(9) by (simp add: bs_def)
  obtain k' where k': "sys_ptrace K PTRACE_SETREGSET pid (scast NT_PRSTATUS) (Iovec (take ?n bs)) (kern w1) =
      (0, None, [], k')" "regs k' = take ?n bs"
    using assms(5) [unfolded setregset_contract_def, rule_format, of "take ?n bs" "kern w"] assms(7) bs rs1(4)
    by auto
  then have wr: "pink_write_argument c K pid rs1 i v w1 = Ret (0, ?rs, \<lparr>errno = 0, kern = k'\<rparr>)"
    using assms(1,3,9) rs1(2) unfolding bs_def
    by (cases "rs_abi rs1 = PINK_ABI_AARCH64")
      (simp_all add: pink_write_argument_def PINK_MAX_ARGS_def Let_def pink_trace_set_regset_def
        ptrace_status_def pink_ptrace_def)
  have "pink_regset_fill c K pid ?rs \<lparr>errno = 0, kern = k'\<rparr> = Ret (0, ?rs, \<lparr>errno = 0, kern = k'\<rparr>)"
    using fill_aarch64_eq [OF assms(1,2,4), of ?rs "\<lparr>errno = 0, kern = k'\<rparr>"] assms(1,7) bs rs1 k'(2)
    by (auto simp: regset_wf_def sizeof_regs_def overwrite_def)
  moreover have "pink_read_argument c K pid ?rs j w2 =
      (if j = i then Ret (0, Some (if rs_abi rs1 = PINK_ABI_ARM then ucast (ucast v :: 32 word) else v), w2)
       else pink_read_argument c K pid rs1 j w2)" if "j < 6" for j w2
    using that assms(1,9) rs1(1,3) aarch64_args.get_put_if [of "rs_regs rs1" i j c v]
      arm_args.get_put_if [of "rs_regs rs1" i j c v]
    by (auto simp: pink_read_argument_def PINK_MAX_ARGS_def bs_def abi_consts)
  ultimately show ?thesis using wr by fastforce
qed

theorem pink_write_argument_aarch64_witness:
  "\<exists>rs1 w1 rs2 w2. pink_regset_fill (ref_config AARCH64) (ref_kernel False) 7
       (pink_regset_zero TYPE(64) (ref_config AARCH64))
       \<lparr>errno = 0, kern = \<lparr>t_mem = Map.empty, t_user = Map.empty, t_regs = replicate 72 0\<rparr>\<rparr> = Ret (0, rs1, w1) \<and>
     pink_write_argument (ref_config AARCH64) (ref_kernel False) 7 rs1 2 0x1234567890 w1 = Ret (0, rs2, w2) \<and>
     pink_read_argument (ref_config AARCH64) (ref_kernel False) 7 rs2 2 w2 = Ret (0, Some (0x34567890 :: 64 word), w2)"
proof -
  let ?k = "\<lparr>t_mem = Map.empty, t_user = Map.empty, t_regs = replicate 72 0\<rparr> :: 64 word tracee"
  let ?rs = "pink_regset_zero TYPE(64) (ref_config AARCH64)"
  have wf: "regset_wf TYPE(64) (ref_config AARCH64) ?rs" by (simp add: regset_wf_def pink_regset_zero_def)
  note fill = fill_aarch64_eq [OF _ _ ref_getregset [of False 7] wf, of "\<lparr>errno = 0, kern = ?k\<rparr>", simplified]
  from pink_write_argument_aarch64 [OF _ _ _ ref_getregset [of False 7] ref_setregset wf, of "\<lparr>errno = 0, kern = ?k\<rparr>",
      simplified, OF fill, of 2 "0x1234567890"] fill
  show ?thesis by fastforce
qed

section \<open>Memory\<close>

lemma word_granular_write_mem:
  "word_granular s m \<Longrightarrow> read_mem m a (length bs) \<noteq> None \<Longrightarrow> word_granular s (write_mem m a bs)"
  by (simp add: word_granular_def write_mem_None_iff del: not_None_eq)



end
