(* ===== verification/Pink_Socket.thy ===== *)
theory Pink_Socket
  imports Pink_Read
begin

text \<open>
  \<^verbatim>\<open>pinktrace/socket.c\<close>: the arguments of the system calls of sockets, made
  directly or through \<open>socketcall(2)\<close>, and the socket address one of them points to.
\<close>

section \<open>Operations\<close>

text \<open>
  The macros \<open>pink_read_vm_object_full\<close> for an \<open>unsigned int\<close> and an
  \<open>unsigned long\<close>.
\<close>

definition pink_read_vm_uint ::
    "pink_config \<Rightarrow> ('l::len word, 'k) kernel \<Rightarrow> int \<Rightarrow> pink_regset \<Rightarrow> 'l word \<Rightarrow> 'k world \<Rightarrow>
     (int \<times> 32 word \<times> 'k world) outcome" where
  "pink_read_vm_uint c K pid regset addr w =
     obind (pink_read_vm_data_full c K pid regset addr 4 w) (\<lambda>(r, d, w').
       Ret (r, of_bytes (big_endian c) d, w'))"

definition pink_read_vm_ulong ::
    "pink_config \<Rightarrow> ('l::len word, 'k) kernel \<Rightarrow> int \<Rightarrow> pink_regset \<Rightarrow> 'l word \<Rightarrow> 'k world \<Rightarrow>
     (int \<times> 'l word \<times> 'k world) outcome" where
  "pink_read_vm_ulong c K pid regset addr w =
     obind (pink_read_vm_data_full c K pid regset addr (sizeof_long TYPE('l)) w) (\<lambda>(r, d, w').
       Ret (r, of_bytes (big_endian c) d, w'))"

definition pink_read_socket_subcall ::
    "pink_config \<Rightarrow> ('l::len word, 'k) kernel \<Rightarrow> int \<Rightarrow> pink_regset \<Rightarrow> bool \<Rightarrow> 'k world \<Rightarrow>
     (int \<times> 'l word option \<times> 'k world) outcome" where
  "pink_read_socket_subcall c K pid regset decode_socketcall w =
     (if decode_socketcall then pink_read_argument c K pid regset 0 w
      else Ret (pink_read_syscall c K pid regset w))"

definition pink_read_socket_argument ::
    "pink_config \<Rightarrow> ('l::len word, 'k) kernel \<Rightarrow> int \<Rightarrow> pink_regset \<Rightarrow> bool \<Rightarrow> nat \<Rightarrow> 'k world \<Rightarrow>
     (int \<times> 'l word option \<times> 'k world) outcome" where
  "pink_read_socket_argument c K pid regset decode_socketcall arg_index w =
     (if \<not> decode_socketcall then pink_read_argument c K pid regset arg_index w
      else
        obind (pink_read_argument c K pid regset 1 w) (\<lambda>(r, arg, w').
          case arg of
            None \<Rightarrow> Ret (r, None, w')
          | Some addr \<Rightarrow>
              obind (pink_abi_wordsize TYPE('l) c (rs_abi regset)) (\<lambda>wsize.
                let u_addr = addr + of_nat (arg_index * wsize) in
                if wsize = 4
                then obind (pink_read_vm_uint c K pid regset u_addr w') (\<lambda>(r, val, w'').
                       Ret (if r < 0 then (r, None, w'') else (0, Some (ucast val), w'')))
                else obind (pink_read_vm_ulong c K pid regset u_addr w') (\<lambda>(r, val, w'').
                       Ret (if r < 0 then (r, None, w'') else (0, Some val, w''))))))"

text \<open>\<open>struct pink_sockaddr\<close>; the union is its member \<open>pad\<close>.\<close>

record pink_sockaddr =
  sa_family :: "32 word"
  sa_length :: "32 word"
  sa_pad :: "byte list"

text \<open>The end of \<open>pink_read_socket_address\<close>, once address and length are known.\<close>

definition read_sockaddr ::
    "pink_config \<Rightarrow> ('l::len word, 'k) kernel \<Rightarrow> int \<Rightarrow> pink_regset \<Rightarrow> 'l word \<Rightarrow> 'l word \<Rightarrow>
     pink_sockaddr \<Rightarrow> 'k world \<Rightarrow> (int \<times> pink_sockaddr \<times> 'k world) outcome" where
  "read_sockaddr c K pid regset addr addrlen0 sockaddr w =
     (if addr = 0 then Ret (0, sockaddr\<lparr>sa_family := - 1, sa_length := 0\<rparr>, w)
      else
        (let addrlen = (if addrlen0 < 2 \<or> addrlen0 > 128 then 128 else addrlen0) in
         obind (pink_read_vm_data_full c K pid regset addr (unat addrlen) w) (\<lambda>(r, d, w').
           let pad = overwrite (replicate 128 0) d in
           if r < 0 then Ret (r, sockaddr\<lparr>sa_pad := pad\<rparr>, w')
           else
             (let pad' = pad[127 := 0]
              in Ret (0, sockaddr\<lparr>sa_pad := pad',
                   sa_family := ucast (of_bytes (big_endian c) (take 2 pad') :: 16 word),
                   sa_length := ucast addrlen\<rparr>, w')))))"

text \<open>Its middle: the address and the length are two arguments.\<close>

definition read_sockaddr_arguments ::
    "pink_config \<Rightarrow> ('l::len word, 'k) kernel \<Rightarrow> int \<Rightarrow> pink_regset \<Rightarrow> bool \<Rightarrow> nat \<Rightarrow>
     pink_sockaddr \<Rightarrow> 'k world \<Rightarrow> (int \<times> pink_sockaddr \<times> 'k world) outcome" where
  "read_sockaddr_arguments c K pid regset decode_socketcall arg_index sockaddr w =
     obind (pink_read_socket_argument c K pid regset decode_socketcall arg_index w) (\<lambda>(r, arg, w').
     case arg of
       None \<Rightarrow> Ret (r, sockaddr, w')
     | Some addr \<Rightarrow>
         obind (pink_read_socket_argument c K pid regset decode_socketcall ((arg_index + 1) mod 2 ^ 32) w')
           (\<lambda>(r, arg', w'').
         case arg' of
           None \<Rightarrow> Ret (r, sockaddr, w'')
         | Some addrlen \<Rightarrow> read_sockaddr c K pid regset addr addrlen sockaddr w''))"

text \<open>
  The result is the status, what is stored through \<open>fd\<close>, and the structure.
  \<open>want_fd\<close> tells whether \<open>fd\<close> is a pointer or null.
\<close>

definition pink_read_socket_address ::
    "pink_config \<Rightarrow> ('l::len word, 'k) kernel \<Rightarrow> int \<Rightarrow> pink_regset \<Rightarrow> bool \<Rightarrow> nat \<Rightarrow> bool \<Rightarrow>
     pink_sockaddr \<Rightarrow> 'k world \<Rightarrow> (int \<times> 32 word option \<times> pink_sockaddr \<times> 'k world) outcome" where
  "pink_read_socket_address c K pid regset decode_socketcall arg_index want_fd sockaddr w =
     obind (if want_fd then pink_read_socket_argument c K pid regset decode_socketcall 0 w
            else Ret (0, None, w)) (\<lambda>(r, myfd, w').
     if want_fd \<and> myfd = None then Ret (r, None, sockaddr, w')
     else
       obind (read_sockaddr_arguments c K pid regset decode_socketcall arg_index sockaddr w')
         (\<lambda>(r, sockaddr', w''). Ret (r, map_option ucast myfd, sockaddr', w'')))"

section \<open>Arguments of socketcall\<close>

lemma read_vm_object_eq:
  fixes a :: "'l::len word"
  assumes "vm_services c K pid mem w" and "arch_long TYPE('l) c" and "valid_abi c (rs_abi regset)"
    and "pink_abi_wordsize TYPE('l) c (rs_abi regset) = Ret ws" and "setup_addr c regset a = Ret a"
  shows "\<exists>r v w'.
    (if ws = 4
     then obind (pink_read_vm_uint c K pid regset a w) (\<lambda>(r, val, w'').
            Ret (if r < 0 then (r, None, w'') else (0, Some (ucast val), w'')))
     else obind (pink_read_vm_ulong c K pid regset a w) (\<lambda>(r, val, w'').
            Ret (if r < 0 then (r, None, w'') else (0, Some val, w'')))) = Ret (r, v, w') \<and>
    kern w' = kern w \<and>
    (case read_mem (mem (kern w)) a ws of
       Some bs \<Rightarrow> r = 0 \<and> v = Some (of_bytes (big_endian c) bs)
     | None \<Rightarrow> r = - EFAULT \<and> v = None)"
proof -
  have ws: "ws = sizeof_long TYPE('l) \<or> ws = 4" "0 < ws" "ws < 2 ^ 31"
    using wordsize_cases [OF assms(2,3)] assms(4) arch_long_width [OF assms(2)]
    by (auto simp: long_width_def sizeof_long_def)
  from read_vm_data_full_cases [OF assms(1,5) ws(2,3)] obtain r d w' where
    rd: "pink_read_vm_data_full c K pid regset a ws w = Ret (r, d, w')" "kern w' = kern w"
    "case read_mem (mem (kern w)) a ws of Some bs \<Rightarrow> r = 0 \<and> d = bs | None \<Rightarrow> r = - EFAULT" by blast
  show ?thesis
  proof (cases "read_mem (mem (kern w)) a ws")
    case None
    then show ?thesis using rd ws(1)
      by (auto simp: pink_read_vm_uint_def pink_read_vm_ulong_def EFAULT_def)
  next
    case (Some bs)
    then have "length bs = ws" by (rule length_read_mem)
    with Some show ?thesis using rd ws(1)
      by (auto simp: pink_read_vm_uint_def pink_read_vm_ulong_def ucast_of_bytes)
  qed
qed

lemma socket_argument_fails:
  fixes K :: "('l::len word, 'k) kernel"
  assumes "cfg_arch c \<noteq> IA64" and "pink_read_socket_argument c K pid regset dec i w = Ret (r, None, w')"
  shows "r < 0"
proof -
  have arg: "r < 0" if "pink_read_argument c K pid regset j w = Ret (r, None, w')" for j r w'
    using that read_argument_cases [OF assms(1), of K pid regset j w] by (auto simp: EINVAL_def split: if_splits)
  show ?thesis
  proof (cases dec)
    case False
    with assms(2) arg show ?thesis by (simp add: pink_read_socket_argument_def)
  next
    case True
    then obtain r1 a w1 where "pink_read_argument c K pid regset 1 w = Ret (r1, a, w1)"
      using assms(2) by (auto simp: pink_read_socket_argument_def obind_Ret_iff)
    with True assms(2) arg show ?thesis
      by (cases a) (auto simp: pink_read_socket_argument_def obind_Ret_iff Let_def split: if_splits)
  qed
qed

lemma sockaddr_arguments_success:
  fixes K :: "('l::len word, 'k) kernel"
  assumes "cfg_arch c \<noteq> IA64"
    and ok: "read_sockaddr_arguments c K pid regset dec i sa w = Ret (0, sa', w')"
  shows "\<exists>addr addrlen w2. read_sockaddr c K pid regset addr addrlen sa w2 = Ret (0, sa', w')"
proof -
  note fail = socket_argument_fails [OF assms(1), of K pid regset dec]
  obtain r1 a w1 where 1: "pink_read_socket_argument c K pid regset dec i w = Ret (r1, a, w1)"
    using ok by (auto simp: read_sockaddr_arguments_def obind_Ret_iff)
  then obtain addr where a: "a = Some addr"
    using ok by (cases a) (auto simp: read_sockaddr_arguments_def dest: fail)
  then obtain r2 a' w2 where 2: "pink_read_socket_argument c K pid regset dec ((i + 1) mod 2 ^ 32) w1 = Ret (r2, a', w2)"
    using ok 1 by (auto simp: read_sockaddr_arguments_def obind_Ret_iff)
  then obtain addrlen where "a' = Some addrlen"
    using ok 1 a by (cases a') (auto simp: read_sockaddr_arguments_def dest: fail)
  with ok 1 2 a have "read_sockaddr c K pid regset addr addrlen sa w2 = Ret (0, sa', w')"
    by (simp add: read_sockaddr_arguments_def)
  then show ?thesis by blast
qed

lemma socket_address_success:
  fixes K :: "('l::len word, 'k) kernel"
  assumes "cfg_arch c \<noteq> IA64"
    and "pink_read_socket_address c K pid regset dec i want_fd sa w = Ret (0, fd, sa', w')"
  shows "\<exists>w1. read_sockaddr_arguments c K pid regset dec i sa w1 = Ret (0, sa', w')"
  using assms(2) socket_argument_fails [OF assms(1), of K pid regset dec 0 w]
  by (fastforce simp: pink_read_socket_address_def obind_Ret_iff split: if_splits)

section \<open>Properties of socket arguments and addresses\<close>



text \<open>A register set with a socket address at 0x1000 as its second and third arguments.\<close>

definition ref_sockaddr_regs :: "64 word \<Rightarrow> pink_regset" where
  "ref_sockaddr_regs addrlen =
     (pink_regset_zero TYPE(64) (ref_config X86_64))
       \<lparr>rs_regs := put_field False 8 (x86_64_index RSI) (0x1000 :: 64 word)
          (put_field False 8 (x86_64_index RDX) addrlen (replicate 216 0))\<rparr>"

lemma ref_sockaddr_arguments [simp]:
  "pink_read_socket_argument (ref_config X86_64) K 7 (ref_sockaddr_regs addrlen) False (Suc 0) w =
     Ret (0, Some 0x1000, w)"
  "pink_read_socket_argument (ref_config X86_64) K 7 (ref_sockaddr_regs addrlen) False (Suc (Suc 0)) w =
     Ret (0, Some addrlen, w)"
  by (simp_all add: pink_read_socket_argument_def pink_read_argument_def PINK_MAX_ARGS_def
      ref_sockaddr_regs_def pink_regset_zero_def PINK_ABI_I386_def x86_64_arg_def x86_64_get_def
      get_put_field_other)

lemma ref_sockaddr_setup_addr:
  "setup_addr (ref_config X86_64) (ref_sockaddr_regs addrlen) (a :: 64 word) = Ret a"
  by (simp add: setup_addr_def PINK_ABIS_SUPPORTED_def sizeof_long_def pink_abi_wordsize_def
      abi_wordsize_def ref_sockaddr_regs_def pink_regset_zero_def)

lemma socket_address_bounds:
  fixes K :: "('l::len word, 'k) kernel"
  assumes "cfg_arch c \<noteq> IA64" and "long_width TYPE('l)" and "length (sa_pad sa) = 128"
    and "pink_read_socket_address c K pid regset dec i want_fd sa w = Ret (0, fd, sa', w')"
  shows "length (sa_pad sa') = 128 \<and>
    (sa_family sa' = - 1 \<and> sa_length sa' = 0 \<or>
     2 \<le> sa_length sa' \<and> sa_length sa' \<le> 128 \<and> sa_pad sa' ! 127 = 0 \<and>
     sa_family sa' = ucast (of_bytes (big_endian c) (take 2 (sa_pad sa')) :: 16 word))"
proof -
  obtain addr addrlen :: "'l word" and w2
    where ok: "read_sockaddr c K pid regset addr addrlen sa w2 = Ret (0, sa', w')"
    using socket_address_success [OF assms(1,4)] sockaddr_arguments_success [OF assms(1)] by blast
  define len where "len = (if addrlen < 2 \<or> addrlen > 128 then 128 else addrlen)"
  have c: "unat (2 :: 'l word) = 2" "unat (128 :: 'l word) = 128" using assms(2) by (auto simp: long_width_def)
  then have len: "2 \<le> unat len \<and> unat len \<le> 128" by (auto simp: len_def word_less_nat_alt)
  then have "unat (ucast len :: 32 word) = unat len"
    by (simp add: unsigned_ucast_eq take_bit_nat_eq_self)
  with len have "2 \<le> (ucast len :: 32 word) \<and> (ucast len :: 32 word) \<le> 128"
    by (simp add: word_le_nat_alt)
  with ok assms(3) show ?thesis
    by (auto simp: read_sockaddr_def obind_Ret_iff Let_def simp flip: len_def split: if_splits)
qed

text \<open>
  (C16) What a socket address holds after a successful
  \<open>pink_read_socket_address\<close>, whatever the kernel does: either the family -1 and
  the length 0 of a null pointer, or a length of 2 to 128 bytes, a terminating NUL
  in the last byte of the 128 and the family of the first two bytes.
\<close>

theorem pink_read_socket_address_bounds:
  fixes K :: "('l::len word, 'k) kernel"
  assumes "cfg_arch c \<noteq> IA64" and "long_width TYPE('l)" and "length (sa_pad sa) = 128"
    and "pink_read_socket_address c K pid regset dec i want_fd sa w = Ret (0, fd, sa', w')"
  shows "length (sa_pad sa') = 128 \<and>
    (sa_family sa' = - 1 \<and> sa_length sa' = 0 \<or>
     2 \<le> sa_length sa' \<and> sa_length sa' \<le> 128 \<and> sa_pad sa' ! 127 = 0 \<and>
     sa_family sa' = ucast (of_bytes (big_endian c) (take 2 (sa_pad sa')) :: 16 word))"
  by (rule socket_address_bounds [OF assms])

theorem pink_read_socket_address_bounds_witness:
  "\<exists>sa' w'. pink_read_socket_address (ref_config X86_64) (ref_kernel False) 7 (ref_sockaddr_regs 0x1000) False 1 False
     \<lparr>sa_family = 0, sa_length = 0, sa_pad = replicate 128 0\<rparr>
     \<lparr>errno = 0, kern = ref_tracee (0x1001 :: 64 word)\<rparr> = Ret (0, None, sa', w') \<and>
     length (sa_pad sa') = 128"
proof -
  let ?sa = "\<lparr>sa_family = 0, sa_length = 0, sa_pad = replicate 128 0\<rparr>"
    and ?w = "\<lparr>errno = 0, kern = ref_tracee (0x1001 :: 64 word)\<rparr>"
  have rd: "read_mem (t_mem (ref_tracee (0x1001 :: 64 word))) 0x1000 128 \<noteq> None"
    by (simp add: read_mem_None_iff)
  obtain d w' where "pink_read_vm_data_full (ref_config X86_64) (ref_kernel False) 7 (ref_sockaddr_regs 0x1000)
      0x1000 128 ?w = Ret (0, d, w')"
    using read_vm_data_full_cases [OF ref_services [of "0x1001"]
        ref_sockaddr_setup_addr [of "0x1000" "0x1000"], of 128] rd
    by (auto split: option.splits)
  then obtain sa' where ok: "pink_read_socket_address (ref_config X86_64) (ref_kernel False) 7
      (ref_sockaddr_regs 0x1000) False 1 False ?sa ?w = Ret (0, None, sa', w')"
    by (simp add: pink_read_socket_address_def read_sockaddr_arguments_def read_sockaddr_def Let_def)
  then show ?thesis
    using pink_read_socket_address_bounds [OF _ _ _ ok] by (auto simp: long_width_def)
qed

text \<open>
  (C15) \<open>pink_read_socket_address\<close> of an address that is not null, with a
  register for each argument or through \<open>socketcall(2)\<close>: if the bytes are
  mapped, they are stored, filled up with zeros and with a NUL at the end; if not,
  the result is \<open>-EFAULT\<close>, and family and length are left.
\<close>

theorem pink_read_socket_address_spec:
  fixes addr addrlen :: "'l::len word"
  assumes "pink_read_socket_argument c K pid regset dec i w = Ret (0, Some addr, w1)"
    and "pink_read_socket_argument c K pid regset dec ((i + 1) mod 2 ^ 32) w1 = Ret (0, Some addrlen, w2)"
    and "vm_services c K pid mem w2" and "setup_addr c regset addr = Ret addr" and "addr \<noteq> 0"
    and "n = (if unat addrlen < 2 \<or> 128 < unat addrlen then 128 else unat addrlen)"
  shows "\<exists>r sa' w'. pink_read_socket_address c K pid regset dec i False sa w = Ret (r, None, sa', w') \<and>
    kern w' = kern w2 \<and>
    (case read_mem (mem (kern w2)) addr n of
       Some bs \<Rightarrow> r = 0 \<and> sa_pad sa' = take 127 (bs @ replicate (128 - n) 0) @ [0] \<and>
         sa_length sa' = of_nat n \<and> sa_family sa' = ucast (of_bytes (big_endian c) (take 2 bs) :: 16 word)
     | None \<Rightarrow> r = - EFAULT \<and> sa_family sa' = sa_family sa \<and> sa_length sa' = sa_length sa)"
proof -
  have lw: "long_width TYPE('l)" using assms(3) by (simp add: vm_services_def)
  define len where "len = (if addrlen < 2 \<or> addrlen > 128 then 128 else addrlen)"
  have c: "unat (2 :: 'l word) = 2" "unat (128 :: 'l word) = 128" using lw by (auto simp: long_width_def)
  then have len: "unat len = n" "2 \<le> n" "n \<le> 128"
    using assms(6) by (auto simp: len_def word_less_nat_alt)
  from read_vm_data_full_cases [OF assms(3,4), of n] len obtain r d w' where
    rd: "pink_read_vm_data_full c K pid regset addr n w2 = Ret (r, d, w')" "kern w' = kern w2"
    "case read_mem (mem (kern w2)) addr n of Some bs \<Rightarrow> r = 0 \<and> d = bs | None \<Rightarrow> r = - EFAULT" by auto
  have eq: "pink_read_socket_address c K pid regset dec i False sa w =
      (let pad = overwrite (replicate 128 0) d in
       if r < 0 then Ret (r, None, sa\<lparr>sa_pad := pad\<rparr>, w')
       else Ret (0, None, sa\<lparr>sa_pad := pad[127 := 0],
         sa_family := ucast (of_bytes (big_endian c) (take 2 (pad[127 := 0])) :: 16 word),
         sa_length := ucast len\<rparr>, w'))"
    using assms(1,2,5) rd(1) len(1)
    by (simp add: pink_read_socket_address_def read_sockaddr_arguments_def read_sockaddr_def Let_def flip: len_def)
  show ?thesis
  proof (cases "read_mem (mem (kern w2)) addr n")
    case None
    then show ?thesis using eq rd by (simp add: EFAULT_def Let_def)
  next
    case (Some bs)
    then have bs: "length bs = n" by (rule length_read_mem)
    define pad where "pad = overwrite (replicate 128 0) bs"
    have pad: "pad = bs @ replicate (128 - n) 0" using bs len(3) by (simp add: pad_def overwrite_def)
    have "pad[127 := 0] = take 127 (bs @ replicate (128 - n) 0) @ [0]"
      unfolding pad using bs len(3) by (intro nth_equalityI) (auto simp: nth_list_update nth_append)
    moreover have "take 2 (pad[127 := 0]) = take 2 bs"
      using bs len(2) by (simp add: pad)
    moreover have "(ucast len :: 32 word) = of_nat n"
      by (simp flip: len(1))
    ultimately show ?thesis using eq rd Some by (simp add: Let_def pad_def)
  qed
qed


theorem pink_read_socket_address_spec_witness:
  "\<exists>sa' w'. pink_read_socket_address (ref_config X86_64) (ref_kernel False) 7 (ref_sockaddr_regs 4) False 1 False
     \<lparr>sa_family = 0, sa_length = 0, sa_pad = replicate 128 0\<rparr>
     \<lparr>errno = 0, kern = ref_tracee (0x1001 :: 64 word)\<rparr> = Ret (0, None, sa', w') \<and>
     sa_pad sa' = [1, 0, 1, 1] @ replicate 124 0 \<and> sa_length sa' = 4 \<and> sa_family sa' = 1"
proof -
  let ?sa = "\<lparr>sa_family = 0, sa_length = 0, sa_pad = replicate 128 0\<rparr>"
  have rd: "read_mem (t_mem (ref_tracee (0x1001 :: 64 word))) 0x1000 4 = Some [1, 0, 1, 1]"
    by (simp add: read_mem_numeral)
  have pad: "take 127 ([1, 0, 1, 1] @ replicate (128 - 4) 0) @ [0] = [1, 0, 1, 1] @ replicate 124 (0 :: byte)"
    by (simp add: replicate_append_same flip: replicate_Suc)
  show ?thesis
    using pink_read_socket_address_spec [OF ref_sockaddr_arguments(1) [of _ 4] _ ref_services [of "0x1001"]
        ref_sockaddr_setup_addr _ refl, where sa = ?sa and addrlen = 4] rd pad
    by (simp add: of_bytes_def) blast
qed

end
