(* ===== verification/Pink_Strace.thy ===== *)
theory Pink_Strace
  imports Pink_Write Pink_Socket
begin

text \<open>
  \<^verbatim>\<open>examples/pink-simple-strace.c\<close>: a tracer made of the library's functions.
  The decoders, the handler of system call stops, the loop of \<open>main\<close>, and both sides
  of the \<open>fork\<close> before it.
\<close>

unbundle bit_operations_syntax

section \<open>Output and surroundings\<close>

text \<open>
  What the program prints, piece by piece: text, the conversions of \<open>printf\<close>, the
  bytes of a string, a message of \<open>perror\<close>, and what goes to \<open>stderr\<close>.
\<close>

datatype 'w printed =
    Text string
  | Long 'w
  | Num int
  | Hex "32 word"
  | Strerror int
  | Bytes "byte list"
  | Perror string
  | Stderr "'w printed list"

abbreviation Quote :: "'w printed" where "Quote \<equiv> Text [CHR 0x22]"
abbreviation Newline :: "'w printed" where "Newline \<equiv> Text [CHR 0x0A]"

text \<open>
  \<open>fork(2)\<close>, \<open>getpid(2)\<close>, \<open>execvp(3)\<close>, which does not come back when it succeeds,
  \<open>waitpid(2)\<close> and \<open>inet_ntop(3)\<close> are parameters, as are the values that local
  variables hold before they are assigned.
\<close>

record 'k strace_env =
  env_fork :: "'k \<Rightarrow> (int + int) \<times> 'k"
  env_getpid :: "'k \<Rightarrow> int"
  env_execvp :: "string \<Rightarrow> string list \<Rightarrow> 'k \<Rightarrow> (int + unit) \<times> 'k"
  env_waitpid :: "int \<Rightarrow> 'k \<Rightarrow> (int + int \<times> 32 word) \<times> 'k"
  env_ntop :: "byte list \<Rightarrow> string"
  env_buf :: "byte list"
  env_cp :: "byte list"
  env_sockaddr :: pink_sockaddr
  env_abi :: int

record process =
  p_pid :: int
  p_abi :: int
  p_insyscall :: bool
  p_regs :: pink_regset

definition PATH_MAX :: nat where "PATH_MAX = 4096"

text \<open>\<open>%s\<close>: the bytes before the first NUL; without one \<open>printf\<close> runs past the buffer.\<close>

definition cstring :: "byte list \<Rightarrow> byte list outcome" where
  "cstring buf = (case find_nul buf of Some n \<Rightarrow> Ret (take n buf) | None \<Rightarrow> Fault Undefined)"

text \<open>The conversion of a \<open>ssize_t\<close> to the \<open>int r\<close>.\<close>

definition int_of_ssize :: "int \<Rightarrow> int" where
  "int_of_ssize l = sint (word_of_int l :: 32 word)"

section \<open>Utility functions\<close>

definition process_update ::
    "pink_config \<Rightarrow> ('l::len word, 'k) kernel \<Rightarrow> process \<Rightarrow> 'k world \<Rightarrow>
     ('l word printed list \<times> process \<times> 'k world) outcome" where
  "process_update c K proc w =
     obind (pink_regset_fill c K (p_pid proc) (p_regs proc) w) (\<lambda>(r, regs, w').
       if r < 0
       then Ret ([Perror ''pink_regset_fill''], proc\<lparr>p_regs := regs\<rparr>, w'\<lparr>errno := - r\<rparr>)
       else
         (case pink_read_abi regs of
            (r, abi) \<Rightarrow>
              if r < 0
              then Ret ([Perror ''pink_regset_fill''], proc\<lparr>p_regs := regs\<rparr>, w'\<lparr>errno := - r\<rparr>)
              else Ret ([], proc\<lparr>p_regs := regs, p_abi := abi\<rparr>, w')))"

definition print_ret ::
    "pink_config \<Rightarrow> ('l::len word, 'k) kernel \<Rightarrow> process \<Rightarrow> 'k world \<Rightarrow>
     ('l word printed list \<times> 'k world) outcome" where
  "print_ret c K proc w =
     obind (pink_read_retval c K (p_pid proc) (p_regs proc) w) (\<lambda>(r, v, w').
       case v of
         None \<Rightarrow> Ret ([Perror ''pink_read_retval''], w'\<lparr>errno := - r\<rparr>)
       | Some (ret, err) \<Rightarrow>
           Ret (if err \<noteq> 0 then [Text ''= '', Num (- err), Text '' ('', Strerror (- err), Text '')'']
                else [Text ''= '', Long ret], w'))"

definition O_CREAT :: "'l::len word" where "O_CREAT = 0x40"

definition print_open_flags :: "'l::len word \<Rightarrow> 'l word printed list" where
  "print_open_flags flags =
     (let aflags = flags AND 3;
          access = (if aflags = 0 then [Text ''O_RDONLY'']
                    else if aflags = 1 then [Text ''O_WRONLY'']
                    else if aflags = 2 then [Text ''O_RDWR'']
                    else []);
          found = (access \<noteq> []);
          creat = (if flags AND O_CREAT \<noteq> 0
                   then [Text (if found then '''' else ''0''), Text '' | O_CREAT''] else [])
      in access @ creat @ (if \<not> found \<and> creat = [] then [Hex (ucast flags)] else []))"

section \<open>Decoders\<close>

text \<open>\<open>if (!pink_read_argument(\<dots>))\<close>: the error branch is taken on success.\<close>

definition decode_open ::
    "pink_config \<Rightarrow> ('l::len word, 'k) kernel \<Rightarrow> 'k strace_env \<Rightarrow> process \<Rightarrow> 'k world \<Rightarrow>
     ('l word printed list \<times> 'k world) outcome" where
  "decode_open c K E proc w =
     obind (pink_read_argument c K (p_pid proc) (p_regs proc) 0 w) (\<lambda>(r, arg, w1).
     case arg of
       None \<Rightarrow> Ret ([Perror ''pink_read_argument''], w1\<lparr>errno := - r\<rparr>)
     | Some addr \<Rightarrow>
         obind (pink_read_vm_data_nul c K (p_pid proc) (p_regs proc) addr PATH_MAX w1) (\<lambda>(l, d, w2).
         let r = int_of_ssize l in
         if r < 0 then Ret ([Perror ''pink_read_string''], w2\<lparr>errno := - r\<rparr>)
         else
           obind (pink_read_argument c K (p_pid proc) (p_regs proc) 1 w2) (\<lambda>(q, arg', w3).
           if q = 0 then Ret ([Perror ''pink_read_argument''], w3\<lparr>errno := - r\<rparr>)
           else
             obind (cstring (stored_over d (env_buf E))) (\<lambda>s.
             case arg' of
               None \<Rightarrow> Fault Undefined
             | Some flags \<Rightarrow>
                 Ret ([Text ''open('', Quote, Bytes s, Quote, Text '', ''] @ print_open_flags flags @ [Text '')''], w3)))))"

text \<open>
  The elements of \<open>argv\<close>, from the one behind the index \<open>i\<close> on, until one is
  null. The loop need not end.
\<close>

partial_function (option) execve_loop ::
    "pink_config \<Rightarrow> ('l::len word, 'k) kernel \<Rightarrow> 'k strace_env \<Rightarrow> process \<Rightarrow> 'l word \<Rightarrow> nat \<Rightarrow>
     byte list \<Rightarrow> string \<Rightarrow> 'l word printed list \<Rightarrow> 'k world \<Rightarrow>
     ('l word printed list \<times> 'k world) outcome option" where
  "execve_loop c K E proc arg i buf sep out w =
     (let i' = (i + 1) mod 2 ^ 32 in
      case pink_read_string_array c K (env_cp E) (p_pid proc) (p_regs proc) arg i' PATH_MAX w of
        Fault e \<Rightarrow> Some (Fault e)
      | Ret (l, d, nil, w') \<Rightarrow>
          (let r = int_of_ssize l; buf' = stored_over d buf in
           if r < 0 then Some (Ret (out @ [Perror ''pink_read_string_array''], w'\<lparr>errno := - r\<rparr>))
           else
             (case cstring buf' of
                Fault e \<Rightarrow> Some (Fault e)
              | Ret s \<Rightarrow>
                  (let out' = out @ [Text sep, Quote, Bytes s, Quote] in
                   if nil = Some True then Some (Ret (out' @ [Text ''], envp[])''], w'))
                   else execve_loop c K E proc arg i' buf' '', '' out' w'))))"

text \<open>The path is read from the address 0 and not from the argument.\<close>

definition decode_execve ::
    "pink_config \<Rightarrow> ('l::len word, 'k) kernel \<Rightarrow> 'k strace_env \<Rightarrow> process \<Rightarrow> 'k world \<Rightarrow>
     ('l word printed list \<times> 'k world) outcome" where
  "decode_execve c K E proc w =
     obind (pink_read_argument c K (p_pid proc) (p_regs proc) 0 w) (\<lambda>(r, path, w1).
     if path = None then Ret ([Perror ''pink_read_argument''], w1\<lparr>errno := - r\<rparr>)
     else
       obind (pink_read_vm_data_nul c K (p_pid proc) (p_regs proc) 0 PATH_MAX w1) (\<lambda>(l, d, w2).
       let r = int_of_ssize l; buf = stored_over d (env_buf E) in
       if r < 0 then Ret ([Perror ''pink_read_string''], w2\<lparr>errno := - r\<rparr>)
       else
         obind (pink_read_argument c K (p_pid proc) (p_regs proc) 1 w2) (\<lambda>(r, arg, w3).
         case arg of
           None \<Rightarrow> Ret ([Perror ''pink_read_argument''], w3\<lparr>errno := - r\<rparr>)
         | Some argv \<Rightarrow>
             obind (cstring buf) (\<lambda>s.
             case execve_loop c K E proc argv 0 buf '''' [Text ''execve('', Quote, Bytes s, Quote, Text '', [''] w3 of
               None \<Rightarrow> Fault Diverges
             | Some r \<Rightarrow> r))))"

text \<open>The address, by its family. \<open>ntohs\<close> reads the port in network order.\<close>

definition port_of :: "byte list \<Rightarrow> int" where
  "port_of pad = uint (of_bytes True (take 2 (drop 2 pad)) :: 16 word)"

definition print_sockaddr ::
    "pink_config \<Rightarrow> 'k strace_env \<Rightarrow> pink_sockaddr \<Rightarrow> 'l::len word printed list outcome" where
  "print_sockaddr c E sockaddr =
     (let pad = sa_pad sockaddr; family = sint (sa_family sockaddr) in
      if family = - 1 then Ret [Text ''NULL'']
      else if family = 1 then
        (let path = drop 2 pad in
         if path ! 0 = 0 \<and> path ! 1 \<noteq> 0
         then obind (cstring (drop 1 path)) (\<lambda>s. Ret [Text ''{sa_family=AF_UNIX, path='', Quote, Text ''@'', Bytes s, Quote, Text ''}''])
         else obind (cstring path) (\<lambda>s. Ret [Text ''{sa_family=AF_UNIX, path='', Quote, Bytes s, Quote, Text ''}'']))
      else if family = 2 then
        Ret [Text ''{sa_family=AF_INET, sin_port=htons('', Num (port_of pad), Text ''), sin_sockaddr=inet_addr('', Quote,
             Text (env_ntop E (take 4 (drop 4 pad))), Quote, Text '')}'']
      else if family = 10 then
        (if have_feature c HAVE_IPV6
         then Ret [Text ''{sa_family=AF_INET6, sin_port=htons('', Num (port_of pad), Text ''), sin6_sockaddr=inet_addr('', Quote,
                   Text (env_ntop E (take 16 (drop 8 pad))), Quote, Text '')}'']
         else Fault Not_built)
      else if family = 16 \<and> have_feature c HAVE_NETLINK then
        Ret [Text ''{sa_family=AF_NETLINK, nl_pid='',
             Num (sint (of_bytes (big_endian c) (take 4 (drop 4 pad)) :: 32 word)), Text '', nl_groups='',
             Hex (of_bytes (big_endian c) (take 4 (drop 8 pad))), Text ''}'']
      else Ret [Text ''{sa_family=???}''])"

text \<open>
  \<open>subname\<close> is assigned in the \<open>default\<close> branch only, which returns; the name
  printed for a \<open>subcall\<close> greater than 0 is therefore never assigned.
\<close>

definition decode_socketcall ::
    "pink_config \<Rightarrow> ('l::len word, 'k) kernel \<Rightarrow> 'k strace_env \<Rightarrow> process \<Rightarrow> string \<Rightarrow> 'k world \<Rightarrow>
     ('l word printed list \<times> 'k world) outcome" where
  "decode_socketcall c K E proc scname w =
     obind (if scname = ''socketcall'' then pink_read_socket_subcall c K (p_pid proc) (p_regs proc) True w
            else Ret (0, Some (- 1), w)) (\<lambda>(r, sub, w1).
     case sub of
       None \<Rightarrow> Ret ([Perror ''pink_read_socket_subcall''], w1\<lparr>errno := - r\<rparr>)
     | Some subcall \<Rightarrow>
         if subcall \<noteq> - 1 \<and> subcall \<noteq> 2 \<and> subcall \<noteq> 3 then
           (case pink_name_socket_subcall (sint (ucast subcall :: 32 word)) of
              None \<Rightarrow> Fault Undefined
            | Some subname \<Rightarrow>
                Ret (if subname \<noteq> ''bind'' \<and> subname \<noteq> ''connect'' then [Text subname, Text ''()''] else [], w1))
         else
           obind (pink_read_socket_address c K (p_pid proc) (p_regs proc) False 1 True (env_sockaddr E) w1)
             (\<lambda>(r, fd, sockaddr, w2).
           if r < 0 then Ret ([Perror ''pink_read_socket_address''], w2\<lparr>errno := - r\<rparr>)
           else if sint subcall > 0 then Fault Undefined
           else
             (case fd of
                None \<Rightarrow> Fault Undefined
              | Some fd \<Rightarrow>
                  obind (print_sockaddr c E sockaddr) (\<lambda>addr.
                    Ret ([Text scname, Text ''('', Num (sint fd), Text '', ''] @ addr @
                         [Text '', '', Num (uint (sa_length sockaddr)), Text '')''], w2)))))"

section \<open>The handler and the loop\<close>

definition handle_syscall ::
    "pink_config \<Rightarrow> ('l::len word, 'k) kernel \<Rightarrow> 'k strace_env \<Rightarrow> process \<Rightarrow> 'k world \<Rightarrow>
     ('l word printed list \<times> process \<times> 'k world) outcome" where
  "handle_syscall c K E proc w =
     (if p_insyscall proc
      then
        (let proc' = proc\<lparr>p_insyscall := False\<rparr> in
         obind (print_ret c K proc' w) (\<lambda>(out, w').
           Ret ([Text '' ''] @ out @ [Newline], proc', w')))
      else
        (let proc' = proc\<lparr>p_insyscall := True\<rparr> in
         case pink_read_syscall c K (p_pid proc) (p_regs proc) w of
           (r, None, w') \<Rightarrow> Ret ([Perror ''pink_read_syscall''], proc', w'\<lparr>errno := - r\<rparr>)
         | (_, Some scno, w') \<Rightarrow>
             obind
               (case pink_name_syscall c scno (p_abi proc) of
                  None \<Rightarrow> Ret ([Long scno, Text ''()''], w')
                | Some scname \<Rightarrow>
                    if scname = ''open'' then decode_open c K E proc' w'
                    else if scname = ''execve'' then decode_execve c K E proc' w'
                    else if scname = ''socketcall'' \<or> scname = ''bind'' \<or> scname = ''connect''
                    then decode_socketcall c K E proc' scname w'
                    else Ret ([Text scname, Text ''()''], w'))
               (\<lambda>(out, w''). Ret (out, proc', w''))))"

text \<open>
  One round of the loop of \<open>main\<close>: the program returns, or it goes on with the
  next \<open>sig\<close> after a stop with some event. \<open>handle_event\<close> is the \<open>switch\<close> at
  its end.
\<close>

datatype round = Return int | Again process "32 word" int

definition handle_event ::
    "pink_config \<Rightarrow> ('l::len word, 'k) kernel \<Rightarrow> 'k strace_env \<Rightarrow> process \<Rightarrow> int \<Rightarrow> 'k world \<Rightarrow>
     ('l word printed list \<times> process \<times> 'k world) outcome" where
  "handle_event c K E proc event w =
     (if event = 0 then
        obind (process_update c K proc w) (\<lambda>(out, proc', w').
        obind (handle_syscall c K E proc' w') (\<lambda>(out', proc'', w'').
          Ret (out @ out', proc'', w'')))
      else if event = PINK_EVENT_EXEC then process_update c K proc w
      else Ret ([], proc, w))"

definition strace_round ::
    "pink_config \<Rightarrow> ('l::len word, 'k) kernel \<Rightarrow> 'k strace_env \<Rightarrow> process \<Rightarrow> 32 word \<Rightarrow> 'k world \<Rightarrow>
     ('l word printed list \<times> round \<times> 'k world) outcome" where
  "strace_round c K E proc sig w =
     (case pink_trace_syscall K (p_pid proc) sig w of
        (r, w1) \<Rightarrow>
          if r < 0 then Ret ([Perror ''pink_trace_syscall''], Return (if r = - ESRCH then 0 else 1), w1)
          else
            (case env_waitpid E (p_pid proc) (kern w1) of
               (Inl e, k) \<Rightarrow>
                 Ret ([Perror ''waitpid''], Return (if e = ECHILD then 0 else 1), \<lparr>errno = e, kern = k\<rparr>)
             | (Inr (pid, status), k) \<Rightarrow>
                 (let proc' = proc\<lparr>p_pid := pid\<rparr>; w2 = w1\<lparr>kern := k\<rparr> in
                  if WIFEXITED status then
                    Ret ([Text ''Child '', Num pid, Text '' exited normally with return code '', Num (WEXITSTATUS status), Newline],
                         Return (WEXITSTATUS status), w2)
                  else if WIFSIGNALED status then
                    Ret ([Text ''Child '', Num pid, Text '' exited with signal '', Num (WTERMSIG status), Newline],
                         Return (128 + WTERMSIG status), w2)
                  else
                    obind (handle_event c K E proc' (pink_event_decide status) w2) (\<lambda>(out, proc'', w3).
                      Ret (out, Again proc'' 0 (pink_event_decide status), w3)))))"

partial_function (option) strace_loop ::
    "pink_config \<Rightarrow> ('l::len word, 'k) kernel \<Rightarrow> 'k strace_env \<Rightarrow> process \<Rightarrow> 32 word \<Rightarrow>
     'l word printed list \<Rightarrow> 'k world \<Rightarrow> (int \<times> 'l word printed list \<times> 'k world) outcome option" where
  "strace_loop c K E proc sig out w =
     (case strace_round c K E proc sig w of
        Fault e \<Rightarrow> Some (Fault e)
      | Ret (out', Return code, w') \<Rightarrow> Some (Ret (code, out @ out', w'))
      | Ret (out', Again proc' sig' event, w') \<Rightarrow> strace_loop c K E proc' sig' (out @ out') w')"

text \<open>
  The parent's branch of \<open>main\<close>, from the first stop of the child \<open>pid\<close> on.
  \<open>env_abi\<close> is the uninitialised \<open>proc.abi\<close>. The result of the first \<open>waitpid\<close> is
  not looked at: if it fails, \<open>status\<close> is not assigned.
\<close>

definition strace_parent ::
    "pink_config \<Rightarrow> ('l::len word, 'k) kernel \<Rightarrow> 'k strace_env \<Rightarrow> int \<Rightarrow> pink_regset \<Rightarrow> 'k world \<Rightarrow>
     (int \<times> 'l word printed list \<times> 'k world) outcome" where
  "strace_parent c K E pid regs w =
     (case env_waitpid E pid (kern w) of
        (Inl e, k) \<Rightarrow> Fault Undefined
      | (Inr (_, status), k) \<Rightarrow>
          if pink_event_decide status \<noteq> 0 then Fault Abort
          else
            (case pink_trace_setup c K pid (PINK_TRACE_OPTION_SYSGOOD OR PINK_TRACE_OPTION_EXEC) (w\<lparr>kern := k\<rparr>) of
               (r, w1) \<Rightarrow>
                 if r < 0 then
                   (case pink_trace_kill c K pid (- 1) SIGKILL (w1\<lparr>errno := - r\<rparr>) of
                      (_, w2) \<Rightarrow> Ret (1, [Perror ''pink_trace_setup''], w2))
                 else
                   (let proc = \<lparr>p_pid = pid, p_abi = env_abi E, p_insyscall = False, p_regs = regs\<rparr> in
                    obind (process_update c K proc w1) (\<lambda>(out, proc1, w2).
                      case strace_loop c K E (proc1\<lparr>p_insyscall := False\<rparr>) 0
                             (out @ [Text ''Child '', Num pid, Text '' runs in ABI:'', Num (p_abi proc1), Newline]) w2 of
                        None \<Rightarrow> Fault Diverges
                      | Some r \<Rightarrow> r))))"

text \<open>
  The child's branch, on the arguments behind the program's name. Its result is the
  argument of \<open>_exit\<close>, or \<open>None\<close> when \<open>execvp\<close> replaced the program.
\<close>

definition strace_child ::
    "('l::len word, 'k) kernel \<Rightarrow> 'k strace_env \<Rightarrow> string list \<Rightarrow> 'k world \<Rightarrow>
     int option \<times> 'l word printed list \<times> 'k world" where
  "strace_child K E args w =
     (case pink_trace_me K w of
        (r, w1) \<Rightarrow>
          if r < 0 then (Some 1, [Perror ''pink_trace_me''], w1\<lparr>errno := - r\<rparr>)
          else
            (case sys_status (sys_kill K (env_getpid E (kern w1)) SIGSTOP (kern w1)) w1 of
               (_, w2) \<Rightarrow>
                 (case env_execvp E (hd args) args (kern w2) of
                    (Inl e, k) \<Rightarrow> (Some (- 1), [Perror ''execvp''], \<lparr>errno = e, kern = k\<rparr>)
                  | (Inr _, k) \<Rightarrow> (None, [], w2\<lparr>kern := k\<rparr>))))"

text \<open>\<open>main\<close> on the list \<open>argv\<close>, in whichever of the two processes \<open>fork\<close> returned.\<close>

definition strace_main ::
    "pink_config \<Rightarrow> ('l::len word, 'k) kernel \<Rightarrow> 'k strace_env \<Rightarrow> string list \<Rightarrow> 'k world \<Rightarrow>
     (int option \<times> 'l word printed list \<times> 'k world) outcome" where
  "strace_main c K E argv w =
     (case argv of
        [] \<Rightarrow> Fault Undefined
      | [prog] \<Rightarrow> Ret (Some 1, [Stderr [Text ''Usage: '', Text prog, Text '' program [argument...]'', Newline]], w)
      | _ # args \<Rightarrow>
          (case pink_regset_alloc c K w of
             (r, None, w1) \<Rightarrow> Ret (Some 1, [Perror ''pink_regset_alloc''], w1\<lparr>errno := - r\<rparr>)
           | (_, Some regs, w1) \<Rightarrow>
               (case env_fork E (kern w1) of
                  (Inl e, k) \<Rightarrow> Ret (Some 1, [Perror ''fork''], \<lparr>errno = e, kern = k\<rparr>)
                | (Inr pid, k) \<Rightarrow>
                    if pid = 0 then Ret (strace_child K E args (w1\<lparr>kern := k\<rparr>))
                    else
                      obind (strace_parent c K E pid regs (w1\<lparr>kern := k\<rparr>)) (\<lambda>(code, out, w').
                        Ret (Some code, out, w')))))"

section \<open>The states of the loop\<close>

text \<open>
  \<open>strace_reaches c K E p0 w0 p sig w n\<close>: from the state of \<open>p0\<close> and \<open>w0\<close> the
  loop comes to \<open>p\<close>, \<open>sig\<close> and \<open>w\<close>, with \<open>n\<close> stops without an event on the
  way.
\<close>

inductive strace_reaches ::
    "pink_config \<Rightarrow> ('l::len word, 'k) kernel \<Rightarrow> 'k strace_env \<Rightarrow> process \<Rightarrow> 'k world \<Rightarrow>
     process \<Rightarrow> 32 word \<Rightarrow> 'k world \<Rightarrow> nat \<Rightarrow> bool"
  for c and K :: "('l word, 'k) kernel" and E p0 w0 where
  start: "strace_reaches c K E p0 w0 p0 0 w0 0"
| again: "strace_reaches c K E p0 w0 p sig w n \<Longrightarrow>
    strace_round c K E p sig w = Ret (out, Again p' sig' event, w') \<Longrightarrow>
    strace_reaches c K E p0 w0 p' sig' w' (if event = 0 then Suc n else n)"

lemma process_update_keeps:
  fixes K :: "('l::len word, 'k) kernel"
  assumes "process_update c K proc w = Ret (out, proc', w')"
  shows "p_insyscall proc' = p_insyscall proc"
    and "regset_wf TYPE('l) c (p_regs proc) \<Longrightarrow> regset_wf TYPE('l) c (p_regs proc')"
proof -
  obtain r regs w1 where fill: "pink_regset_fill c K (p_pid proc) (p_regs proc) w = Ret (r, regs, w1)"
    "p_regs proc' = regs" "p_insyscall proc' = p_insyscall proc"
    using assms by (auto simp: process_update_def pink_read_abi_def obind_Ret_iff split: if_splits)
  then show "p_insyscall proc' = p_insyscall proc"
    and "regset_wf TYPE('l) c (p_regs proc) \<Longrightarrow> regset_wf TYPE('l) c (p_regs proc')"
    using regset_fill_keeps_wf by blast+
qed

lemma handle_syscall_keeps:
  assumes "handle_syscall c K E proc w = Ret (out, proc', w')"
  shows "p_insyscall proc' = (\<not> p_insyscall proc)" and "p_regs proc' = p_regs proc"
proof -
  have "proc' = proc\<lparr>p_insyscall := \<not> p_insyscall proc\<rparr>"
  proof (cases "p_insyscall proc")
    case True
    with assms show ?thesis by (auto simp: handle_syscall_def obind_Ret_iff Let_def)
  next
    case False
    obtain r x w1 where "pink_read_syscall c K (p_pid proc) (p_regs proc) w = (r, x, w1)" by (rule prod_cases3)
    with False assms show ?thesis by (cases x) (auto simp: handle_syscall_def obind_Ret_iff Let_def)
  qed
  then show "p_insyscall proc' = (\<not> p_insyscall proc)" and "p_regs proc' = p_regs proc" by simp_all
qed

lemma handle_event_keeps:
  fixes K :: "('l::len word, 'k) kernel"
  assumes "handle_event c K E proc event w = Ret (out, proc', w')"
  shows "p_insyscall proc' = (p_insyscall proc \<noteq> (event = 0))"
    and "regset_wf TYPE('l) c (p_regs proc) \<Longrightarrow> regset_wf TYPE('l) c (p_regs proc')"
proof -
  have "p_insyscall proc' = (p_insyscall proc \<noteq> (event = 0)) \<and>
      (regset_wf TYPE('l) c (p_regs proc) \<longrightarrow> regset_wf TYPE('l) c (p_regs proc'))"
  proof (cases "event = 0")
    case True
    with assms obtain out1 p1 w1 out2 where "process_update c K proc w = Ret (out1, p1, w1)"
      "handle_syscall c K E p1 w1 = Ret (out2, proc', w')" by (auto simp: handle_event_def obind_Ret_iff)
    with True process_update_keeps [of c K proc w] handle_syscall_keeps [of c K E p1 w1] show ?thesis by auto
  next
    case False
    with assms process_update_keeps [of c K proc w out proc' w'] show ?thesis
      by (auto simp: handle_event_def split: if_splits)
  qed
  then show "p_insyscall proc' = (p_insyscall proc \<noteq> (event = 0))"
    and "regset_wf TYPE('l) c (p_regs proc) \<Longrightarrow> regset_wf TYPE('l) c (p_regs proc')" by blast+
qed

lemma strace_round_again:
  fixes K :: "('l::len word, 'k) kernel"
  assumes "strace_round c K E proc sig w = Ret (out, Again proc' sig' event, w')"
  obtains pid and w1 :: "'k world" where "handle_event c K E (proc\<lparr>p_pid := pid\<rparr>) event w1 = Ret (out, proc', w')"
    and "sig' = 0"
proof -
  obtain r w1 where 1: "pink_trace_syscall K (p_pid proc) sig w = (r, w1)" by fastforce
  obtain x k where 2: "env_waitpid E (p_pid proc) (kern w1) = (x, k)" by fastforce
  show thesis
  proof (cases x)
    case (Inl e)
    with assms 1 2 show ?thesis by (auto simp: strace_round_def split: if_splits)
  next
    case (Inr ps)
    with assms 1 2 show ?thesis
      by (cases ps) (auto simp: strace_round_def Let_def obind_Ret_iff split: if_splits intro: that)
  qed
qed

text \<open>A loop that ends has come to a round that returns.\<close>

lemma strace_loop_ends:
  fixes K :: "('a::len word, 'b) kernel"
  assumes "strace_loop c K E p sig out w = Some (Ret (code, out', w'))"
    and "strace_reaches c K E p0 w0 p sig w n"
  shows "\<exists>p1 sig1 w1 n1 out1. strace_reaches c K E p0 w0 p1 sig1 w1 n1 \<and>
    strace_round c K E p1 sig1 w1 = Ret (out1, Return code, w')"
proof -
  define Q where "Q = (\<lambda>c (K :: ('a word, 'b) kernel) E p sig w (y :: (int \<times> 'a word printed list \<times> 'b world) outcome). \<forall>p0 w0 n code out' w'.
    strace_reaches c K E p0 w0 p sig w n \<longrightarrow> y = Ret (code, out', w') \<longrightarrow>
      (\<exists>p1 sig1 w1 n1 out1. strace_reaches c K E p0 w0 p1 sig1 w1 n1 \<and>
         strace_round c K E p1 sig1 w1 = Ret (out1, Return code, w')))"
  have "Q c K E p sig w (Ret (code, out', w'))"
  proof (rule strace_loop.raw_induct [where P = "\<lambda>c K E p sig out w y. Q c K E p sig w y", OF _ assms(1)])
    fix loop c and K :: "('a word, 'b) kernel" and E p sig out w y
    assume IH: "\<And>c K E p sig out w y. loop c K E p sig out w = Some y \<Longrightarrow> Q c K E p sig w y"
      and eq: "(case strace_round c K E p sig w of
          Ret (out', Return code, w') \<Rightarrow> Some (Ret (code, out @ out', w'))
        | Ret (out', Again proc' sig' event, w') \<Rightarrow> loop c K E proc' sig' (out @ out') w'
        | Fault e \<Rightarrow> Some (Fault e)) = Some y"
    show "Q c K E p sig w y"
    proof (cases "strace_round c K E p sig w")
      case (Ret r)
      obtain out1 res w1 where r: "r = (out1, res, w1)" by (rule prod_cases3)
      show ?thesis
      proof (cases res)
        case (Return code)
        with eq Ret r show ?thesis unfolding Q_def by auto
      next
        case (Again p' sig' event)
        with eq Ret r have "Q c K E p' sig' w1 y" by (intro IH) simp
        then show ?thesis
          using strace_reaches.again [of c K E _ _ p sig w _ out1 p' sig' event w1] Ret r Again
          unfolding Q_def by blast
      qed
    next
      case (Fault e)
      with eq show ?thesis by (auto simp: Q_def)
    qed
  qed
  with assms(2) show ?thesis unfolding Q_def by blast
qed

lemma strace_loop_reaches:
  assumes "strace_reaches c K E p0 w0 p sig w n"
  shows "\<exists>out'. strace_loop c K E p0 0 out w0 = strace_loop c K E p sig out' w"
  using assms
proof induction
  case (again p sig w n out1 p' sig' event w')
  from again.IH obtain out' where "strace_loop c K E p0 0 out w0 = strace_loop c K E p sig out' w" by blast
  also have "\<dots> = strace_loop c K E p' sig' (out' @ out1) w'"
    by (subst strace_loop.simps) (simp add: again.hyps(2))
  finally show ?case by blast
qed blast

text \<open>A round returns exactly if the child is gone.\<close>

lemma strace_round_returns:
  "(\<exists>out w'. strace_round c K E p sig w = Ret (out, Return code, w')) \<longleftrightarrow>
   (\<exists>r w1. pink_trace_syscall K (p_pid p) sig w = (r, w1) \<and>
    (if r < 0 then code = (if r = - ESRCH then 0 else 1)
     else case env_waitpid E (p_pid p) (kern w1) of
         (Inl e, _) \<Rightarrow> code = (if e = ECHILD then 0 else 1)
       | (Inr (pid, status), _) \<Rightarrow>
           WIFEXITED status \<and> code = WEXITSTATUS status \<or> WIFSIGNALED status \<and> code = 128 + WTERMSIG status))"
proof -
  obtain r w1 where 1: "pink_trace_syscall K (p_pid p) sig w = (r, w1)" by fastforce
  obtain x k where 2: "env_waitpid E (p_pid p) (kern w1) = (x, k)" by fastforce
  show ?thesis
  proof (cases x)
    case (Inl e)
    with 1 2 show ?thesis by (auto simp: strace_round_def)
  next
    case (Inr ps)
    with 1 2 show ?thesis
      by (cases ps) (auto simp: strace_round_def Let_def obind_Ret_iff WIFEXITED_def WIFSIGNALED_def)
  qed
qed

section \<open>Properties of the tracer\<close>

text \<open>
  (C12) The state of the tracer in every round, whatever the kernel does: the
  register set is well-formed, no signal is ever passed on to the child, and the
  program takes the child to be in a system call exactly after an odd number of
  stops without an event. A stop for a signal is such a stop, so that after the first
  one entries and exits of system calls are taken for each other.
\<close>

theorem strace_reaches_invariant:
  fixes K :: "('l::len word, 'k) kernel"
  assumes "strace_reaches c K E p0 w0 p sig w n"
    and "\<not> p_insyscall p0" and "regset_wf TYPE('l) c (p_regs p0)"
  shows "p_insyscall p = odd n \<and> regset_wf TYPE('l) c (p_regs p) \<and> sig = 0"
  using assms(1)
proof induction
  case start
  with assms(2,3) show ?case by simp
next
  case (again p sig w n out p' sig' event w')
  from again.hyps(2) obtain pid and w1 :: "'k world"
    where ev: "handle_event c K E (p\<lparr>p_pid := pid\<rparr>) event w1 = Ret (out, p', w')" and "sig' = 0"
    by (rule strace_round_again)
  with again.IH handle_event_keeps [OF ev] show ?case by simp
qed

text \<open>A child that is stopped by every \<open>waitpid\<close>, with all its registers -1.\<close>

definition ref_strace_env :: "32 word \<Rightarrow> 'k strace_env" where
  "ref_strace_env status =
     \<lparr>env_fork = \<lambda>k. (Inr 7, k), env_getpid = \<lambda>_. 7, env_execvp = \<lambda>_ _ k. (Inr (), k),
      env_waitpid = \<lambda>pid k. (Inr (pid, status), k), env_ntop = \<lambda>_. '''', env_buf = replicate PATH_MAX 0,
      env_cp = replicate 8 0, env_sockaddr = \<lparr>sa_family = 0, sa_length = 0, sa_pad = replicate 128 0\<rparr>, env_abi = 0\<rparr>"

definition ref_process :: process where
  "ref_process = \<lparr>p_pid = 7, p_abi = 0, p_insyscall = False,
     p_regs = pink_regset_zero TYPE(64) (ref_config X86_64)\<rparr>"

lemma ref_strace_round:
  "\<exists>out p' w'. strace_round (ref_config X86_64) ref_x86_kernel (ref_strace_env 0x857f) ref_process 0
     \<lparr>errno = 0, kern = replicate 216 255\<rparr> = Ret (out, Again p' 0 0, w')"
proof -
  let ?c = "ref_config X86_64" and ?w = "\<lparr>errno = 0, kern = replicate 216 255\<rparr> :: byte list world"
  let ?rs = "pink_regset_zero TYPE(64) ?c"
  let ?p = "ref_process\<lparr>p_regs := x86_filled ?c ?rs (replicate 216 255), p_abi := 2\<rparr>"
  have wf: "regset_wf TYPE(64) ?c ?rs" by (simp add: regset_wf_def pink_regset_zero_def)
  have len: "length (rs_regs ?rs) = 216" by (simp add: pink_regset_zero_def sizeof_regs_def)
  have "(le_word (replicate 8 255) :: 64 word) = - 1"
  proof (rule bit_word_eqI)
    have "(255 :: byte) = mask 8" by (simp add: mask_eq_exp_minus_1)
    then have "bit (255 :: byte) j" if "j < 8" for j using that by (simp only: bit_mask_iff) simp
    then show "bit (le_word (replicate 8 255) :: 64 word) k = bit (- 1 :: 64 word) k" if "k < LENGTH(64)" for k
      using that by (auto simp: bit_le_word)
  qed
  then have get: "x86_64_get r (replicate 216 255) = - 1" for r
    by (cases r) (simp_all add: x86_64_get_def get_field_def of_bytes_def)
  have abi: "rs_abi (x86_filled ?c ?rs (replicate 216 255)) = 2"
    by (simp add: x86_filled_def get PINK_ABI_X32_def)
  have run: "pink_trace_syscall ref_x86_kernel 7 0 ?w = (0, ?w)"
    by (simp add: pink_trace_syscall_def ptrace_status_def pink_ptrace_def ref_x86_kernel_def)
  have "process_update ?c ref_x86_kernel ref_process ?w = Ret ([], ?p, ?w)"
    using fill_x86_filled [OF _ _ ref_x86_regs wf, of ?w 7] abi
    by (simp add: process_update_def ref_process_def pink_read_abi_def)
  moreover have "\<exists>out p'. handle_syscall ?c ref_x86_kernel (ref_strace_env 0x857f) ?p ?w = Ret (out, p', ?w)"
    by (simp add: handle_syscall_def ref_process_def pink_read_syscall_def abi PINK_ABI_I386_def PINK_ABI_X32_def
        x86_filled_get [OF len] get X32_SYSCALL_BIT_def pink_name_syscall_def PINK_ABIS_SUPPORTED_def arch_shuffle_def)
  ultimately show ?thesis
    using run
    by (auto simp: strace_round_def handle_event_def ref_strace_env_def ref_process_def WIFEXITED_def WIFSIGNALED_def
        pink_event_decide_def)
qed

theorem strace_reaches_invariant_witness:
  "\<exists>p' w'. strace_reaches (ref_config X86_64) ref_x86_kernel (ref_strace_env 0x857f) ref_process
     \<lparr>errno = 0, kern = replicate 216 255\<rparr> p' 0 w' 1 \<and> p_insyscall p'"
proof -
  let ?c = "ref_config X86_64" and ?w = "\<lparr>errno = 0, kern = replicate 216 255\<rparr> :: byte list world"
  obtain out p' w' where "strace_round ?c ref_x86_kernel (ref_strace_env 0x857f) ref_process 0 ?w = Ret (out, Again p' 0 0, w')"
    using ref_strace_round by blast
  from strace_reaches.again [OF strace_reaches.start this]
  have r: "strace_reaches ?c ref_x86_kernel (ref_strace_env 0x857f) ref_process ?w p' 0 w' 1" by simp
  with strace_reaches_invariant [OF r] show ?thesis
    by (auto simp: ref_process_def regset_wf_def pink_regset_zero_def)
qed



text \<open>
  The decoder of \<open>open(2)\<close> never prints the call: on every architecture but
  IA-64 all it ever prints is one message of \<open>perror\<close>, because the result of the
  second \<open>pink_read_argument\<close> is tested the wrong way round.
\<close>

lemma decode_open_prints_no_call:
  assumes "cfg_arch c \<noteq> IA64" and "decode_open c K E proc w = Ret (out, w')"
  shows "\<exists>msg. out = [Perror msg]"
proof -
  have arg: "\<exists>v. pink_read_argument c K (p_pid proc) (p_regs proc) i w = Ret (0, Some v, w)" if "i < 6" for i w
    using read_argument_some [OF assms(1) that] .
  obtain addr where 0: "pink_read_argument c K (p_pid proc) (p_regs proc) 0 w = Ret (0, Some addr, w)"
    using arg [of 0] by auto
  then obtain l d w2 where nul: "pink_read_vm_data_nul c K (p_pid proc) (p_regs proc) addr PATH_MAX w = Ret (l, d, w2)"
    using assms(2) by (auto simp: decode_open_def obind_Ret_iff)
  obtain flags where "pink_read_argument c K (p_pid proc) (p_regs proc) 1 w2 = Ret (0, Some flags, w2)"
    using arg [of 1] by auto
  with 0 nul assms(2) show ?thesis by (auto simp: decode_open_def Let_def split: if_splits)
qed


lemma decode_open_prints_no_call_ref:
  "\<exists>out w' msg. decode_open (ref_config X86_64) (ref_kernel False :: (64 word, 64 word tracee) kernel) (ref_strace_env 0)
     ref_process \<lparr>errno = 0, kern = ref_tracee 0x1000\<rparr> = Ret (out, w') \<and> out = [Perror msg]"
proof -
  let ?c = "ref_config X86_64" and ?K = "ref_kernel False :: (64 word, 64 word tracee) kernel"
  let ?rs = "pink_regset_zero TYPE(64) ?c" and ?w = "\<lparr>errno = 0, kern = ref_tracee (0x1000 :: 64 word)\<rparr>"
  have arg: "\<exists>v. pink_read_argument ?c ?K 7 ?rs i w = Ret (0, Some v, w)" if "i < 6" for i w
    by (rule read_argument_some) (use that in simp_all)
  obtain addr where 0: "pink_read_argument ?c ?K 7 ?rs 0 ?w = Ret (0, Some addr, ?w)" using arg [of 0] by auto
  have "\<exists>l d w2. pink_read_vm_data_nul ?c ?K 7 ?rs addr PATH_MAX ?w = Ret (l, d, w2)"
    by (rule read_vm_data_nul_ends [OF ref_services ref_setup_addr]) (simp add: PATH_MAX_def)
  then obtain l d w2 where nul: "pink_read_vm_data_nul ?c ?K 7 ?rs addr PATH_MAX ?w = Ret (l, d, w2)" by blast
  obtain flags where "pink_read_argument ?c ?K 7 ?rs 1 w2 = Ret (0, Some flags, w2)" using arg [of 1] by auto
  with 0 nul have "\<exists>out w'. decode_open ?c ?K (ref_strace_env 0) ref_process ?w = Ret (out, w')"
    by (simp add: decode_open_def ref_process_def Let_def)
  then obtain out w' where ok: "decode_open ?c ?K (ref_strace_env 0) ref_process ?w = Ret (out, w')" by blast
  with decode_open_prints_no_call [OF _ ok] show ?thesis by simp
qed

end
