(* ===== verification/Pink_Pipe.thy ===== *)
theory Pink_Pipe
  imports Pink_Kernel
begin

text \<open>
  \<^verbatim>\<open>pinktrace/pipe.c\<close>: a pipe that carries integers between two processes.
\<close>

unbundle bit_operations_syntax

section \<open>Operations\<close>

text \<open>
  The calls of the C library that the file uses: an error number, or what the call
  returns on success.
\<close>

record 'k pipe_calls =
  sys_pipe :: "'k \<Rightarrow> (int + int \<times> int) \<times> 'k"
  sys_pipe2 :: "32 word \<Rightarrow> 'k \<Rightarrow> (int + int \<times> int) \<times> 'k"
  sys_getfd :: "int \<Rightarrow> 'k \<Rightarrow> (int + 32 word) \<times> 'k"
  sys_setfd :: "int \<Rightarrow> 32 word \<Rightarrow> 'k \<Rightarrow> (int + unit) \<times> 'k"
  sys_close :: "int \<Rightarrow> 'k \<Rightarrow> (int + unit) \<times> 'k"
  sys_read :: "int \<Rightarrow> nat \<Rightarrow> 'k \<Rightarrow> (int + byte list) \<times> 'k"
  sys_write :: "int \<Rightarrow> byte list \<Rightarrow> 'k \<Rightarrow> (int + nat) \<times> 'k"

definition FD_CLOEXEC :: "32 word" where "FD_CLOEXEC = 1"
definition O_CLOEXEC :: "32 word" where "O_CLOEXEC = 0x80000"

definition set_cloexec_flag :: "'k pipe_calls \<Rightarrow> int \<Rightarrow> 'k world \<Rightarrow> int \<times> 'k world" where
  "set_cloexec_flag P fd w =
     (case sys_getfd P fd (kern w) of
        (Inl e, k) \<Rightarrow> (- e, \<lparr>errno = e, kern = k\<rparr>)
      | (Inr flags, k) \<Rightarrow>
          (let newflags = flags OR FD_CLOEXEC in
           if flags = newflags then (0, w\<lparr>kern := k\<rparr>)
           else
             (case sys_setfd P fd newflags k of
                (Inl e, k') \<Rightarrow> (- e, \<lparr>errno = e, kern = k'\<rparr>)
              | (Inr _, k') \<Rightarrow> (0, w\<lparr>kern := k'\<rparr>))))"

text \<open>
  The loops return the count and what is in the buffer from its start on. A kernel
  that stores more than it was asked for writes past the end of the buffer.
\<close>

function atomic_read ::
    "'k pipe_calls \<Rightarrow> int \<Rightarrow> byte list \<Rightarrow> nat \<Rightarrow> nat \<Rightarrow> 'k world \<Rightarrow> (int \<times> byte list \<times> 'k world) outcome" where
  "atomic_read P fd buf count tot w =
     (if count = 0 then Ret (int tot, buf, w)
      else
        (case sys_read P fd count (kern w) of
           (Inl e, k) \<Rightarrow> Ret (if tot > 0 then int tot else - 1, buf, \<lparr>errno = e, kern = k\<rparr>)
         | (Inr bs, k) \<Rightarrow>
             (let retval = length bs in
              if retval = 0 then Ret (int tot, buf, w\<lparr>kern := k\<rparr>)
              else if retval > count then Fault Undefined
              else atomic_read P fd (buf @ bs) (count - retval) (tot + retval) (w\<lparr>kern := k\<rparr>))))"
  by pat_completeness auto

termination by (relation "measure (\<lambda>(P, fd, buf, count, tot, w). count)") (auto simp flip: length_greater_0_conv)

text \<open>A kernel that claims to have written more than it was given makes the count wrap around.\<close>

function atomic_write ::
    "'k pipe_calls \<Rightarrow> int \<Rightarrow> byte list \<Rightarrow> nat \<Rightarrow> 'k world \<Rightarrow> (int \<times> 'k world) outcome" where
  "atomic_write P fd buf tot w =
     (if buf = [] then Ret (int tot, w)
      else
        (case sys_write P fd buf (kern w) of
           (Inl e, k) \<Rightarrow> Ret (if tot > 0 then int tot else - 1, \<lparr>errno = e, kern = k\<rparr>)
         | (Inr retval, k) \<Rightarrow>
             if retval = 0 then Ret (int tot, w\<lparr>kern := k\<rparr>)
             else if retval > length buf then Fault Undefined
             else atomic_write P fd (drop retval buf) (tot + retval) (w\<lparr>kern := k\<rparr>)))"
  by pat_completeness auto

termination by (relation "measure (\<lambda>(P, fd, buf, tot, w). length buf)") auto

declare atomic_read.simps [simp del] atomic_write.simps [simp del]

text \<open>What is stored in \<open>pipefd\<close> is part of the result.\<close>

definition pink_pipe_init ::
    "pink_config \<Rightarrow> 'k pipe_calls \<Rightarrow> 'k world \<Rightarrow> int \<times> (int \<times> int) option \<times> 'k world" where
  "pink_pipe_init c P w =
     (case (if have_pipe2 c then sys_pipe2 P O_CLOEXEC (kern w) else sys_pipe P (kern w)) of
        (Inl e, k) \<Rightarrow> (- e, None, \<lparr>errno = e, kern = k\<rparr>)
      | (Inr (rfd, wfd), k) \<Rightarrow>
          if have_pipe2 c then (0, Some (rfd, wfd), w\<lparr>kern := k\<rparr>)
          else
            (case set_cloexec_flag P rfd (w\<lparr>kern := k\<rparr>) of
               (r, w') \<Rightarrow>
                 if r < 0 then (- errno w', Some (rfd, wfd), w')
                 else
                   (case set_cloexec_flag P wfd w' of
                      (r', w'') \<Rightarrow>
                        if r' < 0 then (- errno w'', Some (rfd, wfd), w'') else (0, Some (rfd, wfd), w''))))"

definition pink_pipe_close :: "'k pipe_calls \<Rightarrow> int \<Rightarrow> 'k world \<Rightarrow> int \<times> 'k world" where
  "pink_pipe_close P fd w =
     (case sys_close P fd (kern w) of
        (Inl e, k) \<Rightarrow> (- e, \<lparr>errno = e, kern = k\<rparr>)
      | (Inr _, k) \<Rightarrow> (0, w\<lparr>kern := k\<rparr>))"

text \<open>\<open>i\<close> is the integer the caller's variable holds before; bytes read are stored over it.\<close>

definition pink_pipe_read_int ::
    "pink_config \<Rightarrow> 'k pipe_calls \<Rightarrow> int \<Rightarrow> 32 word \<Rightarrow> 'k world \<Rightarrow> (int \<times> 32 word \<times> 'k world) outcome" where
  "pink_pipe_read_int c P fd i w =
     obind (atomic_read P fd [] 4 0 (w\<lparr>errno := 0\<rparr>)) (\<lambda>(count, bs, w').
       let i' = of_bytes (big_endian c) (bs @ drop (length bs) (to_bytes (big_endian c) 4 i)) in
       Ret (if count \<noteq> 4 then (if errno w' \<noteq> 0 then - errno w' else - EINVAL) else 0, i', w'))"

definition pink_pipe_write_int ::
    "pink_config \<Rightarrow> 'k pipe_calls \<Rightarrow> int \<Rightarrow> 32 word \<Rightarrow> 'k world \<Rightarrow> (int \<times> 'k world) outcome" where
  "pink_pipe_write_int c P fd i w =
     obind (atomic_write P fd (to_bytes (big_endian c) 4 i) 0 (w\<lparr>errno := 0\<rparr>)) (\<lambda>(count, w').
       Ret (if count \<noteq> 4 then (if errno w' \<noteq> 0 then - errno w' else - EINVAL) else 0, w'))"

section \<open>What pipe(7) documents\<close>

text \<open>
  \<open>q k\<close> is what is in the pipe. A read of a pipe that is not empty takes a
  non-empty part from the front, a write adds a non-empty part of the bytes at the
  end; a read of an empty pipe with no writer left returns 0.
\<close>

definition pipe_contract :: "'k pipe_calls \<Rightarrow> int \<Rightarrow> int \<Rightarrow> ('k \<Rightarrow> byte list) \<Rightarrow> bool" where
  "pipe_contract P rfd wfd q \<longleftrightarrow>
     (\<forall>k n. 0 < n \<and> q k \<noteq> [] \<longrightarrow>
        (\<exists>m k'. 0 < m \<and> m \<le> n \<and> m \<le> length (q k) \<and>
           sys_read P rfd n k = (Inr (take m (q k)), k') \<and> q k' = drop m (q k))) \<and>
     (\<forall>k bs. bs \<noteq> [] \<longrightarrow>
        (\<exists>m k'. 0 < m \<and> m \<le> length bs \<and> sys_write P wfd bs k = (Inr m, k') \<and> q k' = q k @ take m bs))"

definition eof_contract :: "'k pipe_calls \<Rightarrow> int \<Rightarrow> ('k \<Rightarrow> byte list) \<Rightarrow> bool" where
  "eof_contract P rfd q \<longleftrightarrow> (\<forall>k n. q k = [] \<longrightarrow> sys_read P rfd n k = (Inr [], k))"

lemma atomic_read_queue:
  assumes "pipe_contract P rfd wfd q" and "count \<le> length (q (kern w))"
  shows "\<exists>k'. atomic_read P rfd buf count tot w =
      Ret (int (tot + count), buf @ take count (q (kern w)), w\<lparr>kern := k'\<rparr>) \<and>
    q k' = drop count (q (kern w))"
  using assms(2)
proof (induction count arbitrary: buf tot w rule: less_induct)
  case (less count)
  show ?case
  proof (cases "count = 0")
    case True
    then show ?thesis by (intro exI [of _ "kern w"]) (simp add: atomic_read.simps)
  next
    case False
    then have "0 < count \<and> q (kern w) \<noteq> []" using less.prems by auto
    then obtain m k1 where m: "0 < m" "m \<le> count" "m \<le> length (q (kern w))"
      "sys_read P rfd count (kern w) = (Inr (take m (q (kern w))), k1)" "q k1 = drop m (q (kern w))"
      using assms(1) unfolding pipe_contract_def by blast
    obtain k' where "atomic_read P rfd (buf @ take m (q (kern w))) (count - m) (tot + m) (w\<lparr>kern := k1\<rparr>) =
        Ret (int (tot + m + (count - m)), (buf @ take m (q (kern w))) @ take (count - m) (q k1), w\<lparr>kern := k'\<rparr>)"
      "q k' = drop (count - m) (q k1)"
      using less.IH [of "count - m" "w\<lparr>kern := k1\<rparr>" "buf @ take m (q (kern w))" "tot + m"] m less.prems
        diff_le_mono [OF less.prems, of m] by auto
    moreover have "take m (q (kern w)) @ take (count - m) (drop m (q (kern w))) = take count (q (kern w))"
      using m(2) by (metis le_add_diff_inverse take_add)
    ultimately show ?thesis
      using False m by (intro exI [of _ k']) (subst atomic_read.simps, simp add: min_absorb2)
  qed
qed

lemma atomic_read_eof:
  assumes "pipe_contract P rfd wfd q" and "eof_contract P rfd q" and "length (q (kern w)) < count"
  shows "\<exists>k'. atomic_read P rfd buf count tot w =
      Ret (int (tot + length (q (kern w))), buf @ q (kern w), w\<lparr>kern := k'\<rparr>) \<and> q k' = []"
  using assms(3)
proof (induction count arbitrary: buf tot w rule: less_induct)
  case (less count)
  show ?case
  proof (cases "q (kern w) = []")
    case True
    with less.prems assms(2) show ?thesis
      by (intro exI [of _ "kern w"]) (subst atomic_read.simps, simp add: eof_contract_def)
  next
    case False
    then have "0 < count \<and> q (kern w) \<noteq> []" using less.prems by auto
    then obtain m k1 where m: "0 < m" "m \<le> count" "m \<le> length (q (kern w))"
      "sys_read P rfd count (kern w) = (Inr (take m (q (kern w))), k1)" "q k1 = drop m (q (kern w))"
      using assms(1) unfolding pipe_contract_def by blast
    obtain k' where "atomic_read P rfd (buf @ take m (q (kern w))) (count - m) (tot + m) (w\<lparr>kern := k1\<rparr>) =
        Ret (int (tot + m + length (q k1)), (buf @ take m (q (kern w))) @ q k1, w\<lparr>kern := k'\<rparr>)" "q k' = []"
      using less.IH [of "count - m" "w\<lparr>kern := k1\<rparr>" "buf @ take m (q (kern w))" "tot + m"] m less.prems
        diff_less_mono [OF less.prems m(3)] by auto
    with m less.prems show ?thesis
      by (intro exI [of _ k']) (subst atomic_read.simps, simp add: min_absorb2)
  qed
qed

lemma atomic_write_queue:
  assumes "pipe_contract P rfd wfd q"
  shows "\<exists>k'. atomic_write P wfd buf tot w = Ret (int (tot + length buf), w\<lparr>kern := k'\<rparr>) \<and>
    q k' = q (kern w) @ buf"
proof (induction "length buf" arbitrary: buf tot w rule: less_induct)
  case less
  show ?case
  proof (cases "buf = []")
    case True
    then show ?thesis by (intro exI [of _ "kern w"]) (simp add: atomic_write.simps)
  next
    case False
    then obtain m k1 where m: "0 < m" "m \<le> length buf" "sys_write P wfd buf (kern w) = (Inr m, k1)"
      "q k1 = q (kern w) @ take m buf"
      using assms(1) unfolding pipe_contract_def by blast
    obtain k' where "atomic_write P wfd (drop m buf) (tot + m) (w\<lparr>kern := k1\<rparr>) =
        Ret (int (tot + m + length (drop m buf)), w\<lparr>kern := k'\<rparr>)" "q k' = q k1 @ drop m buf"
      using less.hyps [of "drop m buf" "tot + m" "w\<lparr>kern := k1\<rparr>"] m False by auto
    with False m show ?thesis
      by (intro exI [of _ k']) (subst atomic_write.simps, simp)
  qed
qed


section \<open>A queue of integers\<close>

text \<open>
  What a user of the pipe relies on: integers come out in the order they went in.
  \<open>holds c q w js\<close> says that the integers \<open>js\<close> are in the pipe.
\<close>

datatype queue_op = Put "32 word" | Get

fun queue_run :: "queue_op list \<Rightarrow> 32 word list \<Rightarrow> (32 word list \<times> 32 word list) option" where
  "queue_run [] js = Some ([], js)"
| "queue_run (Put i # ops) js = queue_run ops (js @ [i])"
| "queue_run (Get # ops) [] = None"
| "queue_run (Get # ops) (i # js) = map_option (\<lambda>(out, js'). (i # out, js')) (queue_run ops js)"

text \<open>The calls of a user, up to the first one that fails: its status, and the integers read.\<close>

fun queue_calls ::
    "(32 word \<Rightarrow> 'k world \<Rightarrow> (int \<times> 'k world) outcome) \<Rightarrow> ('k world \<Rightarrow> (int \<times> 32 word \<times> 'k world) outcome) \<Rightarrow>
     queue_op list \<Rightarrow> 'k world \<Rightarrow> (int \<times> 32 word list \<times> 'k world) outcome" where
  "queue_calls put get [] w = Ret (0, [], w)"
| "queue_calls put get (Put i # ops) w =
     obind (put i w) (\<lambda>(r, w'). if r \<noteq> 0 then Ret (r, [], w') else queue_calls put get ops w')"
| "queue_calls put get (Get # ops) w =
     obind (get w) (\<lambda>(r, i, w').
       if r \<noteq> 0 then Ret (r, [], w')
       else obind (queue_calls put get ops w') (\<lambda>(r', out, w''). Ret (r', i # out, w'')))"

locale int_queue =
  fixes put :: "pink_config \<Rightarrow> 'k pipe_calls \<Rightarrow> int \<Rightarrow> 32 word \<Rightarrow> 'k world \<Rightarrow> (int \<times> 'k world) outcome"
    and get :: "pink_config \<Rightarrow> 'k pipe_calls \<Rightarrow> int \<Rightarrow> 32 word \<Rightarrow> 'k world \<Rightarrow> (int \<times> 32 word \<times> 'k world) outcome"
    and holds :: "pink_config \<Rightarrow> ('k \<Rightarrow> byte list) \<Rightarrow> 'k world \<Rightarrow> 32 word list \<Rightarrow> bool"
  assumes put_law: "pipe_contract P rfd wfd q \<Longrightarrow> holds c q w js \<Longrightarrow>
      \<exists>w'. put c P wfd i w = Ret (0, w') \<and> holds c q w' (js @ [i])"
    and get_law: "pipe_contract P rfd wfd q \<Longrightarrow> holds c q w (i # js) \<Longrightarrow>
      \<exists>w'. get c P rfd j w = Ret (0, i, w') \<and> holds c q w' js"
begin

lemma simulates:
  assumes "pipe_contract P rfd wfd q" and "holds c q w js" and "queue_run ops js = Some (out, js')"
  shows "\<exists>w'. queue_calls (put c P wfd) (get c P rfd j) ops w = Ret (0, out, w') \<and> holds c q w' js'"
  using assms(2,3)
proof (induction ops js arbitrary: w out rule: queue_run.induct)
  case (2 i ops js)
  with put_law [OF assms(1) 2(2), of i] show ?case by fastforce
next
  case (4 ops i js)
  then obtain out' where "queue_run ops js = Some (out', js')" "out = i # out'" by auto
  with 4 get_law [OF assms(1) 4(2), of j] show ?case by fastforce
qed simp_all

end

definition int_stream :: "pink_config \<Rightarrow> ('k \<Rightarrow> byte list) \<Rightarrow> 'k world \<Rightarrow> 32 word list \<Rightarrow> bool" where
  "int_stream c q w js \<longleftrightarrow> q (kern w) = concat (map (to_bytes (big_endian c) 4) js)"

interpretation pipe_ints: int_queue pink_pipe_write_int pink_pipe_read_int int_stream
proof
  fix P :: "'a pipe_calls" and rfd wfd q c w js i
  assume P: "pipe_contract P rfd wfd q"
  show "\<exists>w'. pink_pipe_write_int c P wfd i w = Ret (0, w') \<and> int_stream c q w' (js @ [i])"
    if "int_stream c q w js"
    using atomic_write_queue [OF P, of "to_bytes (big_endian c) 4 i" 0 "w\<lparr>errno := 0\<rparr>"] that
    by (auto simp: pink_pipe_write_int_def int_stream_def)
  show "\<exists>w'. pink_pipe_read_int c P rfd j w = Ret (0, i, w') \<and> int_stream c q w' js"
    if "int_stream c q w (i # js)" for j
    using atomic_read_queue [OF P, of 4 "w\<lparr>errno := 0\<rparr>" "[]" 0] that
    by (auto simp: pink_pipe_read_int_def int_stream_def Let_def)
qed

section \<open>Properties of the pipe\<close>

text \<open>A pipe that takes three bytes at a time and gives one.\<close>

definition ref_pipe :: "byte list pipe_calls" where
  "ref_pipe =
     \<lparr>sys_pipe = \<lambda>k. (Inr (3, 4), k), sys_pipe2 = \<lambda>_ k. (Inr (3, 4), k),
      sys_getfd = \<lambda>_ k. (Inr 0, k), sys_setfd = \<lambda>_ _ k. (Inr (), k), sys_close = \<lambda>_ k. (Inr (), k),
      sys_read = \<lambda>_ n k. (Inr (take (min n 1) k), drop (min n 1) k),
      sys_write = \<lambda>_ bs k. (Inr (min 3 (length bs)), k @ take 3 bs)\<rparr>"

lemma ref_pipe_contract: "pipe_contract ref_pipe 3 4 (\<lambda>k. k)"
proof -
  have "\<exists>m. 0 < m \<and> m \<le> length bs \<and> min 3 (length bs) = m \<and> take 3 bs = take m bs" if "bs \<noteq> []" for bs :: "byte list"
    using that by (intro exI [of _ "min 3 (length bs)"]) (auto simp: min_def)
  then show ?thesis
    unfolding pipe_contract_def ref_pipe_def
    by (auto simp: Suc_le_eq intro!: exI [of _ "Suc 0"])
qed

lemma ref_pipe_eof: "eof_contract ref_pipe 3 (\<lambda>k. k)"
  by (simp add: eof_contract_def ref_pipe_def)

text \<open>
  (C3) The pipe is a queue of integers: whatever parts the kernel transfers at a
  time, every sequence of \<open>pink_pipe_write_int\<close> and \<open>pink_pipe_read_int\<close> that is
  one of a queue (no read of an empty one) succeeds, reads what the queue gives,
  and leaves the integers in the pipe that the queue has.
\<close>

theorem pink_pipe_refines_queue:
  assumes "pipe_contract P rfd wfd q" and "q (kern w) = concat (map (to_bytes (big_endian c) 4) js)"
    and "queue_run ops js = Some (out, js')"
  shows "\<exists>w'. queue_calls (pink_pipe_write_int c P wfd) (pink_pipe_read_int c P rfd j) ops w = Ret (0, out, w') \<and>
    q (kern w') = concat (map (to_bytes (big_endian c) 4) js')"
  using pipe_ints.simulates [OF assms(1) _ assms(3), of c w j] assms(2) by (simp add: int_stream_def)

theorem pink_pipe_refines_queue_witness:
  "\<exists>w'. queue_calls (pink_pipe_write_int (ref_config X86_64) ref_pipe 4) (pink_pipe_read_int (ref_config X86_64) ref_pipe 3 0)
     [Put 7, Put 258, Get, Put 9, Get] \<lparr>errno = 0, kern = []\<rparr> = Ret (0, [7, 258], w') \<and> kern w' = to_bytes False 4 (9 :: 32 word)"
  using pink_pipe_refines_queue [OF ref_pipe_contract, where c = "ref_config X86_64" and js = "[]" and
      w = "\<lparr>errno = 0, kern = []\<rparr>" and ops = "[Put 7, Put 258, Get, Put 9, Get]" and out = "[7, 258]" and js' = "[9]" and j = 0]
  by simp

text \<open>
  (C24) A message cut off: if the pipe holds fewer than four bytes and no writer is
  left, \<open>pink_pipe_read_int\<close> returns \<open>-EINVAL\<close> and the pipe is empty; it does
  not wait forever.
\<close>

theorem pink_pipe_read_int_eof:
  assumes "pipe_contract P rfd wfd q" and "eof_contract P rfd q" and "length (q (kern w)) < 4"
  shows "\<exists>i w'. pink_pipe_read_int c P rfd j w = Ret (- EINVAL, i, w') \<and> q (kern w') = []"
proof -
  obtain k' where k': "atomic_read P rfd [] 4 0 (w\<lparr>errno := 0\<rparr>) =
      Ret (int (length (q (kern w))), q (kern w), w\<lparr>errno := 0, kern := k'\<rparr>)" "q k' = []"
    using atomic_read_eof [OF assms(1,2), of "w\<lparr>errno := 0\<rparr>" 4 "[]" 0] assms(3) by auto
  then show ?thesis using assms(3) by (auto simp: pink_pipe_read_int_def Let_def)
qed

theorem pink_pipe_read_int_eof_witness:
  "\<exists>i w'. pink_pipe_read_int (ref_config X86_64) ref_pipe 3 0 \<lparr>errno = 0, kern = [1, 2]\<rparr> = Ret (- EINVAL, i, w') \<and>
     kern w' = []"
  using pink_pipe_read_int_eof [OF ref_pipe_contract ref_pipe_eof, of "\<lparr>errno = 0, kern = [1, 2]\<rparr>"] by simp


section \<open>Closing on exec\<close>

text \<open>
  \<open>fl k\<close> maps the open descriptors to their flags. \<open>fcntl(2)\<close> reads and sets
  them; a new pipe has two descriptors, with no flag or with the one asked for.
\<close>

definition fd_contract :: "'k pipe_calls \<Rightarrow> ('k \<Rightarrow> int \<rightharpoonup> 32 word) \<Rightarrow> bool" where
  "fd_contract P fl \<longleftrightarrow>
     (\<forall>k. case sys_pipe P k of
        (Inl e, _) \<Rightarrow> e > 0
      | (Inr (r, s), k') \<Rightarrow> r \<noteq> s \<and> fl k' r = Some 0 \<and> fl k' s = Some 0) \<and>
     (\<forall>k. case sys_pipe2 P O_CLOEXEC k of
        (Inl e, _) \<Rightarrow> e > 0
      | (Inr (r, s), k') \<Rightarrow> r \<noteq> s \<and> fl k' r = Some FD_CLOEXEC \<and> fl k' s = Some FD_CLOEXEC) \<and>
     (\<forall>k fd f. fl k fd = Some f \<longrightarrow> sys_getfd P fd k = (Inr f, k)) \<and>
     (\<forall>k fd f. fl k fd \<noteq> None \<longrightarrow> (\<exists>k'. sys_setfd P fd f k = (Inr (), k') \<and> fl k' = (fl k)(fd \<mapsto> f)))"

lemma set_cloexec_flag_open:
  assumes "fd_contract P fl" and "fl (kern w) fd = Some f"
  shows "\<exists>k'. set_cloexec_flag P fd w = (0, w\<lparr>kern := k'\<rparr>) \<and> fl k' = (fl (kern w))(fd \<mapsto> f OR FD_CLOEXEC)"
proof -
  have get: "sys_getfd P fd (kern w) = (Inr f, kern w)" using assms unfolding fd_contract_def by blast
  obtain k' where set: "sys_setfd P fd (f OR FD_CLOEXEC) (kern w) = (Inr (), k')"
    "fl k' = (fl (kern w))(fd \<mapsto> f OR FD_CLOEXEC)"
    using assms unfolding fd_contract_def by (metis option.distinct(1))
  show ?thesis
  proof (cases "f = f OR FD_CLOEXEC")
    case True
    with get assms(2) show ?thesis
      by (intro exI [of _ "kern w"]) (simp add: set_cloexec_flag_def Let_def fun_upd_idem)
  next
    case False
    with get set show ?thesis by (intro exI [of _ k']) (simp add: set_cloexec_flag_def Let_def)
  qed
qed

text \<open>
  (C25) With and without \<open>pipe2(2)\<close> alike, a pipe that \<open>pink_pipe_init\<close> makes has
  two different descriptors that are both closed on exec; if the pipe cannot be
  made, the result is negative and nothing is stored.
\<close>

theorem pink_pipe_init_cloexec:
  assumes "fd_contract P fl"
  shows "case pink_pipe_init c P w of
      (r, None, w') \<Rightarrow> r < 0
    | (r, Some (rfd, wfd), w') \<Rightarrow>
        r = 0 \<and> rfd \<noteq> wfd \<and> fl (kern w') rfd = Some FD_CLOEXEC \<and> fl (kern w') wfd = Some FD_CLOEXEC"
proof (cases "have_pipe2 c")
  case True
  have "case sys_pipe2 P O_CLOEXEC (kern w) of (Inl e, _) \<Rightarrow> e > 0
      | (Inr (r, s), k') \<Rightarrow> r \<noteq> s \<and> fl k' r = Some FD_CLOEXEC \<and> fl k' s = Some FD_CLOEXEC"
    using assms [unfolded fd_contract_def, THEN conjunct2, THEN conjunct1, THEN spec] .
  with True show ?thesis by (auto simp: pink_pipe_init_def split: sum.splits prod.splits)
next
  case False
  have pipe: "case sys_pipe P (kern w) of (Inl e, _) \<Rightarrow> e > 0
      | (Inr (r, s), k') \<Rightarrow> r \<noteq> s \<and> fl k' r = Some 0 \<and> fl k' s = Some 0"
    using assms [unfolded fd_contract_def, THEN conjunct1, THEN spec] .
  show ?thesis
  proof (cases "sys_pipe P (kern w)")
    case (Pair x k)
    show ?thesis
    proof (cases x)
      case (Inl e)
      with Pair pipe False show ?thesis by (simp add: pink_pipe_init_def)
    next
      case (Inr fds)
      obtain r s where fds: "fds = (r, s)" by (cases fds)
      with Inr Pair pipe have fl: "r \<noteq> s" "fl k r = Some 0" "fl k s = Some 0" by simp_all
      obtain k1 where k1: "set_cloexec_flag P r (w\<lparr>kern := k\<rparr>) = (0, w\<lparr>kern := k1\<rparr>)" "fl k1 = (fl k)(r \<mapsto> FD_CLOEXEC)"
        using set_cloexec_flag_open [OF assms, of "w\<lparr>kern := k\<rparr>" r 0] fl by auto
      obtain k2 where "set_cloexec_flag P s (w\<lparr>kern := k1\<rparr>) = (0, w\<lparr>kern := k2\<rparr>)" "fl k2 = (fl k1)(s \<mapsto> FD_CLOEXEC)"
        using set_cloexec_flag_open [OF assms, of "w\<lparr>kern := k1\<rparr>" s 0] fl k1 by auto
      with k1 fl Inr Pair fds False show ?thesis by (simp add: pink_pipe_init_def)
    qed
  qed
qed

text \<open>Descriptors only: the pipe is made of 3 and 4.\<close>

definition ref_fds :: "(int \<rightharpoonup> 32 word) pipe_calls" where
  "ref_fds =
     \<lparr>sys_pipe = \<lambda>k. (Inr (3, 4), k(3 \<mapsto> 0, 4 \<mapsto> 0)),
      sys_pipe2 = \<lambda>flags k. (Inr (3, 4), k(3 \<mapsto> FD_CLOEXEC, 4 \<mapsto> FD_CLOEXEC)),
      sys_getfd = \<lambda>fd k. (case k fd of Some f \<Rightarrow> Inr f | None \<Rightarrow> Inl 9, k),
      sys_setfd = \<lambda>fd f k. (case k fd of Some _ \<Rightarrow> (Inr (), k(fd \<mapsto> f)) | None \<Rightarrow> (Inl 9, k)),
      sys_close = \<lambda>fd k. (Inr (), k(fd := None)),
      sys_read = \<lambda>_ _ k. (Inr [], k), sys_write = \<lambda>_ _ k. (Inr 0, k)\<rparr>"

lemma ref_fds_contract: "fd_contract ref_fds (\<lambda>k. k)"
  by (auto simp: fd_contract_def ref_fds_def)

theorem pink_pipe_init_cloexec_witness:
  "case pink_pipe_init (ref_config X86_64\<lparr>have_pipe2 := False\<rparr>) ref_fds \<lparr>errno = 0, kern = Map.empty\<rparr> of
      (r, None, w') \<Rightarrow> r < 0
    | (r, Some (rfd, wfd), w') \<Rightarrow>
        r = 0 \<and> rfd \<noteq> wfd \<and> kern w' rfd = Some FD_CLOEXEC \<and> kern w' wfd = Some FD_CLOEXEC"
  by (rule pink_pipe_init_cloexec [OF ref_fds_contract])

end
