(* ===== verification/Pink_Seatest.thy ===== *)
theory Pink_Seatest
  imports Pink_Prelude
begin

text \<open>
  \<^verbatim>\<open>pinktrace/seatest.c\<close> and \<^verbatim>\<open>seatest.h\<close>: the framework the test program is
  built on. It counts and reports the results of assertions, runs the tests that
  the filters select, reads the command line, and computes the exit status.
\<close>

unbundle bit_operations_syntax

section \<open>State\<close>

text \<open>What is printed: text, and text or a number padded on the right with blanks.\<close>

datatype sea_text = Sea string | Padded nat string | Number int | Padded_number nat int

text \<open>
  The static variables of the file. Functions of the test program are names \<open>'f\<close>
  that the parameter \<open>run\<close> of the operations below interprets; \<open>sea_world\<close> is
  all they change outside of the framework. A null pointer is \<open>None\<close>.
\<close>

record ('f, 'w) seatest =
  sea_tests_run :: int
  sea_tests_passed :: int
  sea_tests_failed :: int
  seatest_display_only :: bool
  seatest_verbose :: bool
  seatest_machine_readable :: bool
  seatest_current_fixture :: string
  seatest_current_fixture_path :: string
  seatest_magic_marker :: string
  seatest_suite_setup_func :: "'f option"
  seatest_suite_teardown_func :: "'f option"
  seatest_fixture_setup :: "'f option"
  seatest_fixture_teardown :: "'f option"
  seatest_fixture_tests_run :: int
  seatest_fixture_tests_failed :: int
  seatest_fixture_filter :: "string option"
  seatest_test_filter :: "string option"
  sea_printed :: "sea_text list"
  sea_world :: 'w

type_synonym ('f, 'w) sea_run = "'f \<Rightarrow> ('f, 'w) seatest \<Rightarrow> ('f, 'w) seatest outcome"

definition seatest_screen_width :: int where "seatest_screen_width = 70"

definition seatest_start :: "'w \<Rightarrow> ('f, 'w) seatest" where
  "seatest_start w =
     \<lparr>sea_tests_run = 0, sea_tests_passed = 0, sea_tests_failed = 0, seatest_display_only = False,
      seatest_verbose = False, seatest_machine_readable = False, seatest_current_fixture = [],
      seatest_current_fixture_path = [], seatest_magic_marker = [], seatest_suite_setup_func = None,
      seatest_suite_teardown_func = None, seatest_fixture_setup = None, seatest_fixture_teardown = None,
      seatest_fixture_tests_run = 0, seatest_fixture_tests_failed = 0, seatest_fixture_filter = None,
      seatest_test_filter = None, sea_printed = [], sea_world = w\<rparr>"

definition sea_print :: "sea_text list \<Rightarrow> ('f, 'w) seatest \<Rightarrow> ('f, 'w) seatest" where
  "sea_print ts s = s\<lparr>sea_printed := sea_printed s @ ts\<rparr>"

definition crlf :: string where "crlf = [CHR 0x0D, CHR 0x0A]"

section \<open>Setting up and tearing down\<close>

definition suite_setup :: "'f option \<Rightarrow> ('f, 'w) seatest \<Rightarrow> ('f, 'w) seatest" where
  "suite_setup f s = s\<lparr>seatest_suite_setup_func := f\<rparr>"

definition suite_teardown :: "'f option \<Rightarrow> ('f, 'w) seatest \<Rightarrow> ('f, 'w) seatest" where
  "suite_teardown f s = s\<lparr>seatest_suite_teardown_func := f\<rparr>"

definition fixture_setup :: "'f option \<Rightarrow> ('f, 'w) seatest \<Rightarrow> ('f, 'w) seatest" where
  "fixture_setup f s = s\<lparr>seatest_fixture_setup := f\<rparr>"

definition fixture_teardown :: "'f option \<Rightarrow> ('f, 'w) seatest \<Rightarrow> ('f, 'w) seatest" where
  "fixture_teardown f s = s\<lparr>seatest_fixture_teardown := f\<rparr>"

definition run_if_set :: "('f, 'w) sea_run \<Rightarrow> 'f option \<Rightarrow> ('f, 'w) seatest \<Rightarrow> ('f, 'w) seatest outcome" where
  "run_if_set run f s = (case f of None \<Rightarrow> Ret s | Some f \<Rightarrow> run f s)"

definition seatest_suite_setup :: "('f, 'w) sea_run \<Rightarrow> ('f, 'w) seatest \<Rightarrow> ('f, 'w) seatest outcome" where
  "seatest_suite_setup run s = run_if_set run (seatest_suite_setup_func s) s"

definition seatest_suite_teardown :: "('f, 'w) sea_run \<Rightarrow> ('f, 'w) seatest \<Rightarrow> ('f, 'w) seatest outcome" where
  "seatest_suite_teardown run s = run_if_set run (seatest_suite_teardown_func s) s"

definition seatest_setup :: "('f, 'w) sea_run \<Rightarrow> ('f, 'w) seatest \<Rightarrow> ('f, 'w) seatest outcome" where
  "seatest_setup run s = run_if_set run (seatest_fixture_setup s) s"

definition seatest_teardown :: "('f, 'w) sea_run \<Rightarrow> ('f, 'w) seatest \<Rightarrow> ('f, 'w) seatest outcome" where
  "seatest_teardown run s = run_if_set run (seatest_fixture_teardown s) s"

text \<open>The scan for a backslash starts at the terminating NUL and runs to the start.\<close>

fun scan_back :: "string \<Rightarrow> nat \<Rightarrow> nat" where
  "scan_back path 0 = 0"
| "scan_back path (Suc n) =
     (if Suc n < length path \<and> path ! Suc n = CHR 0x5C then Suc n else scan_back path n)"

definition test_file_name :: "string \<Rightarrow> string" where
  "test_file_name path =
     (let file = scan_back path (length path)
      in if file < length path \<and> path ! file = CHR 0x5C then drop (file + 1) path else drop file path)"

section \<open>Results\<close>

definition seatest_simple_test_result_log ::
    "bool \<Rightarrow> sea_text list \<Rightarrow> string \<Rightarrow> int \<Rightarrow> ('f, 'w) seatest \<Rightarrow> ('f, 'w) seatest" where
  "seatest_simple_test_result_log passed reason func line s =
     (let report = (\<lambda>result. sea_print
            (if seatest_machine_readable s
             then [Sea (seatest_magic_marker s), Sea (seatest_current_fixture_path s), Sea '','', Sea func, Sea '','',
                   Number line, Sea '',''] @ result @ [Sea crlf]
             else [Padded 30 func, Sea '' Line '', Padded_number 5 line, Sea '' ''] @ result @ [Sea crlf]))
      in if \<not> passed then (report reason s)\<lparr>sea_tests_failed := sea_tests_failed s + 1\<rparr>
         else (if seatest_verbose s then report [Sea ''Passed''] s else s)\<lparr>sea_tests_passed := sea_tests_passed s + 1\<rparr>)"

definition seatest_assert_true :: "int \<Rightarrow> string \<Rightarrow> int \<Rightarrow> ('f, 'w) seatest \<Rightarrow> ('f, 'w) seatest" where
  "seatest_assert_true test = seatest_simple_test_result_log (test \<noteq> 0) [Sea ''Should have been true'']"

definition seatest_assert_false :: "int \<Rightarrow> string \<Rightarrow> int \<Rightarrow> ('f, 'w) seatest \<Rightarrow> ('f, 'w) seatest" where
  "seatest_assert_false test = seatest_simple_test_result_log (test = 0) [Sea ''Should have been false'']"

definition seatest_assert_int_equal ::
    "32 word \<Rightarrow> 32 word \<Rightarrow> string \<Rightarrow> int \<Rightarrow> ('f, 'w) seatest \<Rightarrow> ('f, 'w) seatest" where
  "seatest_assert_int_equal expected actual =
     seatest_simple_test_result_log (expected = actual)
       [Sea ''Expected '', Number (sint expected), Sea '' but was '', Number (sint actual)]"

definition seatest_assert_ulong_equal ::
    "'l::len word \<Rightarrow> 'l word \<Rightarrow> string \<Rightarrow> int \<Rightarrow> ('f, 'w) seatest \<Rightarrow> ('f, 'w) seatest" where
  "seatest_assert_ulong_equal expected actual =
     seatest_simple_test_result_log (expected = actual)
       [Sea ''Expected '', Number (uint expected), Sea '' but was '', Number (uint actual)]"

text \<open>\<open>sprintf\<close> into a buffer of 100000 bytes, the terminating NUL included.\<close>

definition SEATEST_PRINT_BUFFER_SIZE :: nat where "SEATEST_PRINT_BUFFER_SIZE = 100000"

definition sprintf_result ::
    "bool \<Rightarrow> string \<Rightarrow> string \<Rightarrow> int \<Rightarrow> ('f, 'w) seatest \<Rightarrow> ('f, 'w) seatest outcome" where
  "sprintf_result passed text func line s =
     (if length text < SEATEST_PRINT_BUFFER_SIZE
      then Ret (seatest_simple_test_result_log passed [Sea text] func line s) else Fault Undefined)"

definition seatest_assert_string_equal ::
    "string option \<Rightarrow> string option \<Rightarrow> string \<Rightarrow> int \<Rightarrow> ('f, 'w) seatest \<Rightarrow> ('f, 'w) seatest outcome" where
  "seatest_assert_string_equal expected actual =
     (let shown = (\<lambda>s. case s of None \<Rightarrow> ''<NULL>'' | Some s \<Rightarrow> s)
      in sprintf_result (expected = actual) (''Expected '' @ shown expected @ '' but was '' @ shown actual))"

text \<open>For an \<open>actual\<close> shorter than \<open>expected\<close> the comparison starts before the string.\<close>

definition seatest_assert_string_ends_with ::
    "string \<Rightarrow> string \<Rightarrow> string \<Rightarrow> int \<Rightarrow> ('f, 'w) seatest \<Rightarrow> ('f, 'w) seatest outcome" where
  "seatest_assert_string_ends_with expected actual func line s =
     (if length actual < length expected then Fault Undefined
      else sprintf_result (drop (length actual - length expected) actual = expected)
             (''Expected '' @ actual @ '' to end with '' @ expected) func line s)"

definition seatest_assert_string_starts_with ::
    "string \<Rightarrow> string \<Rightarrow> string \<Rightarrow> int \<Rightarrow> ('f, 'w) seatest \<Rightarrow> ('f, 'w) seatest outcome" where
  "seatest_assert_string_starts_with expected actual =
     sprintf_result (take (length expected) actual = expected) (''Expected '' @ actual @ '' to start with '' @ expected)"

fun strstr :: "string \<Rightarrow> string \<Rightarrow> bool" where
  "strstr [] needle = (needle = [])"
| "strstr (c # cs) needle = (take (length needle) (c # cs) = needle \<or> strstr cs needle)"

definition seatest_assert_string_contains ::
    "string \<Rightarrow> string \<Rightarrow> string \<Rightarrow> int \<Rightarrow> ('f, 'w) seatest \<Rightarrow> ('f, 'w) seatest outcome" where
  "seatest_assert_string_contains expected actual =
     sprintf_result (strstr actual expected) (''Expected '' @ expected @ '' to be in '' @ actual)"

definition seatest_assert_string_doesnt_contain ::
    "string \<Rightarrow> string \<Rightarrow> string \<Rightarrow> int \<Rightarrow> ('f, 'w) seatest \<Rightarrow> ('f, 'w) seatest outcome" where
  "seatest_assert_string_doesnt_contain expected actual =
     sprintf_result (\<not> strstr actual expected) (''Expected '' @ actual @ '' not to have '' @ expected @ '' in it'')"

text \<open>
  The assertions on floating point numbers. Their arithmetic, which differs between
  \<open>float\<close> and \<open>double\<close>, is a parameter: subtraction, the comparisons, 0 and the
  conversion \<open>%f\<close>.
\<close>

record 'x float_arith =
  fl_minus :: "'x \<Rightarrow> 'x \<Rightarrow> 'x"
  fl_less :: "'x \<Rightarrow> 'x \<Rightarrow> bool"
  fl_less_eq :: "'x \<Rightarrow> 'x \<Rightarrow> bool"
  fl_zero :: 'x
  fl_shown :: "'x \<Rightarrow> string"

definition seatest_assert_float_equal ::
    "'x float_arith \<Rightarrow> 'x \<Rightarrow> 'x \<Rightarrow> 'x \<Rightarrow> string \<Rightarrow> int \<Rightarrow> ('f, 'w) seatest \<Rightarrow> ('f, 'w) seatest outcome" where
  "seatest_assert_float_equal A expected actual delta =
     (let result0 = fl_minus A expected actual;
          result = (if fl_less A result0 (fl_zero A) then fl_minus A (fl_zero A) result0 else result0)
      in sprintf_result (fl_less_eq A result delta) (''Expected '' @ fl_shown A expected @ '' but was '' @ fl_shown A actual))"

definition seatest_assert_double_equal ::
    "'x float_arith \<Rightarrow> 'x \<Rightarrow> 'x \<Rightarrow> 'x \<Rightarrow> string \<Rightarrow> int \<Rightarrow> ('f, 'w) seatest \<Rightarrow> ('f, 'w) seatest outcome" where
  "seatest_assert_double_equal A expected actual delta =
     (let result0 = fl_minus A expected actual;
          result = (if fl_less A result0 (fl_zero A) then fl_minus A (fl_zero A) result0 else result0)
      in sprintf_result (fl_less_eq A result delta) (''Expected '' @ fl_shown A expected @ '' but was '' @ fl_shown A actual))"

text \<open>The macros of the header that report results themselves. Bit 31 is the sign of an \<open>int\<close>.\<close>

fun n_array_loop ::
    "32 word list \<Rightarrow> 32 word list \<Rightarrow> nat \<Rightarrow> nat \<Rightarrow> string \<Rightarrow> int \<Rightarrow> ('f, 'w) seatest \<Rightarrow> ('f, 'w) seatest outcome" where
  "n_array_loop expected actual count 0 func line s = Ret s"
| "n_array_loop expected actual count (Suc n) func line s =
     (if count < length expected \<and> count < length actual
      then n_array_loop expected actual (count + 1) n func line
             (seatest_simple_test_result_log (expected ! count = actual ! count)
               [Sea ''Expected '', Number (sint (actual ! count)), Sea '' to be '', Number (sint (expected ! count)),
                Sea '' at position '', Number (int count)] func line s)
      else Fault Undefined)"

definition assert_n_array_equal ::
    "32 word list \<Rightarrow> 32 word list \<Rightarrow> nat \<Rightarrow> string \<Rightarrow> int \<Rightarrow> ('f, 'w) seatest \<Rightarrow> ('f, 'w) seatest outcome" where
  "assert_n_array_equal expected actual n = n_array_loop expected actual 0 n"

definition assert_bit_set :: "nat \<Rightarrow> 32 word \<Rightarrow> string \<Rightarrow> int \<Rightarrow> ('f, 'w) seatest \<Rightarrow> ('f, 'w) seatest outcome" where
  "assert_bit_set bit_number value func line s =
     (if bit_number < 31
      then Ret (seatest_simple_test_result_log (push_bit bit_number 1 AND value \<noteq> 0) [Sea '' Expected bit to be set''] func line s)
      else Fault Undefined)"

definition assert_bit_not_set :: "nat \<Rightarrow> 32 word \<Rightarrow> string \<Rightarrow> int \<Rightarrow> ('f, 'w) seatest \<Rightarrow> ('f, 'w) seatest outcome" where
  "assert_bit_not_set bit_number value func line s =
     (if bit_number < 31
      then Ret (seatest_simple_test_result_log (push_bit bit_number 1 AND value = 0)
             [Sea '' Expected bit not to to be set''] func line s)
      else Fault Undefined)"

definition assert_bit_mask_matches :: "32 word \<Rightarrow> 32 word \<Rightarrow> string \<Rightarrow> int \<Rightarrow> ('f, 'w) seatest \<Rightarrow> ('f, 'w) seatest" where
  "assert_bit_mask_matches value m =
     seatest_simple_test_result_log (value AND m = m) [Sea '' Expected all bits of mask to be set'']"

definition assert_fail :: "string \<Rightarrow> string \<Rightarrow> int \<Rightarrow> ('f, 'w) seatest \<Rightarrow> ('f, 'w) seatest" where
  "assert_fail message = seatest_simple_test_result_log False [Sea message]"

definition seatest_run_test :: "string \<Rightarrow> string \<Rightarrow> ('f, 'w) seatest \<Rightarrow> ('f, 'w) seatest" where
  "seatest_run_test fixture test s = s\<lparr>sea_tests_run := sea_tests_run s + 1\<rparr>"

section \<open>Fixtures\<close>

text \<open>
  A centred title. The division is that of C, which rounds towards 0; a loop whose
  bound is below its start does nothing.
\<close>

definition seatest_header_printer :: "string \<Rightarrow> int \<Rightarrow> char \<Rightarrow> ('f, 'w) seatest \<Rightarrow> ('f, 'w) seatest" where
  "seatest_header_printer title len f s =
     (let l = int (length title); d = (if len - (l + 2) < 0 then - ((l + 2 - len) div 2) else (len - (l + 2)) div 2)
      in if seatest_display_only s \<or> seatest_machine_readable s then s
         else sea_print [Sea (replicate (nat d) f), Sea (if l = 0 then [f, f] else '' '' @ title @ '' ''),
                         Sea (replicate (nat (len - (d + l + 2))) f), Sea crlf] s)"

definition seatest_test_fixture_start :: "string \<Rightarrow> ('f, 'w) seatest \<Rightarrow> ('f, 'w) seatest" where
  "seatest_test_fixture_start filepath s =
     (let s1 = s\<lparr>seatest_current_fixture_path := filepath, seatest_current_fixture := test_file_name filepath\<rparr>;
          s2 = seatest_header_printer (seatest_current_fixture s1) seatest_screen_width CHR ''-'' s1
      in s2\<lparr>seatest_fixture_tests_failed := sea_tests_failed s2, seatest_fixture_tests_run := sea_tests_run s2,
            seatest_fixture_teardown := None, seatest_fixture_setup := None\<rparr>)"

text \<open>\<open>digits\<close> is the conversion \<open>%d\<close> of \<open>sprintf\<close>.\<close>

definition seatest_test_fixture_end :: "(int \<Rightarrow> string) \<Rightarrow> ('f, 'w) seatest \<Rightarrow> ('f, 'w) seatest" where
  "seatest_test_fixture_end digits s =
     sea_print [Sea crlf]
       (seatest_header_printer
          (digits (sea_tests_run s - seatest_fixture_tests_run s) @ '' run  '' @
           digits (sea_tests_failed s - seatest_fixture_tests_failed s) @ '' failed'')
          seatest_screen_width CHR '' '' s)"

section \<open>Filters\<close>

definition fixture_filter :: "string \<Rightarrow> ('f, 'w) seatest \<Rightarrow> ('f, 'w) seatest" where
  "fixture_filter flt s = s\<lparr>seatest_fixture_filter := Some flt\<rparr>"

definition test_filter :: "string \<Rightarrow> ('f, 'w) seatest \<Rightarrow> ('f, 'w) seatest" where
  "test_filter flt s = s\<lparr>seatest_test_filter := Some flt\<rparr>"

text \<open>\<open>strcpy\<close> into an array of 20 bytes.\<close>

definition set_magic_marker :: "string \<Rightarrow> ('f, 'w) seatest \<Rightarrow> ('f, 'w) seatest outcome" where
  "set_magic_marker marker s =
     (if length marker < 20 then Ret (s\<lparr>seatest_magic_marker := marker\<rparr>) else Fault Undefined)"

definition seatest_display_test :: "string \<Rightarrow> string option \<Rightarrow> ('f, 'w) seatest \<Rightarrow> ('f, 'w) seatest" where
  "seatest_display_test fixture_name test_name s =
     (case test_name of None \<Rightarrow> s | Some t \<Rightarrow> sea_print [Sea fixture_name, Sea '','', Sea t, Sea crlf] s)"

definition strncmp_eq :: "string \<Rightarrow> string \<Rightarrow> nat \<Rightarrow> bool" where
  "strncmp_eq a b n \<longleftrightarrow> take n a = take n b"

definition seatest_should_run :: "string \<Rightarrow> string option \<Rightarrow> ('f, 'w) seatest \<Rightarrow> bool \<times> ('f, 'w) seatest" where
  "seatest_should_run fixture test s =
     (let run = (case seatest_fixture_filter s of None \<Rightarrow> True | Some flt \<Rightarrow> strncmp_eq flt fixture (length flt));
          run' = (case (seatest_test_filter s, test) of
                    (Some flt, Some t) \<Rightarrow> run \<and> strncmp_eq flt t (length flt)
                  | _ \<Rightarrow> run)
      in if run' \<and> seatest_display_only s then (False, seatest_display_test fixture test s) else (run', s))"

text \<open>The macro \<open>run_test\<close>.\<close>

definition run_test :: "('f, 'w) sea_run \<Rightarrow> string \<Rightarrow> string \<Rightarrow> 'f \<Rightarrow> ('f, 'w) seatest \<Rightarrow> ('f, 'w) seatest outcome" where
  "run_test run file name test s =
     (case seatest_should_run file (Some name) s of
        (False, s1) \<Rightarrow> Ret s1
      | (True, s1) \<Rightarrow>
          obind (seatest_suite_setup run s1) (\<lambda>s2.
          obind (seatest_setup run s2) (\<lambda>s3.
          obind (run test s3) (\<lambda>s4.
          obind (seatest_teardown run s4) (\<lambda>s5.
          obind (seatest_suite_teardown run s5) (\<lambda>s6.
            Ret (seatest_run_test file name s6)))))))"

text \<open>The tests of a fixture, one after the other.\<close>

fun run_list :: "('f, 'w) sea_run \<Rightarrow> string \<Rightarrow> (string \<times> 'f) list \<Rightarrow> ('f, 'w) seatest \<Rightarrow> ('f, 'w) seatest outcome" where
  "run_list run file [] s = Ret s"
| "run_list run file ((name, f) # tests) s = obind (run_test run file name f s) (run_list run file tests)"

section \<open>Running\<close>

text \<open>\<open>GetTickCount\<close> returns 0 but on Windows.\<close>

definition run_tests ::
    "(int \<Rightarrow> string) \<Rightarrow> ('f, 'w) sea_run \<Rightarrow> 'f \<Rightarrow> ('f, 'w) seatest \<Rightarrow> (bool \<times> ('f, 'w) seatest) outcome" where
  "run_tests digits run tests s =
     obind (run tests s) (\<lambda>s1.
       if seatest_display_only s1 \<or> seatest_machine_readable s1 then Ret (True, s1)
       else
         (let title = (\<lambda>t f. seatest_header_printer t seatest_screen_width f);
              s2 = title ''SEATEST v0.5'' CHR ''='' (sea_print [Sea (crlf @ crlf)] s1);
              s3 = title (if sea_tests_failed s2 > 0 then ''Failed'' else ''ALL TESTS PASSED'') CHR '' ''
                     (sea_print [Sea crlf] s2);
              s4 = title (digits (sea_tests_run s3) @ '' tests run'') CHR '' '' s3;
              s5 = title (''in '' @ digits 0 @ '' ms'') CHR '' '' s4;
              s6 = title [] CHR ''='' (sea_print [Sea crlf] s5)
          in Ret (sea_tests_failed s6 = 0, s6)))"

datatype seatest_action_t = SEATEST_DISPLAY_TESTS | SEATEST_RUN_TESTS | SEATEST_DO_NOTHING | SEATEST_DO_ABORT

definition seatest_show_help :: "('f, 'w) seatest \<Rightarrow> ('f, 'w) seatest" where
  "seatest_show_help =
     (let tab = [CHR 0x09] in
      sea_print (map (\<lambda>line. Sea (line @ crlf))
        [''Usage: [-t <testname>] [-f <fixturename>] [-d] [help] [-v] [-m] [-k <marker>'',
         ''Flags:'',
         tab @ ''help:'' @ tab @ ''will display this help'',
         tab @ ''-t:'' @ tab @ ''will only run tests that match <testname>'',
         tab @ ''-f:'' @ tab @ ''will only run fixtures that match <fixturename>'',
         tab @ ''-d:'' @ tab @ ''will just display test names and fixtures without'',
         tab @ ''-d:'' @ tab @ ''running the test'',
         tab @ ''-v:'' @ tab @ ''will print a more verbose version of the test run'',
         tab @ ''-m:'' @ tab @ ''will print a machine readable format of the test run, ie :- '',
         tab @ ''   '' @ tab @ ''<textfixture>,<testname>,<linenumber>,<testresult><EOL>'',
         tab @ ''-k:'' @ tab @ ''will prepend <marker> before machine readable output '',
         tab @ ''   '' @ tab @ ''<marker> cannot start with a '' @ [CHR 0x27] @ ''-'' @ [CHR 0x27]]))"

text \<open>\<open>strcasecmp\<close> on ASCII strings.\<close>

definition lower_ascii :: "char \<Rightarrow> char" where
  "lower_ascii c = (if 65 \<le> (of_char c :: nat) \<and> (of_char c :: nat) \<le> 90 then char_of ((of_char c :: nat) + 32) else c)"

definition seatest_is_string_equal_i :: "string \<Rightarrow> string \<Rightarrow> bool" where
  "seatest_is_string_equal_i s1 s2 \<longleftrightarrow> map lower_ascii s1 = map lower_ascii s2"

definition seatest_commandline_has_value_after :: "string list \<Rightarrow> nat \<Rightarrow> bool" where
  "seatest_commandline_has_value_after argv arg \<longleftrightarrow>
     arg + 1 < length argv \<and> \<not> (argv ! (arg + 1) \<noteq> [] \<and> hd (argv ! (arg + 1)) = CHR ''-'')"

text \<open>Whether a value was taken, the action afterwards, and the state.\<close>

definition seatest_parse_commandline_option_with_value ::
    "string list \<Rightarrow> nat \<Rightarrow> string \<Rightarrow> (string \<Rightarrow> ('f, 'w) seatest \<Rightarrow> ('f, 'w) seatest outcome) \<Rightarrow>
     seatest_action_t \<Rightarrow> ('f, 'w) seatest \<Rightarrow> (bool \<times> seatest_action_t \<times> ('f, 'w) seatest) outcome" where
  "seatest_parse_commandline_option_with_value argv arg option setter action s =
     (if seatest_is_string_equal_i (argv ! arg) option
      then (if \<not> seatest_commandline_has_value_after argv arg
            then Ret (False, SEATEST_DO_ABORT,
                   sea_print [Sea ''Error: The '', Sea option, Sea '' option expects to be followed by a value'', Sea crlf] s)
            else obind (setter (argv ! (arg + 1)) s) (\<lambda>s'. Ret (True, action, s')))
      else Ret (False, action, s))"

text \<open>
  The body of the loop for an argument that is not \<open>help\<close>. Each option with a value moves
  \<open>arg\<close> on, and the next option is looked for there.
\<close>

definition interpret_argument ::
    "string list \<Rightarrow> nat \<Rightarrow> seatest_action_t \<Rightarrow> ('f, 'w) seatest \<Rightarrow> (nat \<times> seatest_action_t \<times> ('f, 'w) seatest) outcome" where
  "interpret_argument argv arg action s =
     (let opt = seatest_is_string_equal_i (argv ! arg);
          action1 = (if opt ''-d'' then SEATEST_DISPLAY_TESTS else action);
          s1 = (if opt ''-v'' then s\<lparr>seatest_verbose := True\<rparr> else s);
          s2 = (if opt ''-m'' then s1\<lparr>seatest_machine_readable := True\<rparr> else s1)
      in obind (seatest_parse_commandline_option_with_value argv arg ''-t'' (\<lambda>v s. Ret (test_filter v s)) action1 s2)
           (\<lambda>(t, action2, s3). let arg1 = (if t then arg + 1 else arg) in
         obind (seatest_parse_commandline_option_with_value argv arg1 ''-f'' (\<lambda>v s. Ret (fixture_filter v s)) action2 s3)
           (\<lambda>(f, action3, s4). let arg2 = (if f then arg1 + 1 else arg1) in
         obind (seatest_parse_commandline_option_with_value argv arg2 ''-k'' set_magic_marker action3 s4)
           (\<lambda>(k, action4, s5). Ret (if k then arg2 + 1 else arg2, action4, s5)))))"

lemma interpret_argument_moves_on:
  assumes "interpret_argument argv arg action s = Ret (arg', action', s')"
  shows "arg \<le> arg'"
  using assms by (auto simp: interpret_argument_def Let_def obind_Ret_iff)

function seatest_interpret_commandline ::
    "string list \<Rightarrow> nat \<Rightarrow> seatest_action_t \<Rightarrow> ('f, 'w) seatest \<Rightarrow> (seatest_action_t \<times> ('f, 'w) seatest) outcome" where
  "seatest_interpret_commandline argv arg action s =
     (if arg < length argv \<and> action \<noteq> SEATEST_DO_ABORT
      then
        (if seatest_is_string_equal_i (argv ! arg) ''help''
         then Ret (SEATEST_DO_NOTHING, seatest_show_help s)
         else
           (case interpret_argument argv arg action s of
              Fault e \<Rightarrow> Fault e
            | Ret (arg', action', s') \<Rightarrow> seatest_interpret_commandline argv (arg' + 1) action' s'))
      else Ret (action, s))"
  by pat_completeness auto
termination
  by (relation "measure (\<lambda>(argv, arg, action, s). length argv - arg)")
    (auto dest!: interpret_argument_moves_on)

declare seatest_interpret_commandline.simps [simp del]

definition seatest_testrunner_create ::
    "string list \<Rightarrow> ('f, 'w) seatest \<Rightarrow> (seatest_action_t \<times> ('f, 'w) seatest) outcome" where
  "seatest_testrunner_create argv s = seatest_interpret_commandline argv 0 SEATEST_RUN_TESTS s"

definition seatest_testrunner ::
    "(int \<Rightarrow> string) \<Rightarrow> ('f, 'w) sea_run \<Rightarrow> string list \<Rightarrow> 'f \<Rightarrow> 'f option \<Rightarrow> 'f option \<Rightarrow>
     ('f, 'w) seatest \<Rightarrow> (bool \<times> ('f, 'w) seatest) outcome" where
  "seatest_testrunner digits run argv tests setup_func teardown_func s =
     obind (seatest_testrunner_create argv s) (\<lambda>(action, s1).
       if action = SEATEST_DISPLAY_TESTS then
         obind (run_tests digits run tests (s1\<lparr>seatest_display_only := True\<rparr>)) (\<lambda>(_, s2). Ret (True, s2))
       else if action = SEATEST_RUN_TESTS then
         run_tests digits run tests (suite_teardown teardown_func (suite_setup setup_func s1))
       else Ret (True, s1))"

section \<open>Printing keeps the counters\<close>

lemma sea_print_simps [simp]:
  "sea_tests_run (sea_print ts s) = sea_tests_run s" "sea_tests_failed (sea_print ts s) = sea_tests_failed s"
  "sea_tests_passed (sea_print ts s) = sea_tests_passed s"
  "seatest_fixture_tests_run (sea_print ts s) = seatest_fixture_tests_run s"
  "seatest_fixture_tests_failed (sea_print ts s) = seatest_fixture_tests_failed s"
  "seatest_display_only (sea_print ts s) = seatest_display_only s"
  "seatest_machine_readable (sea_print ts s) = seatest_machine_readable s"
  by (simp_all add: sea_print_def)

lemma header_printer_simps [simp]:
  "sea_tests_run (seatest_header_printer t n f s) = sea_tests_run s"
  "sea_tests_failed (seatest_header_printer t n f s) = sea_tests_failed s"
  "sea_tests_passed (seatest_header_printer t n f s) = sea_tests_passed s"
  "seatest_fixture_tests_run (seatest_header_printer t n f s) = seatest_fixture_tests_run s"
  "seatest_fixture_tests_failed (seatest_header_printer t n f s) = seatest_fixture_tests_failed s"
  "seatest_display_only (seatest_header_printer t n f s) = seatest_display_only s"
  "seatest_machine_readable (seatest_header_printer t n f s) = seatest_machine_readable s"
  by (simp_all add: seatest_header_printer_def Let_def)

text \<open>A title that fits makes a line of exactly the width of the screen.\<close>

fun shown_length :: "sea_text list \<Rightarrow> nat" where
  "shown_length (Sea t # ts) = length t + shown_length ts"
| "shown_length _ = 0"

lemma header_line_width:
  assumes "\<not> seatest_display_only s" "\<not> seatest_machine_readable s" and "int (length title) + 2 \<le> len"
  shows "\<exists>line. sea_printed (seatest_header_printer title len f s) = sea_printed s @ line @ [Sea crlf] \<and>
    int (shown_length line) = len"
  using assms by (auto simp: seatest_header_printer_def sea_print_def Let_def)

section \<open>The name of a test file\<close>

lemma scan_back_le: "scan_back path n \<le> n"
  by (induction n) auto

lemma scan_back_clear: "scan_back path n < i \<Longrightarrow> i \<le> n \<Longrightarrow> i < length path \<Longrightarrow> path ! i \<noteq> CHR 0x5C"
  by (induction n) (auto split: if_splits simp: le_Suc_eq)

lemma scan_back_stop:
  "scan_back path n = 0 \<or> scan_back path n < length path \<and> path ! scan_back path n = CHR 0x5C"
  by (induction n) auto

lemma rev_takeWhile_rev:
  assumes "p = as @ b # bs" and "b \<notin> set bs"
  shows "rev (takeWhile (\<lambda>c. c \<noteq> b) (rev p)) = bs"
proof -
  have "takeWhile (\<lambda>c. c \<noteq> b) (rev bs @ b # rev as) = rev bs @ takeWhile (\<lambda>c. c \<noteq> b) (b # rev as)"
    by (rule takeWhile_append2) (use assms(2) in auto)
  with assms(1) show ?thesis by simp
qed

text \<open>The name is what is behind the last backslash.\<close>

lemma test_file_name_eq: "test_file_name path = rev (takeWhile (\<lambda>c. c \<noteq> CHR 0x5C) (rev path))"
proof -
  let ?f = "scan_back path (length path)"
  have clear: "path ! i \<noteq> CHR 0x5C" if "?f < i" "i < length path" for i
    using scan_back_clear [OF that(1) _ that(2)] that(2) by simp
  have tail: "c \<noteq> CHR 0x5C" if "c \<in> set (drop (Suc ?f) path)" for c
  proof -
    from that obtain j where "j < length (drop (Suc ?f) path)" "c = drop (Suc ?f) path ! j"
      by (auto simp: in_set_conv_nth)
    then show ?thesis using clear [of "Suc ?f + j"] by simp
  qed
  show ?thesis
  proof (cases "?f < length path \<and> path ! ?f = CHR 0x5C")
    case True
    then have "path = take ?f path @ CHR 0x5C # drop (Suc ?f) path" using id_take_nth_drop [of ?f path] by simp
    moreover have "CHR 0x5C \<notin> set (drop (Suc ?f) path)" using tail by blast
    ultimately have "rev (takeWhile (\<lambda>c. c \<noteq> CHR 0x5C) (rev path)) = drop (Suc ?f) path" by (rule rev_takeWhile_rev)
    with True show ?thesis by (simp add: test_file_name_def Let_def)
  next
    case False
    with scan_back_stop [of path "length path"] have "?f = 0" by simp
    with False clear have "path ! i \<noteq> CHR 0x5C" if "i < length path" for i using that by (cases i) auto
    then have "\<forall>c\<in>set (rev path). c \<noteq> CHR 0x5C" by (auto simp: in_set_conv_nth)
    then have "takeWhile (\<lambda>c. c \<noteq> CHR 0x5C) (rev path) = rev path" by (simp only: takeWhile_eq_all_conv)
    moreover have "test_file_name path = path"
      using False \<open>?f = 0\<close> by (auto simp: test_file_name_def Let_def)
    ultimately show ?thesis by (simp only: rev_rev_ident)
  qed
qed

section \<open>The command line\<close>

text \<open>The loop reads the arguments within their number only, however options take values.\<close>

lemma option_with_value_bound:
  assumes "seatest_parse_commandline_option_with_value argv arg opt setter action s = Ret (taken, action', s')"
    and "arg < length argv"
  shows "(if taken then arg + 1 else arg) < length argv"
  using assms
  by (auto simp: seatest_parse_commandline_option_with_value_def seatest_commandline_has_value_after_def
      obind_Ret_iff split: if_splits)

lemma interpret_argument_in_range:
  assumes "interpret_argument argv arg action s = Ret (arg', action', s')" and "arg < length argv"
  shows "arg' < length argv"
proof -
  let ?next = "\<lambda>taken arg. if taken then arg + 1 else arg :: nat"
  from assms(1) obtain set_t set_f set_k :: "string \<Rightarrow> ('a, 'b) seatest \<Rightarrow> ('a, 'b) seatest outcome"
    and t f k a1 a2 a3 s2 s3 s4 where
    t: "seatest_parse_commandline_option_with_value argv arg ''-t'' set_t a1 s2 = Ret (t, a2, s3)" and
    f: "seatest_parse_commandline_option_with_value argv (?next t arg) ''-f'' set_f a2 s3 = Ret (f, a3, s4)" and
    k: "seatest_parse_commandline_option_with_value argv (?next f (?next t arg)) ''-k'' set_k a3 s4 = Ret (k, action', s')"
    and arg': "arg' = ?next k (?next f (?next t arg))"
    unfolding interpret_argument_def Let_def obind_Ret_iff split_paired_Ex prod.case outcome.inject prod.inject by blast
  show ?thesis
    unfolding arg' by (rule option_with_value_bound [OF k option_with_value_bound [OF f option_with_value_bound [OF t assms(2)]]])
qed

section \<open>Runs of a test program\<close>

text \<open>
  \<open>sea_reaches s0 s n\<close>: from \<open>s0\<close> the test program comes to \<open>s\<close> by calls of the framework,
  with \<open>n\<close> results reported on the way.
\<close>

inductive sea_reaches :: "('f, 'w) seatest \<Rightarrow> ('f, 'w) seatest \<Rightarrow> nat \<Rightarrow> bool" for s0 where
  start: "sea_reaches s0 s0 0"
| result: "sea_reaches s0 s n \<Longrightarrow> sea_reaches s0 (seatest_simple_test_result_log passed reason func line s) (Suc n)"
| ran: "sea_reaches s0 s n \<Longrightarrow> sea_reaches s0 (seatest_run_test fixture test s) n"
| should_run: "sea_reaches s0 s n \<Longrightarrow> sea_reaches s0 (snd (seatest_should_run fixture test' s)) n"
| fixture_start: "sea_reaches s0 s n \<Longrightarrow> sea_reaches s0 (seatest_test_fixture_start path s) n"
| fixture_end: "sea_reaches s0 s n \<Longrightarrow> sea_reaches s0 (seatest_test_fixture_end digits s) n"
| setup_func: "sea_reaches s0 s n \<Longrightarrow> sea_reaches s0 (fixture_setup f s) n"
| teardown_func: "sea_reaches s0 s n \<Longrightarrow> sea_reaches s0 (fixture_teardown f s) n"
| outside: "sea_reaches s0 s n \<Longrightarrow> sea_reaches s0 (s\<lparr>sea_world := w\<rparr>) n"

definition counters :: "('f, 'w) seatest \<Rightarrow> int list" where
  "counters s = [sea_tests_run s, sea_tests_passed s, sea_tests_failed s, seatest_fixture_tests_run s,
     seatest_fixture_tests_failed s]"

lemma counters_kept [simp]:
  "counters (snd (seatest_should_run fixture test s)) = counters s"
  "counters (seatest_test_fixture_end digits s) = counters s"
  "counters (fixture_setup f s) = counters s" "counters (fixture_teardown f s) = counters s"
  "counters (s\<lparr>sea_world := w\<rparr>) = counters s"
  by (auto simp: counters_def seatest_should_run_def seatest_display_test_def seatest_test_fixture_end_def
      fixture_setup_def fixture_teardown_def Let_def split: option.splits)

lemma result_counters [simp]:
  "sea_tests_run (seatest_simple_test_result_log passed reason func line s) = sea_tests_run s"
  "sea_tests_passed (seatest_simple_test_result_log passed reason func line s) = sea_tests_passed s + of_bool passed"
  "sea_tests_failed (seatest_simple_test_result_log passed reason func line s) = sea_tests_failed s + of_bool (\<not> passed)"
  "seatest_fixture_tests_run (seatest_simple_test_result_log passed reason func line s) = seatest_fixture_tests_run s"
  "seatest_fixture_tests_failed (seatest_simple_test_result_log passed reason func line s) = seatest_fixture_tests_failed s"
  "seatest_display_only (seatest_simple_test_result_log passed reason func line s) = seatest_display_only s"
  "seatest_machine_readable (seatest_simple_test_result_log passed reason func line s) = seatest_machine_readable s"
  by (simp_all add: seatest_simple_test_result_log_def Let_def)

definition counters_ok :: "nat \<Rightarrow> int list \<Rightarrow> bool" where
  "counters_ok n cs \<longleftrightarrow>
     (case cs of
        [run, passed, failed, fixture_run, fixture_failed] \<Rightarrow>
          passed + failed = int n \<and> 0 \<le> passed \<and> 0 \<le> fixture_failed \<and> fixture_failed \<le> failed \<and>
          0 \<le> fixture_run \<and> fixture_run \<le> run
      | _ \<Rightarrow> False)"

lemma sea_reaches_counters:
  assumes "sea_reaches s0 s n" and "counters s0 = [0, 0, 0, 0, 0]"
  shows "counters_ok n (counters s)"
  using assms
proof (induction rule: sea_reaches.induct)
  case (result s n passed reason func line)
  then show ?case by (cases passed) (simp_all add: counters_ok_def counters_def)
next
  case (fixture_start s n path)
  then show ?case by (simp add: counters_ok_def counters_def seatest_test_fixture_start_def Let_def)
next
  case start
  then show ?case by (simp add: counters_ok_def)
next
  case (ran s n fixture test)
  then show ?case by (simp add: counters_ok_def counters_def seatest_run_test_def)
qed simp_all

section \<open>Arrays, bits and floating point numbers\<close>

text \<open>The comparison of arrays reports one result for each element, and fails for each that differs.\<close>

lemma n_array_loop_counts:
  assumes "n_array_loop expected actual count n func line s = Ret s'"
  shows "sea_tests_passed s' + sea_tests_failed s' = sea_tests_passed s + sea_tests_failed s + int n \<and>
    (sea_tests_failed s' = sea_tests_failed s \<longleftrightarrow> take n (drop count expected) = take n (drop count actual)) \<and>
    sea_tests_failed s \<le> sea_tests_failed s'"
  using assms
proof (induction expected actual count n func line s rule: n_array_loop.induct)
  case (2 expected actual count n func line s)
  from 2(2) have in_range: "count < length expected" "count < length actual" by (auto split: if_splits)
  then have step: "take (Suc n) (drop count xs) = xs ! count # take n (drop (count + 1) xs)"
    if "xs = expected \<or> xs = actual" for xs
    using that by (auto simp flip: Cons_nth_drop_Suc)
  from 2 in_range step [of expected] step [of actual] show ?case by (auto split: if_splits)
qed simp

lemma assert_n_array_equal_counts:
  assumes "assert_n_array_equal expected actual n func line s = Ret s'"
  shows "sea_tests_failed s' = sea_tests_failed s \<longleftrightarrow> take n expected = take n actual"
  using n_array_loop_counts [of expected actual 0 n func line s s'] assms by (simp add: assert_n_array_equal_def)

lemma assert_bit_set_failed:
  assumes "assert_bit_set b v func line s = Ret s'"
  shows "sea_tests_failed s' = sea_tests_failed s \<longleftrightarrow> bit v b"
proof -
  have "push_bit b 1 AND v \<noteq> 0 \<longleftrightarrow> bit v b" if "b < 31"
  proof -
    have "bit (push_bit b 1 AND v) i \<longleftrightarrow> i = b \<and> bit v b" for i
      using that by (auto simp: bit_simps)
    with that show ?thesis unfolding bit_eq_iff [of "push_bit b 1 AND v" 0] by auto
  qed
  with assms show ?thesis by (auto simp: assert_bit_set_def split: if_splits)
qed

text \<open>A comparison with a number that is not ordered, as a NaN, fails.\<close>

lemma assert_float_unordered:
  assumes "seatest_assert_float_equal A expected actual delta func line s = Ret s'"
    and "\<And>x. \<not> fl_less A (fl_minus A expected actual) x" and "\<And>x. \<not> fl_less_eq A (fl_minus A expected actual) x"
  shows "sea_tests_failed s' = sea_tests_failed s + 1"
  using assms by (auto simp: seatest_assert_float_equal_def sprintf_result_def split: if_splits)

section \<open>Functions that report\<close>

text \<open>What the command line decides, and what a function of the test program may change of the state.\<close>

definition settings :: "('f, 'w) seatest \<Rightarrow> bool \<times> bool \<times> string option \<times> string option" where
  "settings s = (seatest_display_only s, seatest_machine_readable s, seatest_fixture_filter s, seatest_test_filter s)"

definition no_hooks :: "('f, 'w) seatest \<Rightarrow> bool" where
  "no_hooks s \<longleftrightarrow> seatest_suite_setup_func s = None \<and> seatest_suite_teardown_func s = None \<and>
     seatest_fixture_setup s = None \<and> seatest_fixture_teardown s = None"

definition grows :: "('f, 'w) seatest \<Rightarrow> ('f, 'w) seatest \<Rightarrow> bool" where
  "grows s s' \<longleftrightarrow> sea_tests_failed s \<le> sea_tests_failed s' \<and> settings s' = settings s \<and> (no_hooks s \<longrightarrow> no_hooks s')"

lemma grows_refl [simp]: "grows s s"
  by (simp add: grows_def)

lemma grows_trans [trans]: "grows s t \<Longrightarrow> grows t u \<Longrightarrow> grows s u"
  by (auto simp: grows_def)

lemma settings_kept [simp]:
  "settings (sea_print ts s) = settings s" "settings (seatest_header_printer t n f s) = settings s"
  "settings (seatest_simple_test_result_log passed reason func line s) = settings s"
  "settings (s\<lparr>sea_world := w\<rparr>) = settings s" "settings (seatest_run_test fixture test s) = settings s"
  "settings (seatest_test_fixture_start path s) = settings s" "settings (seatest_test_fixture_end digits s) = settings s"
  "settings (snd (seatest_should_run fixture test' s)) = settings s"
  by (auto simp: settings_def sea_print_def seatest_header_printer_def seatest_simple_test_result_log_def
      seatest_run_test_def seatest_test_fixture_start_def seatest_test_fixture_end_def seatest_should_run_def
      seatest_display_test_def Let_def split: option.splits)

lemma no_hooks_kept [simp]:
  "no_hooks (sea_print ts s) = no_hooks s" "no_hooks (seatest_header_printer t n f s) = no_hooks s"
  "no_hooks (seatest_simple_test_result_log passed reason func line s) = no_hooks s"
  "no_hooks (s\<lparr>sea_world := w\<rparr>) = no_hooks s" "no_hooks (seatest_run_test fixture test s) = no_hooks s"
  "no_hooks (seatest_test_fixture_end digits s) = no_hooks s"
  "no_hooks (snd (seatest_should_run fixture test' s)) = no_hooks s"
  by (auto simp: no_hooks_def sea_print_def seatest_header_printer_def seatest_simple_test_result_log_def
      seatest_run_test_def seatest_test_fixture_end_def seatest_should_run_def seatest_display_test_def Let_def
      split: option.splits)

lemma no_hooks_fixture_start [simp]: "no_hooks s \<Longrightarrow> no_hooks (seatest_test_fixture_start path s)"
  by (simp add: no_hooks_def seatest_test_fixture_start_def seatest_header_printer_def sea_print_def Let_def)

lemma failed_kept [simp]:
  "sea_tests_failed (seatest_run_test fixture test s) = sea_tests_failed s"
  "sea_tests_failed (seatest_test_fixture_start path s) = sea_tests_failed s"
  "sea_tests_failed (seatest_test_fixture_end digits s) = sea_tests_failed s"
  "sea_tests_failed (snd (seatest_should_run fixture test' s)) = sea_tests_failed s"
  by (auto simp: seatest_run_test_def seatest_test_fixture_start_def seatest_test_fixture_end_def seatest_should_run_def
      seatest_display_test_def Let_def split: option.splits)

lemma should_run_settings:
  "settings s' = settings s \<Longrightarrow> fst (seatest_should_run fixture test s') = fst (seatest_should_run fixture test s)"
  by (auto simp: settings_def seatest_should_run_def Let_def split: option.splits)

text \<open>A function ran, and reported no failure.\<close>

definition passed :: "('f, 'w) sea_run \<Rightarrow> 'f \<Rightarrow> bool" where
  "passed run f \<longleftrightarrow> (\<exists>t t'. run f t = Ret t' \<and> sea_tests_failed t' = sea_tests_failed t)"

text \<open>
  A test program whose functions never lose a failure and leave the settings: what runs
  without a new failure has run each of its tests without one.
\<close>

locale reporting_run =
  fixes run :: "('f, 'w) sea_run"
  assumes run_grows: "run f s = Ret s' \<Longrightarrow> grows s s'"
begin

lemma run_if_set_grows: "run_if_set run f s = Ret s' \<Longrightarrow> grows s s'"
  by (cases f) (auto simp: run_if_set_def run_grows)

lemma run_test_steps:
  assumes "run_test run file name f s = Ret s'"
  shows "grows s s' \<and> (fst (seatest_should_run file (Some name) s) \<longrightarrow> sea_tests_failed s' = sea_tests_failed s \<longrightarrow> passed run f)"
proof (cases "fst (seatest_should_run file (Some name) s)")
  case False
  with assms have "s' = snd (seatest_should_run file (Some name) s)"
    by (auto simp: run_test_def split: prod.splits)
  with False show ?thesis by (simp add: grows_def)
next
  case True
  let ?s1 = "snd (seatest_should_run file (Some name) s)"
  from assms True obtain s2 s3 s4 s5 s6 where
    "run_if_set run (seatest_suite_setup_func ?s1) ?s1 = Ret s2" "run_if_set run (seatest_fixture_setup s2) s2 = Ret s3"
    and ran: "run f s3 = Ret s4"
    and "run_if_set run (seatest_fixture_teardown s4) s4 = Ret s5"
    "run_if_set run (seatest_suite_teardown_func s5) s5 = Ret s6" and s': "s' = seatest_run_test file name s6"
    by (auto simp: run_test_def obind_Ret_iff seatest_suite_setup_def seatest_setup_def seatest_teardown_def
        seatest_suite_teardown_def split: prod.splits)
  then have *: "grows ?s1 s2" "grows s2 s3" "grows s3 s4" "grows s4 s5" "grows s5 s6"
    using run_if_set_grows run_grows by blast+
  moreover have "passed run f" if "sea_tests_failed s' = sea_tests_failed s"
    unfolding passed_def
  proof (intro exI conjI)
    show "run f s3 = Ret s4" by (rule ran)
    show "sea_tests_failed s4 = sea_tests_failed s3" using that * s' by (auto simp: grows_def)
  qed
  ultimately show ?thesis using s' by (auto simp: grows_def)
qed

lemma run_list_steps:
  assumes "run_list run file tests s = Ret s'"
  shows "grows s s' \<and> (sea_tests_failed s' = sea_tests_failed s \<longrightarrow>
    (\<forall>(name, f)\<in>set tests. fst (seatest_should_run file (Some name) s) \<longrightarrow> passed run f))"
  using assms
proof (induction tests arbitrary: s)
  case (Cons test tests)
  obtain name f where test: "test = (name, f)" by fastforce
  from Cons.prems test obtain s1 where 1: "run_test run file name f s = Ret s1" and 2: "run_list run file tests s1 = Ret s'"
    by (auto simp: obind_Ret_iff)
  note first = run_test_steps [OF 1] and rest = Cons.IH [OF 2]
  have same: "fst (seatest_should_run file (Some n) s1) = fst (seatest_should_run file (Some n) s)" for n
    using first by (intro should_run_settings) (simp add: grows_def)
  show ?case
    using first rest by (auto simp: test same grows_def)
qed simp

text \<open>The other direction: a list whose selected tests return without a failure does so, too.\<close>

lemma run_test_passes:
  assumes "no_hooks s"
    and "fst (seatest_should_run file (Some name) s) \<Longrightarrow> (\<And>t. \<exists>t'. run f t = Ret t' \<and> sea_tests_failed t' = sea_tests_failed t)"
  shows "\<exists>s'. run_test run file name f s = Ret s' \<and> sea_tests_failed s' = sea_tests_failed s"
proof (cases "fst (seatest_should_run file (Some name) s)")
  case False
  then show ?thesis by (auto simp: run_test_def split: prod.split) (metis failed_kept(4) snd_conv)
next
  case True
  let ?s1 = "snd (seatest_should_run file (Some name) s)"
  from assms(2) [OF True] obtain t where t: "run f ?s1 = Ret t" "sea_tests_failed t = sea_tests_failed ?s1" by blast
  have "no_hooks ?s1" using assms(1) by simp
  moreover from this run_grows [OF t(1)] have "no_hooks t" by (simp add: grows_def)
  ultimately have "run_test run file name f s = Ret (seatest_run_test file name t)"
    using True t(1) by (auto simp: run_test_def run_if_set_def no_hooks_def seatest_suite_setup_def seatest_setup_def
        seatest_teardown_def seatest_suite_teardown_def split: prod.split)
  then show ?thesis using t(2) by simp
qed

lemma run_list_passes:
  assumes "no_hooks s"
    and "\<And>name f t. (name, f) \<in> set tests \<Longrightarrow> fst (seatest_should_run file (Some name) s) \<Longrightarrow>
      \<exists>t'. run f t = Ret t' \<and> sea_tests_failed t' = sea_tests_failed t"
  shows "\<exists>s'. run_list run file tests s = Ret s' \<and> sea_tests_failed s' = sea_tests_failed s"
  using assms
proof (induction tests arbitrary: s)
  case (Cons test tests)
  obtain name f where test: "test = (name, f)" by fastforce
  have "\<exists>s1. run_test run file name f s = Ret s1 \<and> sea_tests_failed s1 = sea_tests_failed s"
    using Cons.prems test by (intro run_test_passes) auto
  then obtain s1 where s1: "run_test run file name f s = Ret s1" "sea_tests_failed s1 = sea_tests_failed s" by blast
  have g: "grows s s1" using run_test_steps [OF s1(1)] by blast
  have "\<exists>s'. run_list run file tests s1 = Ret s' \<and> sea_tests_failed s' = sea_tests_failed s1"
  proof (rule Cons.IH)
    show "no_hooks s1" using g Cons.prems(1) by (simp add: grows_def)
    show "\<exists>t'. run f t = Ret t' \<and> sea_tests_failed t' = sea_tests_failed t"
      if "(name, f) \<in> set tests" "fst (seatest_should_run file (Some name) s1)" for name f t
    proof (rule Cons.prems(2))
      show "(name, f) \<in> set (test # tests)" using that(1) by simp
      show "fst (seatest_should_run file (Some name) s)"
        using that(2) g should_run_settings [of s1 s] by (simp add: grows_def)
    qed
  qed
  with s1 show ?case by (auto simp: test)
qed simp

end

section \<open>Properties of the framework\<close>



text \<open>
  (C37) The exit status of the test program: it reports failure exactly if the tests were run,
  one failed, and neither the list of tests nor machine-readable output was asked for. With
  \<open>-m\<close>, and after an error in the command line, the program succeeds whatever
  the tests did.
\<close>

theorem seatest_testrunner_status:
  assumes "seatest_testrunner_create argv s = Ret (action, s1)"
    and "seatest_testrunner digits run argv tests setup_func teardown_func s = Ret (ok, s')"
  shows "\<not> ok \<longleftrightarrow> action = SEATEST_RUN_TESTS \<and> sea_tests_failed s' \<noteq> 0 \<and> \<not> seatest_display_only s' \<and>
    \<not> seatest_machine_readable s'"
proof -
  have run: "r \<longleftrightarrow> sea_tests_failed t' = 0 \<or> seatest_display_only t' \<or> seatest_machine_readable t'"
    if "run_tests digits run tests t = Ret (r, t')" for r t t'
    using that by (auto simp: run_tests_def obind_Ret_iff Let_def split: if_splits)
  from assms show ?thesis
    by (auto simp: seatest_testrunner_def obind_Ret_iff dest!: run split: if_splits)
qed

text \<open>A test program whose only test fails, with \<open>-m\<close>.\<close>

theorem seatest_testrunner_status_witness:
  "\<exists>s'. seatest_testrunner (\<lambda>_. []) (\<lambda>_ s. Ret (seatest_assert_true 0 ''t'' 1 s)) [''check'', ''-m''] () None None
     (seatest_start ()) = Ret (True, s') \<and> sea_tests_failed s' = 1 \<and> seatest_machine_readable s'"
proof -
  let ?run = "\<lambda>_ s. Ret (seatest_assert_true 0 ''t'' 1 s)"
  have create: "seatest_testrunner_create [''check'', ''-m''] (seatest_start () :: (unit, unit) seatest) =
      Ret (SEATEST_RUN_TESTS, (seatest_start ())\<lparr>seatest_machine_readable := True\<rparr>)"
    by (simp add: seatest_testrunner_create_def seatest_interpret_commandline.simps interpret_argument_def Let_def
        seatest_is_string_equal_i_def lower_ascii_def seatest_parse_commandline_option_with_value_def)
  then have "\<exists>ok s'. seatest_testrunner (\<lambda>_. []) ?run [''check'', ''-m''] () None None (seatest_start ()) = Ret (ok, s') \<and>
      sea_tests_failed s' = 1 \<and> seatest_machine_readable s'"
    by (simp add: seatest_testrunner_def run_tests_def suite_setup_def suite_teardown_def seatest_assert_true_def)
      (auto simp: seatest_start_def)
  then obtain ok s' where r: "seatest_testrunner (\<lambda>_. []) ?run [''check'', ''-m''] () None None (seatest_start ()) = Ret (ok, s')"
    and "sea_tests_failed s' = 1" "seatest_machine_readable s'" by blast
  with seatest_testrunner_status [OF create r] show ?thesis by auto
qed

end
