(* ===== verification/Pink_Check.thy ===== *)
theory Pink_Check
  imports Pink_Strace Pink_Write Pink_Socket Pink_Pipe Pink_Seatest
begin

text \<open>
  \<^verbatim>\<open>pinktrace/pinktrace-check.c\<close>: what the tests of the library share. It forks
  and waits for children, checks results, and calls the library with a report of a
  failure where a call fails; and \<^verbatim>\<open>pipe-TEST.c\<close>, the test of the pipe. What is
  printed for the eye only (\<open>pprintf\<close> and the dumps) has no effect on the state; it is in
  \<open>Pink_Dump\<close>.
\<close>

unbundle bit_operations_syntax

section \<open>State\<close>

text \<open>What the tests change outside of the framework: \<open>errno\<close>, the kernel and \<open>_pgid\<close>.\<close>

record 'k check_world =
  ck_world :: "'k world"
  ck_pgid :: int

type_synonym ('f, 'k) check = "('f, 'k check_world) seatest"

record 'k check_calls =
  ck_fork :: "'k \<Rightarrow> (int + int) \<times> 'k"
  ck_setpgid :: "int \<Rightarrow> int \<Rightarrow> 'k \<Rightarrow> (int + unit) \<times> 'k"
  ck_waitpid :: "int \<Rightarrow> 32 word \<Rightarrow> 'k \<Rightarrow> (int + int \<times> 32 word) \<times> 'k"

abbreviation world_of :: "('f, 'k) check \<Rightarrow> 'k world" where
  "world_of s \<equiv> ck_world (sea_world s)"

definition set_world :: "'k world \<Rightarrow> ('f, 'k) check \<Rightarrow> ('f, 'k) check" where
  "set_world w s = s\<lparr>sea_world := (sea_world s)\<lparr>ck_world := w\<rparr>\<rparr>"

text \<open>
  \<open>fail_verbose\<close> reports a failed result and goes on. The message is kept without the
  values in it.
\<close>

definition fail_verbose :: "string \<Rightarrow> string \<Rightarrow> int \<Rightarrow> ('f, 'k) check \<Rightarrow> ('f, 'k) check" where
  "fail_verbose msg func line s = seatest_simple_test_result_log False [Sea msg] func line s"

definition do_kill :: "('l::len word, 'k) kernel \<Rightarrow> int \<Rightarrow> int \<Rightarrow> ('f, 'k) check \<Rightarrow> ('f, 'k) check" where
  "do_kill K pid sig s = set_world (snd (sys_status (sys_kill K pid sig (kern (world_of s))) (world_of s))) s"

definition kill_save_errno :: "('l::len word, 'k) kernel \<Rightarrow> int \<Rightarrow> int \<Rightarrow> ('f, 'k) check \<Rightarrow> ('f, 'k) check" where
  "kill_save_errno K pid sig s =
     (let s' = do_kill K pid sig s in set_world ((world_of s')\<lparr>errno := errno (world_of s)\<rparr>) s')"

section \<open>Children\<close>

text \<open>A \<open>fork\<close> that failed is reported, but \<open>pid\<close> is used all the same.\<close>

definition fork_assert ::
    "('l::len word, 'k) kernel \<Rightarrow> 'k check_calls \<Rightarrow> ('f, 'k) check \<Rightarrow> int \<times> ('f, 'k) check" where
  "fork_assert K F s =
     (let (pid, s1) =
        (case ck_fork F (kern (world_of s)) of
           (Inl e, k) \<Rightarrow> (- 1, fail_verbose ''fork'' ''fork_assert'' 251 (set_world \<lparr>errno = e, kern = k\<rparr> s))
         | (Inr pid, k) \<Rightarrow> (pid, set_world ((world_of s)\<lparr>kern := k\<rparr>) s))
      in if pid = 0 then (pid, s1)
         else
           (case ck_setpgid F pid 0 (kern (world_of s1)) of
              (Inr _, k) \<Rightarrow>
                (pid, s1\<lparr>sea_world := \<lparr>ck_world = (world_of s1)\<lparr>kern := k\<rparr>, ck_pgid = pid\<rparr>\<rparr>)
            | (Inl e, k) \<Rightarrow>
                (let s2 = do_kill K pid SIGKILL (set_world \<lparr>errno = e, kern = k\<rparr> s1)
                 in (- 1, fail_verbose ''setpgid'' ''fork_assert'' 264
                            (set_world ((world_of s2)\<lparr>errno := e\<rparr>) s2)))))"

text \<open>What \<open>waitpid\<close> returns, and the status it stores.\<close>

partial_function (option) waitpid_no_intr ::
    "'k check_calls \<Rightarrow> int \<Rightarrow> 32 word \<Rightarrow> 'k world \<Rightarrow> (int \<times> 32 word option \<times> 'k world) option" where
  "waitpid_no_intr F pid options w =
     (case ck_waitpid F pid options (kern w) of
        (Inl e, k) \<Rightarrow>
          if e = EINTR then waitpid_no_intr F pid options \<lparr>errno = e, kern = k\<rparr>
          else Some (- 1, None, \<lparr>errno = e, kern = k\<rparr>)
      | (Inr (r, status), k) \<Rightarrow> Some (r, if r > 0 then Some status else None, \<lparr>errno = 0, kern = k\<rparr>))"

definition wait_no_intr :: "'k check_calls \<Rightarrow> 'k world \<Rightarrow> (int \<times> 32 word option \<times> 'k world) option" where
  "wait_no_intr F w = waitpid_no_intr F (- 1) 0 w"

text \<open>What is printed is left out; \<open>errno\<close> is restored after it.\<close>

definition waitpid_no_intr_debug ::
    "'k check_calls \<Rightarrow> int \<Rightarrow> 32 word \<Rightarrow> ('f, 'k) check \<Rightarrow> (int \<times> 32 word option \<times> ('f, 'k) check) option" where
  "waitpid_no_intr_debug F pid options s =
     map_option (\<lambda>(r, status, w). (r, status, set_world w s)) (waitpid_no_intr F pid options (world_of s))"

definition wait_no_intr_debug ::
    "'k check_calls \<Rightarrow> ('f, 'k) check \<Rightarrow> (int \<times> 32 word option \<times> ('f, 'k) check) option" where
  "wait_no_intr_debug F s = waitpid_no_intr_debug F (- ck_pgid (sea_world s)) 0 s"

section \<open>Dumps\<close>

text \<open>
  \<open>dump_basic_hex\<close>, which runs whenever memory is read: what it prints, in order. The
  characters of a line are collected in \<open>buf\<close>, uninitialised (\<open>None\<close>) at first.
  The offset is an \<open>unsigned\<close> and the length a \<open>size_t\<close>.
\<close>

datatype dump =
    Dump_begin
  | Dump_offset nat
  | Dump_byte byte
  | Dump_chars "byte list"
  | Dump_space
  | Dump_end

definition BYTES_IN_LINE :: nat where "BYTES_IN_LINE = 16"

fun cstring_of :: "byte option list \<Rightarrow> byte list outcome" where
  "cstring_of (Some b # bs) = (if b = 0 then Ret [] else obind (cstring_of bs) (\<lambda>s. Ret (b # s)))"
| "cstring_of _ = Fault Undefined"

definition printable :: "byte \<Rightarrow> byte" where
  "printable b = (if b < 0x20 \<or> b > 0x7E then 46 else b)"

function dump_loop ::
    "byte list \<Rightarrow> nat \<Rightarrow> nat \<Rightarrow> byte option list \<Rightarrow> (dump list \<times> byte option list) outcome" where
  "dump_loop caddr len off buf =
     (if len \<le> off then Ret ([], buf)
      else if length caddr \<le> off then Fault Undefined
      else
        obind (if off mod BYTES_IN_LINE \<noteq> 0 then Ret []
               else if off = 0 then Ret [Dump_offset off]
               else obind (cstring_of buf) (\<lambda>s. Ret [Dump_chars s, Dump_offset off])) (\<lambda>pre.
        let b = caddr ! off;
            buf' = buf[off mod BYTES_IN_LINE := Some (printable b), off mod 16 + 1 := Some 0]
        in obind (dump_loop caddr len (off + 1) buf') (\<lambda>(out, buf''). Ret (pre @ Dump_byte b # out, buf''))))"
  by pat_completeness auto
termination by (relation "measure (\<lambda>(caddr, len, off, buf). len - off)") auto

declare dump_loop.simps [simp del]

definition dump_padding :: "nat \<Rightarrow> dump list" where
  "dump_padding off = replicate ((BYTES_IN_LINE - off mod BYTES_IN_LINE) mod BYTES_IN_LINE) Dump_space"

definition dump_basic_hex :: "byte list \<Rightarrow> nat \<Rightarrow> dump list outcome" where
  "dump_basic_hex addr len =
     (if 2 ^ 32 \<le> len \<and> 2 ^ 32 \<le> length addr then Fault Diverges
      else
        obind (dump_loop addr len 0 (replicate (BYTES_IN_LINE + 1) None)) (\<lambda>(out, buf).
        obind (cstring_of buf) (\<lambda>s.
          Ret (Dump_begin # out @ dump_padding len @ [Dump_chars s, Dump_end]))))"

text \<open>The conversion of a \<open>ssize_t\<close> to the \<open>size_t\<close> of the dump, with words of \<open>'l\<close> bits.\<close>

definition size_of_ssize :: "'l::len itself \<Rightarrow> int \<Rightarrow> nat" where
  "size_of_ssize _ r = unat (word_of_int r :: 'l word)"

section \<open>Checks\<close>

text \<open>
  A check that is passed goes on (\<open>Inr\<close>). One that is not kills the child in most cases,
  reports a failure and calls \<open>abort\<close>; \<open>Inl\<close> is the state it leaves.
\<close>

type_synonym ('f, 'k) checked = "('f, 'k) check + ('f, 'k) check"

definition kill_and_abort ::
    "('l::len word, 'k) kernel \<Rightarrow> int \<Rightarrow> string \<Rightarrow> string \<Rightarrow> int \<Rightarrow> ('f, 'k) check \<Rightarrow> ('f, 'k) checked" where
  "kill_and_abort K pid msg func line s = Inl (fail_verbose msg func line (do_kill K pid SIGKILL s))"

definition check_echild_or_kill ::
    "('l::len word, 'k) kernel \<Rightarrow> int \<Rightarrow> int \<Rightarrow> ('f, 'k) check \<Rightarrow> bool \<times> ('f, 'k) check" where
  "check_echild_or_kill K pid retval s =
     (if errno (world_of s) = ECHILD then (True, s)
      else (False, fail_verbose ''unexpected wait result'' ''check_echild_or_kill'' 348 (kill_save_errno K pid SIGKILL s)))"

text \<open>The two checks of a status that return whether it applies; they do not kill.\<close>

definition check_exit_code_or_fail :: "32 word \<Rightarrow> int \<Rightarrow> ('f, 'k) check \<Rightarrow> ('f, 'k) check + bool \<times> ('f, 'k) check" where
  "check_exit_code_or_fail status code s =
     (if \<not> WIFEXITED status then Inr (False, s)
      else if WEXITSTATUS status = code then Inr (True, s)
      else Inl (fail_verbose ''unexpected exit status'' ''check_exit_code_or_fail'' 358 s))"

definition check_signal_or_fail :: "32 word \<Rightarrow> int \<Rightarrow> ('f, 'k) check \<Rightarrow> ('f, 'k) check + bool \<times> ('f, 'k) check" where
  "check_signal_or_fail status sig s =
     (if \<not> WIFSIGNALED status then Inr (False, s)
      else if WTERMSIG status = sig then Inr (True, s)
      else Inl (fail_verbose ''unexpected signal'' ''check_signal_or_fail'' 368 s))"

definition check_stopped_or_kill ::
    "('l::len word, 'k) kernel \<Rightarrow> int \<Rightarrow> 32 word \<Rightarrow> ('f, 'k) check \<Rightarrow> ('f, 'k) checked" where
  "check_stopped_or_kill K pid status s =
     (if WIFSTOPPED status then Inr s
      else kill_and_abort K pid ''unexpected wait status'' ''check_stopped_or_kill'' 377 s)"

definition check_syscall_equal_or_kill ::
    "('l::len word, 'k) kernel \<Rightarrow> int \<Rightarrow> 'l word \<Rightarrow> 'l word \<Rightarrow> ('f, 'k) check \<Rightarrow> ('f, 'k) checked" where
  "check_syscall_equal_or_kill K pid sysnum sysnum_expected s =
     (if sysnum = sysnum_expected then Inr s
      else kill_and_abort K pid ''unexpected syscall'' ''check_syscall_equal_or_kill'' 386 s)"

definition check_retval_equal_or_kill ::
    "('l::len word, 'k) kernel \<Rightarrow> int \<Rightarrow> 'l word \<Rightarrow> 'l word \<Rightarrow> int \<Rightarrow> int \<Rightarrow> ('f, 'k) check \<Rightarrow> ('f, 'k) checked" where
  "check_retval_equal_or_kill K pid retval retval_expected error error_expected s =
     (if retval = retval_expected \<and> error = error_expected then Inr s
      else kill_and_abort K pid ''unexpected retval'' ''check_retval_equal_or_kill'' 399 s)"

definition check_argument_equal_or_kill ::
    "('l::len word, 'k) kernel \<Rightarrow> int \<Rightarrow> 'l word \<Rightarrow> 'l word \<Rightarrow> ('f, 'k) check \<Rightarrow> ('f, 'k) checked" where
  "check_argument_equal_or_kill K pid arg arg_expected s =
     (if arg = arg_expected then Inr s
      else kill_and_abort K pid ''unexpected argument'' ''check_argument_equal_or_kill'' 410 s)"

text \<open>
  The areas are dumped before the failure is reported. Areas that are too short for
  the comparison, or a string that does not end, are read past their end.
\<close>

definition dump_and_abort ::
    "('l::len word, 'k) kernel \<Rightarrow> int \<Rightarrow> byte list \<times> nat \<Rightarrow> byte list \<times> nat \<Rightarrow> string \<Rightarrow> string \<Rightarrow> int \<Rightarrow>
     ('f, 'k) check \<Rightarrow> ('f, 'k) checked outcome" where
  "dump_and_abort K pid val val_expected msg func line s =
     obind (dump_basic_hex (fst val) (snd val)) (\<lambda>_.
     obind (dump_basic_hex (fst val_expected) (snd val_expected)) (\<lambda>_.
       Ret (kill_and_abort K pid msg func line s)))"

definition check_memory_equal_or_kill ::
    "('l::len word, 'k) kernel \<Rightarrow> int \<Rightarrow> byte list \<Rightarrow> byte list \<Rightarrow> nat \<Rightarrow> ('f, 'k) check \<Rightarrow> ('f, 'k) checked outcome" where
  "check_memory_equal_or_kill K pid val val_expected n s =
     (if length val < n \<or> length val_expected < n then Fault Undefined
      else if take n val = take n val_expected then Ret (Inr s)
      else dump_and_abort K pid (val, n) (val_expected, n)
             ''Memory area not identical'' ''check_memory_equal_or_kill'' 422 s)"

fun strncmp_zero :: "byte list \<Rightarrow> byte list \<Rightarrow> nat \<Rightarrow> bool outcome" where
  "strncmp_zero a b 0 = Ret True"
| "strncmp_zero (x # a) (y # b) (Suc n) =
     (if x \<noteq> y then Ret False else if x = 0 then Ret True else strncmp_zero a b n)"
| "strncmp_zero _ _ (Suc n) = Fault Undefined"

definition check_string_equal_or_kill ::
    "('l::len word, 'k) kernel \<Rightarrow> int \<Rightarrow> byte list \<Rightarrow> byte list \<Rightarrow> nat \<Rightarrow> ('f, 'k) check \<Rightarrow> ('f, 'k) checked outcome" where
  "check_string_equal_or_kill K pid str str_expected len s =
     obind (strncmp_zero str str_expected len) (\<lambda>eq.
       if eq then Ret (Inr s)
       else
         obind (cstring str) (\<lambda>_. obind (cstring str_expected) (\<lambda>_.
           dump_and_abort K pid (str, len) (str_expected, len)
             ''String not identical'' ''check_string_equal_or_kill'' 434 s)))"

definition check_string_endswith_or_kill ::
    "('l::len word, 'k) kernel \<Rightarrow> int \<Rightarrow> byte list \<Rightarrow> byte list \<Rightarrow> ('f, 'k) check \<Rightarrow> ('f, 'k) checked outcome" where
  "check_string_endswith_or_kill K pid str0 suffix_expected0 s =
     obind (cstring str0) (\<lambda>str. obind (cstring suffix_expected0) (\<lambda>suffix_expected.
     let slen = length str; elen = length suffix_expected;
         failed = dump_and_abort K pid (str0, slen) (suffix_expected0, elen)
           ''String without the suffix'' ''check_string_endswith_or_kill'' 457 s in
     if elen = 0 then Ret (Inr s)
     else if slen < elen then failed
     else if take elen (drop (slen - elen) str) = suffix_expected then Ret (Inr s) else failed))"

text \<open>The checks of an address report and abort, but they do not kill the child.\<close>

definition htonl :: "pink_config \<Rightarrow> 32 word \<Rightarrow> 32 word" where
  "htonl c x = of_bytes True (to_bytes (big_endian c) 4 x)"

definition INADDR_LOOPBACK :: "32 word" where "INADDR_LOOPBACK = 0x7f000001"

definition check_addr_loopback_or_kill :: "pink_config \<Rightarrow> int \<Rightarrow> 32 word \<Rightarrow> ('f, 'k) check \<Rightarrow> ('f, 'k) checked" where
  "check_addr_loopback_or_kill c pid addr s =
     (if htonl c addr = INADDR_LOOPBACK then Inr s
      else Inl (fail_verbose ''in_addr not identical with INADDR_LOOPBACK'' ''check_addr_loopback_or_kill'' 472 s))"

definition check_addr6_loopback_or_kill :: "int \<Rightarrow> byte list \<Rightarrow> ('f, 'k) check \<Rightarrow> ('f, 'k) checked" where
  "check_addr6_loopback_or_kill pid addr6 s =
     (if addr6 = replicate 15 0 @ [1] then Inr s
      else Inl (fail_verbose ''in6_addr not identical to in6addr_loopback'' ''check_addr6_loopback_or_kill'' 488 s))"

section \<open>Calls of the library\<close>

text \<open>A call that failed: the child is killed and the failure reported, and the test goes on.\<close>

definition or_kill ::
    "('l::len word, 'k) kernel \<Rightarrow> int \<Rightarrow> string \<Rightarrow> string \<Rightarrow> int \<Rightarrow> int \<times> 'k world \<Rightarrow> ('f, 'k) check \<Rightarrow> ('f, 'k) check" where
  "or_kill K pid msg func line call s =
     (case call of
        (r, w) \<Rightarrow>
          (let s' = set_world w s in if r < 0 then fail_verbose msg func line (kill_save_errno K pid SIGKILL s') else s'))"

text \<open>In the child: the exit status of \<open>_exit\<close>, or the state after the stop.\<close>

definition trace_me_and_stop :: "('l::len word, 'k) kernel \<Rightarrow> int \<Rightarrow> 'k world \<Rightarrow> (int + unit) \<times> 'k world" where
  "trace_me_and_stop K pid w =
     (case pink_trace_me K w of
        (r, w') \<Rightarrow>
          if r < 0 then (Inl 127, w')
          else (Inr (), snd (sys_status (sys_kill K pid SIGSTOP (kern w')) w')))"

definition trace_syscall_or_kill :: "('l::len word, 'k) kernel \<Rightarrow> int \<Rightarrow> 32 word \<Rightarrow> ('f, 'k) check \<Rightarrow> ('f, 'k) check" where
  "trace_syscall_or_kill K pid sig s =
     or_kill K pid ''PTRACE_SYSCALL'' ''trace_syscall_or_kill'' 517 (pink_trace_syscall K pid sig (world_of s)) s"

definition trace_setup_or_kill ::
    "pink_config \<Rightarrow> ('l::len word, 'k) kernel \<Rightarrow> int \<Rightarrow> 32 word \<Rightarrow> ('f, 'k) check \<Rightarrow> ('f, 'k) check" where
  "trace_setup_or_kill c K pid options s =
     or_kill K pid ''PTRACE_SETOPTIONS'' ''trace_setup_or_kill'' 533 (pink_trace_setup c K pid options (world_of s)) s"

definition trace_geteventmsg_or_kill ::
    "pink_config \<Rightarrow> ('l::len word, 'k) kernel \<Rightarrow> int \<Rightarrow> 'l word \<Rightarrow> ('f, 'k) check \<Rightarrow> 'l word \<times> ('f, 'k) check" where
  "trace_geteventmsg_or_kill c K pid data s =
     (case pink_trace_geteventmsg c K pid data (world_of s) of
        (r, data', w) \<Rightarrow>
          (data', or_kill K pid ''PTRACE_GETEVENTMSG'' ''trace_geteventmsg_or_kill'' 548 (r, w) s))"

definition event_decide_and_print :: "32 word \<Rightarrow> int" where
  "event_decide_and_print status = pink_event_decide status"

definition regset_alloc_or_kill ::
    "pink_config \<Rightarrow> ('l::len word, 'k) kernel \<Rightarrow> int \<Rightarrow> ('f, 'k) check \<Rightarrow> pink_regset option \<times> ('f, 'k) check" where
  "regset_alloc_or_kill c K pid s =
     (case pink_regset_alloc c K (world_of s) of
        (r, regset, w) \<Rightarrow> (regset, or_kill K pid ''pink_regset_alloc'' ''regset_alloc_or_kill'' 569 (r, w) s))"

definition regset_fill_or_kill ::
    "pink_config \<Rightarrow> ('l::len word, 'k) kernel \<Rightarrow> int \<Rightarrow> pink_regset \<Rightarrow> ('f, 'k) check \<Rightarrow>
     (pink_regset \<times> ('f, 'k) check) outcome" where
  "regset_fill_or_kill c K pid regset s =
     obind (pink_regset_fill c K pid regset (world_of s)) (\<lambda>(r, regset', w).
       Ret (regset', or_kill K pid ''pink_regset_fill'' ''regset_fill_or_kill'' 580 (r, w) s))"

definition read_syscall_or_kill ::
    "pink_config \<Rightarrow> ('l::len word, 'k) kernel \<Rightarrow> int \<Rightarrow> pink_regset \<Rightarrow> ('f, 'k) check \<Rightarrow>
     'l word option \<times> ('f, 'k) check" where
  "read_syscall_or_kill c K pid regset s =
     (case pink_read_syscall c K pid regset (world_of s) of
        (r, sysnum, w) \<Rightarrow> (sysnum, or_kill K pid ''pink_read_syscall'' ''read_syscall_or_kill'' 633 (r, w) s))"

definition read_retval_or_kill ::
    "pink_config \<Rightarrow> ('l::len word, 'k) kernel \<Rightarrow> int \<Rightarrow> pink_regset \<Rightarrow> ('f, 'k) check \<Rightarrow>
     (('l word \<times> int) option \<times> ('f, 'k) check) outcome" where
  "read_retval_or_kill c K pid regset s =
     obind (pink_read_retval c K pid regset (world_of s)) (\<lambda>(r, v, w).
       Ret (v, or_kill K pid ''pink_read_retval'' ''read_retval_or_kill'' 648 (r, w) s))"

definition read_argument_or_kill ::
    "pink_config \<Rightarrow> ('l::len word, 'k) kernel \<Rightarrow> int \<Rightarrow> pink_regset \<Rightarrow> nat \<Rightarrow> ('f, 'k) check \<Rightarrow>
     ('l word option \<times> ('f, 'k) check) outcome" where
  "read_argument_or_kill c K pid regset arg_index s =
     obind (pink_read_argument c K pid regset arg_index (world_of s)) (\<lambda>(r, v, w).
       Ret (v, or_kill K pid ''pink_read_argument'' ''read_argument_or_kill'' 663 (r, w) s))"

text \<open>The readers of memory return what \<open>dest\<close> holds afterwards, which was \<open>dest0\<close> before.\<close>

definition vm_lread_or_kill ::
    "pink_config \<Rightarrow> ('l::len word, 'k) kernel \<Rightarrow> int \<Rightarrow> pink_regset \<Rightarrow> 'l word \<Rightarrow> byte list \<Rightarrow> nat \<Rightarrow>
     ('f, 'k) check \<Rightarrow> (byte list \<times> ('f, 'k) check) outcome" where
  "vm_lread_or_kill c K pid regset addr dest0 len s =
     (case pink_vm_lread c K pid regset addr len ((world_of s)\<lparr>errno := 0\<rparr>) of
        (r, d, w) \<Rightarrow>
          (let dest = stored_over d dest0;
               s' = or_kill K pid ''pink_vm_lread'' ''vm_lread_or_kill'' 594 (r, w) s
           in obind (dump_basic_hex dest (size_of_ssize TYPE('l) r)) (\<lambda>_. Ret (dest, s'))))"

definition vm_lread_nul_or_kill ::
    "pink_config \<Rightarrow> ('l::len word, 'k) kernel \<Rightarrow> int \<Rightarrow> pink_regset \<Rightarrow> 'l word \<Rightarrow> byte list \<Rightarrow> nat \<Rightarrow>
     ('f, 'k) check \<Rightarrow> (int \<times> byte list \<times> ('f, 'k) check) outcome" where
  "vm_lread_nul_or_kill c K pid regset addr dest0 len s =
     (case pink_vm_lread_nul c K pid regset addr len ((world_of s)\<lparr>errno := 0\<rparr>) of
        (r, d, w) \<Rightarrow>
          (let dest = stored_over d dest0;
               s' = or_kill K pid ''pink_vm_lread_nul'' ''vm_lread_nul_or_kill'' 612 (r, w) s
           in obind (dump_basic_hex dest (size_of_ssize TYPE('l) r)) (\<lambda>_. Ret (r, dest, s'))))"

definition read_vm_data_or_kill ::
    "pink_config \<Rightarrow> ('l::len word, 'k) kernel \<Rightarrow> int \<Rightarrow> pink_regset \<Rightarrow> 'l word \<Rightarrow> byte list \<Rightarrow> nat \<Rightarrow>
     ('f, 'k) check \<Rightarrow> (byte list \<times> ('f, 'k) check) outcome" where
  "read_vm_data_or_kill c K pid regset addr dest0 len s =
     obind (pink_read_vm_data c K pid regset addr len ((world_of s)\<lparr>errno := 0\<rparr>)) (\<lambda>(r, d, w).
       let dest = stored_over d dest0;
           s' = or_kill K pid ''pink_read_vm_data'' ''read_vm_data_or_kill'' 676 (r, w) s
       in obind (dump_basic_hex dest (size_of_ssize TYPE('l) r)) (\<lambda>_. Ret (dest, s')))"

definition read_vm_data_nul_or_kill ::
    "pink_config \<Rightarrow> ('l::len word, 'k) kernel \<Rightarrow> int \<Rightarrow> pink_regset \<Rightarrow> 'l word \<Rightarrow> byte list \<Rightarrow> nat \<Rightarrow>
     ('f, 'k) check \<Rightarrow> (int \<times> byte list \<times> ('f, 'k) check) outcome" where
  "read_vm_data_nul_or_kill c K pid regset addr dest0 len s =
     obind (pink_read_vm_data_nul c K pid regset addr len ((world_of s)\<lparr>errno := 0\<rparr>)) (\<lambda>(r, d, w).
       let dest = stored_over d dest0;
           s' = or_kill K pid ''pink_read_vm_data_nul'' ''read_vm_data_nul_or_kill'' 694 (r, w) s
       in obind (dump_basic_hex dest (size_of_ssize TYPE('l) r)) (\<lambda>_. Ret (r, dest, s')))"

text \<open>\<open>cp0\<close> is the uninitialised pointer on the stack of \<open>pink_read_string_array\<close>.\<close>

definition read_string_array_or_kill ::
    "pink_config \<Rightarrow> ('l::len word, 'k) kernel \<Rightarrow> byte list \<Rightarrow> int \<Rightarrow> pink_regset \<Rightarrow> 'l word \<Rightarrow> nat \<Rightarrow> byte list \<Rightarrow>
     nat \<Rightarrow> ('f, 'k) check \<Rightarrow> (byte list \<times> bool option \<times> ('f, 'k) check) outcome" where
  "read_string_array_or_kill c K cp0 pid regset arg arr_index dest0 dest_len s =
     obind (pink_read_string_array c K cp0 pid regset arg arr_index dest_len (world_of s)) (\<lambda>(r, d, nullptr, w).
       let dest = stored_over d dest0;
           s' = or_kill K pid ''pink_read_string_array'' ''read_string_array_or_kill'' 716 (r, w) s
       in obind (dump_basic_hex dest (size_of_ssize TYPE('l) r)) (\<lambda>_. Ret (dest, nullptr, s')))"

definition read_socket_subcall_or_kill ::
    "pink_config \<Rightarrow> ('l::len word, 'k) kernel \<Rightarrow> int \<Rightarrow> pink_regset \<Rightarrow> bool \<Rightarrow> ('f, 'k) check \<Rightarrow>
     ('l word option \<times> ('f, 'k) check) outcome" where
  "read_socket_subcall_or_kill c K pid regset decode s =
     obind (pink_read_socket_subcall c K pid regset decode (world_of s)) (\<lambda>(r, v, w).
       Ret (v, or_kill K pid ''pink_read_socket_subcall'' ''read_socket_subcall_or_kill'' 737 (r, w) s))"

definition read_socket_argument_or_kill ::
    "pink_config \<Rightarrow> ('l::len word, 'k) kernel \<Rightarrow> int \<Rightarrow> pink_regset \<Rightarrow> bool \<Rightarrow> nat \<Rightarrow> ('f, 'k) check \<Rightarrow>
     ('l word option \<times> ('f, 'k) check) outcome" where
  "read_socket_argument_or_kill c K pid regset decode arg_index s =
     obind (pink_read_socket_argument c K pid regset decode arg_index (world_of s)) (\<lambda>(r, v, w).
       Ret (v, or_kill K pid ''pink_read_socket_argument'' ''read_socket_argument_or_kill'' 752 (r, w) s))"

definition read_socket_address_or_kill ::
    "pink_config \<Rightarrow> ('l::len word, 'k) kernel \<Rightarrow> int \<Rightarrow> pink_regset \<Rightarrow> bool \<Rightarrow> nat \<Rightarrow> bool \<Rightarrow> pink_sockaddr \<Rightarrow>
     ('f, 'k) check \<Rightarrow> (32 word option \<times> pink_sockaddr \<times> ('f, 'k) check) outcome" where
  "read_socket_address_or_kill c K pid regset decode arg_index want_fd sockaddr s =
     obind (pink_read_socket_address c K pid regset decode arg_index want_fd sockaddr (world_of s))
       (\<lambda>(r, fd, sockaddr', w).
         Ret (fd, sockaddr', or_kill K pid ''pink_read_socket_address'' ''read_socket_address_or_kill'' 768 (r, w) s))"

definition write_syscall_or_kill ::
    "pink_config \<Rightarrow> ('l::len word, 'k) kernel \<Rightarrow> int \<Rightarrow> pink_regset \<Rightarrow> 'l word \<Rightarrow> ('f, 'k) check \<Rightarrow> ('f, 'k) check" where
  "write_syscall_or_kill c K pid regset sysnum s =
     or_kill K pid ''pink_write_syscall'' ''write_syscall_or_kill'' 784 (pink_write_syscall c K pid regset sysnum (world_of s)) s"

definition write_retval_or_kill ::
    "pink_config \<Rightarrow> ('l::len word, 'k) kernel \<Rightarrow> int \<Rightarrow> pink_regset \<Rightarrow> 'l word \<Rightarrow> 32 word \<Rightarrow> ('f, 'k) check \<Rightarrow>
     (pink_regset \<times> ('f, 'k) check) outcome" where
  "write_retval_or_kill c K pid regset retval error s =
     obind (pink_write_retval c K pid regset retval error (world_of s)) (\<lambda>(r, regset', w).
       Ret (regset', or_kill K pid ''pink_write_retval'' ''write_retval_or_kill'' 798 (r, w) s))"

definition write_argument_or_kill ::
    "pink_config \<Rightarrow> ('l::len word, 'k) kernel \<Rightarrow> int \<Rightarrow> pink_regset \<Rightarrow> nat \<Rightarrow> 'l word \<Rightarrow> ('f, 'k) check \<Rightarrow>
     (pink_regset \<times> ('f, 'k) check) outcome" where
  "write_argument_or_kill c K pid regset arg_index argval s =
     obind (pink_write_argument c K pid regset arg_index argval (world_of s)) (\<lambda>(r, regset', w).
       Ret (regset', or_kill K pid ''pink_write_argument'' ''write_argument_or_kill'' 812 (r, w) s))"

text \<open>\<open>junk\<close> is what is past the end of \<open>src\<close>.\<close>

definition write_vm_data_or_kill ::
    "pink_config \<Rightarrow> ('l::len word, 'k) kernel \<Rightarrow> (nat \<Rightarrow> byte list) \<Rightarrow> int \<Rightarrow> pink_regset \<Rightarrow> 'l word \<Rightarrow> byte list \<Rightarrow>
     nat \<Rightarrow> ('f, 'k) check \<Rightarrow> ('f, 'k) check outcome" where
  "write_vm_data_or_kill c K junk pid regset addr src len s =
     obind (pink_write_vm_data c K junk pid regset addr src len ((world_of s)\<lparr>errno := 0\<rparr>)) (\<lambda>call.
       Ret (or_kill K pid ''pink_write_vm_data'' ''write_vm_data_or_kill'' 827 call s))"

section \<open>The release of the kernel\<close>

definition KERNEL_VERSION :: "32 word \<Rightarrow> 32 word \<Rightarrow> 32 word \<Rightarrow> 32 word" where
  "KERNEL_VERSION a b c = push_bit 16 a + push_bit 8 b + c"

definition is_digit :: "char \<Rightarrow> bool" where
  "is_digit c \<longleftrightarrow> 48 \<le> (of_char c :: nat) \<and> (of_char c :: nat) \<le> 57"

text \<open>\<open>atoi\<close>, whose result is undefined where the number is no \<open>int\<close>.\<close>

definition digits_value :: "string \<Rightarrow> nat" where
  "digits_value ds = foldl (\<lambda>n d. 10 * n + (of_char d - 48)) 0 ds"

definition atoi :: "string \<Rightarrow> 32 word outcome" where
  "atoi p =
     (let n = digits_value (takeWhile is_digit p) in if n < 2 ^ 31 then Ret (word_of_nat n) else Fault Undefined)"

text \<open>The loop over the release string; \<open>None\<close> is \<open>exit(EXIT_FAILURE)\<close>.\<close>

function os_release_loop :: "32 word \<Rightarrow> string \<Rightarrow> 32 word option outcome" where
  "os_release_loop rel p =
     (if p = [] \<or> \<not> is_digit (hd p) then Ret None
      else
        obind (atoi p) (\<lambda>n.
          let rel' = push_bit 8 rel OR n; rest = dropWhile is_digit p in
          if rel' \<ge> KERNEL_VERSION 1 0 0 then Ret (Some rel')
          else if rest = [] \<or> hd rest \<noteq> CHR ''.'' then
            (if rel' \<ge> KERNEL_VERSION 0 1 0 then Ret (Some (push_bit 8 rel')) else Ret None)
          else os_release_loop rel' (tl rest)))"
  by pat_completeness auto
termination
proof (relation "measure (\<lambda>(rel, p). length p)", goal_cases)
  case (2 rel p n rel' rest)
  then have "rest \<noteq> []" "length rest \<le> length p" by (auto simp: length_dropWhile_le)
  then show ?case by (cases rest) auto
qed simp

declare os_release_loop.simps [simp del]

definition get_os_release :: "string \<Rightarrow> 32 word option outcome" where
  "get_os_release release = os_release_loop 0 release"

section \<open>The suites\<close>

text \<open>\<open>PINK_CHECK_SKIP\<close> names the suites that are skipped; \<open>run\<close> are the functions of the test files.\<close>

datatype suite = Suite_trace | Suite_vm | Suite_read | Suite_write | Suite_socket | Suite_pipe

definition all_tests :: "(suite \<Rightarrow> 's \<Rightarrow> 's outcome) \<Rightarrow> string option \<Rightarrow> 's \<Rightarrow> 's outcome" where
  "all_tests run skip s =
     (let maybe = (\<lambda>name f s. case skip of
          None \<Rightarrow> run f s | Some text \<Rightarrow> if strstr text name then Ret s else run f s)
      in obind (maybe ''trace'' Suite_trace s) (\<lambda>s. obind (maybe ''vm'' Suite_vm s) (\<lambda>s.
         obind (maybe ''read'' Suite_read s) (\<lambda>s. obind (maybe ''write'' Suite_write s) (\<lambda>s.
         obind (maybe ''socket'' Suite_socket s) (\<lambda>s. maybe ''pipe'' Suite_pipe s))))))"

text \<open>
  \<open>main\<close>: \<open>release\<close> is \<open>u.release\<close>, or the error of \<open>uname\<close>, and the number of the release is
  stored in \<open>os_release\<close>, which \<open>run\<close> is given. \<open>tests\<close> is the function \<open>all_tests\<close>. The result is
  the exit status.
\<close>

definition check_main ::
    "(int \<Rightarrow> string) \<Rightarrow> (32 word \<Rightarrow> ('f, 'w) sea_run) \<Rightarrow> int + string \<Rightarrow> string list \<Rightarrow> 'f \<Rightarrow> ('f, 'w) seatest \<Rightarrow>
     (int \<times> ('f, 'w) seatest) outcome" where
  "check_main digits run release argv tests s =
     (case release of
        Inl e \<Rightarrow> Ret (1, s)
      | Inr u \<Rightarrow>
          obind (get_os_release u) (\<lambda>rel.
            case rel of
              None \<Rightarrow> Ret (1, s)
            | Some os_release \<Rightarrow>
                obind (seatest_testrunner digits (run os_release) argv tests None None s) (\<lambda>(ok, s').
                  Ret (if ok then 0 else 1, s'))))"

section \<open>pipe-TEST.c\<close>

text \<open>
  Each call that fails is reported, and the test goes on; file descriptors that were not
  stored are uninitialised.
\<close>

definition unless_zero :: "string \<Rightarrow> int \<Rightarrow> int \<times> 'k world \<Rightarrow> ('f, 'k) check \<Rightarrow> ('f, 'k) check" where
  "unless_zero msg line call s =
     (case call of (r, w) \<Rightarrow>
        let s' = set_world w s in if r \<noteq> 0 then fail_verbose msg ''test_read_write_int'' line s' else s')"

definition test_read_write_int :: "pink_config \<Rightarrow> 'k pipe_calls \<Rightarrow> ('f, 'k) check \<Rightarrow> ('f, 'k) check outcome" where
  "test_read_write_int c P s =
     (case pink_pipe_init c P (world_of s) of
        (r, None, w) \<Rightarrow> Fault Undefined
      | (r, Some (rfd, wfd), w) \<Rightarrow>
          (let s1 = unless_zero ''pink_pipe_init failed'' 15 (r, w) s in
           obind (pink_pipe_write_int c P wfd 42 (world_of s1)) (\<lambda>wr.
           let s2 = unless_zero ''pink_pipe_write_int failed'' 17 wr s1 in
           obind (pink_pipe_read_int c P rfd 0 (world_of s2)) (\<lambda>(r, rint, w).
           let s3 = unless_zero ''pink_pipe_read_int failed'' 20 (r, w) s2;
               s4 = (if rint \<noteq> 42 then fail_verbose ''pipe read'' ''test_read_write_int'' 23 s3 else s3);
               s5 = unless_zero ''pink_pipe_close(0) failed'' 25 (pink_pipe_close P rfd (world_of s4)) s4;
               s6 = unless_zero ''pink_pipe_close(1) failed'' 28 (pink_pipe_close P wfd (world_of s5)) s5
           in Ret s6))))"

section \<open>What a dump prints\<close>

fun dumped_bytes :: "dump list \<Rightarrow> byte list" where
  "dumped_bytes [] = []"
| "dumped_bytes (Dump_byte b # out) = b # dumped_bytes out"
| "dumped_bytes (_ # out) = dumped_bytes out"

fun dumped_chars :: "dump list \<Rightarrow> byte list" where
  "dumped_chars [] = []"
| "dumped_chars (Dump_chars s # out) = s @ dumped_chars out"
| "dumped_chars (_ # out) = dumped_chars out"

lemma dumped_append [simp]:
  "dumped_bytes (xs @ ys) = dumped_bytes xs @ dumped_bytes ys"
  "dumped_chars (xs @ ys) = dumped_chars xs @ dumped_chars ys"
  by (induction xs rule: dumped_bytes.induct; simp) (induction xs rule: dumped_chars.induct; simp)

lemma dumped_padding [simp]: "dumped_bytes (dump_padding n) = []" "dumped_chars (dump_padding n) = []"
proof -
  have "dumped_bytes (replicate m Dump_space) = [] \<and> dumped_chars (replicate m Dump_space) = []" for m
    by (induction m) auto
  then show "dumped_bytes (dump_padding n) = []" "dumped_chars (dump_padding n) = []"
    by (simp_all add: dump_padding_def)
qed

lemma printable_nonzero [simp]: "printable b \<noteq> 0"
  by (auto simp: printable_def)

text \<open>The line so far: the characters of the bytes since the last multiple of 16, and a nul.\<close>

definition line_buffer :: "byte list \<Rightarrow> nat \<Rightarrow> byte option list \<Rightarrow> bool" where
  "line_buffer cs m buf \<longleftrightarrow>
     length buf = 17 \<and> length cs = m \<and> m \<le> 16 \<and> (0 < m \<longrightarrow> take (Suc m) buf = map Some cs @ [Some 0]) \<and> 0 \<notin> set cs"

lemma cstring_of_line: "0 \<notin> set cs \<Longrightarrow> cstring_of (map Some cs @ Some 0 # rest) = Ret cs"
  by (induction cs) auto

lemma cstring_of_line_buffer:
  assumes "line_buffer cs m buf" and "0 < m"
  shows "cstring_of buf = Ret cs"
proof -
  have "buf = map Some cs @ Some 0 # drop (Suc m) buf"
    using assms append_take_drop_id [of "Suc m" buf] by (simp add: line_buffer_def)
  with assms(1) cstring_of_line show ?thesis by (metis line_buffer_def)
qed

lemma line_buffer_add:
  assumes "line_buffer cs m buf" and "m < 16" and "ch \<noteq> 0"
  shows "line_buffer (cs @ [ch]) (Suc m) (buf[m := Some ch, Suc m := Some 0])"
proof -
  have len: "length buf = 17" "length cs = m" using assms(1) by (auto simp: line_buffer_def)
  have "take m buf = map Some cs"
  proof (cases "m = 0")
    case False
    then have "take m (take (Suc m) buf) = take m (map Some cs @ [Some 0])"
      using assms(1) by (simp add: line_buffer_def)
    then show ?thesis using len by (simp add: min_def)
  qed (use len in simp)
  then show ?thesis
    using assms len by (auto simp: line_buffer_def take_Suc_conv_app_nth take_update_swap list_update_append)
qed

definition in_line :: "nat \<Rightarrow> nat" where
  "in_line off = (if off = 0 then 0 else (off - 1) mod 16 + 1)"

lemma in_line_step:
  "off mod 16 \<noteq> 0 \<Longrightarrow> in_line off = off mod 16" "in_line (Suc off) = Suc (off mod 16)"
  "0 < off \<Longrightarrow> off mod 16 = 0 \<Longrightarrow> in_line off = 16"
proof -
  show "in_line off = off mod 16" if "off mod 16 \<noteq> 0"
    using that by (cases off) (auto simp: in_line_def mod_Suc split: if_splits)
  show "in_line off = 16" if "0 < off" "off mod 16 = 0"
    using that by (cases off) (auto simp: in_line_def mod_Suc split: if_splits)
qed (simp add: in_line_def)

lemma dump_loop_prints:
  assumes "len \<le> length caddr" and "off \<le> len" and "line_buffer cs (in_line off) buf"
  shows "\<exists>out buf' cs'. dump_loop caddr len off buf = Ret (out, buf') \<and> line_buffer cs' (in_line len) buf' \<and>
    dumped_bytes out = drop off (take len caddr) \<and>
    dumped_chars out @ cs' = cs @ map printable (drop off (take len caddr))"
  using assms(2,3)
proof (induction "len - off" arbitrary: off cs buf)
  case 0
  then show ?case by (auto simp: dump_loop.simps)
next
  case (Suc n)
  then have off: "off < len" "n = len - Suc off" "off < length caddr" using assms(1) by auto
  let ?b = "caddr ! off" and ?m = "off mod 16"
  let ?buf = "buf[?m := Some (printable ?b), Suc ?m := Some 0]"
  have split: "drop off (take len caddr) = ?b # drop (Suc off) (take len caddr)"
    using off by (simp add: Cons_nth_drop_Suc [symmetric])
  define cs0 where "cs0 = (if ?m = 0 then [] else cs)"
  have "line_buffer cs0 ?m buf"
    using Suc.prems(2) by (cases "?m = 0") (auto simp: cs0_def in_line_step line_buffer_def)
  then have "line_buffer (cs0 @ [printable ?b]) (in_line (Suc off)) ?buf"
    by (simp add: in_line_step line_buffer_add)
  with Suc.hyps(1) [OF off(2)] off(1) obtain out buf' cs' where
    IH: "dump_loop caddr len (Suc off) ?buf = Ret (out, buf')" "line_buffer cs' (in_line len) buf'"
      "dumped_bytes out = drop (Suc off) (take len caddr)"
      "dumped_chars out @ cs' = (cs0 @ [printable ?b]) @ map printable (drop (Suc off) (take len caddr))"
    by (metis Suc_leI)
  define pre where "pre = (if ?m \<noteq> 0 then [] else if off = 0 then [Dump_offset off] else [Dump_chars cs, Dump_offset off])"
  have cs: "dumped_chars pre @ cs0 = cs" "dumped_bytes pre = []"
    using Suc.prems(2) by (auto simp: pre_def cs0_def in_line_def line_buffer_def)
  have "cstring_of buf = Ret cs" if "off \<noteq> 0" "?m = 0"
    using cstring_of_line_buffer [OF Suc.prems(2)] that in_line_step(3) [of off] by simp
  then have "dump_loop caddr len off buf = Ret (pre @ Dump_byte ?b # out, buf')"
    using off IH(1) by (subst dump_loop.simps) (auto simp: pre_def BYTES_IN_LINE_def Let_def)
  moreover have "dumped_chars (pre @ Dump_byte ?b # out) @ cs' = cs @ map printable (drop off (take len caddr))"
    using IH(4) cs by (simp add: split)
  ultimately show ?case using IH(2,3) cs split by auto
qed

text \<open>
  The hex dump of memory is complete: for a length of at least one byte that the
  area has (and that an \<open>unsigned\<close> counts), it prints every byte once and in order,
  and next to the lines, taken together, the character of every byte, a dot for one that
  cannot be printed. No character is lost at the end of a line of 16.
\<close>

lemma dump_basic_hex_prints:
  assumes "0 < len" and "len \<le> length addr" and "length addr < 2 ^ 32"
  shows "\<exists>out. dump_basic_hex addr len = Ret out \<and> dumped_bytes out = take len addr \<and>
    dumped_chars out = map printable (take len addr)"
proof -
  have "line_buffer [] (in_line 0) (replicate 17 None)" by (simp add: line_buffer_def in_line_def)
  from dump_loop_prints [OF assms(2) _ this] obtain out buf cs where
    loop: "dump_loop addr len 0 (replicate 17 None) = Ret (out, buf)" "line_buffer cs (in_line len) buf"
      "dumped_bytes out = take len addr" "dumped_chars out @ cs = map printable (take len addr)"
    by auto
  moreover have "cstring_of buf = Ret cs"
    using cstring_of_line_buffer [OF loop(2)] assms(1) by (simp add: in_line_def)
  ultimately show ?thesis using assms by (simp add: dump_basic_hex_def BYTES_IN_LINE_def)
qed

lemma dump_basic_hex_prints_ref:
  "\<exists>out. dump_basic_hex [72, 105, 10, 0] 3 = Ret out \<and> dumped_bytes out = [72, 105, 10] \<and>
     dumped_chars out = [72, 105, 46]"
  using dump_basic_hex_prints [of 3 "[72, 105, 10, 0]"] by (simp add: printable_def)

lemma dump_basic_hex_empty: "dump_basic_hex addr 0 = Fault Undefined"
  by (simp add: dump_basic_hex_def dump_loop.simps)

lemma dump_loop_overrun:
  assumes "length caddr < len" and "off \<le> length caddr" and "line_buffer cs (in_line off) buf"
  shows "dump_loop caddr len off buf = Fault Undefined"
proof -
  show ?thesis
    using assms(2,3)
  proof (induction "length caddr - off" arbitrary: off cs buf)
    case 0
    with assms(1) show ?case by (simp add: dump_loop.simps)
  next
    case (Suc n)
    let ?buf = "buf[off mod 16 := Some (printable (caddr ! off)), Suc (off mod 16) := Some 0]"
    have "line_buffer (if off mod 16 = 0 then [] else cs) (off mod 16) buf"
      using Suc.prems(2) by (cases "off mod 16 = 0") (auto simp: in_line_step line_buffer_def)
    then have "line_buffer ((if off mod 16 = 0 then [] else cs) @ [printable (caddr ! off)]) (in_line (Suc off)) ?buf"
      by (simp add: in_line_step line_buffer_add)
    moreover have "n = length caddr - Suc off" "Suc off \<le> length caddr" using Suc.hyps(2) by auto
    ultimately have "dump_loop caddr len (Suc off) ?buf = Fault Undefined" using Suc.hyps(1) by blast
    moreover have "cstring_of buf = Ret cs" if "off \<noteq> 0" "off mod 16 = 0"
      using cstring_of_line_buffer [OF Suc.prems(2)] that in_line_step(3) [of off] by simp
    ultimately show ?case
      using Suc.hyps(2) assms(1) by (subst dump_loop.simps) (auto simp: BYTES_IN_LINE_def Let_def)
  qed
qed

text \<open>
  The helper that reads memory does not survive the failure it reports: if
  \<open>pink_vm_lread\<close> returns -1, the length of the dump is the largest \<open>size_t\<close>, and the
  dump runs past the end of the buffer.
\<close>

lemma vm_lread_or_kill_failed:
  fixes K :: "('l::len word, 'k) kernel"
  assumes "pink_vm_lread c K pid regset addr len ((world_of s)\<lparr>errno := 0\<rparr>) = (- 1, d, w)"
    and "length d \<le> length dest0" and "length dest0 < 2 ^ 32" and "length dest0 < 2 ^ LENGTH('l) - 1"
  shows "vm_lread_or_kill c K pid regset addr dest0 len s = Fault Undefined"
proof -
  have "size_of_ssize TYPE('l) (- 1) = 2 ^ LENGTH('l) - 1"
    by (simp add: size_of_ssize_def unsigned_minus_1_eq_mask mask_eq_exp_minus_1)
  moreover have "length (stored_over d dest0) = length dest0" using assms(2) by (simp add: stored_over_def)
  moreover have "line_buffer [] (in_line 0) (replicate 17 None)" by (simp add: line_buffer_def in_line_def)
  ultimately have "dump_loop (stored_over d dest0) (size_of_ssize TYPE('l) (- 1)) 0 (replicate 17 None) = Fault Undefined"
    using assms(4) by (intro dump_loop_overrun) auto
  then show ?thesis
    using assms(1,2,3) by (simp add: vm_lread_or_kill_def Let_def dump_basic_hex_def BYTES_IN_LINE_def stored_over_def)
qed

section \<open>Waiting\<close>

text \<open>\<open>k'\<close> is the kernel after some number of waits that a signal interrupted.\<close>

inductive interrupted :: "'k check_calls \<Rightarrow> int \<Rightarrow> 32 word \<Rightarrow> 'k \<Rightarrow> 'k \<Rightarrow> bool" for F pid options where
  none: "interrupted F pid options k k"
| again: "ck_waitpid F pid options k = (Inl EINTR, k1) \<Longrightarrow> interrupted F pid options k1 k2 \<Longrightarrow>
    interrupted F pid options k k2"

text \<open>The first result that is not an interruption.\<close>

definition wait_result :: "(int + int \<times> 32 word) \<times> 'k \<Rightarrow> (int \<times> 32 word option \<times> 'k world) option" where
  "wait_result x =
     (case x of
        (Inl e, k) \<Rightarrow> if e = EINTR then None else Some (- 1, None, \<lparr>errno = e, kern = k\<rparr>)
      | (Inr (r, status), k) \<Rightarrow> Some (r, if r > 0 then Some status else None, \<lparr>errno = 0, kern = k\<rparr>))"

lemma waitpid_no_intr_unfold:
  "waitpid_no_intr F pid options w =
     (case ck_waitpid F pid options (kern w) of
        (Inl e, k) \<Rightarrow> if e = EINTR then waitpid_no_intr F pid options \<lparr>errno = e, kern = k\<rparr>
          else wait_result (Inl e, k)
      | x \<Rightarrow> wait_result x)"
  by (subst waitpid_no_intr.simps) (auto simp: wait_result_def split: sum.split prod.split)

lemma waitpid_no_intr_interrupted:
  "interrupted F pid options k k' \<Longrightarrow> wait_result (ck_waitpid F pid options k') = Some res \<Longrightarrow>
   waitpid_no_intr F pid options \<lparr>errno = e, kern = k\<rparr> = Some res"
proof (induction arbitrary: e rule: interrupted.induct)
  case (none k)
  then show ?case
    by (subst waitpid_no_intr_unfold) (auto simp: wait_result_def split: sum.splits prod.splits if_splits)
next
  case (again k k1 k2)
  then show ?case by (subst waitpid_no_intr_unfold) simp
qed

lemma waitpid_no_intr_returns:
  "waitpid_no_intr F pid options w = Some res \<Longrightarrow>
   \<exists>k'. interrupted F pid options (kern w) k' \<and> wait_result (ck_waitpid F pid options k') = Some res"
proof (induction rule: waitpid_no_intr.raw_induct [rotated, consumes 1, case_names step])
  case (step wait F pid options w res)
  obtain x k where x: "ck_waitpid F pid options (kern w) = (x, k)" by fastforce
  show ?case
  proof (cases "x = Inl EINTR")
    case True
    with step(2) x have "wait F pid options \<lparr>errno = EINTR, kern = k\<rparr> = Some res" by simp
    from step(1) [OF this] True x show ?thesis by (auto intro: interrupted.again)
  next
    case False
    with step(2) x have "wait_result (x, k) = Some res"
      by (auto simp: wait_result_def split: sum.splits prod.splits)
    with x show ?thesis by (metis interrupted.none)
  qed
qed

text \<open>
  (C35) \<open>waitpid_no_intr\<close> returns if and only if some wait is not interrupted by a signal,
  and then it returns what the first such wait gave: no status of a child is lost and no
  \<open>EINTR\<close> reaches the tests.
\<close>

theorem waitpid_no_intr_iff:
  "waitpid_no_intr F pid options w = Some res \<longleftrightarrow>
     (\<exists>k'. interrupted F pid options (kern w) k' \<and> wait_result (ck_waitpid F pid options k') = Some res)"
  using waitpid_no_intr_returns [of F pid options w res]
    waitpid_no_intr_interrupted [of F pid options "kern w" _ res "errno w"] by (cases w) auto

section \<open>Forking\<close>

lemma fail_verbose_simps [simp]:
  "sea_world (fail_verbose msg func line s) = sea_world s"
  "sea_tests_failed (fail_verbose msg func line s) = sea_tests_failed s + 1"
  by (simp_all add: fail_verbose_def seatest_simple_test_result_log_def Let_def sea_print_def)

lemma set_world_simps [simp]:
  "world_of (set_world w s) = w" "sea_tests_failed (set_world w s) = sea_tests_failed s"
  "ck_pgid (sea_world (set_world w s)) = ck_pgid (sea_world s)"
  by (simp_all add: set_world_def)

lemma do_kill_simps [simp]:
  "kern (world_of (do_kill K pid sig s)) = snd (sys_kill K pid sig (kern (world_of s)))"
  "sea_tests_failed (do_kill K pid sig s) = sea_tests_failed s"
  "ck_pgid (sea_world (do_kill K pid sig s)) = ck_pgid (sea_world s)"
  by (simp_all add: do_kill_def sys_status_def split: prod.split sum.split)

text \<open>
  A failed \<open>fork\<close> is taken for a child: \<open>fork_assert\<close> reports the failure and goes
  on with -1, which \<open>setpgid\<close> refuses, and then sends \<open>SIGKILL\<close> to -1, that is to
  every process it may signal.
\<close>

lemma fork_assert_failed:
  assumes "ck_fork F (kern (world_of s)) = (Inl e, k1)"
    and "ck_setpgid F (- 1) 0 k1 = (Inl e', k2)"
  shows "\<exists>s'. fork_assert K F s = (- 1, s') \<and>
    kern (world_of s') = snd (sys_kill K (- 1) SIGKILL k2) \<and> sea_tests_failed s' = sea_tests_failed s + 2"
  using assms by (simp add: fork_assert_def Let_def)

text \<open>For the witnesses: calls where \<open>fork\<close> fails and there is no child to wait for.\<close>

definition ref_check_calls :: "'k check_calls" where
  "ref_check_calls =
     \<lparr>ck_fork = \<lambda>k. (Inl 11, k), ck_setpgid = \<lambda>pid _ k. (if pid < 0 then Inl EINVAL else Inr (), k),
      ck_waitpid = \<lambda>_ _ k. (Inl ECHILD, k)\<rparr>"

definition ref_check :: "'k \<Rightarrow> (unit, 'k) check" where
  "ref_check k = seatest_start \<lparr>ck_world = \<lparr>errno = 0, kern = k\<rparr>, ck_pgid = - 1\<rparr>"

lemma ref_check_world [simp]: "sea_world (ref_check k) = \<lparr>ck_world = \<lparr>errno = 0, kern = k\<rparr>, ck_pgid = - 1\<rparr>"
  "sea_tests_failed (ref_check k) = 0"
  by (simp_all add: ref_check_def seatest_start_def)

lemma fork_assert_failed_ref:
  "\<exists>s'. fork_assert (ref_kernel False\<lparr>sys_kill := \<lambda>pid sig k. (Inr (), k\<lparr>t_user := [0 \<mapsto> of_int pid]\<rparr>)\<rparr>)
       ref_check_calls (ref_check (ref_tracee (0 :: 64 word))) = (- 1, s') \<and>
     t_user (kern (world_of s')) = [0 \<mapsto> - 1] \<and> sea_tests_failed s' = 2"
  using fork_assert_failed [of ref_check_calls "ref_check (ref_tracee (0 :: 64 word))" 11 "ref_tracee 0" EINVAL "ref_tracee 0"
      "ref_kernel False\<lparr>sys_kill := \<lambda>pid sig k. (Inr (), k\<lparr>t_user := [0 \<mapsto> of_int pid]\<rparr>)\<rparr>"]
  by (auto simp: ref_check_calls_def)

lemma vm_lread_or_kill_failed_ref:
  "vm_lread_or_kill (ref_config X86_64) (ref_kernel False) 7 (pink_regset_zero TYPE(64) (ref_config X86_64))
     (0x1000 :: 64 word) [0, 0, 0, 0] 4 (ref_check \<lparr>t_mem = Map.empty, t_user = Map.empty, t_regs = []\<rparr>) = Fault Undefined"
proof -
  let ?k = "\<lparr>t_mem = Map.empty, t_user = Map.empty, t_regs = []\<rparr> :: 64 word tracee"
  have "pink_vm_lread (ref_config X86_64) (ref_kernel False) 7 (pink_regset_zero TYPE(64) (ref_config X86_64))
      (0x1000 :: 64 word) 4 \<lparr>errno = 0, kern = ?k\<rparr> = (- 1, [], \<lparr>errno = EFAULT, kern = ?k\<rparr>)"
    by (simp add: pink_vm_lread_def lread_loop.simps [of _ _ _ _ _ 4] pink_read_word_data_def pink_ptrace_def
        ref_kernel_def sizeof_long_def read_mem_numeral EIO_def EFAULT_def)
  then show ?thesis
    by (intro vm_lread_or_kill_failed [where d = "[]"]) simp_all
qed

section \<open>The release\<close>

lemma or_low_byte:
  fixes a b :: "32 word"
  assumes "b < 256"
  shows "push_bit 8 a OR b = push_bit 8 a + b"
proof -
  have "b = take_bit 8 b" using assms by (simp add: word_unat_eq_iff unsigned_take_bit_eq take_bit_nat_eq_self word_less_nat_alt)
  then have "\<not> bit (push_bit 8 a) n \<or> \<not> bit b n" for n
    by (metis bit_push_bit_iff bit_take_bit_iff not_le)
  then show ?thesis by (simp add: disjunctive_add)
qed

text \<open>A number of a release: digits that are a component of a version.\<close>

definition version_part :: "string \<Rightarrow> bool" where
  "version_part ds \<longleftrightarrow> ds \<noteq> [] \<and> list_all is_digit ds \<and> digits_value ds < 256"

lemma takeWhile_part:
  assumes "version_part ds" and "rest = [] \<or> \<not> is_digit (hd rest)"
  shows "takeWhile is_digit (ds @ rest) = ds" "dropWhile is_digit (ds @ rest) = rest"
  using assms by (cases rest; simp add: version_part_def list_all_iff)+

lemma os_release_loop_part:
  assumes "version_part ds" and "rest = [] \<or> \<not> is_digit (hd rest)"
  shows "os_release_loop rel (ds @ rest) =
    (let rel' = push_bit 8 rel + word_of_nat (digits_value ds) in
     if rel' \<ge> KERNEL_VERSION 1 0 0 then Ret (Some rel')
     else if rest = [] \<or> hd rest \<noteq> CHR ''.'' then
       (if rel' \<ge> KERNEL_VERSION 0 1 0 then Ret (Some (push_bit 8 rel')) else Ret None)
     else os_release_loop rel' (tl rest))"
proof -
  define p where "p = ds @ rest"
  have "word_of_nat (digits_value ds) < (256 :: 32 word)"
    using assms(1) by (simp add: version_part_def word_less_nat_alt unat_of_nat)
  moreover have "p \<noteq> []" "is_digit (hd p)"
    using assms(1) by (cases ds; simp add: version_part_def p_def)+
  moreover have "atoi p = Ret (word_of_nat (digits_value ds))"
    using assms by (simp add: atoi_def takeWhile_part version_part_def p_def)
  moreover have "dropWhile is_digit p = rest" using assms by (simp add: takeWhile_part p_def)
  ultimately show ?thesis
    unfolding p_def [symmetric] by (subst os_release_loop.simps) (simp add: or_low_byte Let_def)
qed

lemma not_is_digit_dot [simp]: "\<not> is_digit CHR ''.''"
  by (simp add: is_digit_def)

lemma kernel_version_bounds:
  assumes "0 < X" and "X < 256" and "Y < 256" and "Z < 256"
  shows "\<not> KERNEL_VERSION 1 0 0 \<le> of_nat X" "\<not> KERNEL_VERSION 1 0 0 \<le> push_bit 8 (of_nat X) + of_nat Y"
    "KERNEL_VERSION 0 1 0 \<le> push_bit 8 (of_nat X) + of_nat Y"
    "KERNEL_VERSION 1 0 0 \<le> push_bit 8 (push_bit 8 (of_nat X) + of_nat Y) + of_nat Z"
proof -
  have "unat (of_nat X :: 32 word) = X" using assms by (simp add: unat_of_nat)
  moreover have two: "push_bit 8 (of_nat X) + of_nat Y = (of_nat (256 * X + Y) :: 32 word)"
    by (simp add: push_bit_eq_mult)
  moreover have "unat (of_nat (256 * X + Y) :: 32 word) = 256 * X + Y"
    using assms by (simp add: unat_of_nat del: of_nat_add of_nat_mult)
  moreover have three: "push_bit 8 (push_bit 8 (of_nat X) + of_nat Y) + of_nat Z = (of_nat (65536 * X + 256 * Y + Z) :: 32 word)"
    by (simp add: push_bit_eq_mult algebra_simps)
  moreover have "unat (of_nat (65536 * X + 256 * Y + Z) :: 32 word) = 65536 * X + 256 * Y + Z"
    using assms by (simp add: unat_of_nat del: of_nat_add of_nat_mult)
  ultimately show "\<not> KERNEL_VERSION 1 0 0 \<le> of_nat X" "\<not> KERNEL_VERSION 1 0 0 \<le> push_bit 8 (of_nat X) + of_nat Y"
    "KERNEL_VERSION 0 1 0 \<le> push_bit 8 (of_nat X) + of_nat Y"
    "KERNEL_VERSION 1 0 0 \<le> push_bit 8 (push_bit 8 (of_nat X) + of_nat Y) + of_nat Z"
    using assms by (simp_all add: KERNEL_VERSION_def word_le_nat_alt push_bit_eq_mult del: of_nat_add of_nat_mult)
qed

text \<open>
  (C38) The release of a kernel is read as its version: "x.y.z", and anything after it
  that is no digit, gives \<open>KERNEL_VERSION(x, y, z)\<close>, and "x.y" followed by anything but a
  digit or a dot gives \<open>KERNEL_VERSION(x, y, 0)\<close>, for numbers below 256 with x not 0.
\<close>

theorem get_os_release_version:
  assumes "version_part x" and "version_part y" and "version_part z" and "digits_value x \<noteq> 0"
    and "rest = [] \<or> \<not> is_digit (hd rest)"
  shows "get_os_release (x @ ''.'' @ y @ ''.'' @ z @ rest) =
      Ret (Some (KERNEL_VERSION (of_nat (digits_value x)) (of_nat (digits_value y)) (of_nat (digits_value z)))) \<and>
    (rest = [] \<or> hd rest \<noteq> CHR ''.'' \<longrightarrow> get_os_release (x @ ''.'' @ y @ rest) =
      Ret (Some (KERNEL_VERSION (of_nat (digits_value x)) (of_nat (digits_value y)) 0)))"
proof -
  define X Y Z where "X = digits_value x" and "Y = digits_value y" and "Z = digits_value z"
  have lt: "0 < X" "X < 256" "Y < 256" "Z < 256"
    using assms(1-4) by (simp_all add: X_def Y_def Z_def version_part_def)
  note parts = assms(1-3,5) X_def [symmetric] Y_def [symmetric] Z_def [symmetric]
  have rel: "\<not> KERNEL_VERSION 1 0 0 \<le> of_nat X" "\<not> KERNEL_VERSION 1 0 0 \<le> push_bit 8 (of_nat X) + of_nat Y"
    "KERNEL_VERSION 0 1 0 \<le> push_bit 8 (of_nat X) + of_nat Y"
    "KERNEL_VERSION 1 0 0 \<le> push_bit 8 (push_bit 8 (of_nat X) + of_nat Y) + of_nat Z"
    using kernel_version_bounds [OF lt] by blast+
  have version: "push_bit 8 (push_bit 8 (of_nat X) + of_nat Y) + of_nat Z = KERNEL_VERSION (of_nat X) (of_nat Y) (of_nat Z)"
    "push_bit 8 (push_bit 8 (of_nat X) + of_nat Y) = KERNEL_VERSION (of_nat X) (of_nat Y) 0"
    by (simp_all add: KERNEL_VERSION_def push_bit_eq_mult algebra_simps)
  have "get_os_release (x @ CHR ''.'' # y @ CHR ''.'' # z @ rest) = Ret (Some (KERNEL_VERSION (of_nat X) (of_nat Y) (of_nat Z)))"
    using rel parts by (simp add: get_os_release_def os_release_loop_part Let_def version(1))
  moreover have "get_os_release (x @ CHR ''.'' # y @ rest) = Ret (Some (KERNEL_VERSION (of_nat X) (of_nat Y) 0))"
    if "rest = [] \<or> hd rest \<noteq> CHR ''.''"
    using rel parts that by (simp add: get_os_release_def os_release_loop_part Let_def version(2))
  ultimately show ?thesis by (simp add: X_def Y_def Z_def)
qed

theorem get_os_release_version_witness:
  "get_os_release ''5.10.28-gentoo'' = Ret (Some (KERNEL_VERSION 5 10 28)) \<and>
   get_os_release ''5.10-gentoo'' = Ret (Some (KERNEL_VERSION 5 10 0))"
  using get_os_release_version [of "''5''" "''10''" "''28''" "''-gentoo''"]
  by (simp add: version_part_def is_digit_def digits_value_def)

lemma get_os_release_carry: "get_os_release ''4.14.300'' = Ret (Some (KERNEL_VERSION 4 15 44))"
  by (simp add: get_os_release_def os_release_loop.simps atoi_def is_digit_def digits_value_def KERNEL_VERSION_def)

section \<open>The test of the pipe\<close>

lemma unless_zero_passed [simp]: "unless_zero msg line (0, w) s = set_world w s"
  by (simp add: unless_zero_def)

text \<open>
  (C34) The test of the pipe passes on every pipe that is as documented: \<open>test_read_write_int\<close>
  runs to its end and reports no failure, whatever parts the kernel transfers at a time.
\<close>

theorem test_read_write_int_passes:
  assumes "pink_pipe_init c P (world_of s) = (0, Some (rfd, wfd), w)" and "q (kern w) = []"
    and "pipe_contract P rfd wfd q" and "\<And>k. fst (sys_close P rfd k) = Inr ()" and "\<And>k. fst (sys_close P wfd k) = Inr ()"
  shows "\<exists>s'. test_read_write_int c P s = Ret s' \<and> sea_tests_failed s' = sea_tests_failed s"
proof -
  have "int_stream c q w []" using assms(2) by (simp add: int_stream_def)
  then obtain w1 where w1: "pink_pipe_write_int c P wfd 42 w = Ret (0, w1)" "int_stream c q w1 [42]"
    using pipe_ints.put_law [OF assms(3), of c w "[]" 42] by auto
  obtain w2 where w2: "pink_pipe_read_int c P rfd 0 w1 = Ret (0, 42, w2)"
    using pipe_ints.get_law [OF assms(3) w1(2), of 0] by auto
  have close: "pink_pipe_close P rfd v = (0, v\<lparr>kern := snd (sys_close P rfd (kern v))\<rparr>)"
    "pink_pipe_close P wfd v = (0, v\<lparr>kern := snd (sys_close P wfd (kern v))\<rparr>)" for v
    using assms(4,5) [of "kern v"] by (auto simp: pink_pipe_close_def split: prod.splits sum.splits)
  show ?thesis
    using assms(1) w1(1) w2 by (simp add: test_read_write_int_def Let_def close)
qed

theorem test_read_write_int_passes_witness:
  "\<exists>s'. test_read_write_int (ref_config X86_64) ref_pipe (ref_check []) = Ret s' \<and> sea_tests_failed s' = 0"
  using test_read_write_int_passes [of "ref_config X86_64" ref_pipe "ref_check []" 3 4 "\<lparr>errno = 0, kern = []\<rparr>" "\<lambda>k. k"]
  by (simp add: ref_pipe_contract) (simp add: ref_pipe_def pink_pipe_init_def ref_config_def)

end
