(* ===== verification/Pink_Dump.thy ===== *)
theory Pink_Dump
  imports Pink_Check Pink_Text
begin

text \<open>
  What \<^verbatim>\<open>pinktrace/pinktrace-check.c\<close> prints for the eye: \<open>pprintf\<close> with its colours,
  and the dumps of register sets and socket addresses.
\<close>

section \<open>Colours\<close>

definition DEBUG :: int where "DEBUG = 0"
definition INFO :: int where "INFO = 1"
definition MESSAGE :: int where "MESSAGE = 2"
definition WARNING :: int where "WARNING = 3"

definition ansi :: "string \<Rightarrow> string" where
  "ansi code = CHR 0x1B # CHR ''['' # code @ ''m''"

definition ANSI_NORMAL :: string where "ANSI_NORMAL = ansi ''00;00''"
definition ANSI_DARK_MAGENTA :: string where "ANSI_DARK_MAGENTA = ansi ''01;35''"
definition ANSI_GREEN :: string where "ANSI_GREEN = ansi ''00;32''"
definition ANSI_YELLOW :: string where "ANSI_YELLOW = ansi ''00;33''"
definition ANSI_CYAN :: string where "ANSI_CYAN = ansi ''00;36''"

text \<open>
  Whether the standard output is a terminal, and whether \<open>PINKTRACE_CHECK_NOCOLOUR\<close> is set.
\<close>

record terminal =
  term_tty :: bool
  term_nocolour :: bool

definition pretty_prefix :: "int \<Rightarrow> string" where
  "pretty_prefix pretty =
     (if pretty = DEBUG then ANSI_CYAN else if pretty = INFO then ANSI_YELLOW
      else if pretty = MESSAGE then ANSI_GREEN else if pretty = WARNING then ANSI_DARK_MAGENTA else [])"

text \<open>
  \<open>text\<close> is what \<open>vprintf\<close> makes of the format and the arguments. The result is the
  number of characters \<open>vprintf\<close> returns, and what is printed.
\<close>

definition pprintf_va :: "terminal \<Rightarrow> int \<Rightarrow> string \<Rightarrow> int \<times> string" where
  "pprintf_va t pretty text =
     (int (length text),
      if \<not> term_tty t \<or> term_nocolour t then text
      else pretty_prefix pretty @ text @ ANSI_NORMAL @ (if pretty = WARNING then [CHR 0x0A] else []))"

definition pprintf :: "terminal \<Rightarrow> int \<Rightarrow> string \<Rightarrow> int \<times> string" where
  "pprintf t pretty text = pprintf_va t pretty text"

definition debug_lines :: "terminal \<Rightarrow> string list \<Rightarrow> string" where
  "debug_lines t texts = concat (map (\<lambda>text. snd (pprintf t DEBUG text)) texts)"

section \<open>Register sets\<close>

text \<open>A line of a dump: two tabulators, a name, the value and a newline.\<close>

definition dump_line :: "string \<Rightarrow> string \<Rightarrow> string" where
  "dump_line name value = CHR 0x09 # CHR 0x09 # name @ '' = '' @ value @ [CHR 0x0A]"

definition dump_mark :: "string \<Rightarrow> string \<Rightarrow> string" where
  "dump_mark title p = CHR 0x09 # '' --8< '' @ title @ '' '' @ p @ '' >8--'' @ [CHR 0x0A]"

definition arm_dump :: "(string \<times> nat) list" where
  "arm_dump =
     [(''cpsr'', ARM_cpsr), (''pc'', ARM_pc), (''lr'', 14), (''sp'', 13), (''ip'', ARM_ip), (''fp'', 11),
      (''r10'', 10), (''r9'', 9), (''r8'', 8), (''r7'', ARM_r7), (''r6'', 6), (''r5'', 5), (''r4'', 4), (''r3'', 3),
      (''r2'', 2), (''r1'', 1), (''r0'', 0), (''ORIG_r0'', ARM_ORIG_r0)]"

definition i386_dump :: "(string \<times> i386_reg) list" where
  "i386_dump =
     [(''ebx'', EBX), (''ecx'', ECX), (''edx'', EDX), (''esi'', ESI), (''edi'', EDI), (''ebp'', EBP), (''eax'', EAX),
      (''xds'', XDS), (''xes'', XES), (''xfs'', XFS), (''xgs'', XGS), (''orig_eax'', ORIG_EAX), (''eip'', EIP),
      (''xcs'', XCS), (''eflags'', EFLAGS), (''esp'', ESP), (''xss'', XSS)]"

definition x86_64_dump :: "(string \<times> x86_64_reg) list" where
  "x86_64_dump =
     [(''r15'', R15), (''r14'', R14), (''r13'', R13), (''r12'', R12), (''rbp'', RBP), (''rbx'', RBX), (''r11'', R11),
      (''r10'', R10), (''r9'', R9), (''r8'', R8), (''rax'', RAX), (''rcx'', RCX), (''rdx'', RDX), (''rsi'', RSI),
      (''rdi'', RDI), (''orig_rax'', ORIG_RAX), (''rip'', RIP), (''cs'', CS), (''eflags'', RFLAGS), (''rsp'', RSP),
      (''ss'', SS), (''fs_base'', FS_BASE), (''gs_base'', GS_BASE), (''ds'', DS), (''es'', ES), (''fs'', FS),
      (''gs'', GS)]"

definition dump_registers :: "pink_config \<Rightarrow> pink_regset \<Rightarrow> string list" where
  "dump_registers c regset =
     (case cfg_arch c of
        AARCH64 \<Rightarrow> [dump_line ''regs'' ''TODO'']
      | ARM \<Rightarrow> map (\<lambda>(name, i). dump_line (''regs.ARM_'' @ name)
                  (show_hex_alt (unat (get_field (big_endian c) 4 i (rs_regs regset) :: 32 word)))) arm_dump
      | IA64 \<Rightarrow> [dump_line ''regset->ia32'' (show_decimal (of_bool (rs_ia32 regset)))]
      | POWERPC \<Rightarrow> [dump_line ''regs'' ''TODO'']
      | I386 \<Rightarrow> map (\<lambda>(name, r). dump_line (''regs.'' @ name)
                  (show_hex_alt (unat (i386_get r (rs_regs regset))))) i386_dump
      | _ \<Rightarrow> map (\<lambda>(name, r). dump_line (''regs.'' @ name)
                  (show_hex (unat (x86_64_get r (rs_regs regset))))) x86_64_dump)"

text \<open>\<open>p\<close> is the pointer as \<open>%p\<close> prints it.\<close>

definition dump_regset :: "pink_config \<Rightarrow> string \<Rightarrow> pink_regset \<Rightarrow> string list" where
  "dump_regset c p regset =
     dump_mark ''REGSET DUMP'' p #
     (if PINK_ABIS_SUPPORTED c > 1 then [dump_line ''regset->abi'' (show_decimal (rs_abi regset))] else []) @
     dump_registers c regset @ [dump_mark ''REGSET DUMP END'' p]"

section \<open>Socket addresses\<close>

definition string_of_bytes :: "byte list \<Rightarrow> string" where
  "string_of_bytes bs = map (\<lambda>b. char_of (unat b)) bs"

text \<open>
  \<open>ntop\<close> is \<open>inet_ntop\<close>, which gives the text of an address of a known family.
\<close>

definition dump_address :: "pink_config \<Rightarrow> (byte list \<Rightarrow> string) \<Rightarrow> pink_sockaddr \<Rightarrow> string list outcome" where
  "dump_address c ntop sockaddr =
     (let pad = sa_pad sockaddr; path = drop 2 pad; family = sint (sa_family sockaddr);
          line = (\<lambda>text. [CHR 0x09 # CHR 0x09 # text @ [CHR 0x0A]]);
          u32 = (\<lambda>i. show_unsigned (unat (of_bytes (big_endian c) (take 4 (drop i pad)) :: 32 word))) in
      if family = 1 then
        (if path ! 0 \<noteq> 0
         then obind (cstring path) (\<lambda>s. Ret (line (''unix: `'' @ string_of_bytes s @ [CHR 0x27])))
         else obind (cstring (drop 1 path)) (\<lambda>s. Ret (line (''unix-abstract: `'' @ string_of_bytes s @ [CHR 0x27]))))
      else if family = 2 then
        Ret (line (''inet: '' @ ntop (take 4 (drop 4 pad)) @ ''@'' @ show_decimal (port_of pad)))
      else if family = 10 \<and> have_feature c HAVE_IPV6 then
        Ret (line (''inet6: '' @ ntop (take 16 (drop 8 pad)) @ ''@'' @ show_decimal (port_of pad)))
      else if family = 16 \<and> have_feature c HAVE_NETLINK then
        Ret (line (''netlink: nl_pid='' @ u32 4 @ '' nl_groups='' @ u32 8))
      else Ret [])"

definition dump_socket_address ::
    "pink_config \<Rightarrow> (byte list \<Rightarrow> string) \<Rightarrow> string \<Rightarrow> pink_sockaddr \<Rightarrow> string list outcome" where
  "dump_socket_address c ntop p sockaddr =
     obind (dump_address c ntop sockaddr) (\<lambda>address.
       Ret (dump_mark ''SOCKADDRDUMP'' p #
            (CHR 0x09 # CHR 0x09 # ''family:'' @ show_decimal (sint (sa_family sockaddr)) @ [CHR 0x0A]) #
            address @ [dump_mark ''SOCKADDRDUMP END'' p]))"

section \<open>What the dumps show\<close>

lemma dump_line_inject [simp]: "dump_line name v = dump_line name v' \<longleftrightarrow> v = v'"
  by (simp add: dump_line_def)

lemma x86_64_dump_regs: "snd ` set x86_64_dump = UNIV"
proof -
  have "r \<in> snd ` set x86_64_dump" for r by (cases r) (simp_all add: x86_64_dump_def)
  then show ?thesis by blast
qed

text \<open>The fields of a block tell its bytes.\<close>

lemma fields_determine_block:
  assumes "length bs = n * s" "length bs' = n * s"
    and "\<And>i. i < n \<Longrightarrow> take s (drop (s * i) bs) = take s (drop (s * i) bs')"
  shows "bs = bs'"
  using assms
proof (induction n arbitrary: bs bs')
  case (Suc n)
  have "take s bs = take s bs'" using Suc.prems(3) [of 0] by simp
  moreover have "drop s bs = drop s bs'"
  proof (rule Suc.IH)
    show "take s (drop (s * i) (drop s bs)) = take s (drop (s * i) (drop s bs'))" if "i < n" for i
      using Suc.prems(3) [of "Suc i"] that by (simp add: add.commute)
  qed (use Suc.prems in simp_all)
  ultimately show ?case by (metis append_take_drop_id)
qed simp

lemma x86_64_index_onto: "i < 27 \<Longrightarrow> \<exists>r. x86_64_index r = i"
proof -
  have "i \<in> x86_64_index ` snd ` set x86_64_dump" if "i < 27"
    using that by (simp add: x86_64_dump_def numeral_eq_Suc less_Suc_eq)
  then show "i < 27 \<Longrightarrow> \<exists>r. x86_64_index r = i" by auto
qed

lemma x86_64_regs_determine_block:
  assumes "length bs = 216" "length bs' = 216" and "\<And>r. x86_64_get r bs = x86_64_get r bs'"
  shows "bs = bs'"
proof (rule fields_determine_block [where n = 27 and s = 8])
  fix i :: nat
  assume "i < 27"
  then obtain r where "x86_64_index r = i" using x86_64_index_onto by blast
  with assms(3) [of r] have "(of_bytes False (take 8 (drop (8 * i) bs)) :: 64 word) = of_bytes False (take 8 (drop (8 * i) bs'))"
    by (simp add: x86_64_get_def get_field_def)
  then have "to_bytes False 8 (of_bytes False (take 8 (drop (8 * i) bs)) :: 64 word) =
      to_bytes False 8 (of_bytes False (take 8 (drop (8 * i) bs')) :: 64 word)" by simp
  then show "take 8 (drop (8 * i) bs) = take 8 (drop (8 * i) bs')"
    using assms(1,2) \<open>i < 27\<close> by (simp del: of_bytes_to_bytes)
qed (use assms in simp_all)

lemma dump_regset_inject:
  fixes rs rs' :: pink_regset
  assumes "cfg_arch c = X86_64 \<or> cfg_arch c = X32" and "regset_wf TYPE('l::len) c rs" "regset_wf TYPE('l) c rs'"
    and "dump_regset c p rs = dump_regset c p rs'"
  shows "rs_regs rs = rs_regs rs' \<and> rs_abi rs = rs_abi rs'"
proof -
  have abis: "PINK_ABIS_SUPPORTED c > 1" using assms(1) by (auto simp: PINK_ABIS_SUPPORTED_def)
  have len: "length (rs_regs rs) = 216" "length (rs_regs rs') = 216"
    using assms(1-3) by (auto simp: regset_wf_def sizeof_regs_def)
  have lines: "dump_registers c rs = dump_registers c rs'" and abi: "rs_abi rs = rs_abi rs'"
    using assms(4) abis by (simp_all add: dump_regset_def)
  have "x86_64_get r (rs_regs rs) = x86_64_get r (rs_regs rs')" for r
  proof -
    let ?line = "\<lambda>(name, r) rs. dump_line (''regs.'' @ name) (show_hex (unat (x86_64_get r (rs_regs rs))))"
    obtain name where name: "(name, r) \<in> set x86_64_dump" using x86_64_dump_regs by (metis UNIV_I imageE prod.collapse)
    have "dump_registers c t = map (\<lambda>x. ?line x t) x86_64_dump" for t
      using assms(1) by (auto simp: dump_registers_def)
    with lines name have "?line (name, r) rs = ?line (name, r) rs'" by (simp only: map_eq_conv)
    then show ?thesis by (simp add: word_unat_eq_iff)
  qed
  with abi show ?thesis using x86_64_regs_determine_block [OF len] by blast
qed

text \<open>What a successful read leaves in a socket address can be printed: the path has its end.\<close>

lemma dump_socket_address_defined:
  fixes K :: "('l::len word, 'k) kernel"
  assumes "cfg_arch c \<noteq> IA64" and "long_width TYPE('l)" and "length (sa_pad sa) = 128"
    and "pink_read_socket_address c K pid regset dec i want_fd sa w = Ret (0, fd, sa', w')"
  shows "\<exists>lines. dump_socket_address c ntop p sa' = Ret lines"
proof -
  from socket_address_bounds [OF assms] have len: "length (sa_pad sa') = 128"
    and "sa_family sa' = - 1 \<or> sa_pad sa' ! 127 = 0" by auto
  then have "sint (sa_family sa') = 1 \<Longrightarrow> 0 \<in> set (drop i (sa_pad sa'))" if "i < 128" for i
    using that nth_mem [of "127 - i" "drop i (sa_pad sa')"] by auto
  from this [of 2] this [of 3] have "sint (sa_family sa') = 1 \<Longrightarrow>
      (\<exists>s. cstring (drop 2 (sa_pad sa')) = Ret s) \<and> (\<exists>s. cstring (drop 3 (sa_pad sa')) = Ret s)"
    by (auto simp: cstring_def find_nul_None split: option.split)
  then show ?thesis
    by (auto simp: dump_socket_address_def dump_address_def Let_def numeral_eq_Suc)
qed

text \<open>Without a terminal nothing is added to the text.\<close>

lemma debug_lines_plain: "\<not> term_tty t \<or> term_nocolour t \<Longrightarrow> debug_lines t texts = concat texts"
  by (auto simp: debug_lines_def pprintf_def pprintf_va_def)

end
