(* ===== verification/Pink_Fork.thy ===== *)
theory Pink_Fork
  imports Pink_Strace
begin

text \<open>
  \<^verbatim>\<open>examples/pink-fork.c\<close>: a child that asks to be traced and stops, and a
  parent that sets it up, resumes it and waits for its end.
\<close>

definition fork_child ::
    "('l::len word, 'k) kernel \<Rightarrow> 'k strace_env \<Rightarrow> 'k world \<Rightarrow> int \<times> 'l word printed list \<times> 'k world" where
  "fork_child K E w =
     (case pink_trace_me K w of
        (r, w1) \<Rightarrow>
          if r < 0
          then (1, [Stderr [Text ''pink_trace_me: '', Num (- r), Text '' '', Strerror (- r), Newline]], w1)
          else
            (case sys_status (sys_kill K (env_getpid E (kern w1)) SIGSTOP (kern w1)) w1 of
               (_, w2) \<Rightarrow> (0, [Text ''hello world'', Newline], w2)))"

text \<open>
  The first \<open>waitpid\<close> is not checked, as in the tracer above; the result of the
  second one is not used.
\<close>

definition fork_parent ::
    "pink_config \<Rightarrow> ('l::len word, 'k) kernel \<Rightarrow> 'k strace_env \<Rightarrow> int \<Rightarrow> 'k world \<Rightarrow>
     (int \<times> 'l word printed list \<times> 'k world) outcome" where
  "fork_parent c K E pid w =
     (case env_waitpid E pid (kern w) of
        (Inl e, k) \<Rightarrow> Fault Undefined
      | (Inr (_, status), k) \<Rightarrow>
          if pink_event_decide status \<noteq> PINK_EVENT_NONE then Fault Abort
          else
            (case pink_trace_setup c K pid PINK_TRACE_OPTION_SYSGOOD (w\<lparr>kern := k\<rparr>) of
               (r, w1) \<Rightarrow>
                 if r < 0 then
                   (case pink_trace_kill c K pid (- 1) SIGKILL w1 of
                      (_, w2) \<Rightarrow> Ret (1, [Perror ''pink_trace_setup''], w2))
                 else
                   (case pink_trace_resume K pid 0 w1 of
                      (_, w2) \<Rightarrow>
                        (case env_waitpid E pid (kern w2) of
                           (Inl e, k) \<Rightarrow> Ret (0, [], \<lparr>errno = e, kern = k\<rparr>)
                         | (Inr _, k) \<Rightarrow> Ret (0, [], w2\<lparr>kern := k\<rparr>)))))"

definition fork_main ::
    "pink_config \<Rightarrow> ('l::len word, 'k) kernel \<Rightarrow> 'k strace_env \<Rightarrow> 'k world \<Rightarrow>
     (int \<times> 'l word printed list \<times> 'k world) outcome" where
  "fork_main c K E w =
     (case env_fork E (kern w) of
        (Inl e, k) \<Rightarrow> Ret (1, [Perror ''fork''], \<lparr>errno = e, kern = k\<rparr>)
      | (Inr pid, k) \<Rightarrow>
          if pid = 0 then Ret (fork_child K E (w\<lparr>kern := k\<rparr>))
          else fork_parent c K E pid (w\<lparr>kern := k\<rparr>))"

section \<open>The calls of the parent\<close>

text \<open>A kernel that accepts every request of \<open>ptrace\<close> and keeps a log.\<close>

datatype 'w call = Ptrace ptrace_request int "'w ptrace_data" | Waitpid int | Kill int int

definition logs_ptrace :: "('l::len word, 'l word call list) kernel \<Rightarrow> bool" where
  "logs_ptrace K \<longleftrightarrow>
     (\<forall>req pid a d k. sys_ptrace K req pid a d k = (0, None, [], k @ [Ptrace req pid d]))"

definition logs_kill :: "('l::len word, 'l word call list) kernel \<Rightarrow> bool" where
  "logs_kill K \<longleftrightarrow>
     (\<forall>pid sig k. sys_tkill K pid sig k = (Inr (), k @ [Kill pid sig]) \<and>
                  sys_kill K pid sig k = (Inr (), k @ [Kill pid sig]))"

definition logs_waitpid :: "32 word \<Rightarrow> 'l::len word call list strace_env \<Rightarrow> bool" where
  "logs_waitpid status E \<longleftrightarrow> (\<forall>pid k. env_waitpid E pid k = (Inr (pid, status), k @ [Waitpid pid]))"

text \<open>
  The child is waited for, then gets its options, then runs without a signal, then is
  waited for again; where the options are not available it is killed instead of
  being left stopped.
\<close>

lemma fork_parent_calls:
  fixes K :: "('l::len word, 'l word call list) kernel"
  assumes "logs_ptrace K" "logs_kill K" "logs_waitpid 0x137f E" "0 < pid"
  shows "\<exists>code out w'. fork_parent c K E pid \<lparr>errno = 0, kern = []\<rparr> = Ret (code, out, w') \<and>
    (if have_feature c HAVE_SETUP \<and> have_feature c HAVE_OPTION_SYSGOOD
     then code = 0 \<and> kern w' =
       [Waitpid pid, Ptrace PTRACE_SETOPTIONS pid (Scalar 1), Ptrace PTRACE_CONT pid (Scalar 0), Waitpid pid]
     else code = 1 \<and> kern w' = [Waitpid pid, Kill pid SIGKILL])"
proof -
  have opts: "collect_options c PINK_TRACE_OPTION_SYSGOOD trace_options 0 =
      (if have_feature c HAVE_OPTION_SYSGOOD then Some 1 else None)"
    by (simp add: trace_options_def trace_option_consts)
  have "pink_event_decide 0x137f = PINK_EVENT_NONE"
    by (simp add: pink_event_decide_def PINK_EVENT_NONE_def)
  with assms show ?thesis
    by (auto simp: fork_parent_def logs_ptrace_def logs_kill_def logs_waitpid_def pink_trace_setup_def opts
        pink_trace_kill_def pink_trace_resume_def ptrace_status_def pink_ptrace_def int_data_def sys_status_def
        EINVAL_def ENOSYS_def)
qed

end
