(* ===== verification/Pink_Tests.thy ===== *)
theory Pink_Tests
  imports Pink_Check
begin

text \<open>
  The tests that trace a child: \<^verbatim>\<open>trace-TEST.c\<close>, \<^verbatim>\<open>vm-TEST.c\<close>, \<^verbatim>\<open>read-TEST.c\<close>,
  \<^verbatim>\<open>write-TEST.c\<close> and \<^verbatim>\<open>socket-TEST.c\<close>. They share one loop, which is written once here with what
  differs as parameters: \<open>test_loop\<close>. Each test is both sides of its \<open>fork\<close>.
\<close>

unbundle bit_operations_syntax

section \<open>Steps of a test\<close>

text \<open>
  A step gives a value and the state, or the state of an \<open>abort\<close> (\<open>Inl\<close>), or a fault.
  A variable that was not stored is \<open>None\<close>, and using it is undefined.
\<close>

type_synonym ('f, 'k, 'a) step = "('f, 'k) check \<Rightarrow> (('f, 'k) check + 'a \<times> ('f, 'k) check) outcome"

definition tbind :: "('f, 'k, 'a) step \<Rightarrow> ('a \<Rightarrow> ('f, 'k, 'b) step) \<Rightarrow> ('f, 'k, 'b) step" where
  "tbind m f s = obind (m s) (\<lambda>r. case r of Inl s' \<Rightarrow> Ret (Inl s') | Inr (a, s') \<Rightarrow> f a s')"

definition treturn :: "'a \<Rightarrow> ('f, 'k, 'a) step" where
  "treturn a s = Ret (Inr (a, s))"

definition tcall :: "(('f, 'k) check \<Rightarrow> 'a \<times> ('f, 'k) check) \<Rightarrow> ('f, 'k, 'a) step" where
  "tcall f s = Ret (Inr (f s))"

definition tcall_out :: "(('f, 'k) check \<Rightarrow> ('a \<times> ('f, 'k) check) outcome) \<Rightarrow> ('f, 'k, 'a) step" where
  "tcall_out f s = obind (f s) (\<lambda>r. Ret (Inr r))"

definition tdo :: "(('f, 'k) check \<Rightarrow> ('f, 'k) check) \<Rightarrow> ('f, 'k, unit) step" where
  "tdo f s = Ret (Inr ((), f s))"

definition tcheck :: "(('f, 'k) check \<Rightarrow> ('f, 'k) checked outcome) \<Rightarrow> ('f, 'k, unit) step" where
  "tcheck f s = obind (f s) (\<lambda>r. Ret (case r of Inl s' \<Rightarrow> Inl s' | Inr s' \<Rightarrow> Inr ((), s')))"

definition tdefined :: "'a option \<Rightarrow> ('f, 'k, 'a) step" where
  "tdefined x = (case x of None \<Rightarrow> (\<lambda>s. Fault Undefined) | Some a \<Rightarrow> treturn a)"

section \<open>The child\<close>

text \<open>
  What the child does after \<open>trace_me_and_stop\<close>: calls of the C library, each followed
  by what depends on its result and \<open>errno\<close>, and an exit. An argument is a number, a
  pointer to bytes or a pointer to a null-terminated array of strings.
\<close>

datatype 'l call_arg = Val 'l | Pointer "byte list" | Pointers "byte list list"

datatype 'l child =
    Exit int
  | Call string "'l call_arg list" "'l \<Rightarrow> int \<Rightarrow> 'l child"

text \<open>\<open>switch (arg_index)\<close>: the value at the place of the index, among the others.\<close>

definition syscall_with :: "pink_config \<Rightarrow> 'l::len word list \<Rightarrow> nat \<Rightarrow> 'l word call_arg \<Rightarrow> int \<Rightarrow> 'l word child" where
  "syscall_with c others arg_index v code =
     (if arg_index < 6
      then Call ''syscall'' (Val (word_of_int (PINK_SYSCALL_INVALID c)) # (map Val others)[arg_index := v]) (\<lambda>_ _. Exit code)
      else Exit 1)"

section \<open>The loop of a test\<close>

record test_locals =
  l_regset :: "pink_regset option"
  l_insyscall :: bool
  l_write_done :: bool
  l_worked :: bool

definition start_locals :: "pink_regset option \<Rightarrow> test_locals" where
  "start_locals regset = \<lparr>l_regset = regset, l_insyscall = False, l_write_done = False, l_worked = False\<rparr>"

text \<open>
  What differs: the options, whether the process that was waited for is the one to be
  killed if it is not stopped, what an exit with status 0 means, and what happens at a
  stop; a stop is given its signal and status, and tells whether to leave the loop.
\<close>

record ('f, 'k) test_program =
  tp_options :: "32 word"
  tp_kill_tracee :: bool
  tp_exit_works :: bool
  tp_stop :: "int \<Rightarrow> int \<Rightarrow> 32 word \<Rightarrow> test_locals \<Rightarrow> ('f, 'k, bool \<times> test_locals) step"

definition SIGTRAP :: int where "SIGTRAP = 5"
definition SIGTRAP_SYSGOOD :: int where "SIGTRAP_SYSGOOD = 0x85"

text \<open>
  The part of a round after the wait. After a failed wait that is not \<open>ECHILD\<close> the code
  goes on with a status that was not stored.
\<close>

definition test_stopped ::
    "pink_config \<Rightarrow> ('l::len word, 'k) kernel \<Rightarrow> ('f, 'k) test_program \<Rightarrow> int \<Rightarrow> int \<Rightarrow> 32 word \<Rightarrow> test_locals \<Rightarrow>
     ('f, 'k, bool \<times> test_locals) step" where
  "test_stopped c K T pid tracee_pid status l =
     tbind (tcheck (\<lambda>s. Ret (check_stopped_or_kill K (if tp_kill_tracee T then tracee_pid else pid) status s))) (\<lambda>_.
     tbind
       (if WSTOPSIG status = SIGSTOP
        then tbind (tdo (trace_setup_or_kill c K pid (tp_options T))) (\<lambda>_. treturn (False, l))
        else tp_stop T pid (WSTOPSIG status) status l) (\<lambda>(leave, l').
     if leave then treturn (True, l')
     else tbind (tdo (trace_syscall_or_kill K pid 0)) (\<lambda>_. treturn (False, l'))))"

definition test_round ::
    "pink_config \<Rightarrow> ('l::len word, 'k) kernel \<Rightarrow> ('f, 'k) test_program \<Rightarrow> int \<Rightarrow> int \<Rightarrow> 32 word option \<Rightarrow> test_locals \<Rightarrow>
     ('f, 'k, bool \<times> test_locals) step" where
  "test_round c K T pid tracee_pid status l s =
     (if tracee_pid \<le> 0 \<and> fst (check_echild_or_kill K pid tracee_pid s)
      then Ret (Inr ((True, l), s))
      else
        (case status of
           None \<Rightarrow> Fault Undefined
         | Some status \<Rightarrow>
             (case check_exit_code_or_fail status 0 s of
                Inl s1 \<Rightarrow> Ret (Inl s1)
              | Inr (True, s1) \<Rightarrow> Ret (Inr ((True, if tp_exit_works T then l\<lparr>l_worked := True\<rparr> else l), s1))
              | Inr (False, s1) \<Rightarrow>
                  (case check_signal_or_fail status 0 s1 of
                     Inl s2 \<Rightarrow> Ret (Inl s2)
                   | Inr (_, s2) \<Rightarrow> test_stopped c K T pid tracee_pid status l s2))))"

partial_function (option) test_loop ::
    "pink_config \<Rightarrow> ('l::len word, 'k) kernel \<Rightarrow> 'k check_calls \<Rightarrow> ('f, 'k) test_program \<Rightarrow> int \<Rightarrow> test_locals \<Rightarrow>
     ('f, 'k) check \<Rightarrow> (('f, 'k) check + test_locals \<times> ('f, 'k) check) outcome option" where
  "test_loop c K F T pid l s =
     (case wait_no_intr_debug F s of
        None \<Rightarrow> None
      | Some (tracee_pid, status, s1) \<Rightarrow>
          (case test_round c K T pid tracee_pid status l s1 of
             Fault x \<Rightarrow> Some (Fault x)
           | Ret (Inl s2) \<Rightarrow> Some (Ret (Inl s2))
           | Ret (Inr ((leave, l'), s2)) \<Rightarrow>
               if leave then Some (Ret (Inr (l', s2))) else test_loop c K F T pid l' s2))"

text \<open>
  A test: the child (\<open>Inl\<close>), or the parent's end, which is an abort (\<open>Inl\<close>) or a
  return. At its end it reports a failure unless it worked.
\<close>

type_synonym ('l, 'f, 'k) tested = "('l child + (('f, 'k) check + ('f, 'k) check) outcome) option"

definition unless_worked :: "string \<Rightarrow> string \<Rightarrow> int \<Rightarrow> test_locals \<Rightarrow> ('f, 'k) check \<Rightarrow> ('f, 'k) check" where
  "unless_worked msg func line l s = (if l_worked l then s else fail_verbose msg func line s)"

definition end_test ::
    "string \<Rightarrow> string \<Rightarrow> int \<Rightarrow> (('f, 'k) check + test_locals \<times> ('f, 'k) check) outcome \<Rightarrow>
     (('f, 'k) check + ('f, 'k) check) outcome" where
  "end_test msg func line r =
     obind r (\<lambda>r. Ret (case r of Inl s \<Rightarrow> Inl s | Inr (l, s) \<Rightarrow> Inr (unless_worked msg func line l s)))"

definition fork_test ::
    "('l::len word, 'k) kernel \<Rightarrow> 'k check_calls \<Rightarrow> 'l word child \<Rightarrow>
     (int \<Rightarrow> ('f, 'k) check \<Rightarrow> (('f, 'k) check + ('f, 'k) check) outcome option) \<Rightarrow> ('f, 'k) check \<Rightarrow> ('l word, 'f, 'k) tested" where
  "fork_test K F child parent s =
     (case fork_assert K F s of
        (pid, s1) \<Rightarrow> if pid = 0 then Some (Inl child) else map_option Inr (parent pid s1))"

definition traced_test ::
    "pink_config \<Rightarrow> ('l::len word, 'k) kernel \<Rightarrow> 'k check_calls \<Rightarrow> bool \<Rightarrow> ('f, 'k) test_program \<Rightarrow> 'l word child \<Rightarrow>
     string \<Rightarrow> string \<Rightarrow> int \<Rightarrow> ('f, 'k) check \<Rightarrow> ('l word, 'f, 'k) tested" where
  "traced_test c K F with_regset T child msg func line =
     fork_test K F child (\<lambda>pid s.
       case (if with_regset then regset_alloc_or_kill c K pid s else (None, s)) of
         (regset, s1) \<Rightarrow> map_option (end_test msg func line) (test_loop c K F T pid (start_locals regset) s1))"

section \<open>Steps that several tests share\<close>

definition fill_regset :: "pink_config \<Rightarrow> ('l::len word, 'k) kernel \<Rightarrow> int \<Rightarrow> test_locals \<Rightarrow> ('f, 'k, test_locals) step" where
  "fill_regset c K pid l =
     tbind (tdefined (l_regset l)) (\<lambda>regset.
     tbind (tcall_out (regset_fill_or_kill c K pid regset)) (\<lambda>regset'. treturn (l\<lparr>l_regset := Some regset'\<rparr>)))"

definition read_long ::
    "(pink_regset \<Rightarrow> ('f, 'k) check \<Rightarrow> ('a option \<times> ('f, 'k) check) outcome) \<Rightarrow> test_locals \<Rightarrow> ('f, 'k, 'a) step" where
  "read_long f l =
     tbind (tdefined (l_regset l)) (\<lambda>regset. tbind (tcall_out (f regset)) tdefined)"

text \<open>\<open>regset_fill_or_kill\<close>, \<open>read_syscall_or_kill\<close> and \<open>check_syscall_equal_or_kill\<close>.\<close>

definition at_syscall ::
    "pink_config \<Rightarrow> ('l::len word, 'k) kernel \<Rightarrow> int \<Rightarrow> 'l word \<Rightarrow> test_locals \<Rightarrow> ('f, 'k, test_locals) step" where
  "at_syscall c K pid sysnum_expected l =
     tbind (fill_regset c K pid l) (\<lambda>l'.
     tbind (read_long (\<lambda>regset s. Ret (read_syscall_or_kill c K pid regset s)) l') (\<lambda>sysnum.
     tbind (tcheck (\<lambda>s. Ret (check_syscall_equal_or_kill K pid sysnum sysnum_expected s))) (\<lambda>_. treturn l')))"

definition read_arg :: "pink_config \<Rightarrow> ('l::len word, 'k) kernel \<Rightarrow> int \<Rightarrow> nat \<Rightarrow> test_locals \<Rightarrow> ('f, 'k, 'l word) step" where
  "read_arg c K pid arg_index l = read_long (\<lambda>regset. read_argument_or_kill c K pid regset arg_index) l"

text \<open>\<open>it_worked = true; kill(pid, SIGKILL); break;\<close>\<close>

definition worked :: "('l::len word, 'k) kernel \<Rightarrow> int \<Rightarrow> test_locals \<Rightarrow> ('f, 'k, bool \<times> test_locals) step" where
  "worked K pid l = tbind (tdo (do_kill K pid SIGKILL)) (\<lambda>_. treturn (True, l\<lparr>l_worked := True\<rparr>))"

text \<open>A test that acts at system call stops only.\<close>

definition sysgood_program ::
    "bool \<Rightarrow> (int \<Rightarrow> test_locals \<Rightarrow> ('f, 'k, bool \<times> test_locals) step) \<Rightarrow> ('f, 'k) test_program" where
  "sysgood_program kill_tracee stop =
     \<lparr>tp_options = PINK_TRACE_OPTION_SYSGOOD, tp_kill_tracee = kill_tracee, tp_exit_works = False,
      tp_stop = \<lambda>pid sig _ l. if sig = SIGTRAP_SYSGOOD then stop pid l else treturn (False, l)\<rparr>"

definition lookup_or_fail ::
    "pink_config \<Rightarrow> string \<Rightarrow> string \<Rightarrow> int \<Rightarrow> ('f, 'k) check \<Rightarrow> 'l::len word \<times> ('f, 'k) check" where
  "lookup_or_fail c name func line s =
     (let n = pink_lookup_syscall c (Some name) PINK_ABI_DEFAULT
      in (n, if n = - 1 then fail_verbose (''don't know the syscall number of '' @ name) func line s else s))"

section \<open>trace-TEST.c\<close>

text \<open>\<open>test_trace_clone\<close> has a loop of its own, with the grandchild expected and the one found.\<close>

definition clone_options :: "32 word" where
  "clone_options = PINK_TRACE_OPTION_CLONE OR PINK_TRACE_OPTION_FORK OR PINK_TRACE_OPTION_VFORK"

definition int_of_long :: "'l::len word \<Rightarrow> int" where
  "int_of_long v = sint (ucast v :: 32 word)"

definition clone_stop ::
    "pink_config \<Rightarrow> ('l::len word, 'k) kernel \<Rightarrow> int \<Rightarrow> 32 word \<Rightarrow> int \<Rightarrow> ('f, 'k) check \<Rightarrow> int \<times> ('f, 'k) check" where
  "clone_stop c K pid status expected s =
     (let (expected', s1) =
        (if WSTOPSIG status = SIGSTOP then (expected, trace_setup_or_kill c K pid clone_options s)
         else if WSTOPSIG status = SIGTRAP \<and> event_decide_and_print status = PINK_EVENT_FORK
         then (case trace_geteventmsg_or_kill c K pid 0 s of (msg, s') \<Rightarrow> (int_of_long msg, s'))
         else (expected, s))
      in (expected', trace_syscall_or_kill K pid 0 s1))"

definition clone_grandchild ::
    "('l::len word, 'k) kernel \<Rightarrow> int \<Rightarrow> int \<Rightarrow> ('f, 'k) check \<Rightarrow> ('f, 'k) check" where
  "clone_grandchild K pid tracee_pid s =
     (case pink_trace_resume K tracee_pid 0 (world_of s) of
        (r, w) \<Rightarrow>
          (let s1 = set_world w s in
           if r < 0
           then fail_verbose ''PTRACE_CONT'' ''test_trace_clone'' 77
                  (kill_save_errno K pid SIGKILL (kill_save_errno K tracee_pid SIGKILL s1))
           else s1))"

definition clone_round ::
    "pink_config \<Rightarrow> ('l::len word, 'k) kernel \<Rightarrow> int \<Rightarrow> int \<Rightarrow> 32 word \<Rightarrow> int \<times> int \<Rightarrow> ('f, 'k) check \<Rightarrow>
     (int \<times> int) \<times> ('f, 'k) check" where
  "clone_round c K pid tracee_pid status found s =
     (let kill_child = (\<lambda>s. if tracee_pid \<noteq> pid then kill_save_errno K pid SIGKILL s else s) in
      if WIFEXITED status
      then (found, if WEXITSTATUS status \<noteq> 0
                   then fail_verbose ''unexpected exit status'' ''test_trace_clone'' 55 (kill_child s) else s)
      else
        (let s1 = (if WIFSIGNALED status
                   then fail_verbose ''unexpected signal'' ''test_trace_clone'' 63 (kill_child s) else s);
             s2 = (if \<not> WIFSTOPPED status
                   then fail_verbose ''unexpected wait status'' ''test_trace_clone'' 69
                          (kill_save_errno K pid SIGKILL
                            (if tracee_pid \<noteq> pid then kill_save_errno K tracee_pid SIGKILL s1 else s1))
                   else s1)
         in if tracee_pid \<noteq> pid then ((fst found, tracee_pid), clone_grandchild K pid tracee_pid s2)
            else (case clone_stop c K pid status (fst found) s2 of (expected, s3) \<Rightarrow> ((expected, snd found), s3))))"

partial_function (option) clone_loop ::
    "pink_config \<Rightarrow> ('l::len word, 'k) kernel \<Rightarrow> 'k check_calls \<Rightarrow> int \<Rightarrow> int \<times> int \<Rightarrow> ('f, 'k) check \<Rightarrow>
     ((int \<times> int) \<times> ('f, 'k) check) outcome option" where
  "clone_loop c K F pid found s =
     (case wait_no_intr_debug F (set_world ((world_of s)\<lparr>errno := 0\<rparr>) s) of
        None \<Rightarrow> None
      | Some (tracee_pid, status, s1) \<Rightarrow>
          if tracee_pid \<le> 0 \<and> fst (check_echild_or_kill K pid tracee_pid s1) then Some (Ret (found, s1))
          else
            (case status of
               None \<Rightarrow> Some (Fault Undefined)
             | Some status \<Rightarrow>
                 (case clone_round c K pid tracee_pid status found s1 of
                    (found', s2) \<Rightarrow> clone_loop c K F pid found' s2)))"

definition test_trace_clone ::
    "pink_config \<Rightarrow> ('l::len word, 'k) kernel \<Rightarrow> 'k check_calls \<Rightarrow> ('f, 'k) check \<Rightarrow> ('l word, 'f, 'k) tested" where
  "test_trace_clone c K F =
     fork_test K F (Call ''fork'' [] (\<lambda>r _. if r <s 0 then Exit 2 else Exit 0)) (\<lambda>pid s.
       map_option (\<lambda>r. obind r (\<lambda>((expected, found), s').
           Ret (Inr (if expected \<noteq> 0 \<and> expected = found then s'
                     else fail_verbose ''Test for PINK_TRACE_OPTION_CLONE failed'' ''test_trace_clone'' 99 s'))))
         (clone_loop c K F pid (0, 0) s))"

definition test_trace_sysgood ::
    "pink_config \<Rightarrow> ('l::len word, 'k) kernel \<Rightarrow> 'k check_calls \<Rightarrow> ('f, 'k) check \<Rightarrow> ('l word, 'f, 'k) tested" where
  "test_trace_sysgood c K F =
     traced_test c K F False (sysgood_program True (\<lambda>_ l. treturn (False, l\<lparr>l_worked := True\<rparr>))) (Exit 0)
       ''Test for PINK_TRACE_OPTION_SYSGOOD failed'' ''test_trace_sysgood'' 149"

definition exec_stop ::
    "pink_config \<Rightarrow> ('l::len word, 'k) kernel \<Rightarrow> 32 word \<Rightarrow> int \<Rightarrow> int \<Rightarrow> 32 word \<Rightarrow> test_locals \<Rightarrow>
     ('f, 'k, bool \<times> test_locals) step" where
  "exec_stop c K os_release pid sig status l =
     (if sig = SIGTRAP \<and> event_decide_and_print status = PINK_EVENT_EXEC
      then
        (if os_release < KERNEL_VERSION 3 0 0 then worked K pid l
         else
           tbind (tcall (trace_geteventmsg_or_kill c K pid 0)) (\<lambda>old_pid.
           tbind
             (if int_of_long old_pid \<noteq> pid
              then tdo (\<lambda>s. fail_verbose ''PINK_TRACE_OPTION_EXEC works but can't tell the old pid'' ''test_trace_exec'' 192
                         (do_kill K pid SIGKILL s))
              else treturn ()) (\<lambda>_. worked K pid l)))
      else treturn (False, l))"

definition test_trace_exec ::
    "pink_config \<Rightarrow> ('l::len word, 'k) kernel \<Rightarrow> 'k check_calls \<Rightarrow> 32 word \<Rightarrow> ('f, 'k) check \<Rightarrow> ('l word, 'f, 'k) tested" where
  "test_trace_exec c K F os_release =
     traced_test c K F False
       \<lparr>tp_options = PINK_TRACE_OPTION_EXEC, tp_kill_tracee = True, tp_exit_works = False, tp_stop = exec_stop c K os_release\<rparr>
       (Call ''execve'' [Pointer (map of_char ''/bin/true'' @ [0]), Pointers []] (\<lambda>_ _. Exit 1))
       ''Test for PINK_TRACE_OPTION_EXEC failed'' ''test_trace_exec'' 203"

section \<open>vm-TEST.c\<close>

text \<open>
  \<open>stack n\<close> is what an uninitialised array of \<open>n\<close> characters holds. The strings have
  the NUL at their end.
\<close>

definition PATH_MAX :: nat where "PATH_MAX = 4096"

definition expstr_pinktrace :: "byte list" where
  "expstr_pinktrace = map of_char ''pinktrace'' @ [0]"

definition expstr_nul :: "byte list" where
  "expstr_nul = map of_char ''trace'' @ [0] @ map of_char ''pink'' @ [0]"

definition expstr_long :: "'l::len itself \<Rightarrow> byte list" where
  "expstr_long t = replicate (sizeof_long t) (of_char CHR ''P'') @ map of_char ''ink Floyd'' @ [0]"

abbreviation zeros_and_minus_one :: "'l::len word list" where
  "zeros_and_minus_one \<equiv> [0, 0, 0, 0, - 1, 0]"

abbreviation invalid_syscall :: "pink_config \<Rightarrow> 'l::len word" where
  "invalid_syscall c \<equiv> word_of_int (PINK_SYSCALL_INVALID c)"

text \<open>
  The stop of the tests that read memory: the argument is read, and then what it points to
  is read and checked by \<open>rest\<close>.
\<close>

definition memory_stop ::
    "pink_config \<Rightarrow> ('l::len word, 'k) kernel \<Rightarrow> nat \<Rightarrow>
     (int \<Rightarrow> pink_regset \<Rightarrow> 'l word \<Rightarrow> ('f, 'k, unit) step) \<Rightarrow> int \<Rightarrow> test_locals \<Rightarrow> ('f, 'k, bool \<times> test_locals) step" where
  "memory_stop c K arg_index rest pid l =
     tbind (at_syscall c K pid (invalid_syscall c) l) (\<lambda>l1.
     tbind (read_arg c K pid arg_index l1) (\<lambda>argval.
     tbind (tdefined (l_regset l1)) (\<lambda>regset.
     tbind (rest pid regset argval) (\<lambda>_. worked K pid l1))))"

definition test_vm_lread ::
    "pink_config \<Rightarrow> ('l::len word, 'k) kernel \<Rightarrow> 'k check_calls \<Rightarrow> (nat \<Rightarrow> byte list) \<Rightarrow> nat \<Rightarrow> ('f, 'k) check \<Rightarrow>
     ('l word, 'f, 'k) tested" where
  "test_vm_lread c K F stack arg_index =
     traced_test c K F True
       (sysgood_program True (memory_stop c K arg_index (\<lambda>pid regset argval.
          tbind (tcall_out (vm_lread_or_kill c K pid regset argval (stack 10) 10)) (\<lambda>newstr.
            tcheck (check_memory_equal_or_kill K pid newstr expstr_pinktrace 10)))))
       (syscall_with c zeros_and_minus_one arg_index (Pointer expstr_pinktrace) 1)
       ''Test for (ptrace) reading VM data failed'' ''test_vm_lread'' 84"

definition test_vm_lread_nul ::
    "pink_config \<Rightarrow> ('l::len word, 'k) kernel \<Rightarrow> 'k check_calls \<Rightarrow> (nat \<Rightarrow> byte list) \<Rightarrow> nat \<Rightarrow> ('f, 'k) check \<Rightarrow>
     ('l word, 'f, 'k) tested" where
  "test_vm_lread_nul c K F stack arg_index =
     traced_test c K F True
       (sysgood_program True (memory_stop c K arg_index (\<lambda>pid regset argval.
          tbind (tcall_out (\<lambda>s. obind (vm_lread_nul_or_kill c K pid regset argval (stack 11) 11 s) (\<lambda>(_, d, s'). Ret (d, s'))))
            (\<lambda>newstr. tcheck (check_string_equal_or_kill K pid newstr expstr_nul 6)))))
       (syscall_with c zeros_and_minus_one arg_index (Pointer expstr_nul) 0)
       ''Test for (ptrace) reading nul-terminated VM data failed'' ''test_vm_lread_nul'' 149"

text \<open>\<open>if ((size_t)r <= l) newstr[r] = 0;\<close> and the check of the end of the string.\<close>

definition check_long_string ::
    "('l::len word, 'k) kernel \<Rightarrow> int \<Rightarrow> int \<Rightarrow> nat \<Rightarrow> byte list \<Rightarrow> ('f, 'k, unit) step" where
  "check_long_string K pid r l newstr =
     (let n = size_of_ssize TYPE('l) r; newstr' = (if n \<le> l then newstr[n := 0] else newstr)
      in tcheck (check_string_endswith_or_kill K pid newstr' (map of_char ''Pink Floyd'' @ [0])))"

definition test_vm_lread_nul_long ::
    "pink_config \<Rightarrow> ('l::len word, 'k) kernel \<Rightarrow> 'k check_calls \<Rightarrow> (nat \<Rightarrow> byte list) \<Rightarrow> nat \<Rightarrow> ('f, 'k) check \<Rightarrow>
     ('l word, 'f, 'k) tested" where
  "test_vm_lread_nul_long c K F stack arg_index =
     (let l = sizeof_long TYPE('l) + 9 in
      traced_test c K F True
        (sysgood_program True (memory_stop c K arg_index (\<lambda>pid regset argval.
           tbind (tcall_out (\<lambda>s. obind (vm_lread_nul_or_kill c K pid regset argval (stack PATH_MAX) l s)
                     (\<lambda>(r, d, s'). Ret ((r, d), s'))))
             (\<lambda>(r, newstr). check_long_string K pid r l newstr))))
        (syscall_with c (replicate 6 3) arg_index (Pointer (expstr_long TYPE('l))) 0)
        ''Test for (ptrace) reading nul-terminated VM data subsequently failed'' ''test_vm_lread_nul_long'' 237)"

section \<open>read-TEST.c\<close>

definition test_read_syscall ::
    "pink_config \<Rightarrow> ('l::len word, 'k) kernel \<Rightarrow> 'k check_calls \<Rightarrow> ('f, 'k) check \<Rightarrow> ('l word, 'f, 'k) tested" where
  "test_read_syscall c K F s =
     (case lookup_or_fail c ''getpid'' ''test_read_syscall'' 43 s of
        (sys_getpid, s1) \<Rightarrow>
          traced_test c K F True
            (sysgood_program False (\<lambda>pid l. tbind (at_syscall c K pid sys_getpid l) (worked K pid)))
            (Call ''syscall'' [Val sys_getpid] (\<lambda>_ _. Exit 0))
            ''Test for reading system call number failed'' ''test_read_syscall'' 79 s1)"

text \<open>Entry and exit of one system call: the number is checked first, and then the result.\<close>

definition retval_stop ::
    "pink_config \<Rightarrow> ('l::len word, 'k) kernel \<Rightarrow> 'l word \<Rightarrow> (int \<Rightarrow> pink_regset \<Rightarrow> ('f, 'k, unit) step) \<Rightarrow>
     (int \<Rightarrow> 'l word) \<Rightarrow> int \<Rightarrow> int \<Rightarrow> test_locals \<Rightarrow> ('f, 'k, bool \<times> test_locals) step" where
  "retval_stop c K sysnum entry retval_expected error_expected pid l =
     (if \<not> l_insyscall l
      then
        tbind (at_syscall c K pid sysnum l) (\<lambda>l1.
        tbind (tdefined (l_regset l1)) (\<lambda>regset.
        tbind (entry pid regset) (\<lambda>_. treturn (False, l1\<lparr>l_insyscall := True\<rparr>))))
      else
        tbind (fill_regset c K pid l) (\<lambda>l1.
        tbind (read_long (read_retval_or_kill c K pid) l1) (\<lambda>(rval, error).
        tbind (tcheck (\<lambda>s. Ret (check_retval_equal_or_kill K pid rval (retval_expected pid) error error_expected s)))
          (\<lambda>_. worked K pid l1))))"

definition test_read_retval_good ::
    "pink_config \<Rightarrow> ('l::len word, 'k) kernel \<Rightarrow> 'k check_calls \<Rightarrow> ('f, 'k) check \<Rightarrow> ('l word, 'f, 'k) tested" where
  "test_read_retval_good c K F s =
     (case lookup_or_fail c ''getpid'' ''test_read_retval_good'' 98 s of
        (sys_getpid, s1) \<Rightarrow>
          traced_test c K F True
            (sysgood_program False (retval_stop c K sys_getpid (\<lambda>_ _. treturn ()) word_of_int 0))
            (Call ''syscall'' [Val sys_getpid] (\<lambda>_ _. Exit 0))
            ''Test for reading success return value failed'' ''test_read_retval_good'' 142 s1)"

definition test_read_retval_fail ::
    "pink_config \<Rightarrow> ('l::len word, 'k) kernel \<Rightarrow> 'k check_calls \<Rightarrow> ('f, 'k) check \<Rightarrow> ('l word, 'f, 'k) tested" where
  "test_read_retval_fail c K F s =
     (case lookup_or_fail c ''openat'' ''test_read_retval_fail'' 160 s of
        (sys_openat, s1) \<Rightarrow>
          traced_test c K F True
            (sysgood_program False (retval_stop c K sys_openat (\<lambda>_ _. treturn ()) (\<lambda>_. - 1) EFAULT))
            (Call ''syscall'' [Val sys_openat, Val 0, Val 0, Val 0] (\<lambda>_ _. Exit 0))
            ''Test for reading error return value failed'' ''test_read_retval_fail'' 204 s1)"

definition test_read_argument ::
    "pink_config \<Rightarrow> ('l::len word, 'k) kernel \<Rightarrow> 'k check_calls \<Rightarrow> nat \<Rightarrow> ('f, 'k) check \<Rightarrow> ('l word, 'f, 'k) tested" where
  "test_read_argument c K F arg_index =
     traced_test c K F True
       (sysgood_program False (memory_stop c K arg_index (\<lambda>pid _ argval.
          tcheck (\<lambda>s. Ret (check_argument_equal_or_kill K pid argval 0xbad s)))))
       (syscall_with c zeros_and_minus_one arg_index (Val 0xbad) 0)
       ''Test for reading syscall argument failed'' ''test_read_argument'' 265"

definition test_read_vm_data ::
    "pink_config \<Rightarrow> ('l::len word, 'k) kernel \<Rightarrow> 'k check_calls \<Rightarrow> (nat \<Rightarrow> byte list) \<Rightarrow> nat \<Rightarrow> ('f, 'k) check \<Rightarrow>
     ('l word, 'f, 'k) tested" where
  "test_read_vm_data c K F stack arg_index =
     traced_test c K F True
       (sysgood_program True (memory_stop c K arg_index (\<lambda>pid regset argval.
          tbind (tcall_out (read_vm_data_or_kill c K pid regset argval (stack 10) 10)) (\<lambda>newstr.
            tcheck (check_memory_equal_or_kill K pid newstr expstr_pinktrace 10)))))
       (syscall_with c zeros_and_minus_one arg_index (Pointer expstr_pinktrace) 1)
       ''Test for reading VM data failed'' ''test_read_vm_data'' 328"

definition test_read_vm_data_nul ::
    "pink_config \<Rightarrow> ('l::len word, 'k) kernel \<Rightarrow> 'k check_calls \<Rightarrow> (nat \<Rightarrow> byte list) \<Rightarrow> nat \<Rightarrow> ('f, 'k) check \<Rightarrow>
     ('l word, 'f, 'k) tested" where
  "test_read_vm_data_nul c K F stack arg_index =
     traced_test c K F True
       (sysgood_program True (memory_stop c K arg_index (\<lambda>pid regset argval.
          tbind (tcall_out (\<lambda>s. obind (read_vm_data_nul_or_kill c K pid regset argval (stack 11) 11 s) (\<lambda>(_, d, s'). Ret (d, s'))))
            (\<lambda>newstr. tcheck (check_string_equal_or_kill K pid newstr expstr_nul 6)))))
       (syscall_with c zeros_and_minus_one arg_index (Pointer expstr_nul) 0)
       ''Test for reading nul-terminated VM data failed'' ''test_read_vm_data_nul'' 393"

definition test_read_vm_data_nul_long ::
    "pink_config \<Rightarrow> ('l::len word, 'k) kernel \<Rightarrow> 'k check_calls \<Rightarrow> (nat \<Rightarrow> byte list) \<Rightarrow> nat \<Rightarrow> ('f, 'k) check \<Rightarrow>
     ('l word, 'f, 'k) tested" where
  "test_read_vm_data_nul_long c K F stack arg_index =
     (let l = sizeof_long TYPE('l) + 9 in
      traced_test c K F True
        (sysgood_program True (memory_stop c K arg_index (\<lambda>pid regset argval.
           tbind (tcall_out (\<lambda>s. obind (read_vm_data_nul_or_kill c K pid regset argval (stack PATH_MAX) l s)
                     (\<lambda>(r, d, s'). Ret ((r, d), s'))))
             (\<lambda>(r, newstr). check_long_string K pid r l newstr))))
        (syscall_with c (replicate 6 3) arg_index (Pointer (expstr_long TYPE('l))) 0)
        ''Test for reading nul-terminated VM data subsequently failed'' ''test_read_vm_data_nul_long'' 483)"

text \<open>The loop over the array. \<open>nullptr\<close> keeps what an earlier element stored; the last element is null.\<close>

fun string_array_loop ::
    "pink_config \<Rightarrow> ('l::len word, 'k) kernel \<Rightarrow> byte list \<Rightarrow> (nat \<Rightarrow> byte list) \<Rightarrow> int \<Rightarrow> pink_regset \<Rightarrow> 'l word \<Rightarrow>
     bool option \<Rightarrow> nat \<Rightarrow> byte list option list \<Rightarrow> ('f, 'k, unit) step" where
  "string_array_loop c K cp0 stack pid regset argval nullptr i [] = treturn ()"
| "string_array_loop c K cp0 stack pid regset argval nullptr i (e # es) =
     tbind (tcall_out (\<lambda>s. obind (read_string_array_or_kill c K cp0 pid regset argval i (stack 12) 12 s)
              (\<lambda>(d, np, s'). Ret ((d, np), s')))) (\<lambda>(d, np).
     let nullptr' = (if np = None then nullptr else np) in
     tbind (tdefined nullptr') (\<lambda>null.
       if null \<and> es = [] then treturn ()
       else
         tbind
           (if null
            then tdo (\<lambda>s. fail_verbose ''unexpected NULL pointer'' ''test_read_string_array'' 556 (do_kill K pid SIGKILL s))
            else treturn ()) (\<lambda>_.
         tbind (tdefined e) (\<lambda>str.
         tbind (tcheck (check_string_equal_or_kill K pid d str 5)) (\<lambda>_.
           string_array_loop c K cp0 stack pid regset argval nullptr' (i + 1) es)))))"

definition test_read_string_array ::
    "pink_config \<Rightarrow> ('l::len word, 'k) kernel \<Rightarrow> 'k check_calls \<Rightarrow> byte list \<Rightarrow> (nat \<Rightarrow> byte list) \<Rightarrow> nat \<Rightarrow> ('f, 'k) check \<Rightarrow>
     ('l word, 'f, 'k) tested" where
  "test_read_string_array c K F cp0 stack arg_index =
     traced_test c K F True
       (sysgood_program True (memory_stop c K arg_index (\<lambda>pid regset argval.
          string_array_loop c K cp0 stack pid regset argval None 0 [Some expstr_nul, None])))
       (syscall_with c zeros_and_minus_one arg_index (Pointers [expstr_nul]) 0)
       ''Test for reading NULL-terminated string array failed'' ''test_read_string_array'' 571"

section \<open>write-TEST.c\<close>

text \<open>
  The two cases of \<open>test_write_syscall\<close>: the call made, the call it is changed to and the
  error expected. Any other number is an abort.
\<close>

definition write_syscall_case ::
    "pink_config \<Rightarrow> nat \<Rightarrow> ('f, 'k) check \<Rightarrow> ('f, 'k) check + ('l::len word \<times> 'l word \<times> int \<times> 'l word call_arg list) \<times> ('f, 'k) check" where
  "write_syscall_case c test s =
     (if test = 0
      then
        (case lookup_or_fail c ''getpid'' ''test_write_syscall'' 50 s of
           (test_call, s1) \<Rightarrow> Inr ((test_call, invalid_syscall c, ENOSYS, []), s1))
      else if test = 1
      then
        (case lookup_or_fail c ''openat'' ''test_write_syscall'' 56 s of
           (change_call, s1) \<Rightarrow>
             (case lookup_or_fail c ''lseek'' ''test_write_syscall'' 59 s1 of
                (test_call, s2) \<Rightarrow> Inr ((test_call, change_call, EFAULT, [Val 0, Val 0, Val 0]), s2)))
      else Inl (fail_verbose ''invalid loop number'' ''test_write_syscall'' 61 s))"

definition test_write_syscall ::
    "pink_config \<Rightarrow> ('l::len word, 'k) kernel \<Rightarrow> 'k check_calls \<Rightarrow> nat \<Rightarrow> ('f, 'k) check \<Rightarrow> ('l word, 'f, 'k) tested" where
  "test_write_syscall c K F test s =
     (case write_syscall_case c test s of
        Inl s1 \<Rightarrow> Some (Inr (Ret (Inl s1)))
      | Inr ((test_call, change_call, errno_expected, args), s1) \<Rightarrow>
          traced_test c K F True
            (sysgood_program True (retval_stop c K test_call
               (\<lambda>pid regset. tdo (write_syscall_or_kill c K pid regset change_call)) (\<lambda>_. - 1) errno_expected))
            (Call ''syscall'' (Val test_call # args) (\<lambda>_ _. Exit 0))
            ''Test for writing system call failed'' ''test_write_syscall'' 118 s1)"

text \<open>
  \<open>test_write_retval\<close>: the second stop changes the result, and the child tells by its
  exit status what it got. The \<open>int retval\<close> of the child is compared with a \<open>long\<close>.
\<close>

definition write_retval_stop ::
    "pink_config \<Rightarrow> ('l::len word, 'k) kernel \<Rightarrow> 'l word \<Rightarrow> 32 word \<Rightarrow> int \<Rightarrow> int \<Rightarrow> 32 word \<Rightarrow> test_locals \<Rightarrow>
     ('f, 'k, bool \<times> test_locals) step" where
  "write_retval_stop c K change_retval change_error pid sig status l =
     (if l_write_done l \<or> sig \<noteq> SIGTRAP_SYSGOOD then treturn (False, l)
      else if \<not> l_insyscall l then treturn (False, l\<lparr>l_insyscall := True\<rparr>)
      else
        tbind (fill_regset c K pid l) (\<lambda>l1.
        tbind (tdefined (l_regset l1)) (\<lambda>regset.
        tbind (tcall_out (write_retval_or_kill c K pid regset change_retval change_error)) (\<lambda>regset'.
          treturn (False, l1\<lparr>l_regset := Some regset', l_write_done := True\<rparr>)))))"

definition write_retval_child :: "'l::len word \<Rightarrow> 'l word \<Rightarrow> 32 word \<Rightarrow> 'l word child" where
  "write_retval_child sys_getpid change_retval change_error =
     Call ''syscall'' [Val sys_getpid] (\<lambda>r e.
       if (scast (ucast r :: 32 word) :: 'l word) \<noteq> change_retval \<or> e \<noteq> sint change_error then Exit 1 else Exit 0)"

definition test_write_retval ::
    "pink_config \<Rightarrow> ('l::len word, 'k) kernel \<Rightarrow> 'k check_calls \<Rightarrow> nat \<Rightarrow> ('f, 'k) check \<Rightarrow> ('l word, 'f, 'k) tested" where
  "test_write_retval c K F test s =
     (case lookup_or_fail c ''getpid'' ''test_write_retval'' 145 s of
        (sys_getpid, s1) \<Rightarrow>
          (let (change_retval, change_error) = (if test = 0 then (0xdead, 0) else (- 1, word_of_int EPERM)) in
           traced_test c K F True
             \<lparr>tp_options = PINK_TRACE_OPTION_SYSGOOD, tp_kill_tracee = True, tp_exit_works = True,
              tp_stop = write_retval_stop c K change_retval change_error\<rparr>
             (write_retval_child sys_getpid change_retval change_error)
             ''Test for reading return value failed'' ''test_write_retval'' 207 s1))"

text \<open>
  \<open>test_write_argument\<close> reads the argument back at once and again at the exit of the call,
  but on AArch64 only at once.
\<close>

definition check_argument :: "pink_config \<Rightarrow> ('l::len word, 'k) kernel \<Rightarrow> nat \<Rightarrow> 'l word \<Rightarrow> int \<Rightarrow> test_locals \<Rightarrow> ('f, 'k, test_locals) step" where
  "check_argument c K arg_index newval pid l =
     tbind (fill_regset c K pid l) (\<lambda>l1.
     tbind (read_arg c K pid arg_index l1) (\<lambda>argval.
     tbind (tcheck (\<lambda>s. Ret (check_argument_equal_or_kill K pid argval newval s))) (\<lambda>_. treturn l1)))"

definition write_argument_stop ::
    "pink_config \<Rightarrow> ('l::len word, 'k) kernel \<Rightarrow> nat \<Rightarrow> int \<Rightarrow> test_locals \<Rightarrow> ('f, 'k, bool \<times> test_locals) step" where
  "write_argument_stop c K arg_index pid l =
     (if \<not> l_insyscall l
      then
        tbind (at_syscall c K pid (invalid_syscall c) l) (\<lambda>l1.
        tbind (tdefined (l_regset l1)) (\<lambda>regset.
        tbind (tcall_out (write_argument_or_kill c K pid regset arg_index 0xbad)) (\<lambda>regset'.
        tbind (check_argument c K arg_index 0xbad pid (l1\<lparr>l_regset := Some regset'\<rparr>)) (\<lambda>l2.
          treturn (False, l2\<lparr>l_insyscall := True, l_worked := l_worked l2 \<or> cfg_arch c = AARCH64\<rparr>)))))
      else if cfg_arch c = AARCH64 then tbind (tdo (do_kill K pid SIGKILL)) (\<lambda>_. treturn (True, l))
      else tbind (check_argument c K arg_index 0xbad pid l) (worked K pid))"

definition test_write_argument ::
    "pink_config \<Rightarrow> ('l::len word, 'k) kernel \<Rightarrow> 'k check_calls \<Rightarrow> nat \<Rightarrow> ('f, 'k) check \<Rightarrow> ('l word, 'f, 'k) tested" where
  "test_write_argument c K F arg_index =
     traced_test c K F True (sysgood_program True (write_argument_stop c K arg_index))
       (syscall_with c zeros_and_minus_one arg_index (Val 0xaaa) 0)
       ''Test for writing syscall argument failed'' ''test_write_argument'' 286"

text \<open>A difference in \<open>test_write_vm_data\<close> is reported, and the test is taken to have worked.\<close>

definition newstr_tracepink :: "byte list" where
  "newstr_tracepink = map of_char ''tracepink'' @ [0]"

definition strcmp_zero :: "byte list \<Rightarrow> byte list \<Rightarrow> bool outcome" where
  "strcmp_zero a b = strncmp_zero a b (Suc (length a))"

definition check_vm_data ::
    "pink_config \<Rightarrow> ('l::len word, 'k) kernel \<Rightarrow> (nat \<Rightarrow> byte list) \<Rightarrow> int \<Rightarrow> int \<Rightarrow> pink_regset \<Rightarrow> 'l word \<Rightarrow> ('f, 'k, unit) step" where
  "check_vm_data c K stack line pid regset argval =
     tbind (tcall_out (read_vm_data_or_kill c K pid regset argval (stack 10) 10)) (\<lambda>getstr.
     tbind (\<lambda>s. obind (strcmp_zero newstr_tracepink getstr) (\<lambda>eq. treturn eq s)) (\<lambda>eq.
       if eq then treturn ()
       else tdo (\<lambda>s. fail_verbose ''VM data not identical'' ''test_write_vm_data'' line (do_kill K pid SIGKILL s))))"

definition write_vm_data_stop ::
    "pink_config \<Rightarrow> ('l::len word, 'k) kernel \<Rightarrow> (nat \<Rightarrow> byte list) \<Rightarrow> (nat \<Rightarrow> byte list) \<Rightarrow> nat \<Rightarrow> int \<Rightarrow> test_locals \<Rightarrow>
     ('f, 'k, bool \<times> test_locals) step" where
  "write_vm_data_stop c K junk stack arg_index pid l =
     (if \<not> l_insyscall l
      then
        tbind (at_syscall c K pid (invalid_syscall c) l) (\<lambda>l1.
        tbind (read_arg c K pid arg_index l1) (\<lambda>argval.
        tbind (tdefined (l_regset l1)) (\<lambda>regset.
        tbind (tcall_out (\<lambda>s. obind (write_vm_data_or_kill c K junk pid regset argval newstr_tracepink 10 s)
                 (\<lambda>s'. Ret ((), s')))) (\<lambda>_.
        tbind (if cfg_arch c = AARCH64 then check_vm_data c K stack 348 pid regset argval else treturn ()) (\<lambda>_.
          treturn (False, l1\<lparr>l_insyscall := True, l_worked := l_worked l1 \<or> cfg_arch c = AARCH64\<rparr>))))))
      else if cfg_arch c = AARCH64 then tbind (tdo (do_kill K pid SIGKILL)) (\<lambda>_. treturn (True, l))
      else
        tbind (fill_regset c K pid l) (\<lambda>l1.
        tbind (read_arg c K pid arg_index l1) (\<lambda>argval.
        tbind (tdefined (l_regset l1)) (\<lambda>regset.
        tbind (check_vm_data c K stack 363 pid regset argval) (\<lambda>_. worked K pid l1)))))"

definition test_write_vm_data ::
    "pink_config \<Rightarrow> ('l::len word, 'k) kernel \<Rightarrow> 'k check_calls \<Rightarrow> (nat \<Rightarrow> byte list) \<Rightarrow> (nat \<Rightarrow> byte list) \<Rightarrow> nat \<Rightarrow>
     ('f, 'k) check \<Rightarrow> ('l word, 'f, 'k) tested" where
  "test_write_vm_data c K F junk stack arg_index =
     traced_test c K F True (sysgood_program True (write_vm_data_stop c K junk stack arg_index))
       (syscall_with c zeros_and_minus_one arg_index (Pointer expstr_pinktrace) 0)
       ''Test for writing VM data to argument failed'' ''test_write_vm_data'' 377"

section \<open>socket-TEST.c\<close>

text \<open>
  \<^verbatim>\<open>sys/syscall.h\<close> decides whether the calls go through \<open>socketcall(2)\<close>, and has their
  numbers where they do not.
\<close>

datatype test_sys = TEST_SYS_BIND | TEST_SYS_CONNECT | TEST_SYS_SENDTO

record 'l sys_calls =
  SYS_socketcall :: bool
  SYS_number :: "test_sys \<Rightarrow> 'l"

fun test_sys_index :: "test_sys \<Rightarrow> nat" where
  "test_sys_index TEST_SYS_BIND = 1"
| "test_sys_index TEST_SYS_CONNECT = 1"
| "test_sys_index TEST_SYS_SENDTO = 4"

fun test_sys_name :: "test_sys \<Rightarrow> string" where
  "test_sys_name TEST_SYS_BIND = ''bind''"
| "test_sys_name TEST_SYS_CONNECT = ''connect''"
| "test_sys_name TEST_SYS_SENDTO = ''sendto''"

definition subcall_expected :: "'l::len word sys_calls \<Rightarrow> test_sys \<Rightarrow> 'l word" where
  "subcall_expected Y test_sys =
     (if SYS_socketcall Y
      then word_of_int (subcall_value
             (case test_sys of TEST_SYS_BIND \<Rightarrow> SUBCALL_BIND | TEST_SYS_CONNECT \<Rightarrow> SUBCALL_CONNECT
              | TEST_SYS_SENDTO \<Rightarrow> SUBCALL_SENDTO))
      else SYS_number Y test_sys)"

definition check_socketcall_equal_or_kill ::
    "('l::len word, 'k) kernel \<Rightarrow> 'l word sys_calls \<Rightarrow> int \<Rightarrow> test_sys \<Rightarrow> 'l word \<Rightarrow> ('f, 'k) check \<Rightarrow> ('f, 'k) checked" where
  "check_socketcall_equal_or_kill K Y pid test_sys subcall s =
     (if subcall = subcall_expected Y test_sys then Inr s
      else kill_and_abort K pid ''unexpected socketcall'' ''check_socketcall_equal_or_kill'' 91 s)"

text \<open>The child calls the function with the address, or NULL, and its length.\<close>

definition socket_child :: "test_sys \<Rightarrow> 'l::len word call_arg \<Rightarrow> nat \<Rightarrow> 'l word child" where
  "socket_child test_sys addr socklen =
     Call (test_sys_name test_sys)
       (Val 23 # (if test_sys = TEST_SYS_SENDTO then [Val 0xbad, Val 0xbad, Val 0xbad] else []) @ [addr, Val (of_nat socklen)])
       (\<lambda>_ _. Exit 0)"

text \<open>A difference is reported after the child was killed, and the test goes on.\<close>

definition report_if :: "('l::len word, 'k) kernel \<Rightarrow> int \<Rightarrow> string \<Rightarrow> string \<Rightarrow> int \<Rightarrow> bool \<Rightarrow> ('f, 'k, unit) step" where
  "report_if K pid msg func line differs =
     (if differs then tdo (\<lambda>s. fail_verbose msg func line (do_kill K pid SIGKILL s)) else treturn ())"

text \<open>
  The stop: the descriptor, which is 23, and the family are compared, at the lines given,
  and the rest of the address by \<open>rest\<close>.
\<close>

definition socket_stop ::
    "pink_config \<Rightarrow> ('l::len word, 'k) kernel \<Rightarrow> 'l word sys_calls \<Rightarrow> pink_sockaddr \<Rightarrow> test_sys \<Rightarrow> string \<Rightarrow> int \<Rightarrow> int \<Rightarrow>
     32 word \<Rightarrow> (int \<Rightarrow> byte list \<Rightarrow> ('f, 'k, unit) step) \<Rightarrow> int \<Rightarrow> test_locals \<Rightarrow> ('f, 'k, bool \<times> test_locals) step" where
  "socket_stop c K Y addr0 test_sys func fd_line family_line family rest pid l =
     tbind (fill_regset c K pid l) (\<lambda>l1.
     tbind (read_long (\<lambda>regset. read_socket_subcall_or_kill c K pid regset (SYS_socketcall Y)) l1) (\<lambda>subcall.
     tbind (tcheck (\<lambda>s. Ret (check_socketcall_equal_or_kill K Y pid test_sys subcall s))) (\<lambda>_.
     tbind (tdefined (l_regset l1)) (\<lambda>regset.
     tbind (tcall_out (\<lambda>s. obind (read_socket_address_or_kill c K pid regset (SYS_socketcall Y) (test_sys_index test_sys)
                                      True addr0 s) (\<lambda>(fd, addr, s'). Ret ((fd, addr), s')))) (\<lambda>(fd, newaddr).
     tbind (tdefined fd) (\<lambda>newfd.
     tbind (report_if K pid ''File descriptors not equal'' func fd_line (newfd \<noteq> 23)) (\<lambda>_.
     tbind (report_if K pid ''Address families not equal'' func family_line (sa_family newaddr \<noteq> family)) (\<lambda>_.
     tbind (rest pid (sa_pad newaddr)) (\<lambda>_. worked K pid l1)))))))))"

definition socket_test ::
    "pink_config \<Rightarrow> ('l::len word, 'k) kernel \<Rightarrow> 'k check_calls \<Rightarrow> 'l word sys_calls \<Rightarrow> pink_sockaddr \<Rightarrow> test_sys \<Rightarrow> string \<Rightarrow>
     int \<Rightarrow> int \<Rightarrow> int \<Rightarrow> 32 word \<Rightarrow> (int \<Rightarrow> byte list \<Rightarrow> ('f, 'k, unit) step) \<Rightarrow> 'l word call_arg \<Rightarrow> nat \<Rightarrow>
     ('f, 'k) check \<Rightarrow> ('l word, 'f, 'k) tested" where
  "socket_test c K F Y addr0 test_sys func fd_line family_line end_line family rest addr socklen =
     traced_test c K F True
       (sysgood_program True (socket_stop c K Y addr0 test_sys func fd_line family_line family rest))
       (socket_child test_sys addr socklen) ''Test for reading socket address failed'' func end_line"

definition test_read_socket_address_af_null ::
    "pink_config \<Rightarrow> ('l::len word, 'k) kernel \<Rightarrow> 'k check_calls \<Rightarrow> 'l word sys_calls \<Rightarrow> pink_sockaddr \<Rightarrow> test_sys \<Rightarrow>
     ('f, 'k) check \<Rightarrow> ('l word, 'f, 'k) tested" where
  "test_read_socket_address_af_null c K F Y addr0 test_sys =
     socket_test c K F Y addr0 test_sys ''test_read_socket_address_af_null'' 168 174 187 (- 1) (\<lambda>_ _. treturn ()) (Val 0) 0"

text \<open>
  The addresses of the child: the family in the order of the machine, what the test
  stores, and what the structure held before.
\<close>

definition family_bytes :: "pink_config \<Rightarrow> 16 word \<Rightarrow> byte list" where
  "family_bytes c family = to_bytes (big_endian c) 2 family"

definition sockaddr_arg :: "nat \<Rightarrow> byte list \<Rightarrow> (nat \<Rightarrow> byte list) \<Rightarrow> 'l::len word call_arg" where
  "sockaddr_arg socklen stored stack = Pointer (take socklen (stored @ drop (length stored) (stack 128)))"

definition path_pinktrace :: "byte list" where
  "path_pinktrace = map of_char ''pinktrace'' @ [0]"

definition test_read_socket_address_af_unix ::
    "pink_config \<Rightarrow> ('l::len word, 'k) kernel \<Rightarrow> 'k check_calls \<Rightarrow> 'l word sys_calls \<Rightarrow> (nat \<Rightarrow> byte list) \<Rightarrow> pink_sockaddr \<Rightarrow>
     test_sys \<Rightarrow> ('f, 'k) check \<Rightarrow> ('l word, 'f, 'k) tested" where
  "test_read_socket_address_af_unix c K F Y stack addr0 test_sys =
     socket_test c K F Y addr0 test_sys ''test_read_socket_address_af_unix'' 264 270 291 1
       (\<lambda>pid pad. tbind (\<lambda>s. obind (strcmp_zero (drop 2 pad) path_pinktrace) (\<lambda>eq. treturn eq s)) (\<lambda>eq.
          report_if K pid ''AF_UNIX paths not identical'' ''test_read_socket_address_af_unix'' 278 (\<not> eq)))
       (sockaddr_arg 16 (family_bytes c 1 @ path_pinktrace) stack) 16"

definition test_read_socket_address_af_unixabs ::
    "pink_config \<Rightarrow> ('l::len word, 'k) kernel \<Rightarrow> 'k check_calls \<Rightarrow> 'l word sys_calls \<Rightarrow> (nat \<Rightarrow> byte list) \<Rightarrow> pink_sockaddr \<Rightarrow>
     test_sys \<Rightarrow> ('f, 'k) check \<Rightarrow> ('l word, 'f, 'k) tested" where
  "test_read_socket_address_af_unixabs c K F Y stack addr0 test_sys =
     socket_test c K F Y addr0 test_sys ''test_read_socket_address_af_unixabs'' 369 375 402 1
       (\<lambda>pid pad.
          tbind (report_if K pid ''AF_UNIX path not abstract'' ''test_read_socket_address_af_unixabs'' 382 (take 1 (drop 2 pad) \<noteq> [0])) (\<lambda>_.
          tbind (\<lambda>s. obind (strcmp_zero (drop 3 pad) path_pinktrace) (\<lambda>eq. treturn eq s)) (\<lambda>eq.
            report_if K pid ''AF_UNIX paths not identical'' ''test_read_socket_address_af_unixabs'' 389 (\<not> eq))))
       (sockaddr_arg 16 (family_bytes c 1 @ [0] @ path_pinktrace) stack) 16"

definition woodstock :: "byte list" where
  "woodstock = to_bytes True 2 (1969 :: 16 word)"

definition test_read_socket_address_af_inet ::
    "pink_config \<Rightarrow> ('l::len word, 'k) kernel \<Rightarrow> 'k check_calls \<Rightarrow> 'l word sys_calls \<Rightarrow> (nat \<Rightarrow> byte list) \<Rightarrow> pink_sockaddr \<Rightarrow>
     test_sys \<Rightarrow> ('f, 'k) check \<Rightarrow> ('l word, 'f, 'k) tested" where
  "test_read_socket_address_af_inet c K F Y stack addr0 test_sys =
     socket_test c K F Y addr0 test_sys ''test_read_socket_address_af_inet'' 478 484 505 2
       (\<lambda>pid pad.
          tbind (report_if K pid ''AF_INET ports not equal'' ''test_read_socket_address_af_inet'' 491
                  (take 2 (drop 2 pad) \<noteq> woodstock)) (\<lambda>_.
            tcheck (\<lambda>s. Ret (check_addr_loopback_or_kill c pid (of_bytes (big_endian c) (take 4 (drop 4 pad))) s))))
       (sockaddr_arg 16 (family_bytes c 2 @ woodstock @ to_bytes True 4 INADDR_LOOPBACK) stack) 16"

text \<open>The last two tests do nothing where the families are not supported.\<close>

definition unless_skipped :: "bool \<Rightarrow> (('f, 'k) check \<Rightarrow> ('l, 'f, 'k) tested) \<Rightarrow> ('f, 'k) check \<Rightarrow> ('l, 'f, 'k) tested" where
  "unless_skipped have test s = (if have then test s else Some (Inr (Ret (Inr s))))"

definition test_read_socket_address_af_inet6 ::
    "pink_config \<Rightarrow> ('l::len word, 'k) kernel \<Rightarrow> 'k check_calls \<Rightarrow> 'l word sys_calls \<Rightarrow> (nat \<Rightarrow> byte list) \<Rightarrow> pink_sockaddr \<Rightarrow>
     test_sys \<Rightarrow> ('f, 'k) check \<Rightarrow> ('l word, 'f, 'k) tested" where
  "test_read_socket_address_af_inet6 c K F Y stack addr0 test_sys =
     unless_skipped (have_feature c HAVE_IPV6)
       (socket_test c K F Y addr0 test_sys ''test_read_socket_address_af_inet6'' 585 591 612 10
          (\<lambda>pid pad.
             tbind (report_if K pid ''AF_INET6 ports not equal'' ''test_read_socket_address_af_inet6'' 598
                     (take 2 (drop 2 pad) \<noteq> woodstock)) (\<lambda>_.
               tcheck (\<lambda>s. Ret (check_addr6_loopback_or_kill pid (take 16 (drop 8 pad)) s))))
          (sockaddr_arg 28
             (family_bytes c 10 @ woodstock @ take 4 (drop 4 (stack 128)) @ replicate 15 0 @ [1]) stack) 28)"

definition test_read_socket_address_af_netlink ::
    "pink_config \<Rightarrow> ('l::len word, 'k) kernel \<Rightarrow> 'k check_calls \<Rightarrow> 'l word sys_calls \<Rightarrow> (nat \<Rightarrow> byte list) \<Rightarrow> pink_sockaddr \<Rightarrow>
     test_sys \<Rightarrow> ('f, 'k) check \<Rightarrow> ('l word, 'f, 'k) tested" where
  "test_read_socket_address_af_netlink c K F Y stack addr0 test_sys =
     unless_skipped (have_feature c HAVE_NETLINK)
       (socket_test c K F Y addr0 test_sys ''test_read_socket_address_af_netlink'' 693 699 726 16
          (\<lambda>pid pad.
             tbind (report_if K pid ''AF_NETLINK pids not equal'' ''test_read_socket_address_af_netlink'' 706
                     ((of_bytes (big_endian c) (take 4 (drop 4 pad)) :: 32 word) \<noteq> 3)) (\<lambda>_.
               report_if K pid ''AF_NETLINK groups not equal'' ''test_read_socket_address_af_netlink'' 713
                 ((of_bytes (big_endian c) (take 4 (drop 8 pad)) :: 32 word) \<noteq> 3)))
          (sockaddr_arg 12
             (family_bytes c 16 @ take 2 (drop 2 (stack 128)) @ to_bytes (big_endian c) 4 (3 :: 32 word) @
              to_bytes (big_endian c) 4 (3 :: 32 word)) stack) 12)"

section \<open>Fixtures\<close>

text \<open>
  The functions as values: the tests, with the number \<open>_i\<close> they are run with, in the order of
  the fixtures, and \<open>all_tests\<close>.
\<close>

datatype test_fn =
    Test_trace_clone | Test_trace_sysgood | Test_trace_exec
  | Test_vm_lread nat | Test_vm_lread_nul nat | Test_vm_lread_nul_long nat
  | Test_read_syscall | Test_read_retval_good | Test_read_retval_fail | Test_read_argument nat
  | Test_read_vm_data nat | Test_read_vm_data_nul nat | Test_read_vm_data_nul_long nat | Test_read_string_array nat
  | Test_write_syscall nat | Test_write_retval nat | Test_write_argument nat | Test_write_vm_data nat
  | Test_read_socket_address_af_null test_sys | Test_read_socket_address_af_unix test_sys
  | Test_read_socket_address_af_unixabs test_sys | Test_read_socket_address_af_inet test_sys
  | Test_read_socket_address_af_inet6 test_sys | Test_read_socket_address_af_netlink test_sys
  | Test_read_write_int | All_tests

definition for_all :: "nat \<Rightarrow> string \<Rightarrow> (nat \<Rightarrow> 'f) \<Rightarrow> (string \<times> 'f) list" where
  "for_all n name f = map (\<lambda>i. (name, f i)) [0..<n]"

definition test_fixture ::
    "(int \<Rightarrow> string) \<Rightarrow> ('f, 'w) sea_run \<Rightarrow> string \<Rightarrow> (string \<times> 'f) list \<Rightarrow> ('f, 'w) seatest \<Rightarrow> ('f, 'w) seatest outcome" where
  "test_fixture digits run file tests s =
     obind (run_list run file tests (seatest_test_fixture_start file s))
       (\<lambda>s'. Ret (seatest_test_fixture_end digits s'))"

definition for_all_sys :: "string \<Rightarrow> (test_sys \<Rightarrow> 'f) \<Rightarrow> (string \<times> 'f) list" where
  "for_all_sys name f = map (\<lambda>t. (name, f t)) [TEST_SYS_BIND, TEST_SYS_CONNECT, TEST_SYS_SENDTO]"

text \<open>The tests of each file, in their order.\<close>

fun suite_tests :: "suite \<Rightarrow> (string \<times> test_fn) list" where
  "suite_tests Suite_trace =
     [(''test_trace_clone'', Test_trace_clone), (''test_trace_sysgood'', Test_trace_sysgood),
      (''test_trace_exec'', Test_trace_exec)]"
| "suite_tests Suite_vm =
     for_all PINK_MAX_ARGS ''test_vm_lread'' Test_vm_lread @
     for_all PINK_MAX_ARGS ''test_vm_lread_nul'' Test_vm_lread_nul @
     for_all PINK_MAX_ARGS ''test_vm_lread_nul_long'' Test_vm_lread_nul_long"
| "suite_tests Suite_read =
     [(''test_read_syscall'', Test_read_syscall), (''test_read_retval_good'', Test_read_retval_good),
      (''test_read_retval_fail'', Test_read_retval_fail)] @
     for_all PINK_MAX_ARGS ''test_read_argument'' Test_read_argument @
     for_all PINK_MAX_ARGS ''test_read_vm_data'' Test_read_vm_data @
     for_all PINK_MAX_ARGS ''test_read_vm_data_nul'' Test_read_vm_data_nul @
     for_all PINK_MAX_ARGS ''test_read_vm_data_nul_long'' Test_read_vm_data_nul_long @
     for_all PINK_MAX_ARGS ''test_read_string_array'' Test_read_string_array"
| "suite_tests Suite_write =
     for_all 2 ''test_write_syscall'' Test_write_syscall @
     for_all 2 ''test_write_retval'' Test_write_retval @
     for_all PINK_MAX_ARGS ''test_write_argument'' Test_write_argument @
     for_all PINK_MAX_ARGS ''test_write_vm_data'' Test_write_vm_data"
| "suite_tests Suite_socket =
     for_all_sys ''test_read_socket_address_af_null'' Test_read_socket_address_af_null @
     for_all_sys ''test_read_socket_address_af_unix'' Test_read_socket_address_af_unix @
     for_all_sys ''test_read_socket_address_af_unixabs'' Test_read_socket_address_af_unixabs @
     for_all_sys ''test_read_socket_address_af_inet'' Test_read_socket_address_af_inet @
     for_all_sys ''test_read_socket_address_af_inet6'' Test_read_socket_address_af_inet6 @
     for_all_sys ''test_read_socket_address_af_netlink'' Test_read_socket_address_af_netlink"
| "suite_tests Suite_pipe = [(''test_read_write_int'', Test_read_write_int)]"

definition test_suite_trace ::
    "(int \<Rightarrow> string) \<Rightarrow> (test_fn, 'w) sea_run \<Rightarrow> (test_fn, 'w) seatest \<Rightarrow> (test_fn, 'w) seatest outcome" where
  "test_suite_trace digits run = test_fixture digits run ''trace-TEST.c'' (suite_tests Suite_trace)"

definition test_suite_vm ::
    "(int \<Rightarrow> string) \<Rightarrow> (test_fn, 'w) sea_run \<Rightarrow> (test_fn, 'w) seatest \<Rightarrow> (test_fn, 'w) seatest outcome" where
  "test_suite_vm digits run = test_fixture digits run ''vm-TEST.c'' (suite_tests Suite_vm)"

definition test_suite_read ::
    "(int \<Rightarrow> string) \<Rightarrow> (test_fn, 'w) sea_run \<Rightarrow> (test_fn, 'w) seatest \<Rightarrow> (test_fn, 'w) seatest outcome" where
  "test_suite_read digits run = test_fixture digits run ''read-TEST.c'' (suite_tests Suite_read)"

definition test_suite_write ::
    "(int \<Rightarrow> string) \<Rightarrow> (test_fn, 'w) sea_run \<Rightarrow> (test_fn, 'w) seatest \<Rightarrow> (test_fn, 'w) seatest outcome" where
  "test_suite_write digits run = test_fixture digits run ''write-TEST.c'' (suite_tests Suite_write)"

definition test_suite_socket ::
    "(int \<Rightarrow> string) \<Rightarrow> (test_fn, 'w) sea_run \<Rightarrow> (test_fn, 'w) seatest \<Rightarrow> (test_fn, 'w) seatest outcome" where
  "test_suite_socket digits run = test_fixture digits run ''socket-TEST.c'' (suite_tests Suite_socket)"

definition test_suite_pipe ::
    "(int \<Rightarrow> string) \<Rightarrow> (test_fn, 'w) sea_run \<Rightarrow> (test_fn, 'w) seatest \<Rightarrow> (test_fn, 'w) seatest outcome" where
  "test_suite_pipe digits run = test_fixture digits run ''pipe-TEST.c'' (suite_tests Suite_pipe)"

end
