(* ===== verification/Pink_Passing.thy ===== *)
theory Pink_Passing
  imports Pink_Tests
begin

text \<open>
  What a test that passes shows, and that one does: a test that reports no failure has had the
  results it checks from the library, and on a kernel as documented the test of the
  arguments passes.
\<close>

section \<open>Failures are never lost\<close>

lemma tbind_Inr_iff:
  "tbind m f s = Ret (Inr x) \<longleftrightarrow> (\<exists>a s1. m s = Ret (Inr (a, s1)) \<and> f a s1 = Ret (Inr x))"
  by (cases "m s") (auto simp: tbind_def split: sum.split)

lemma step_simps [simp]:
  "treturn a s = Ret (Inr x) \<longleftrightarrow> x = (a, s)"
  "tcall f s = Ret (Inr x) \<longleftrightarrow> x = f s"
  "tdo g s = Ret (Inr y) \<longleftrightarrow> y = ((), g s)"
  "tcall_out h s = Ret (Inr x) \<longleftrightarrow> h s = Ret x"
  "tdefined b s = Ret (Inr x) \<longleftrightarrow> (\<exists>a. b = Some a \<and> x = (a, s))"
  by (auto simp: treturn_def tcall_def tdo_def tdefined_def split: option.splits)
    (cases "h s"; auto simp: tcall_out_def)+

lemma tcheck_Inr_iff: "tcheck f s = Ret (Inr x) \<longleftrightarrow> (\<exists>s'. f s = Ret (Inr s') \<and> x = ((), s'))"
  by (cases "f s") (auto simp: tcheck_def split: sum.splits)

lemmas step_iffs = tbind_Inr_iff tcheck_Inr_iff

text \<open>A step that does not lose a failure that was reported, and leaves the settings.\<close>

definition reports :: "('f, 'k, 'a) step \<Rightarrow> bool" where
  "reports m \<longleftrightarrow> (\<forall>s a s'. m s = Ret (Inr (a, s')) \<longrightarrow> grows s s')"

named_theorems reports_intros

lemma reports_tbind [reports_intros]: "reports m \<Longrightarrow> (\<And>a. reports (f a)) \<Longrightarrow> reports (tbind m f)"
  unfolding reports_def tbind_Inr_iff by (meson grows_trans)

lemma reports_if [reports_intros]: "reports m \<Longrightarrow> reports m' \<Longrightarrow> reports (if b then m else m')"
  by simp

lemma reports_simple [reports_intros]: "reports (treturn a)" "reports (tdefined b)"
  by (auto simp: reports_def)

lemma kill_save_errno_simps [simp]:
  "sea_tests_failed (kill_save_errno K pid sig s) = sea_tests_failed s"
  by (simp add: kill_save_errno_def Let_def)

lemma check_settings [simp]:
  "settings (set_world w s) = settings s" "settings (fail_verbose msg func line s) = settings s"
  "settings (do_kill K pid sig s) = settings s" "settings (kill_save_errno K pid sig s) = settings s"
  by (simp_all add: set_world_def fail_verbose_def do_kill_def kill_save_errno_def Let_def)

lemma check_no_hooks [simp]:
  "no_hooks (set_world w s) = no_hooks s" "no_hooks (fail_verbose msg func line s) = no_hooks s"
  "no_hooks (do_kill K pid sig s) = no_hooks s" "no_hooks (kill_save_errno K pid sig s) = no_hooks s"
  by (simp_all add: set_world_def fail_verbose_def do_kill_def kill_save_errno_def Let_def)

lemma or_kill_failed [simp]:
  "sea_tests_failed (or_kill K pid msg func line (r, w) s) = sea_tests_failed s + of_bool (r < 0)"
  by (simp add: or_kill_def Let_def)

lemma or_kill_world: "0 \<le> r \<Longrightarrow> world_of (or_kill K pid msg func line (r, w) s) = w"
  by (simp add: or_kill_def Let_def)

lemma or_kill_call: "sea_tests_failed s \<le> sea_tests_failed (or_kill K pid msg func line call s)"
  by (cases call) simp

lemma or_kill_grows [simp]: "grows s (or_kill K pid msg func line call s)"
  by (cases call) (simp add: grows_def or_kill_def Let_def)

lemma check_grows [simp]:
  "grows s (set_world w s)" "grows s (fail_verbose msg func line s)" "grows s (do_kill K pid sig s)"
  "grows s (kill_save_errno K pid sig s)" "grows s (fail_verbose msg func line (do_kill K pid sig s))"
  by (simp_all add: grows_def)

lemma reports_calls [reports_intros]:
  "reports (tdo (trace_setup_or_kill c K pid options))"
  "reports (tdo (trace_syscall_or_kill K pid sig))"
  "reports (tdo (write_syscall_or_kill c K pid regset sysnum))"
  "reports (tdo (do_kill K pid sig'))"
  "reports (tdo (\<lambda>s. fail_verbose msg func line (do_kill K pid sig' s)))"
  "reports (tcall (trace_geteventmsg_or_kill c K pid data))"
  by (auto simp: reports_def trace_setup_or_kill_def trace_syscall_or_kill_def write_syscall_or_kill_def
      trace_geteventmsg_or_kill_def split: prod.splits)

lemma reports_readers [reports_intros]:
  "reports (tcall_out (regset_fill_or_kill c K pid regset))"
  "reports (tcall_out (\<lambda>s. Ret (read_syscall_or_kill c K pid regset s)))"
  "reports (tcall_out (read_argument_or_kill c K pid regset i))"
  "reports (tcall_out (read_retval_or_kill c K pid regset))"
  "reports (tcall_out (read_vm_data_or_kill c K pid regset addr dest n))"
  "reports (tcall_out (vm_lread_or_kill c K pid regset addr dest n))"
  by (auto simp: reports_def regset_fill_or_kill_def read_syscall_or_kill_def read_argument_or_kill_def
      read_retval_or_kill_def read_vm_data_or_kill_def vm_lread_or_kill_def obind_Ret_iff Let_def split: prod.splits)

text \<open>A check that is passed does nothing.\<close>

lemma checks_passed [simp]:
  "check_syscall_equal_or_kill K pid a b s = Inr s' \<longleftrightarrow> a = b \<and> s' = s"
  "check_argument_equal_or_kill K pid v v' s = Inr s' \<longleftrightarrow> v = v' \<and> s' = s"
  "check_retval_equal_or_kill K pid v v' e e' s = Inr s' \<longleftrightarrow> v = v' \<and> e = e' \<and> s' = s"
  "check_stopped_or_kill K pid status s = Inr s' \<longleftrightarrow> WIFSTOPPED status \<and> s' = s"
  by (auto simp: check_syscall_equal_or_kill_def check_argument_equal_or_kill_def check_retval_equal_or_kill_def
      check_stopped_or_kill_def kill_and_abort_def)

lemma check_memory_passed [simp]:
  "check_memory_equal_or_kill K pid val val' n s = Ret (Inr s') \<longleftrightarrow>
     n \<le> length val \<and> n \<le> length val' \<and> take n val = take n val' \<and> s' = s"
  by (auto simp: check_memory_equal_or_kill_def dump_and_abort_def kill_and_abort_def obind_Ret_iff)

lemma reports_checks [reports_intros]:
  "reports (tcheck (\<lambda>s. Ret (check_syscall_equal_or_kill K pid a b s)))"
  "reports (tcheck (\<lambda>s. Ret (check_argument_equal_or_kill K pid v v' s)))"
  "reports (tcheck (\<lambda>s. Ret (check_retval_equal_or_kill K pid v v' e e' s)))"
  "reports (tcheck (\<lambda>s. Ret (check_stopped_or_kill K pid status s)))"
  "reports (tcheck (check_memory_equal_or_kill K pid val val' n))"
  by (auto simp: reports_def step_iffs)

lemma reports_shared [reports_intros]:
  "reports (fill_regset c K pid l)" "reports (worked K pid l)" "reports (read_arg c K pid i l)"
  "reports (at_syscall c K pid n l)"
  unfolding fill_regset_def worked_def read_arg_def at_syscall_def read_long_def
  by (intro reports_intros)+

section \<open>What a test that reports no failure has seen\<close>

lemma wait_debug_grows: "wait_no_intr_debug F s = Some (r, status, s1) \<Longrightarrow> grows s s1"
  by (auto simp: wait_no_intr_debug_def waitpid_no_intr_debug_def)

text \<open>
  The invariant of the loop that started in \<open>s0\<close>: no failure is lost, and if the test worked and no failure was
  reported, then the stop at which it worked gave the evidence \<open>E\<close>.
\<close>

definition sound_locals :: "('f, 'k) check \<Rightarrow> bool \<Rightarrow> test_locals \<Rightarrow> ('f, 'k) check \<Rightarrow> bool" where
  "sound_locals s0 E l s \<longleftrightarrow> grows s0 s \<and> (l_worked l \<and> sea_tests_failed s = sea_tests_failed s0 \<longrightarrow> E)"

definition sound_stop :: "('f, 'k) test_program \<Rightarrow> int \<Rightarrow> bool \<Rightarrow> bool" where
  "sound_stop T pid E \<longleftrightarrow>
     (\<forall>s0 sig status l leave l' s s'. sound_locals s0 E l s \<longrightarrow>
        tp_stop T pid sig status l s = Ret (Inr ((leave, l'), s')) \<longrightarrow> sound_locals s0 E l' s')"

lemma sound_locals_failed:
  "sound_locals s0 E l s \<Longrightarrow> grows s s' \<Longrightarrow> sound_locals s0 E l s'"
  by (auto simp: sound_locals_def grows_def)

lemma sound_locals_works: "E \<Longrightarrow> sound_locals s0 E l s \<Longrightarrow> sound_locals s0 E l' s"
  by (simp add: sound_locals_def)

lemma test_stopped_sound:
  assumes "sound_stop T pid E" and "sound_locals s0 E l s"
    and "test_stopped c K T pid tracee_pid status l s = Ret (Inr ((leave, l'), s'))"
  shows "sound_locals s0 E l' s'"
proof -
  have opts: "sound_locals s0 E l (trace_setup_or_kill c K pid (tp_options T) s)"
    using assms(2) by (rule sound_locals_failed) (simp add: trace_setup_or_kill_def)
  have run: "sound_locals s0 E l'' (trace_syscall_or_kill K pid 0 t)" if "sound_locals s0 E l'' t" for l'' t
    using that by (rule sound_locals_failed) (simp add: trace_syscall_or_kill_def)
  show ?thesis
    using assms opts run
    by (auto simp: test_stopped_def step_iffs sound_stop_def split: if_splits)
qed

lemma test_round_sound:
  assumes "sound_stop T pid E" and "tp_exit_works T \<longrightarrow> E" and "sound_locals s0 E l s"
    and "test_round c K T pid tracee_pid status l s = Ret (Inr ((leave, l'), s'))"
  shows "sound_locals s0 E l' s'"
  using assms test_stopped_sound [OF assms(1)] sound_locals_works
  by (auto simp: test_round_def check_exit_code_or_fail_def check_signal_or_fail_def
      split: if_splits option.splits)

lemma test_loop_sound:
  assumes "sound_stop T pid E" and "tp_exit_works T \<longrightarrow> E"
  shows "test_loop c K F T pid l s = Some r \<Longrightarrow> r = Ret (Inr (l', s')) \<Longrightarrow> sound_locals s0 E l s \<Longrightarrow> sound_locals s0 E l' s'"
proof -
  have "test_loop c K F T pid l s = Some r \<Longrightarrow> sound_stop T pid E \<Longrightarrow> (tp_exit_works T \<longrightarrow> E) \<Longrightarrow>
      r = Ret (Inr (l', s')) \<Longrightarrow> sound_locals s0 E l s \<Longrightarrow> sound_locals s0 E l' s'"
  proof (induction rule: test_loop.raw_induct [rotated, consumes 1, case_names step])
    case (step loop c K F T pid l s r)
    from step(2) obtain tracee_pid status s1 where w: "wait_no_intr_debug F s = Some (tracee_pid, status, s1)"
      by (auto split: option.splits)
    have s1: "sound_locals s0 E l s1" using step(6) wait_debug_grows [OF w] by (rule sound_locals_failed)
    from step(2,5) w obtain leave l1 s2 where
      round: "test_round c K T pid tracee_pid status l s1 = Ret (Inr ((leave, l1), s2))"
      and rest: "(if leave then Some (Ret (Inr (l1, s2))) else loop c K F T pid l1 s2) = Some r"
      by (auto split: outcome.splits sum.splits prod.splits)
    note s2 = test_round_sound [OF step(3,4) s1 round]
    show ?case
    proof (cases leave)
      case True
      with rest step(5) s2 show ?thesis by simp
    next
      case False
      with rest step(1) [of c K F T pid l1 s2 r] step(3-5) s2 show ?thesis by simp
    qed
  qed
  then show "test_loop c K F T pid l s = Some r \<Longrightarrow> r = Ret (Inr (l', s')) \<Longrightarrow> sound_locals s0 E l s \<Longrightarrow> sound_locals s0 E l' s'"
    using assms by blast
qed

lemma fork_assert_grows: "fork_assert K F s = (pid, s1) \<Longrightarrow> grows s s1"
  by (auto simp: grows_def simp: fork_assert_def Let_def split: prod.splits sum.splits if_splits)

lemma traced_test_sound_locals:
  assumes "traced_test c K F with_regset T child msg func line s = Some (Inr (Ret (Inr s')))"
    and "\<And>pid. tp_exit_works T \<longrightarrow> E pid" and "\<And>pid. sound_stop T pid (E pid)"
  shows "grows s s' \<and> (sea_tests_failed s' = sea_tests_failed s \<longrightarrow> (\<exists>pid. E pid))"
proof -
  obtain pid s1 where fork: "fork_assert K F s = (pid, s1)" by fastforce
  obtain regset s2 where alloc: "(if with_regset then regset_alloc_or_kill c K pid s1 else (None, s1)) = (regset, s2)"
    by fastforce
  have "grows s1 s2" using alloc by (auto simp: regset_alloc_or_kill_def split: if_splits prod.splits)
  then have s2: "grows s s2" by (rule grows_trans [OF fork_assert_grows [OF fork]])
  from assms(1) fork alloc obtain l s3 where
    loop: "test_loop c K F T pid (start_locals regset) s2 = Some (Ret (Inr (l, s3)))" and s': "s' = unless_worked msg func line l s3"
    by (auto simp: traced_test_def fork_test_def end_test_def obind_Ret_iff split: if_splits sum.splits)
  have "sound_locals s (E pid) (start_locals regset) s2"
    using s2 by (simp add: sound_locals_def start_locals_def)
  from test_loop_sound [OF assms(3,2) loop refl this] s'
  show ?thesis by (auto simp: sound_locals_def unless_worked_def grows_def split: if_splits)
qed

lemma traced_test_sound:
  assumes "traced_test c K F with_regset T child msg func line s = Some (Inr (Ret (Inr s')))"
    and "sea_tests_failed s' = sea_tests_failed s" and "\<And>pid. tp_exit_works T \<longrightarrow> E pid" and "\<And>pid. sound_stop T pid (E pid)"
  shows "\<exists>pid. E pid"
  using traced_test_sound_locals [OF assms(1,3,4)] assms(2) by blast

text \<open>
  What the library returned at the stop of a test: the registers were filled, the system
  call is the invalid one, and the argument was read, one after the other.
\<close>

definition argument_read ::
    "pink_config \<Rightarrow> ('l::len word, 'k) kernel \<Rightarrow> int \<Rightarrow> nat \<Rightarrow> pink_regset \<Rightarrow> 'l word \<Rightarrow> 'k world \<Rightarrow> bool" where
  "argument_read c K pid arg_index regset argval w \<longleftrightarrow>
     (\<exists>r0 r1 r2 regset0 w0 w1 w2. 0 \<le> r0 \<and> 0 \<le> r1 \<and> 0 \<le> r2 \<and>
        pink_regset_fill c K pid regset0 w0 = Ret (r0, regset, w1) \<and>
        pink_read_syscall c K pid regset w1 = (r1, Some (invalid_syscall c), w2) \<and>
        pink_read_argument c K pid regset arg_index w2 = Ret (r2, Some argval, w))"

lemma reports_growsD: "reports m \<Longrightarrow> m s = Ret (Inr (a, s')) \<Longrightarrow> grows s s'"
  by (simp add: reports_def)

lemma reportsD: "reports m \<Longrightarrow> m s = Ret (Inr (a, s')) \<Longrightarrow> sea_tests_failed s \<le> sea_tests_failed s'"
  by (auto simp: reports_def grows_def)

lemma or_kill_passed:
  assumes "s' = or_kill K pid msg func line (r, w) s" and "sea_tests_failed s' = sea_tests_failed s"
  shows "0 \<le> r \<and> world_of s' = w"
  using assms by (auto simp: or_kill_world split: if_splits)

lemma fill_regset_passed:
  assumes "fill_regset c K pid l s = Ret (Inr (l', s'))" and "sea_tests_failed s' = sea_tests_failed s"
  shows "\<exists>r regset0 regset. 0 \<le> r \<and> l' = l\<lparr>l_regset := Some regset\<rparr> \<and>
    pink_regset_fill c K pid regset0 (world_of s) = Ret (r, regset, world_of s')"
proof -
  from assms(1) obtain regset0 r regset w where "pink_regset_fill c K pid regset0 (world_of s) = Ret (r, regset, w)"
    "s' = or_kill K pid ''pink_regset_fill'' ''regset_fill_or_kill'' 580 (r, w) s" "l' = l\<lparr>l_regset := Some regset\<rparr>"
    by (auto simp: fill_regset_def step_iffs regset_fill_or_kill_def obind_Ret_iff)
  with or_kill_passed [OF this(2) assms(2)] show ?thesis by auto
qed

lemma read_syscall_passed:
  assumes "read_syscall_or_kill c K pid regset s = (n, s')" and "sea_tests_failed s' = sea_tests_failed s"
  shows "\<exists>r. 0 \<le> r \<and> pink_read_syscall c K pid regset (world_of s) = (r, n, world_of s')"
proof -
  obtain r m w where rd: "pink_read_syscall c K pid regset (world_of s) = (r, m, w)" by (metis surj_pair)
  with assms(1) have "n = m" "s' = or_kill K pid ''pink_read_syscall'' ''read_syscall_or_kill'' 633 (r, w) s"
    by (auto simp: read_syscall_or_kill_def)
  with or_kill_passed [OF this(2) assms(2)] rd show ?thesis by auto
qed

lemma read_argument_passed:
  assumes "read_argument_or_kill c K pid regset i s = Ret (v, s')" and "sea_tests_failed s' = sea_tests_failed s"
  shows "\<exists>r. 0 \<le> r \<and> pink_read_argument c K pid regset i (world_of s) = Ret (r, v, world_of s')"
proof -
  from assms(1) obtain r w where "pink_read_argument c K pid regset i (world_of s) = Ret (r, v, w)"
    "s' = or_kill K pid ''pink_read_argument'' ''read_argument_or_kill'' 663 (r, w) s"
    by (auto simp: read_argument_or_kill_def obind_Ret_iff)
  with or_kill_passed [OF this(2) assms(2)] show ?thesis by auto
qed

lemma read_vm_data_passed:
  assumes "read_vm_data_or_kill c K pid regset addr dest0 n s = Ret (dest, s')" and "sea_tests_failed s' = sea_tests_failed s"
  shows "\<exists>r d w. 0 \<le> r \<and> pink_read_vm_data c K pid regset addr n ((world_of s)\<lparr>errno := 0\<rparr>) = Ret (r, d, w) \<and>
    dest = stored_over d dest0"
proof -
  from assms(1) obtain r d w where "pink_read_vm_data c K pid regset addr n ((world_of s)\<lparr>errno := 0\<rparr>) = Ret (r, d, w)"
    "s' = or_kill K pid ''pink_read_vm_data'' ''read_vm_data_or_kill'' 676 (r, w) s" "dest = stored_over d dest0"
    by (auto simp: read_vm_data_or_kill_def obind_Ret_iff Let_def)
  with or_kill_passed [OF this(2) assms(2)] show ?thesis by auto
qed

lemma at_syscall_passed:
  assumes "at_syscall c K pid n l s = Ret (Inr (l', s'))" and "sea_tests_failed s' = sea_tests_failed s"
  shows "\<exists>r0 r1 regset0 regset w1. 0 \<le> r0 \<and> 0 \<le> r1 \<and> l' = l\<lparr>l_regset := Some regset\<rparr> \<and>
    pink_regset_fill c K pid regset0 (world_of s) = Ret (r0, regset, w1) \<and>
    pink_read_syscall c K pid regset w1 = (r1, Some n, world_of s')"
proof -
  from assms(1) obtain s1 regset where 1: "fill_regset c K pid l s = Ret (Inr (l', s1))" and "l_regset l' = Some regset"
    and 2: "read_syscall_or_kill c K pid regset s1 = (Some n, s')"
    by (auto simp: at_syscall_def read_long_def step_iffs)
  moreover have "sea_tests_failed s \<le> sea_tests_failed s1" "sea_tests_failed s1 \<le> sea_tests_failed s'"
    using reportsD [OF reports_shared(1) 1] 2 by (auto simp: read_syscall_or_kill_def split: prod.splits)
  then have eq: "sea_tests_failed s1 = sea_tests_failed s" "sea_tests_failed s' = sea_tests_failed s1"
    using assms(2) by simp_all
  ultimately show ?thesis
    using fill_regset_passed [OF 1 eq(1)] read_syscall_passed [OF 2 eq(2)] by fastforce
qed

lemma memory_stop_sound:
  assumes "\<And>regset argval. reports (rest pid regset argval)"
    and "\<And>regset argval s s'. rest pid regset argval s = Ret (Inr ((), s')) \<Longrightarrow>
      sea_tests_failed s' = sea_tests_failed s \<Longrightarrow> argument_read c K pid arg_index regset argval (world_of s) \<Longrightarrow> E"
  shows "sound_stop (sysgood_program kill_tracee (memory_stop c K arg_index rest)) pid E"
proof -
  have E: "sound_locals s0 E l' s'" if I: "sound_locals s0 E l s"
    and stop: "memory_stop c K arg_index rest pid l s = Ret (Inr ((leave, l'), s'))" for s0 l s leave l' s'
  proof -
    from stop obtain l1 s1 where 1: "at_syscall c K pid (invalid_syscall c) l s = Ret (Inr (l1, s1))"
      and r1: "tbind (read_arg c K pid arg_index l1) (\<lambda>argval. tbind (tdefined (l_regset l1)) (\<lambda>regset.
        tbind (rest pid regset argval) (\<lambda>_. worked K pid l1))) s1 = Ret (Inr ((leave, l'), s'))"
      unfolding memory_stop_def tbind_Inr_iff [of "at_syscall c K pid (invalid_syscall c) l"] by blast
    from r1 obtain v s2 where 2: "read_arg c K pid arg_index l1 s1 = Ret (Inr (v, s2))"
      and r2: "tbind (tdefined (l_regset l1)) (\<lambda>regset. tbind (rest pid regset v) (\<lambda>_. worked K pid l1)) s2 =
        Ret (Inr ((leave, l'), s'))"
      unfolding tbind_Inr_iff [of "read_arg c K pid arg_index l1"] by blast
    from r2 obtain regset where regset: "l_regset l1 = Some regset"
      and r3: "tbind (rest pid regset v) (\<lambda>_. worked K pid l1) s2 = Ret (Inr ((leave, l'), s'))"
      unfolding tbind_Inr_iff [of "tdefined (l_regset l1)"] by auto
    from r3 obtain s3 where 3: "rest pid regset v s2 = Ret (Inr ((), s3))"
      and r4: "worked K pid l1 s3 = Ret (Inr ((leave, l'), s'))"
      unfolding tbind_Inr_iff [of "rest pid regset v"] by auto
    have s': "s' = do_kill K pid SIGKILL s3" using r4 by (auto simp: worked_def step_iffs)
    have mono: "grows s s1" "grows s1 s2" "grows s2 s3"
      using reports_growsD [OF reports_shared(4) 1] reports_growsD [OF reports_shared(3) 2] reports_growsD [OF assms(1) 3]
      by simp_all
    have E if "sea_tests_failed s' = sea_tests_failed s0"
    proof -
      have eq: "sea_tests_failed s1 = sea_tests_failed s" "sea_tests_failed s2 = sea_tests_failed s1"
        "sea_tests_failed s3 = sea_tests_failed s2"
        using that mono I s' by (auto simp: sound_locals_def grows_def)
      from 2 regset have "read_argument_or_kill c K pid regset arg_index s1 = Ret (Some v, s2)"
        by (auto simp: read_arg_def read_long_def step_iffs)
      from read_argument_passed [OF this eq(2)] obtain r2 where
        "0 \<le> r2" "pink_read_argument c K pid regset arg_index (world_of s1) = Ret (r2, Some v, world_of s2)" by blast
      moreover from at_syscall_passed [OF 1 eq(1)] obtain r0 r1 regset0 regset1 w1 where "0 \<le> r0" "0 \<le> r1"
        and l1: "l1 = l\<lparr>l_regset := Some regset1\<rparr>"
        and "pink_regset_fill c K pid regset0 (world_of s) = Ret (r0, regset1, w1)"
        "pink_read_syscall c K pid regset1 w1 = (r1, Some (invalid_syscall c), world_of s1)" by blast
      moreover have "regset1 = regset" using regset l1 by simp
      ultimately have "argument_read c K pid arg_index regset v (world_of s2)"
        unfolding argument_read_def by blast
      with assms(2) [OF 3 eq(3)] show E .
    qed
    moreover have "grows s0 s'" using mono I s' by (auto simp: sound_locals_def grows_def)
    ultimately show ?thesis by (simp add: sound_locals_def)
  qed
  show ?thesis
    unfolding sound_stop_def sysgood_program_def by (auto split: if_splits dest: E)
qed

text \<open>
  A passing test of the arguments is evidence: if \<open>test_read_argument\<close> returns and
  reports no failure, then in one stop of the child the library filled the registers,
  read the number of the invalid system call and read 0xbad from the argument, each
  without an error. No other way through the loop passes.
\<close>

lemma test_read_argument_sound:
  assumes "test_read_argument c K F arg_index s = Some (Inr (Ret (Inr s')))"
    and "sea_tests_failed s' = sea_tests_failed s"
  shows "\<exists>pid regset w. argument_read c K pid arg_index regset 0xbad w"
proof -
  have "sound_stop (sysgood_program False (memory_stop c K arg_index (\<lambda>pid _ argval.
      tcheck (\<lambda>s. Ret (check_argument_equal_or_kill K pid argval 0xbad s))))) pid
      (\<exists>regset w. argument_read c K pid arg_index regset 0xbad w)" for pid
    by (rule memory_stop_sound) (auto simp: step_iffs intro: reports_intros)
  from traced_test_sound [OF assms(1) [unfolded test_read_argument_def] assms(2) _ this]
  show ?thesis by (simp add: sysgood_program_def)
qed

text \<open>
  The same for memory: if \<open>test_read_vm_data\<close> returns and reports no failure, then
  \<open>pink_read_vm_data\<close> returned without an error, for the address in the argument, and
  the buffer held the string of the child afterwards.
\<close>

lemma test_read_vm_data_sound:
  assumes "test_read_vm_data c K F stack arg_index s = Some (Inr (Ret (Inr s')))"
    and "sea_tests_failed s' = sea_tests_failed s"
  shows "\<exists>pid regset argval w r d w'. argument_read c K pid arg_index regset argval w \<and>
    pink_read_vm_data c K pid regset argval 10 (w\<lparr>errno := 0\<rparr>) = Ret (r, d, w') \<and> 0 \<le> r \<and>
    take 10 (stored_over d (stack 10)) = expstr_pinktrace"
proof -
  have len: "length expstr_pinktrace = 10" by (simp add: expstr_pinktrace_def)
  have "sound_stop (sysgood_program True (memory_stop c K arg_index (\<lambda>pid regset argval.
      tbind (tcall_out (read_vm_data_or_kill c K pid regset argval (stack 10) 10)) (\<lambda>newstr.
        tcheck (check_memory_equal_or_kill K pid newstr expstr_pinktrace 10))))) pid
      (\<exists>regset argval w r d w'. argument_read c K pid arg_index regset argval w \<and>
        pink_read_vm_data c K pid regset argval 10 (w\<lparr>errno := 0\<rparr>) = Ret (r, d, w') \<and> 0 \<le> r \<and>
        take 10 (stored_over d (stack 10)) = expstr_pinktrace)" for pid
  proof (rule memory_stop_sound)
    fix regset argval s s'
    assume *: "tbind (tcall_out (read_vm_data_or_kill c K pid regset argval (stack 10) 10)) (\<lambda>newstr.
        tcheck (check_memory_equal_or_kill K pid newstr expstr_pinktrace 10)) s = Ret (Inr ((), s'))"
      "sea_tests_failed s' = sea_tests_failed s" "argument_read c K pid arg_index regset argval (world_of s)"
    from *(1) obtain newstr where
      1: "read_vm_data_or_kill c K pid regset argval (stack 10) 10 s = Ret (newstr, s')" "take 10 newstr = expstr_pinktrace"
      by (auto simp: step_iffs len)
    from read_vm_data_passed [OF 1(1) *(2)] 1(2) *(3) show "\<exists>regset argval w r d w'. argument_read c K pid arg_index regset argval w \<and>
        pink_read_vm_data c K pid regset argval 10 (w\<lparr>errno := 0\<rparr>) = Ret (r, d, w') \<and> 0 \<le> r \<and>
        take 10 (stored_over d (stack 10)) = expstr_pinktrace"
      by blast
  qed (intro reports_intros)
  from traced_test_sound [OF assms(1) [unfolded test_read_vm_data_def] assms(2) _ this]
  show ?thesis by (simp add: sysgood_program_def)
qed

section \<open>A test with undefined behaviour\<close>

text \<open>
  The end of the array in \<open>test_read_string_array\<close> is a null pointer, for which
  \<open>pink_read_string_array\<close> returns 0: the helper then dumps no byte, and prints an
  uninitialised array.
\<close>

lemma read_string_array_null:
  assumes "pink_read_string_array c K cp0 pid regset arg i n (world_of s) = Ret (0, d, Some True, w)"
  shows "read_string_array_or_kill c K cp0 pid regset arg i dest0 n s = Fault Undefined"
  using assms by (simp add: read_string_array_or_kill_def Let_def size_of_ssize_def dump_basic_hex_empty)

section \<open>A test that passes\<close>

text \<open>
  What \<open>ptrace(2)\<close> documents for a child that stops itself and then makes one system call.
  \<open>phase k\<close> is 0 before the first stop, 1 after it and 2 at the entry of the call, where
  the registers are \<open>bs\<close>; the requests succeed and do not make the child run ahead.
\<close>

definition traced_child ::
    "('l::len word, 'k) kernel \<Rightarrow> 'k check_calls \<Rightarrow> int \<Rightarrow> ('k \<Rightarrow> byte list) \<Rightarrow> ('k \<Rightarrow> nat) \<Rightarrow> byte list \<Rightarrow> bool" where
  "traced_child K F pid blk phase bs \<longleftrightarrow> 0 < pid \<and>
     (\<forall>k. \<exists>k'. ck_fork F k = (Inr pid, k') \<and> phase k' = 0) \<and>
     (\<forall>k. \<exists>k'. ck_setpgid F pid 0 k = (Inr (), k') \<and> phase k' = phase k) \<and>
     (\<forall>k. phase k = 0 \<longrightarrow> (\<exists>k'. ck_waitpid F (- pid) 0 k = (Inr (pid, 0x137f), k') \<and> phase k' = 1)) \<and>
     (\<forall>k. phase k = 1 \<longrightarrow> (\<exists>k'. ck_waitpid F (- pid) 0 k = (Inr (pid, 0x857f), k') \<and> phase k' = 2 \<and> blk k' = bs)) \<and>
     (\<forall>k n. \<exists>k'. sys_malloc K n k = (Inr (), k') \<and> phase k' = phase k) \<and>
     (\<forall>k req a d. req = PTRACE_SETOPTIONS \<or> req = PTRACE_SYSCALL \<longrightarrow>
        (\<exists>out k'. sys_ptrace K req pid a d k = (0, None, out, k') \<and> phase k' = phase k))"

lemma traced_childD:
  assumes "traced_child K F pid blk phase bs"
  shows "0 < pid" "\<exists>k'. ck_fork F k = (Inr pid, k') \<and> phase k' = 0"
    "\<exists>k'. ck_setpgid F pid 0 k = (Inr (), k') \<and> phase k' = phase k"
    "phase k = 0 \<Longrightarrow> \<exists>k'. ck_waitpid F (- pid) 0 k = (Inr (pid, 0x137f), k') \<and> phase k' = 1"
    "phase k = 1 \<Longrightarrow> \<exists>k'. ck_waitpid F (- pid) 0 k = (Inr (pid, 0x857f), k') \<and> phase k' = 2 \<and> blk k' = bs"
    "\<exists>k'. sys_malloc K n k = (Inr (), k') \<and> phase k' = phase k"
    "req = PTRACE_SETOPTIONS \<or> req = PTRACE_SYSCALL \<Longrightarrow>
      \<exists>out k'. sys_ptrace K req pid a d k = (0, None, out, k') \<and> phase k' = phase k"
proof -
  note child = assms [unfolded traced_child_def]
  show "0 < pid" using child by (rule conjunct1)
  note 1 = child [THEN conjunct2]
  show "\<exists>k'. ck_fork F k = (Inr pid, k') \<and> phase k' = 0" by (rule spec [OF conjunct1 [OF 1]])
  note 2 = 1 [THEN conjunct2]
  show "\<exists>k'. ck_setpgid F pid 0 k = (Inr (), k') \<and> phase k' = phase k" by (rule spec [OF conjunct1 [OF 2]])
  note 3 = 2 [THEN conjunct2]
  show "\<exists>k'. ck_waitpid F (- pid) 0 k = (Inr (pid, 0x137f), k') \<and> phase k' = 1" if "phase k = 0"
    using that by (rule mp [OF spec [OF conjunct1 [OF 3]]])
  note 4 = 3 [THEN conjunct2]
  show "\<exists>k'. ck_waitpid F (- pid) 0 k = (Inr (pid, 0x857f), k') \<and> phase k' = 2 \<and> blk k' = bs" if "phase k = 1"
    using that by (rule mp [OF spec [OF conjunct1 [OF 4]]])
  note 5 = 4 [THEN conjunct2]
  show "\<exists>k'. sys_malloc K n k = (Inr (), k') \<and> phase k' = phase k" by (rule spec [OF spec [OF conjunct1 [OF 5]]])
  show "\<exists>out k'. sys_ptrace K req pid a d k = (0, None, out, k') \<and> phase k' = phase k"
    if "req = PTRACE_SETOPTIONS \<or> req = PTRACE_SYSCALL"
    using that by (rule mp [OF spec [OF spec [OF spec [OF spec [OF conjunct2 [OF 5]]]]]])
qed

lemma or_kill_zero [simp]: "or_kill K pid msg func line (0, w) s = set_world w s"
  by (simp add: or_kill_def)

lemma status_of_stops [simp]:
  "\<not> WIFEXITED 0x137f" "\<not> WIFSIGNALED 0x137f" "WIFSTOPPED 0x137f" "WSTOPSIG 0x137f = SIGSTOP"
  "\<not> WIFEXITED 0x857f" "\<not> WIFSIGNALED 0x857f" "WIFSTOPPED 0x857f" "WSTOPSIG 0x857f = SIGTRAP_SYSGOOD"
  by (simp_all add: WIFEXITED_def WIFSIGNALED_def WIFSTOPPED_def WSTOPSIG_def WEXITSTATUS_def SIGSTOP_def SIGTRAP_SYSGOOD_def)

lemma wait_debug_stop:
  assumes "ck_waitpid F (- ck_pgid (sea_world s)) 0 (kern (world_of s)) = (Inr (pid, status), k)" and "0 < pid"
  shows "wait_no_intr_debug F s = Some (pid, Some status, set_world \<lparr>errno = 0, kern = k\<rparr> s)"
  using assms by (simp add: wait_no_intr_debug_def waitpid_no_intr_debug_def waitpid_no_intr.simps)

lemma request_succeeds:
  assumes "traced_child K F pid blk phase bs" and "req = PTRACE_SETOPTIONS \<or> req = PTRACE_SYSCALL"
  shows "\<exists>k'. ptrace_status K req pid a d w = (0, \<lparr>errno = 0, kern = k'\<rparr>) \<and> phase k' = phase (kern w)"
proof -
  obtain out k' where "sys_ptrace K req pid a d (kern w) = (0, None, out, k')" "phase k' = phase (kern w)"
    using traced_childD(7) [OF assms] by blast
  then show ?thesis by (simp add: ptrace_status_def pink_ptrace_def)
qed

text \<open>The child up to its first stop, and the loop from there to the system call.\<close>

lemma sysgood_setup:
  assumes "traced_child K F pid blk phase bs" and "have_feature c HAVE_SETUP" and "have_feature c HAVE_OPTION_SYSGOOD"
  shows "\<exists>k'. trace_setup_or_kill c K pid PINK_TRACE_OPTION_SYSGOOD s = set_world \<lparr>errno = 0, kern = k'\<rparr> s \<and>
    phase k' = phase (kern (world_of s))"
proof -
  have "collect_options c PINK_TRACE_OPTION_SYSGOOD trace_options 0 = Some 1"
    using assms(3) by (simp add: trace_options_def PINK_TRACE_OPTION_SYSGOOD_def PINK_TRACE_OPTION_FORK_def
        PINK_TRACE_OPTION_VFORK_def PINK_TRACE_OPTION_CLONE_def PINK_TRACE_OPTION_EXEC_def PINK_TRACE_OPTION_VFORK_DONE_def
        PINK_TRACE_OPTION_EXIT_def PINK_TRACE_OPTION_SECCOMP_def PINK_TRACE_OPTION_EXITKILL_def)
  then have "pink_trace_setup c K pid PINK_TRACE_OPTION_SYSGOOD (world_of s) =
      ptrace_status K PTRACE_SETOPTIONS pid 0 (int_data 1) (world_of s)"
    using assms(2) by (simp add: pink_trace_setup_def)
  moreover obtain k' where "ptrace_status K PTRACE_SETOPTIONS pid 0 (int_data 1) (world_of s) = (0, \<lparr>errno = 0, kern = k'\<rparr>)"
    "phase k' = phase (kern (world_of s))"
    using request_succeeds [OF assms(1)] by blast
  ultimately show ?thesis by (intro exI [of _ k']) (simp add: trace_setup_or_kill_def)
qed

lemma syscall_request:
  assumes "traced_child K F pid blk phase bs"
  shows "\<exists>k'. trace_syscall_or_kill K pid 0 s = set_world \<lparr>errno = 0, kern = k'\<rparr> s \<and> phase k' = phase (kern (world_of s))"
proof -
  obtain k' where "ptrace_status K PTRACE_SYSCALL pid 0 (int_data 0) (world_of s) = (0, \<lparr>errno = 0, kern = k'\<rparr>)"
    "phase k' = phase (kern (world_of s))"
    using request_succeeds [OF assms] by blast
  then show ?thesis by (intro exI [of _ k']) (simp add: trace_syscall_or_kill_def pink_trace_syscall_def)
qed

lemma set_world_twice [simp]: "set_world w (set_world w' s) = set_world w s"
  by (simp add: set_world_def)

lemma sysgood_loop:
  assumes child: "traced_child K F pid blk phase bs" and "have_feature c HAVE_SETUP" and "have_feature c HAVE_OPTION_SYSGOOD"
    and s: "phase (kern (world_of s)) = 0" "ck_pgid (sea_world s) = pid"
    and stop: "\<And>k. phase k = 2 \<Longrightarrow> blk k = bs \<Longrightarrow>
      \<exists>l' s'. stop pid l (set_world \<lparr>errno = 0, kern = k\<rparr> s) = Ret (Inr ((True, l'), s')) \<and> P l' s'"
  shows "\<exists>l' s'. test_loop c K F (sysgood_program kill_tracee stop) pid l s = Some (Ret (Inr (l', s'))) \<and> P l' s'"
proof -
  let ?T = "sysgood_program kill_tracee stop"
  have pid: "0 < pid" by (rule traced_childD(1) [OF child])
  obtain k1 where k1: "ck_waitpid F (- pid) 0 (kern (world_of s)) = (Inr (pid, 0x137f), k1)" "phase k1 = 1"
    using traced_childD(4) [OF child s(1)] by blast
  let ?s1 = "set_world \<lparr>errno = 0, kern = k1\<rparr> s"
  obtain k2 where k2: "trace_setup_or_kill c K pid PINK_TRACE_OPTION_SYSGOOD ?s1 = set_world \<lparr>errno = 0, kern = k2\<rparr> s" "phase k2 = 1"
    using sysgood_setup [OF child assms(2,3), of ?s1] k1 by auto
  obtain k3 where k3: "trace_syscall_or_kill K pid 0 (set_world \<lparr>errno = 0, kern = k2\<rparr> s) = set_world \<lparr>errno = 0, kern = k3\<rparr> s" "phase k3 = 1"
    using syscall_request [OF child, of "set_world \<lparr>errno = 0, kern = k2\<rparr> s"] k2 by auto
  let ?s3 = "set_world \<lparr>errno = 0, kern = k3\<rparr> s"
  obtain k4 where k4: "ck_waitpid F (- pid) 0 k3 = (Inr (pid, 0x857f), k4)" "phase k4 = 2" "blk k4 = bs"
    using traced_childD(5) [OF child k3(2)] by blast
  obtain l' s' where l': "stop pid l (set_world \<lparr>errno = 0, kern = k4\<rparr> s) = Ret (Inr ((True, l'), s'))" "P l' s'"
    using stop k4 by blast
  note steps = test_round_def test_stopped_def check_exit_code_or_fail_def check_signal_or_fail_def check_stopped_or_kill_def
    sysgood_program_def tbind_def tcheck_def tdo_def treturn_def
  have "test_round c K ?T pid pid (Some 0x857f) l (set_world \<lparr>errno = 0, kern = k4\<rparr> s) = Ret (Inr ((True, l'), s'))"
    using pid l' by (simp add: steps SIGTRAP_SYSGOOD_def SIGSTOP_def)
  moreover have "wait_no_intr_debug F ?s3 = Some (pid, Some 0x857f, set_world \<lparr>errno = 0, kern = k4\<rparr> s)"
    using wait_debug_stop [of F ?s3 pid "0x857f" k4] k4 pid s by simp
  ultimately have last: "test_loop c K F ?T pid l ?s3 = Some (Ret (Inr (l', s')))"
    by (subst test_loop.simps) simp
  have "test_round c K ?T pid pid (Some 0x137f) l ?s1 = Ret (Inr ((False, l), ?s3))"
    using pid k2 k3 by (simp add: steps)
  moreover have "wait_no_intr_debug F s = Some (pid, Some 0x137f, ?s1)"
    using wait_debug_stop [of F s pid "0x137f" k1] k1 pid s by simp
  ultimately have "test_loop c K F ?T pid l s = Some (Ret (Inr (l', s')))"
    using last by (subst test_loop.simps) simp
  with l' show ?thesis by blast
qed

lemma traced_test_passes:
  assumes child: "traced_child K F pid blk phase bs" and "have_feature c HAVE_SETUP" and "have_feature c HAVE_OPTION_SYSGOOD"
    and stop: "\<And>l s. l_regset l = Some (pink_regset_zero TYPE('l::len) c) \<Longrightarrow> blk (kern (world_of s)) = bs \<Longrightarrow>
      \<exists>l' s'. stop pid l s = Ret (Inr ((True, l'), s')) \<and> l_worked l' \<and> sea_tests_failed s' = sea_tests_failed s"
  shows "\<exists>s'. traced_test c (K :: ('l word, 'k) kernel) F True (sysgood_program kill_tracee stop) child_side msg func line s =
      Some (Inr (Ret (Inr s'))) \<and> sea_tests_failed s' = sea_tests_failed s"
proof -
  obtain k1 where k1: "ck_fork F (kern (world_of s)) = (Inr pid, k1)" "phase k1 = 0"
    using traced_childD(2) [OF child] by blast
  obtain k2 where k2: "ck_setpgid F pid 0 k1 = (Inr (), k2)" "phase k2 = 0"
    using traced_childD(3) [OF child, of k1] k1 by auto
  let ?s1 = "s\<lparr>sea_world := \<lparr>ck_world = (world_of s)\<lparr>kern := k2\<rparr>, ck_pgid = pid\<rparr>\<rparr>"
  have fork: "fork_assert K F s = (pid, ?s1)"
    using k1 k2 traced_childD(1) [OF child] by (simp add: fork_assert_def Let_def set_world_def)
  obtain k3 where k3: "sys_malloc K (sizeof_regs TYPE('l) c) k2 = (Inr (), k3)" "phase k3 = 0"
    using traced_childD(6) [OF child, of "sizeof_regs TYPE('l) c" k2] k2 by auto
  let ?rs = "Some (pink_regset_zero TYPE('l) c)"
  define s2 where "s2 = set_world ((world_of ?s1)\<lparr>kern := k3\<rparr>) ?s1"
  have alloc: "regset_alloc_or_kill c K pid ?s1 = (?rs, s2)"
    using k3 by (simp add: regset_alloc_or_kill_def pink_regset_alloc_def s2_def)
  have s2: "phase (kern (world_of s2)) = 0" "ck_pgid (sea_world s2) = pid" "sea_tests_failed s2 = sea_tests_failed s"
    using k3 by (simp_all add: s2_def)
  have at_stop: "\<exists>l' s'. stop pid (start_locals ?rs) (set_world \<lparr>errno = 0, kern = k\<rparr> s2) = Ret (Inr ((True, l'), s')) \<and>
      (l_worked l' \<and> sea_tests_failed s' = sea_tests_failed s)" if "blk k = bs" for k
    using stop [of "start_locals ?rs" "set_world \<lparr>errno = 0, kern = k\<rparr> s2"] that s2 by (simp add: start_locals_def)
  obtain l' s' where "test_loop c K F (sysgood_program kill_tracee stop) pid (start_locals ?rs) s2 = Some (Ret (Inr (l', s')))"
    "l_worked l' \<and> sea_tests_failed s' = sea_tests_failed s"
    using sysgood_loop [OF child assms(2,3) s2(1,2), where stop = stop and l = "start_locals ?rs"
        and P = "\<lambda>l' s'. l_worked l' \<and> sea_tests_failed s' = sea_tests_failed s" and kill_tracee = kill_tracee] at_stop
    by blast
  with fork alloc traced_childD(1) [OF child] show ?thesis
    by (auto simp: traced_test_def fork_test_def end_test_def unless_worked_def)
qed

text \<open>A child at the entry of the invalid system call on x86-64.\<close>

definition invalid_call_regs :: "nat \<Rightarrow> 64 word \<Rightarrow> byte list \<Rightarrow> bool" where
  "invalid_call_regs arg_index v bs \<longleftrightarrow> length bs = 216 \<and> x86_64_get CS bs \<noteq> 0x23 \<and> x86_64_get ORIG_RAX bs = 0xbadca11 \<and>
     x86_64_get (x86_arg_reg False arg_index) bs = v"

lemma read_invalid_call:
  assumes "cfg_arch c = X86_64" and "invalid_call_regs arg_index v bs" and "arg_index < 6" and "length (rs_regs rs) = 216"
  shows "pink_read_syscall c K pid (x86_filled c rs bs) w = (0, Some (invalid_syscall c), w)"
    and "pink_read_argument c K pid (x86_filled c rs bs) arg_index w = Ret (0, Some v, w)"
proof -
  have regs: "length bs = 216" "x86_64_get CS bs \<noteq> 0x23" "x86_64_get ORIG_RAX bs = 0xbadca11"
    using assms(2) by (simp_all add: invalid_call_regs_def)
  have "\<not> bit (0xbadca11 :: 64 word) 30" by simp
  with assms(1) regs have abi: "rs_abi (x86_filled c rs bs) = PINK_ABI_X86_64" by (simp add: x86_filled_def)
  show "pink_read_syscall c K pid (x86_filled c rs bs) w = (0, Some (invalid_syscall c), w)"
    using assms(1) abi regs x86_filled_get(1) [OF assms(4) regs(1,2), where c = c and r = ORIG_RAX]
    by (simp add: pink_read_syscall_def abi_consts PINK_SYSCALL_INVALID_def)
  show "pink_read_argument c K pid (x86_filled c rs bs) arg_index w = Ret (0, Some v, w)"
    using read_argument_filled [OF assms(1,4) regs(1) assms(3), of False] regs(2) assms(2)
    by (simp add: sign_extend32_def invalid_call_regs_def)
qed

text \<open>
  The test of the arguments passes: on x86-64, if the kernel stops the child as
  \<open>ptrace(2)\<close> documents and the registers at the entry of the invalid system call hold
  0xbad in the register of the argument, then \<open>test_read_argument\<close> ends its loop,
  returns, and reports no failure.
\<close>

lemma test_read_argument_passes:
  fixes K :: "(64 word, 'k) kernel" and s :: "('f, 'k) check"
  assumes "cfg_arch c = X86_64" and "have_feature c HAVE_SETUP" and "have_feature c HAVE_OPTION_SYSGOOD"
    and "have_feature c HAVE_GETREGSET" and "x86_regs_contract K pid blk"
    and "traced_child K F pid blk phase bs" and "invalid_call_regs arg_index 0xbad bs" and "arg_index < 6"
  shows "\<exists>s'. test_read_argument c K F arg_index s = Some (Inr (Ret (Inr s'))) \<and> sea_tests_failed s' = sea_tests_failed s"
proof -
  let ?rs = "pink_regset_zero TYPE(64) c"
  have wf: "regset_wf TYPE(64) c ?rs" and len: "length (rs_regs ?rs) = 216"
    using assms(1) by (simp_all add: regset_wf_def pink_regset_zero_def sizeof_regs_def)
  have bs: "length bs = 216" using assms(7) by (simp add: invalid_call_regs_def)
  have "\<exists>l' s'. memory_stop c K arg_index (\<lambda>pid _ argval.
      tcheck (\<lambda>s. Ret (check_argument_equal_or_kill K pid argval 0xbad s))) pid l t = Ret (Inr ((True, l'), s')) \<and>
      l_worked l' \<and> sea_tests_failed s' = sea_tests_failed t"
    if l: "l_regset l = Some ?rs" and t: "blk (kern (world_of t)) = bs" for l and t :: "('f, 'k) check"
  proof -
    have fill: "pink_regset_fill c K pid ?rs (world_of t) = Ret (0, x86_filled c ?rs bs, (world_of t)\<lparr>errno := 0\<rparr>)"
      using fill_x86_filled [OF assms(1,4,5) wf, of "world_of t"] t bs by simp
    show ?thesis
      by (simp add: memory_stop_def at_syscall_def fill_regset_def read_arg_def read_long_def worked_def tbind_def tcall_out_def
          treturn_def tdefined_def tcheck_def tdo_def l regset_fill_or_kill_def fill read_syscall_or_kill_def
          read_argument_or_kill_def read_invalid_call [OF assms(1,7,8) len] check_syscall_equal_or_kill_def
          check_argument_equal_or_kill_def)
  qed
  then show ?thesis
    unfolding test_read_argument_def by (intro traced_test_passes [OF assms(6,2,3)]) blast
qed

text \<open>
  A child for the witnesses. The state is empty before the first stop, one byte long
  after it and the block of registers afterwards, where every argument is 0xbad.
\<close>

definition ref_call_regs :: "byte list" where
  "ref_call_regs = x86_64_put RDI 0xbad (x86_64_put RSI 0xbad (x86_64_put RDX 0xbad (x86_64_put R10 0xbad
     (x86_64_put R8 0xbad (x86_64_put R9 0xbad (x86_64_put ORIG_RAX 0xbadca11 (replicate 216 0)))))))"

definition ref_traced_calls :: "byte list check_calls" where
  "ref_traced_calls =
     \<lparr>ck_fork = \<lambda>_. (Inr 7, []), ck_setpgid = \<lambda>_ _ k. (Inr (), k),
      ck_waitpid = \<lambda>_ _ k.
        if k = [] then (Inr (7, 0x137f), [0]) else if length k = 1 then (Inr (7, 0x857f), ref_call_regs) else (Inl ECHILD, k)\<rparr>"

definition ref_phase :: "byte list \<Rightarrow> nat" where
  "ref_phase k = (if k = [] then 0 else if length k = 1 then 1 else 2)"

lemma length_ref_call_regs: "length ref_call_regs = 216"
  by (simp add: ref_call_regs_def x86_64_put_def)

lemma ref_traced_child: "traced_child ref_x86_kernel ref_traced_calls 7 (\<lambda>k. k) ref_phase ref_call_regs"
proof -
  have "ref_phase ref_call_regs = 2" using length_ref_call_regs by (auto simp: ref_phase_def)
  then show ?thesis
    unfolding traced_child_def by (auto simp: ref_traced_calls_def ref_phase_def ref_x86_kernel_def split: if_splits)
qed

lemma get_field_replicate: "get_field False 8 17 (replicate 216 0) = (0 :: 64 word)"
  by (simp add: get_field_def of_bytes_def numeral_eq_Suc)

lemma ref_invalid_call: "i < 6 \<Longrightarrow> invalid_call_regs i 0xbad ref_call_regs"
proof -
  have "invalid_call_regs i 0xbad ref_call_regs" if "i \<in> {0, 1, 2, 3, 4, 5}"
    using that
    by (auto simp: invalid_call_regs_def length_ref_call_regs ref_call_regs_def x86_arg_reg_def x86_64_arg_def
        x86_64_get_def x86_64_put_def get_put_field_other get_field_replicate)
  then show "i < 6 \<Longrightarrow> invalid_call_regs i 0xbad ref_call_regs" by (auto simp: less_Suc_eq numeral_eq_Suc)
qed

end
