(* ===== verification/Pink_Program.thy ===== *)
theory Pink_Program
  imports Pink_Passing
begin

text \<open>
  The test program as a whole: the tests of all files run by the framework, from \<open>main\<close> to
  the exit status, and what an exit status of 0 shows.
\<close>

section \<open>The program\<close>

text \<open>What the program finds: the configuration, the kernel, and what is not initialised.\<close>

record ('l, 'k) test_env =
  te_config :: pink_config
  te_kernel :: "('l, 'k) kernel"
  te_calls :: "'k check_calls"
  te_pipes :: "'k pipe_calls"
  te_sys :: "'l sys_calls"
  te_junk :: "nat \<Rightarrow> byte list"
  te_stack :: "nat \<Rightarrow> byte list"
  te_cp :: "byte list"
  te_addr :: pink_sockaddr
  te_digits :: "int \<Rightarrow> string"
  te_skip :: "string option"

text \<open>A test that aborts ends the program, and the child never comes back from its test.\<close>

definition run_tested :: "('l, 'f, 'k) tested \<Rightarrow> ('f, 'k) check outcome" where
  "run_tested r =
     (case r of
        None \<Rightarrow> Fault Diverges
      | Some (Inl child) \<Rightarrow> Fault In_child
      | Some (Inr (Fault x)) \<Rightarrow> Fault x
      | Some (Inr (Ret (Inl s))) \<Rightarrow> Fault Abort
      | Some (Inr (Ret (Inr s))) \<Rightarrow> Ret s)"

text \<open>The functions of the six files; \<open>release\<close> is \<open>os_release\<close>.\<close>

fun tested ::
    "('l::len word, 'k) test_env \<Rightarrow> 32 word \<Rightarrow> test_fn \<Rightarrow> (test_fn, 'k) check \<Rightarrow> ('l word, test_fn, 'k) tested" where
  "tested E release Test_trace_clone = test_trace_clone (te_config E) (te_kernel E) (te_calls E)"
| "tested E release Test_trace_sysgood = test_trace_sysgood (te_config E) (te_kernel E) (te_calls E)"
| "tested E release Test_trace_exec = test_trace_exec (te_config E) (te_kernel E) (te_calls E) release"
| "tested E release (Test_vm_lread i) = test_vm_lread (te_config E) (te_kernel E) (te_calls E) (te_stack E) i"
| "tested E release (Test_vm_lread_nul i) = test_vm_lread_nul (te_config E) (te_kernel E) (te_calls E) (te_stack E) i"
| "tested E release (Test_vm_lread_nul_long i) = test_vm_lread_nul_long (te_config E) (te_kernel E) (te_calls E) (te_stack E) i"
| "tested E release Test_read_syscall = test_read_syscall (te_config E) (te_kernel E) (te_calls E)"
| "tested E release Test_read_retval_good = test_read_retval_good (te_config E) (te_kernel E) (te_calls E)"
| "tested E release Test_read_retval_fail = test_read_retval_fail (te_config E) (te_kernel E) (te_calls E)"
| "tested E release (Test_read_argument i) = test_read_argument (te_config E) (te_kernel E) (te_calls E) i"
| "tested E release (Test_read_vm_data i) = test_read_vm_data (te_config E) (te_kernel E) (te_calls E) (te_stack E) i"
| "tested E release (Test_read_vm_data_nul i) = test_read_vm_data_nul (te_config E) (te_kernel E) (te_calls E) (te_stack E) i"
| "tested E release (Test_read_vm_data_nul_long i) =
     test_read_vm_data_nul_long (te_config E) (te_kernel E) (te_calls E) (te_stack E) i"
| "tested E release (Test_read_string_array i) =
     test_read_string_array (te_config E) (te_kernel E) (te_calls E) (te_cp E) (te_stack E) i"
| "tested E release (Test_write_syscall i) = test_write_syscall (te_config E) (te_kernel E) (te_calls E) i"
| "tested E release (Test_write_retval i) = test_write_retval (te_config E) (te_kernel E) (te_calls E) i"
| "tested E release (Test_write_argument i) = test_write_argument (te_config E) (te_kernel E) (te_calls E) i"
| "tested E release (Test_write_vm_data i) =
     test_write_vm_data (te_config E) (te_kernel E) (te_calls E) (te_junk E) (te_stack E) i"
| "tested E release (Test_read_socket_address_af_null t) =
     test_read_socket_address_af_null (te_config E) (te_kernel E) (te_calls E) (te_sys E) (te_addr E) t"
| "tested E release (Test_read_socket_address_af_unix t) =
     test_read_socket_address_af_unix (te_config E) (te_kernel E) (te_calls E) (te_sys E) (te_stack E) (te_addr E) t"
| "tested E release (Test_read_socket_address_af_unixabs t) =
     test_read_socket_address_af_unixabs (te_config E) (te_kernel E) (te_calls E) (te_sys E) (te_stack E) (te_addr E) t"
| "tested E release (Test_read_socket_address_af_inet t) =
     test_read_socket_address_af_inet (te_config E) (te_kernel E) (te_calls E) (te_sys E) (te_stack E) (te_addr E) t"
| "tested E release (Test_read_socket_address_af_inet6 t) =
     test_read_socket_address_af_inet6 (te_config E) (te_kernel E) (te_calls E) (te_sys E) (te_stack E) (te_addr E) t"
| "tested E release (Test_read_socket_address_af_netlink t) =
     test_read_socket_address_af_netlink (te_config E) (te_kernel E) (te_calls E) (te_sys E) (te_stack E) (te_addr E) t"
| "tested E release Test_read_write_int = (\<lambda>s. Some (Inr (obind (test_read_write_int (te_config E) (te_pipes E) s) (\<lambda>s'. Ret (Inr s')))))"
| "tested E release All_tests = (\<lambda>s. Some (Inr (Ret (Inr s))))"

definition run_single :: "('l::len word, 'k) test_env \<Rightarrow> 32 word \<Rightarrow> (test_fn, 'k check_world) sea_run" where
  "run_single E release f s = run_tested (tested E release f s)"

fun run_suite ::
    "('l::len word, 'k) test_env \<Rightarrow> 32 word \<Rightarrow> suite \<Rightarrow> (test_fn, 'k) check \<Rightarrow> (test_fn, 'k) check outcome" where
  "run_suite E release Suite_trace = test_suite_trace (te_digits E) (run_single E release)"
| "run_suite E release Suite_vm = test_suite_vm (te_digits E) (run_single E release)"
| "run_suite E release Suite_read = test_suite_read (te_digits E) (run_single E release)"
| "run_suite E release Suite_write = test_suite_write (te_digits E) (run_single E release)"
| "run_suite E release Suite_socket = test_suite_socket (te_digits E) (run_single E release)"
| "run_suite E release Suite_pipe = test_suite_pipe (te_digits E) (run_single E release)"

definition run_program :: "('l::len word, 'k) test_env \<Rightarrow> 32 word \<Rightarrow> (test_fn, 'k check_world) sea_run" where
  "run_program E release f =
     (if f = All_tests then all_tests (run_suite E release) (te_skip E) else run_single E release f)"

definition check_program ::
    "('l::len word, 'k) test_env \<Rightarrow> int + string \<Rightarrow> string list \<Rightarrow> (test_fn, 'k) check \<Rightarrow> (int \<times> (test_fn, 'k) check) outcome" where
  "check_program E release argv s = check_main (te_digits E) (run_program E) release argv All_tests s"

section \<open>No test loses a failure\<close>

lemma reports_more_readers [reports_intros]:
  "reports (tcall_out (\<lambda>s. obind (vm_lread_nul_or_kill c K pid regset addr dest n s) (\<lambda>(_, d, s'). Ret (d, s'))))"
  "reports (tcall_out (\<lambda>s. obind (vm_lread_nul_or_kill c K pid regset addr dest n s) (\<lambda>(r, d, s'). Ret ((r, d), s'))))"
  "reports (tcall_out (\<lambda>s. obind (read_vm_data_nul_or_kill c K pid regset addr dest n s) (\<lambda>(_, d, s'). Ret (d, s'))))"
  "reports (tcall_out (\<lambda>s. obind (read_vm_data_nul_or_kill c K pid regset addr dest n s) (\<lambda>(r, d, s'). Ret ((r, d), s'))))"
  "reports (tcall_out (\<lambda>s. obind (read_string_array_or_kill c K cp0 pid regset addr i dest n s) (\<lambda>(d, np, s'). Ret ((d, np), s'))))"
  "reports (tcall_out (read_socket_subcall_or_kill c K pid regset dec))"
  "reports (tcall_out (\<lambda>s. obind (read_socket_address_or_kill c K pid regset dec i want addr0 s)
     (\<lambda>(fd, addr, s'). Ret ((fd, addr), s'))))"
  "reports (tcall_out (write_retval_or_kill c K pid regset rv err))"
  "reports (tcall_out (write_argument_or_kill c K pid regset i rv))"
  "reports (tcall_out (\<lambda>s. obind (write_vm_data_or_kill c K junk pid regset addr src n s) (\<lambda>s'. Ret ((), s'))))"
  by (auto simp: reports_def vm_lread_nul_or_kill_def read_vm_data_nul_or_kill_def read_string_array_or_kill_def
      read_socket_subcall_or_kill_def read_socket_address_or_kill_def write_retval_or_kill_def write_argument_or_kill_def
      write_vm_data_or_kill_def obind_Ret_iff Let_def split: prod.splits)

lemma more_checks_passed:
  "check_string_equal_or_kill K pid str str' n s = Ret (Inr s') \<Longrightarrow> s' = s"
  "check_string_endswith_or_kill K pid str str' s = Ret (Inr s') \<Longrightarrow> s' = s"
  "check_addr_loopback_or_kill c pid addr s = Inr s' \<Longrightarrow> s' = s"
  "check_addr6_loopback_or_kill pid addr6 s = Inr s' \<Longrightarrow> s' = s"
  "check_socketcall_equal_or_kill K Y pid t subcall s = Inr s' \<Longrightarrow> s' = s"
  by (auto simp: check_string_equal_or_kill_def check_string_endswith_or_kill_def dump_and_abort_def kill_and_abort_def
      check_addr_loopback_or_kill_def check_addr6_loopback_or_kill_def check_socketcall_equal_or_kill_def
      obind_Ret_iff Let_def split: if_splits)

lemma reports_more_checks [reports_intros]:
  "reports (tcheck (check_string_equal_or_kill K pid str str' n))"
  "reports (tcheck (check_string_endswith_or_kill K pid str str'))"
  "reports (tcheck (\<lambda>s. Ret (check_addr_loopback_or_kill c pid addr s)))"
  "reports (tcheck (\<lambda>s. Ret (check_addr6_loopback_or_kill pid addr6 s)))"
  "reports (tcheck (\<lambda>s. Ret (check_socketcall_equal_or_kill K Y pid t subcall s)))"
  by (auto simp: reports_def step_iffs dest!: more_checks_passed)

lemma reports_outcome [reports_intros]: "reports (\<lambda>s. obind r (\<lambda>a. treturn a s))"
  by (cases r) (auto simp: reports_def)

lemma reports_case_prod [reports_intros]: "(\<And>a b. reports (f a b)) \<Longrightarrow> reports (case p of (a, b) \<Rightarrow> f a b)"
  by (cases p) simp

lemma reports_Let [reports_intros]: "reports (f v) \<Longrightarrow> reports (let x = v in f x)"
  by simp

lemma reports_more_shared [reports_intros]:
  "reports (read_long (read_retval_or_kill c K pid) l)"
  "reports (read_long (\<lambda>regset. read_socket_subcall_or_kill c K pid regset dec) l)"
  "reports (check_argument c K i v pid l)" "reports (check_long_string K pid r n str)"
  "reports (check_vm_data c K stack line pid regset argval)" "reports (report_if K pid msg func line differs)"
  unfolding read_long_def check_argument_def check_long_string_def check_vm_data_def report_if_def Let_def
  by (intro reports_intros)+

lemma reports_string_array [reports_intros]:
  "reports (string_array_loop c K cp0 stack pid regset argval nullptr i es)"
proof (induction es arbitrary: nullptr i)
  case (Cons e es)
  then show ?case unfolding string_array_loop.simps Let_def by (intro reports_intros)
next
  case Nil
  show ?case unfolding string_array_loop.simps by (rule reports_intros)
qed

text \<open>The stops of all tests.\<close>

lemma reports_stops [reports_intros]:
  "(\<And>regset argval. reports (rest pid regset argval)) \<Longrightarrow> reports (memory_stop c K i rest pid l)"
  "(\<And>regset. reports (entry pid regset)) \<Longrightarrow> reports (retval_stop c K sysnum entry rv err pid l)"
  "reports (exec_stop c K release pid sig status l)"
  "reports (write_retval_stop c K rv' err' pid sig status l)"
  "reports (write_argument_stop c K i pid l)"
  "reports (write_vm_data_stop c K junk stack i pid l)"
  "(\<And>pad. reports (rest' pid pad)) \<Longrightarrow>
    reports (socket_stop c K Y addr0 t func fd_line family_line family rest' pid l)"
  unfolding memory_stop_def retval_stop_def exec_stop_def write_retval_stop_def write_argument_stop_def
    write_vm_data_stop_def socket_stop_def
  by (intro reports_intros; assumption?)+

lemma traced_test_grows:
  assumes "traced_test c K F with_regset T child msg func line s = Some (Inr (Ret (Inr s')))"
    and "\<And>pid sig status l. reports (tp_stop T pid sig status l)"
  shows "grows s s'"
proof -
  have "sound_stop T pid True" for pid
    using assms(2) by (auto simp: sound_stop_def sound_locals_def reports_def intro: grows_trans)
  with traced_test_sound_locals [OF assms(1), of "\<lambda>_. True"] show ?thesis by simp
qed

lemma sysgood_test_grows:
  assumes "traced_test c K F with_regset (sysgood_program kt stop) child msg func line s = Some (Inr (Ret (Inr s')))"
    and "\<And>pid l. reports (stop pid l)"
  shows "grows s s'"
  by (rule traced_test_grows [OF assms(1)]) (auto simp: sysgood_program_def intro: assms(2) reports_intros)

lemma lookup_or_fail_grows: "lookup_or_fail c name func line s = (n, s') \<Longrightarrow> grows s s'"
  by (auto simp: lookup_or_fail_def Let_def)

lemma grows_more:
  assumes "grows s t"
  shows "grows s (fail_verbose msg func line t)" "grows s (set_world w t)" "grows s (do_kill K pid sig t)"
    "grows s (kill_save_errno K pid sig t)" "grows s (or_kill K pid msg func line call t)"
  using assms by (auto intro: grows_trans)

lemma clone_steps_grow:
  "grows s (snd (clone_stop c K pid status expected s))" "grows s (clone_grandchild K pid tracee_pid s)"
  by (auto simp: clone_stop_def clone_grandchild_def Let_def trace_setup_or_kill_def trace_syscall_or_kill_def
      trace_geteventmsg_or_kill_def split: prod.splits intro!: grows_more)

lemma clone_round_grows: "grows s (snd (clone_round c K pid tracee_pid status found s))"
proof -
  have "grows s u" if "grows s t" "u = clone_grandchild K pid tracee_pid t \<or> u = snd (clone_stop c K pid status e t)" for t u e
    using that clone_steps_grow grows_trans by blast
  then show ?thesis
    by (auto simp: clone_round_def Let_def split: prod.splits intro!: grows_more) (metis grows_refl grows_more snd_conv)+
qed

lemma clone_loop_grows:
  "clone_loop c K F pid found s = Some r \<Longrightarrow> r = Ret (found', s') \<Longrightarrow> grows s s'"
proof (induction rule: clone_loop.raw_induct [rotated, consumes 1, case_names step])
  case (step loop c K F pid found s r)
  let ?s = "set_world ((world_of s)\<lparr>errno := 0\<rparr>) s"
  from step(2) obtain tracee_pid status s1 where w: "wait_no_intr_debug F ?s = Some (tracee_pid, status, s1)"
    by (auto split: option.splits)
  have s1: "grows s s1" by (rule grows_trans [OF _ wait_debug_grows [OF w]]) simp
  show ?case
  proof (cases "tracee_pid \<le> 0 \<and> fst (check_echild_or_kill K pid tracee_pid s1)")
    case True
    with step(2,3) w s1 show ?thesis by simp
  next
    case False
    with step(2,3) w obtain st found1 s2 where "status = Some st"
      and round: "clone_round c K pid tracee_pid st found s1 = (found1, s2)" and "loop c K F pid found1 s2 = Some r"
      by (auto split: option.splits prod.splits)
    then have "grows s2 s'" using step(1,3) by blast
    moreover have "grows s1 s2" using clone_round_grows [of s1 c K pid tracee_pid st found] round by simp
    ultimately show ?thesis using s1 grows_trans by blast
  qed
qed

lemma test_trace_clone_grows:
  assumes "test_trace_clone c K F s = Some (Inr (Ret (Inr s')))"
  shows "grows s s'"
proof -
  obtain pid s1 where fork: "fork_assert K F s = (pid, s1)" by fastforce
  from assms fork obtain expected found s2 where loop: "clone_loop c K F pid (0, 0) s1 = Some (Ret ((expected, found), s2))"
    and "s' = (if expected \<noteq> 0 \<and> expected = found then s2
      else fail_verbose ''Test for PINK_TRACE_OPTION_CLONE failed'' ''test_trace_clone'' 99 s2)"
    by (auto simp: test_trace_clone_def fork_test_def obind_Ret_iff split: if_splits)
  then have "grows s2 s'" by simp
  then show ?thesis
    using fork_assert_grows [OF fork] clone_loop_grows [OF loop refl] grows_trans by blast
qed

lemma unless_zero_grows: "grows s t \<Longrightarrow> grows s (unless_zero msg line call t)"
  by (cases call) (auto simp: unless_zero_def Let_def intro!: grows_more)

lemma test_read_write_int_grows:
  assumes "test_read_write_int c P s = Ret s'"
  shows "grows s s'"
proof (cases "pink_pipe_init c P (world_of s)")
  case (fields r fds w)
  with assms show ?thesis
    by (auto simp: test_read_write_int_def obind_Ret_iff Let_def split: option.splits if_splits
        intro!: unless_zero_grows grows_more)
qed

lemma write_syscall_case_grows: "write_syscall_case c i s = Inr (x, s') \<Longrightarrow> grows s s'"
  by (auto simp: write_syscall_case_def split: if_splits prod.splits dest!: lookup_or_fail_grows intro: grows_trans)

lemmas socket_test_defs = test_read_socket_address_af_null_def test_read_socket_address_af_unix_def
  test_read_socket_address_af_unixabs_def test_read_socket_address_af_inet_def test_read_socket_address_af_inet6_def
  test_read_socket_address_af_netlink_def

lemma socket_test_grows:
  assumes "socket_test c K F Y addr0 t func l1 l2 l3 family rest addr n s = Some (Inr (Ret (Inr s')))"
    and "\<And>pid pad. reports (rest pid pad)"
  shows "grows s s'"
  using assms(1) unfolding socket_test_def by (rule sysgood_test_grows) (intro reports_intros assms(2))

lemma unless_skipped_grows:
  assumes "unless_skipped have test s = Some (Inr (Ret (Inr s')))" and "test s = Some (Inr (Ret (Inr s'))) \<Longrightarrow> grows s s'"
  shows "grows s s'"
  using assms by (auto simp: unless_skipped_def split: if_splits)

lemmas memory_test_defs = test_vm_lread_def test_vm_lread_nul_def test_vm_lread_nul_long_def test_read_argument_def
  test_read_vm_data_def test_read_vm_data_nul_def test_read_vm_data_nul_long_def test_read_string_array_def
  test_write_argument_def test_write_vm_data_def test_trace_sysgood_def

lemma memory_tests_grow:
  "test_trace_sysgood c K F s = Some (Inr (Ret (Inr s'))) \<Longrightarrow> grows s s'"
  "test_vm_lread c K F stack i s = Some (Inr (Ret (Inr s'))) \<Longrightarrow> grows s s'"
  "test_vm_lread_nul c K F stack i s = Some (Inr (Ret (Inr s'))) \<Longrightarrow> grows s s'"
  "test_vm_lread_nul_long c K F stack i s = Some (Inr (Ret (Inr s'))) \<Longrightarrow> grows s s'"
  "test_read_argument c K F i s = Some (Inr (Ret (Inr s'))) \<Longrightarrow> grows s s'"
  "test_read_vm_data c K F stack i s = Some (Inr (Ret (Inr s'))) \<Longrightarrow> grows s s'"
  "test_read_vm_data_nul c K F stack i s = Some (Inr (Ret (Inr s'))) \<Longrightarrow> grows s s'"
  "test_read_vm_data_nul_long c K F stack i s = Some (Inr (Ret (Inr s'))) \<Longrightarrow> grows s s'"
  "test_read_string_array c K F cp0 stack i s = Some (Inr (Ret (Inr s'))) \<Longrightarrow> grows s s'"
  "test_write_argument c K F i s = Some (Inr (Ret (Inr s'))) \<Longrightarrow> grows s s'"
  "test_write_vm_data c K F junk stack i s = Some (Inr (Ret (Inr s'))) \<Longrightarrow> grows s s'"
  unfolding memory_test_defs Let_def
  by (erule sysgood_test_grows; intro reports_intros)+

lemma socket_tests_grow:
  "test_read_socket_address_af_null c K F Y addr0 t s = Some (Inr (Ret (Inr s'))) \<Longrightarrow> grows s s'"
  "test_read_socket_address_af_unix c K F Y stack addr0 t s = Some (Inr (Ret (Inr s'))) \<Longrightarrow> grows s s'"
  "test_read_socket_address_af_unixabs c K F Y stack addr0 t s = Some (Inr (Ret (Inr s'))) \<Longrightarrow> grows s s'"
  "test_read_socket_address_af_inet c K F Y stack addr0 t s = Some (Inr (Ret (Inr s'))) \<Longrightarrow> grows s s'"
  unfolding socket_test_defs
  by (erule socket_test_grows; intro reports_intros)+

lemma optional_socket_tests_grow:
  "test_read_socket_address_af_inet6 c K F Y stack addr0 t s = Some (Inr (Ret (Inr s'))) \<Longrightarrow> grows s s'"
  "test_read_socket_address_af_netlink c K F Y stack addr0 t s = Some (Inr (Ret (Inr s'))) \<Longrightarrow> grows s s'"
  unfolding socket_test_defs
  by (erule unless_skipped_grows, erule socket_test_grows; intro reports_intros)+

lemma test_trace_exec_grows: "test_trace_exec c K F release s = Some (Inr (Ret (Inr s'))) \<Longrightarrow> grows s s'"
  unfolding test_trace_exec_def by (erule traced_test_grows) (simp add: reports_intros)

text \<open>The tests that look up a system call before they fork.\<close>

lemma lookup_tests_grow:
  "test_read_syscall c K F s = Some (Inr (Ret (Inr s'))) \<Longrightarrow> grows s s'"
  "test_read_retval_good c K F s = Some (Inr (Ret (Inr s'))) \<Longrightarrow> grows s s'"
  "test_read_retval_fail c K F s = Some (Inr (Ret (Inr s'))) \<Longrightarrow> grows s s'"
  "test_write_syscall c K F i s = Some (Inr (Ret (Inr s'))) \<Longrightarrow> grows s s'"
  "test_write_retval c K F i s = Some (Inr (Ret (Inr s'))) \<Longrightarrow> grows s s'"
proof -
  show "test_read_syscall c K F s = Some (Inr (Ret (Inr s'))) \<Longrightarrow> grows s s'"
    unfolding test_read_syscall_def
    by (auto split: prod.splits dest!: lookup_or_fail_grows elim!: grows_trans sysgood_test_grows intro: reports_intros)
  show "test_read_retval_good c K F s = Some (Inr (Ret (Inr s'))) \<Longrightarrow> grows s s'"
    unfolding test_read_retval_good_def
    by (auto split: prod.splits dest!: lookup_or_fail_grows elim!: grows_trans sysgood_test_grows intro: reports_intros)
  show "test_read_retval_fail c K F s = Some (Inr (Ret (Inr s'))) \<Longrightarrow> grows s s'"
    unfolding test_read_retval_fail_def
    by (auto split: prod.splits dest!: lookup_or_fail_grows elim!: grows_trans sysgood_test_grows intro: reports_intros)
  show "test_write_syscall c K F i s = Some (Inr (Ret (Inr s'))) \<Longrightarrow> grows s s'"
    unfolding test_write_syscall_def
    by (auto split: sum.splits prod.splits dest!: write_syscall_case_grows elim!: grows_trans sysgood_test_grows intro: reports_intros)
  show "test_write_retval c K F i s = Some (Inr (Ret (Inr s'))) \<Longrightarrow> grows s s'"
    unfolding test_write_retval_def Let_def
    by (auto split: prod.splits if_splits dest!: lookup_or_fail_grows elim!: grows_trans traced_test_grows intro: reports_intros)
qed

lemma run_single_grows: "run_single E release f s = Ret s' \<Longrightarrow> grows s s'"
proof -
  assume "run_single E release f s = Ret s'"
  then have "tested E release f s = Some (Inr (Ret (Inr s')))"
    by (auto simp: run_single_def run_tested_def split: option.splits sum.splits outcome.splits)
  then show ?thesis
    by (cases f) (auto simp: obind_Ret_iff intro: test_trace_clone_grows memory_tests_grow socket_tests_grow
        optional_socket_tests_grow test_trace_exec_grows lookup_tests_grow test_read_write_int_grows)
qed

interpretation single: reporting_run "run_single E release" for E release
  by unfold_locales (rule run_single_grows)

section \<open>From the exit status to the tests\<close>

context reporting_run
begin

lemma fixture_steps:
  assumes "test_fixture digits run file tests s = Ret s'"
  shows "grows s s' \<and> (sea_tests_failed s' = sea_tests_failed s \<longrightarrow>
    (\<forall>(name, f)\<in>set tests. fst (seatest_should_run file (Some name) s) \<longrightarrow> passed run f))"
proof -
  from assms obtain s1 where 1: "run_list run file tests (seatest_test_fixture_start file s) = Ret s1"
    and s': "s' = seatest_test_fixture_end digits s1"
    by (auto simp: test_fixture_def obind_Ret_iff)
  have "fst (seatest_should_run file (Some n) (seatest_test_fixture_start file s)) = fst (seatest_should_run file (Some n) s)" for n
    by (rule should_run_settings) simp
  with run_list_steps [OF 1] s' show ?thesis by (auto simp: grows_def)
qed

lemma fixture_passes:
  assumes "no_hooks s"
    and "\<And>name f t. (name, f) \<in> set tests \<Longrightarrow> fst (seatest_should_run file (Some name) s) \<Longrightarrow>
      \<exists>t'. run f t = Ret t' \<and> sea_tests_failed t' = sea_tests_failed t"
  shows "\<exists>s'. test_fixture digits run file tests s = Ret s' \<and> sea_tests_failed s' = sea_tests_failed s"
proof -
  have "fst (seatest_should_run file (Some n) (seatest_test_fixture_start file s)) = fst (seatest_should_run file (Some n) s)" for n
    by (rule should_run_settings) simp
  then have "\<exists>s1. run_list run file tests (seatest_test_fixture_start file s) = Ret s1 \<and>
      sea_tests_failed s1 = sea_tests_failed (seatest_test_fixture_start file s)"
    using assms by (intro run_list_passes) auto
  then show ?thesis by (auto simp: test_fixture_def)
qed

end

fun suite_file :: "suite \<Rightarrow> string" where
  "suite_file Suite_trace = ''trace-TEST.c''"
| "suite_file Suite_vm = ''vm-TEST.c''"
| "suite_file Suite_read = ''read-TEST.c''"
| "suite_file Suite_write = ''write-TEST.c''"
| "suite_file Suite_socket = ''socket-TEST.c''"
| "suite_file Suite_pipe = ''pipe-TEST.c''"

fun suite_name :: "suite \<Rightarrow> string" where
  "suite_name Suite_trace = ''trace''"
| "suite_name Suite_vm = ''vm''"
| "suite_name Suite_read = ''read''"
| "suite_name Suite_write = ''write''"
| "suite_name Suite_socket = ''socket''"
| "suite_name Suite_pipe = ''pipe''"

lemma run_suite_fixture:
  "run_suite E release x = test_fixture (te_digits E) (run_single E release) (suite_file x) (suite_tests x)"
  by (cases x) (simp_all add: test_suite_trace_def test_suite_vm_def test_suite_read_def test_suite_write_def
      test_suite_socket_def test_suite_pipe_def fun_eq_iff del: suite_tests.simps)

lemma run_suite_steps:
  assumes "run_suite E release x s = Ret s'"
  shows "grows s s' \<and> (sea_tests_failed s' = sea_tests_failed s \<longrightarrow>
    (\<forall>(name, f)\<in>set (suite_tests x). fst (seatest_should_run (suite_file x) (Some name) s) \<longrightarrow> passed (run_single E release) f))"
  using assms unfolding run_suite_fixture by (rule single.fixture_steps)

text \<open>What the environment does not skip.\<close>

definition not_skipped :: "string option \<Rightarrow> suite \<Rightarrow> bool" where
  "not_skipped skip x \<longleftrightarrow> (case skip of None \<Rightarrow> True | Some text \<Rightarrow> \<not> strstr text (suite_name x))"

definition unless_skip :: "(suite \<Rightarrow> 's \<Rightarrow> 's outcome) \<Rightarrow> string option \<Rightarrow> suite \<Rightarrow> 's \<Rightarrow> 's outcome" where
  "unless_skip run skip x s = (if not_skipped skip x then run x s else Ret s)"

lemma all_tests_chain:
  "all_tests run skip s =
     obind (unless_skip run skip Suite_trace s) (\<lambda>s. obind (unless_skip run skip Suite_vm s) (\<lambda>s.
     obind (unless_skip run skip Suite_read s) (\<lambda>s. obind (unless_skip run skip Suite_write s) (\<lambda>s.
     obind (unless_skip run skip Suite_socket s) (unless_skip run skip Suite_pipe)))))"
proof -
  have m: "(case skip of None \<Rightarrow> run x s | Some text \<Rightarrow> if strstr text (suite_name x) then Ret s else run x s) =
      unless_skip run skip x s" for x s
    by (simp add: unless_skip_def not_skipped_def split: option.split)
  show ?thesis
    unfolding all_tests_def Let_def
    by (simp only: m [of Suite_trace, unfolded suite_name.simps] m [of Suite_vm, unfolded suite_name.simps]
        m [of Suite_read, unfolded suite_name.simps] m [of Suite_write, unfolded suite_name.simps]
        m [of Suite_socket, unfolded suite_name.simps] m [of Suite_pipe, unfolded suite_name.simps])
qed

lemma all_tests_steps:
  assumes "all_tests run skip s = Ret s'" and "\<And>x t t'. run x t = Ret t' \<Longrightarrow> grows t t'"
  shows "grows s s' \<and> (\<forall>x. not_skipped skip x \<longrightarrow> (\<exists>t t'. run x t = Ret t' \<and> grows s t \<and> grows t' s'))"
proof -
  let ?maybe = "unless_skip run skip"
  have grow: "grows t t'" if "?maybe x t = Ret t'" for x t t'
    using that assms(2) by (auto simp: unless_skip_def split: if_splits)
  from assms(1) obtain s1 s2 s3 s4 s5 where steps:
    "?maybe Suite_trace s = Ret s1" "?maybe Suite_vm s1 = Ret s2" "?maybe Suite_read s2 = Ret s3"
    "?maybe Suite_write s3 = Ret s4" "?maybe Suite_socket s4 = Ret s5" "?maybe Suite_pipe s5 = Ret s'"
    unfolding all_tests_chain by (auto simp: obind_Ret_iff)
  note g = grow [OF steps(1)] grow [OF steps(2)] grow [OF steps(3)] grow [OF steps(4)] grow [OF steps(5)] grow [OF steps(6)]
  have to: "grows s s2" "grows s s3" "grows s s4" "grows s s5" "grows s s'"
    using g grows_trans by blast+
  have upto: "grows s1 s'" "grows s2 s'" "grows s3 s'" "grows s4 s'"
    using g grows_trans by blast+
  have "\<exists>t t'. ?maybe x t = Ret t' \<and> grows s t \<and> grows t' s'" for x
    using steps g to upto by (cases x) (blast intro: grows_refl)+
  with to(5) show ?thesis unfolding unless_skip_def by metis
qed

lemma run_program_grows: "run_program E release f s = Ret s' \<Longrightarrow> grows s s'"
  by (cases "f = All_tests")
    (auto simp: run_program_def run_single_grows dest!: all_tests_steps dest: run_suite_steps)

interpretation program: reporting_run "run_program E release" for E release
  by unfold_locales (rule run_program_grows)

text \<open>The command line changes neither the counters nor \<open>seatest_display_only\<close>.\<close>

definition kept :: "('f, 'w) seatest \<Rightarrow> int \<times> bool \<times> bool" where
  "kept s = (sea_tests_failed s, seatest_display_only s, no_hooks s)"

lemma kept_update [simp]:
  "kept (s\<lparr>seatest_verbose := b\<rparr>) = kept s" "kept (s\<lparr>seatest_machine_readable := b\<rparr>) = kept s"
  "kept (test_filter v s) = kept s" "kept (fixture_filter v s) = kept s" "kept (sea_print ts s) = kept s"
  "set_magic_marker v s = Ret t \<Longrightarrow> kept t = kept s"
  by (auto simp: kept_def no_hooks_def test_filter_def fixture_filter_def set_magic_marker_def sea_print_def split: if_splits)

lemma option_with_value_keeps:
  assumes "seatest_parse_commandline_option_with_value argv arg opt setter action s = Ret (taken, action', s')"
    and "\<And>v t t'. setter v t = Ret t' \<Longrightarrow> kept t' = kept t"
  shows "kept s' = kept s"
proof (cases "seatest_is_string_equal_i (argv ! arg) opt \<and> seatest_commandline_has_value_after argv arg")
  case True
  with assms show ?thesis by (auto simp: seatest_parse_commandline_option_with_value_def obind_Ret_iff)
next
  case False
  with assms(1) show ?thesis
    by (auto simp: seatest_parse_commandline_option_with_value_def split: if_splits)
qed

lemma interpret_argument_keeps:
  assumes "interpret_argument argv arg action s = Ret (arg', action', s')"
  shows "kept s' = kept s"
proof -
  let ?s2 = "if seatest_is_string_equal_i (argv ! arg) ''-m''
    then (if seatest_is_string_equal_i (argv ! arg) ''-v'' then s\<lparr>seatest_verbose := True\<rparr> else s)\<lparr>seatest_machine_readable := True\<rparr>
    else (if seatest_is_string_equal_i (argv ! arg) ''-v'' then s\<lparr>seatest_verbose := True\<rparr> else s)"
  from assms obtain t f k a1 a2 a3 arg1 arg2 s3 s4 where
    1: "seatest_parse_commandline_option_with_value argv arg ''-t'' (\<lambda>v s. Ret (test_filter v s)) a1 ?s2 = Ret (t, a2, s3)" and
    2: "seatest_parse_commandline_option_with_value argv arg1 ''-f'' (\<lambda>v s. Ret (fixture_filter v s)) a2 s3 = Ret (f, a3, s4)" and
    3: "seatest_parse_commandline_option_with_value argv arg2 ''-k'' set_magic_marker a3 s4 = Ret (k, action', s')"
    unfolding interpret_argument_def Let_def obind_Ret_iff split_paired_Ex prod.case outcome.inject prod.inject by blast
  have "kept s3 = kept ?s2" by (rule option_with_value_keeps [OF 1]) auto
  moreover have "kept s4 = kept s3" by (rule option_with_value_keeps [OF 2]) auto
  moreover have "kept s' = kept s4"
    by (rule option_with_value_keeps [OF 3]) (rule kept_update)
  moreover have "kept ?s2 = kept s" by simp
  ultimately show ?thesis by simp
qed

lemma commandline_keeps: "seatest_interpret_commandline argv arg action s = Ret (action', s') \<Longrightarrow> kept s' = kept s"
proof (induction argv arg action s rule: seatest_interpret_commandline.induct)
  case (1 argv arg action s)
  note run = 1(2) [unfolded seatest_interpret_commandline.simps [of argv arg action s]]
  show ?case
  proof (cases "arg < length argv \<and> action \<noteq> SEATEST_DO_ABORT \<and> \<not> seatest_is_string_equal_i (argv ! arg) ''help''")
    case False
    with run show ?thesis by (auto simp: seatest_show_help_def Let_def split: if_splits)
  next
    case True
    with run obtain arg1 action1 t where step: "interpret_argument argv arg action s = Ret (arg1, action1, t)"
      and rest: "seatest_interpret_commandline argv (arg1 + 1) action1 t = Ret (action', s')"
      by (auto split: outcome.splits)
    from True step rest have "kept s' = kept t" by (intro 1(1)) auto
    with interpret_argument_keeps [OF step] show ?thesis by simp
  qed
qed

text \<open>An exit status of 0, after the tests were run and with output for people.\<close>

lemma check_program_ran:
  fixes s1 :: "(test_fn, 'k) check"
  assumes "check_program E release argv (seatest_start w) = Ret (0, s')"
    and "seatest_testrunner_create argv (seatest_start w) = Ret (SEATEST_RUN_TESTS, s1)"
    and "\<not> seatest_machine_readable s1"
  shows "\<exists>u os s2 s3. release = Inr u \<and> get_os_release u = Ret (Some os) \<and> settings s2 = settings s1 \<and>
    all_tests (run_suite E os) (te_skip E) s2 = Ret s3 \<and> sea_tests_failed s3 = sea_tests_failed s2"
proof -
  from assms(1) obtain u os where u: "release = Inr u" "get_os_release u = Ret (Some os)"
    and runner: "seatest_testrunner (te_digits E) (run_program E os) argv All_tests None None (seatest_start w) = Ret (True, s')"
    by (auto simp: check_program_def check_main_def obind_Ret_iff split: sum.splits option.splits if_splits)
  let ?s2 = "suite_teardown None (suite_setup None s1)"
  from runner assms(2) have run: "run_tests (te_digits E) (run_program E os) All_tests ?s2 = Ret (True, s')"
    by (simp add: seatest_testrunner_def)
  then obtain s3 where s3: "run_program E os All_tests ?s2 = Ret s3" by (auto simp: run_tests_def obind_Ret_iff)
  have kept: "sea_tests_failed s1 = 0" "\<not> seatest_display_only s1"
    using commandline_keeps [OF assms(2) [unfolded seatest_testrunner_create_def]]
    by (simp_all add: kept_def seatest_start_def)
  then have s2: "sea_tests_failed ?s2 = 0" "settings ?s2 = settings s1"
    by (simp_all add: settings_def suite_setup_def suite_teardown_def)
  with run_program_grows [OF s3] kept assms(3) have "\<not> seatest_display_only s3" "\<not> seatest_machine_readable s3"
    by (auto simp: grows_def settings_def)
  with run s3 have "sea_tests_failed s3 = 0"
    by (auto simp: run_tests_def Let_def)
  with u s2 s3 show ?thesis by (auto simp: run_program_def)
qed

lemma check_program_passed:
  fixes s1 :: "(test_fn, 'k) check"
  assumes "check_program E release argv (seatest_start w) = Ret (0, s')"
    and "seatest_testrunner_create argv (seatest_start w) = Ret (SEATEST_RUN_TESTS, s1)"
    and "\<not> seatest_machine_readable s1"
    and "not_skipped (te_skip E) x" and "(name, f) \<in> set (suite_tests x)"
    and "fst (seatest_should_run (suite_file x) (Some name) s1)"
  shows "\<exists>u os t t'. release = Inr u \<and> get_os_release u = Ret (Some os) \<and> tested E os f t = Some (Inr (Ret (Inr t'))) \<and>
    sea_tests_failed t' = sea_tests_failed t"
proof -
  obtain u os s2 s3 where u: "release = Inr u" "get_os_release u = Ret (Some os)" and s2: "settings s2 = settings s1"
    and all: "all_tests (run_suite E os) (te_skip E) s2 = Ret s3" and none: "sea_tests_failed s3 = sea_tests_failed s2"
    using check_program_ran [OF assms(1-3)] by blast
  obtain t t' where run: "run_suite E os x t = Ret t'" "grows s2 t" "grows t' s3"
    using all_tests_steps [OF all] run_suite_steps assms(4) by blast
  have "grows t t'" using run_suite_steps [OF run(1)] by blast
  with run none have "sea_tests_failed t' = sea_tests_failed t" "settings t = settings s1"
    using s2 by (auto simp: grows_def)
  with run_suite_steps [OF run(1)] assms(5,6) should_run_settings [of t s1]
  have "passed (run_single E os) f" by fastforce
  then obtain t t' where "run_tested (tested E os f t) = Ret t'" "sea_tests_failed t' = sea_tests_failed t"
    by (auto simp: passed_def run_single_def)
  moreover from this(1) have "tested E os f t = Some (Inr (Ret (Inr t')))"
    by (auto simp: run_tested_def split: option.splits sum.splits outcome.splits)
  ultimately show ?thesis using u by blast
qed

text \<open>The other direction: a program whose selected tests pass ends with the status 0.\<close>

lemma all_tests_passes:
  fixes s :: "('f, 'w) seatest"
  assumes "no_hooks s" and "\<And>x t t'. run x t = Ret t' \<Longrightarrow> grows t t'"
    and "\<And>x t. no_hooks t \<Longrightarrow> settings t = settings s \<Longrightarrow>
      \<exists>t'. run x t = Ret t' \<and> sea_tests_failed t' = sea_tests_failed t"
  shows "\<exists>s'. all_tests run skip s = Ret s' \<and> sea_tests_failed s' = sea_tests_failed s"
proof -
  define ok where "ok t \<longleftrightarrow> no_hooks t \<and> settings t = settings s \<and> sea_tests_failed t = sea_tests_failed s"
    for t :: "('f, 'w) seatest"
  let ?maybe = "unless_skip run skip"
  have step: "\<exists>t'. ?maybe x t = Ret t' \<and> ok t'" if "ok t" for x t
    using that assms(2) [of x t] assms(3) [of t x] by (fastforce simp: ok_def unless_skip_def grows_def)
  have "ok s" using assms(1) by (simp add: ok_def)
  then obtain s1 s2 s3 s4 s5 s' where "?maybe Suite_trace s = Ret s1" "?maybe Suite_vm s1 = Ret s2" "?maybe Suite_read s2 = Ret s3"
    "?maybe Suite_write s3 = Ret s4" "?maybe Suite_socket s4 = Ret s5" "?maybe Suite_pipe s5 = Ret s'" "ok s'"
    using step by metis
  then show ?thesis unfolding all_tests_chain by (auto simp: ok_def)
qed

lemma check_program_passes:
  fixes s1 :: "(test_fn, 'k) check"
  assumes "get_os_release u = Ret (Some os)"
    and "seatest_testrunner_create argv (seatest_start w) = Ret (SEATEST_RUN_TESTS, s1)"
    and "\<And>x name f t. (name, f) \<in> set (suite_tests x) \<Longrightarrow> fst (seatest_should_run (suite_file x) (Some name) s1) \<Longrightarrow>
      \<exists>t'. run_single E os f t = Ret t' \<and> sea_tests_failed t' = sea_tests_failed t"
  shows "\<exists>s'. check_program E (Inr u) argv (seatest_start w) = Ret (0, s') \<and> sea_tests_failed s' = 0"
proof -
  let ?s2 = "suite_teardown None (suite_setup None s1)"
  have "kept s1 = (0, False, True)"
    using commandline_keeps [OF assms(2) [unfolded seatest_testrunner_create_def]]
    by (simp add: kept_def seatest_start_def no_hooks_def)
  then have s2: "no_hooks ?s2" "settings ?s2 = settings s1" "sea_tests_failed ?s2 = 0"
    by (simp_all add: kept_def no_hooks_def settings_def suite_setup_def suite_teardown_def)
  have "\<exists>s3. all_tests (run_suite E os) (te_skip E) ?s2 = Ret s3 \<and> sea_tests_failed s3 = sea_tests_failed ?s2"
  proof (rule all_tests_passes [OF s2(1)])
    show "grows t t'" if "run_suite E os x t = Ret t'" for x t t' using run_suite_steps [OF that] by blast
    show "\<exists>t'. run_suite E os x t = Ret t' \<and> sea_tests_failed t' = sea_tests_failed t"
      if "no_hooks t" "settings t = settings ?s2" for x t
      unfolding run_suite_fixture using that s2(2) assms(3) should_run_settings [of t s1]
      by (intro single.fixture_passes) auto
  qed
  then obtain s3 where "run_program E os All_tests ?s2 = Ret s3" "sea_tests_failed s3 = 0"
    using s2(3) by (auto simp: run_program_def)
  then have "\<exists>s'. run_tests (te_digits E) (run_program E os) All_tests ?s2 = Ret (True, s') \<and> sea_tests_failed s' = 0"
    by (simp add: run_tests_def Let_def)
  then show ?thesis
    using assms(1,2) by (auto simp: check_program_def check_main_def seatest_testrunner_def)
qed

section \<open>The tests of the arguments\<close>

lemma read_argument_in_suite: "i < 6 \<Longrightarrow> (''test_read_argument'', Test_read_argument i) \<in> set (suite_tests Suite_read)"
  by (auto simp: for_all_def PINK_MAX_ARGS_def)

lemma check_program_evidence:
  fixes s1 :: "(test_fn, 'k) check"
  assumes "check_program E release argv (seatest_start w) = Ret (0, s')"
    and "seatest_testrunner_create argv (seatest_start w) = Ret (SEATEST_RUN_TESTS, s1)"
    and "\<not> seatest_machine_readable s1" and "not_skipped (te_skip E) Suite_read"
    and "fst (seatest_should_run ''read-TEST.c'' (Some ''test_read_argument'') s1)" and "i < 6"
  shows "\<exists>pid regset w. argument_read (te_config E) (te_kernel E) pid i regset 0xbad w"
proof -
  obtain os t t' where "tested E os (Test_read_argument i) t = Some (Inr (Ret (Inr t')))" "sea_tests_failed t' = sea_tests_failed t"
    using check_program_passed [OF assms(1-4) read_argument_in_suite [OF assms(6)]] assms(5) by auto
  then show ?thesis using test_read_argument_sound by simp
qed

text \<open>The command line \<open>-t test_read_argument\<close> selects these tests only.\<close>

definition argument_argv :: "string list" where
  "argument_argv = [''pinktrace-check'', ''-t'', ''test_read_argument'']"

lemma argument_create:
  "seatest_testrunner_create argument_argv s = Ret (SEATEST_RUN_TESTS, test_filter ''test_read_argument'' s)"
  by (simp add: argument_argv_def seatest_testrunner_create_def seatest_interpret_commandline.simps interpret_argument_def Let_def
      seatest_is_string_equal_i_def lower_ascii_def seatest_parse_commandline_option_with_value_def
      seatest_commandline_has_value_after_def)

lemma argument_selected:
  assumes "(name, f) \<in> set (suite_tests x)"
    and "fst (seatest_should_run file (Some name) (test_filter ''test_read_argument'' (seatest_start w)))"
  shows "\<exists>i<6. f = Test_read_argument i"
  using assms
  by (cases x) (auto simp: seatest_should_run_def test_filter_def seatest_start_def Let_def strncmp_eq_def for_all_def
      for_all_sys_def PINK_MAX_ARGS_def)

lemma check_program_arguments:
  fixes E :: "(64 word, 'k) test_env"
  assumes "cfg_arch (te_config E) = X86_64" and "have_feature (te_config E) HAVE_SETUP"
    and "have_feature (te_config E) HAVE_OPTION_SYSGOOD" and "have_feature (te_config E) HAVE_GETREGSET"
    and "x86_regs_contract (te_kernel E) pid blk" and "traced_child (te_kernel E) (te_calls E) pid blk phase bs"
    and "\<And>i. i < 6 \<Longrightarrow> invalid_call_regs i 0xbad bs" and "get_os_release u = Ret (Some os)"
  shows "\<exists>s'. check_program E (Inr u) argument_argv (seatest_start w) = Ret (0, s') \<and> sea_tests_failed s' = 0"
proof (rule check_program_passes [OF assms(8) argument_create])
  fix x name f and t :: "(test_fn, 'k) check"
  assume f: "(name, f) \<in> set (suite_tests x)"
    and selected: "fst (seatest_should_run (suite_file x) (Some name)
      (test_filter ''test_read_argument'' (seatest_start w) :: (test_fn, 'k) check))"
  obtain i where i: "i < 6" "f = Test_read_argument i" using argument_selected [OF f selected] by (elim exE conjE)
  have "\<exists>t'. test_read_argument (te_config E) (te_kernel E) (te_calls E) i t = Some (Inr (Ret (Inr t'))) \<and>
      sea_tests_failed t' = sea_tests_failed t"
    by (rule test_read_argument_passes [OF assms(1-6) assms(7) [OF i(1)] i(1)])
  then obtain t' where "test_read_argument (te_config E) (te_kernel E) (te_calls E) i t = Some (Inr (Ret (Inr t')))"
    "sea_tests_failed t' = sea_tests_failed t" by blast
  then show "\<exists>t'. run_single E os f t = Ret t' \<and> sea_tests_failed t' = sea_tests_failed t"
    by (intro exI [of _ t']) (simp add: i run_single_def run_tested_def)
qed

section \<open>Properties of the test program\<close>


definition ref_env :: "(64 word, byte list) test_env" where
  "ref_env =
     \<lparr>te_config = ref_config X86_64, te_kernel = ref_x86_kernel, te_calls = ref_traced_calls, te_pipes = ref_pipe,
      te_sys = \<lparr>SYS_socketcall = False, SYS_number = \<lambda>_. 0\<rparr>, te_junk = \<lambda>n. replicate n 0, te_stack = \<lambda>n. replicate n 0,
      te_cp = [], te_addr = \<lparr>sa_family = 0, sa_length = 0, sa_pad = replicate 128 0\<rparr>, te_digits = \<lambda>_. [], te_skip = None\<rparr>"

definition ref_check_world :: "byte list check_world" where
  "ref_check_world = \<lparr>ck_world = \<lparr>errno = 0, kern = []\<rparr>, ck_pgid = - 1\<rparr>"

lemma ref_env_simps [simp]:
  "te_config ref_env = ref_config X86_64" "te_kernel ref_env = ref_x86_kernel" "te_calls ref_env = ref_traced_calls"
  "te_skip ref_env = None"
  by (simp_all add: ref_env_def)




end
