(* ===== verification/Pink_Python.thy ===== *)
theory Pink_Python
  imports Pink_Read
begin

text \<open>
  The Python bindings, \<^verbatim>\<open>python/pinktrace/py-*.c\<close>: the functions that unpack the
  arguments of a Python call, call the library, and turn its result into a Python
  object or an exception.
\<close>

unbundle bit_operations_syntax

section \<open>Python objects and the result of a call\<close>

datatype pyobj = Py_True | Py_int int | Py_str string

text \<open>
  The exceptions the bindings raise. Those of \<open>PyArg_ParseTuple\<close> are \<open>Bad_arguments\<close>: for
  arguments of the wrong number or type, for a number out of range, and for a string
  with a null character in it.
\<close>

datatype arg_error = Type_error | Overflow_error | Null_character

datatype py_exc = SystemError | OSError int | ValueError string | MemoryError | Bad_arguments arg_error

text \<open>
  What a function of the C API leaves behind: the object it returns (\<open>None\<close> is
  \<open>NULL\<close>), the exception that is set, and the world.
\<close>

type_synonym 'k py_result = "pyobj option \<times> py_exc option \<times> 'k world"

text \<open>The C values that the format units store: \<open>i\<close>, \<open>I\<close>, \<open>h\<close>, \<open>l\<close> and \<open>s\<close>.\<close>

datatype 'w cval = C_int "32 word" | C_uint "32 word" | C_short "16 word" | C_long 'w | C_str string

text \<open>
  \<open>PyArg_ParseTuple\<close> is a parameter: from the format and the arguments it gives the
  values it stores, fewer than the format has when optional arguments are
  missing, or it fails. \<open>PARSE_PID\<close> is \<open>i\<close>, as \<open>pid_t\<close> is an \<open>int\<close> on Linux.
\<close>

type_synonym 'w parse_tuple = "string \<Rightarrow> pyobj list \<Rightarrow> arg_error + 'w cval list"

text \<open>
  A variable that has to be parsed, and one that keeps its initial value when its
  argument is missing. Only a parser that stores the wrong values leaves a variable
  undefined.
\<close>

fun parsed_int :: "'w cval list \<Rightarrow> (32 word \<Rightarrow> 'w cval list \<Rightarrow> 'r outcome) \<Rightarrow> 'r outcome" where
  "parsed_int (C_int v # vs) f = f v vs"
| "parsed_int _ f = Fault Undefined"

fun parsed_opt_int ::
    "32 word \<Rightarrow> 'w cval list \<Rightarrow> (32 word \<Rightarrow> 'w cval list \<Rightarrow> 'r outcome) \<Rightarrow> 'r outcome" where
  "parsed_opt_int d [] f = f d []"
| "parsed_opt_int d (C_int v # vs) f = f v vs"
| "parsed_opt_int d _ f = Fault Undefined"

fun parsed_opt_short :: "int \<Rightarrow> 'w cval list \<Rightarrow> (int \<Rightarrow> 'r outcome) \<Rightarrow> 'r outcome" where
  "parsed_opt_short d [] f = f d"
| "parsed_opt_short d [C_short v] f = f (sint v)"
| "parsed_opt_short d _ f = Fault Undefined"

fun parsed_uint :: "'w cval list \<Rightarrow> (32 word \<Rightarrow> 'r outcome) \<Rightarrow> 'r outcome" where
  "parsed_uint [C_uint v] f = f v"
| "parsed_uint _ f = Fault Undefined"

fun parsed_long :: "'w cval list \<Rightarrow> ('w \<Rightarrow> 'w cval list \<Rightarrow> 'r outcome) \<Rightarrow> 'r outcome" where
  "parsed_long (C_long v # vs) f = f v vs"
| "parsed_long _ f = Fault Undefined"

fun parsed_str :: "'w cval list \<Rightarrow> (string \<Rightarrow> 'w cval list \<Rightarrow> 'r outcome) \<Rightarrow> 'r outcome" where
  "parsed_str (C_str v # vs) f = f v vs"
| "parsed_str _ f = Fault Undefined"

definition parse_args ::
    "'w parse_tuple \<Rightarrow> string \<Rightarrow> pyobj list \<Rightarrow> 'k world \<Rightarrow> ('w cval list \<Rightarrow> 'k py_result outcome) \<Rightarrow>
     'k py_result outcome" where
  "parse_args parse fmt args w f =
     (case parse fmt args of Inl e \<Rightarrow> Ret (None, Some (Bad_arguments e), w) | Inr vs \<Rightarrow> f vs)"

section \<open>The macros of py-pink.h\<close>

text \<open>
  After \<open>-ENOSYS\<close> the exception is set, but the macro does not return: what follows
  it, here \<open>rest\<close>, is executed with the exception set. The message about a signal is
  kept without its number.
\<close>

definition PINK_CALL ::
    "int \<times> 'k world \<Rightarrow> (py_exc option \<Rightarrow> 'k world \<Rightarrow> 'k py_result outcome) \<Rightarrow> 'k py_result outcome" where
  "PINK_CALL call rest =
     (case call of
        (r, w) \<Rightarrow>
          if r = - ENOSYS then rest (Some SystemError) w
          else if r < 0 then Ret (None, Some (OSError (- r)), w\<lparr>errno := - r\<rparr>)
          else rest None w)"

definition PINK_CALL_TRUE :: "int \<times> 'k world \<Rightarrow> 'k py_result outcome" where
  "PINK_CALL_TRUE call = PINK_CALL call (\<lambda>e w. Ret (Some Py_True, e, w))"

definition NSIG :: int where "NSIG = 65"

definition PINK_CHECK_SIGNAL :: "32 word \<Rightarrow> 'k world \<Rightarrow> 'k py_result outcome \<Rightarrow> 'k py_result outcome" where
  "PINK_CHECK_SIGNAL signum w rest =
     (if sint signum < 0 \<or> sint signum \<ge> NSIG then Ret (None, Some (ValueError ''Invalid signal''), w) else rest)"

definition PINK_CHECK_NULL ::
    "string option \<Rightarrow> string \<Rightarrow> 'k world \<Rightarrow> (string \<Rightarrow> 'k py_result outcome) \<Rightarrow> 'k py_result outcome" where
  "PINK_CHECK_NULL str msg w rest =
     (case str of None \<Rightarrow> Ret (None, Some (ValueError msg), w) | Some s \<Rightarrow> rest s)"

definition PINK_CHECK_LOOKUP :: "bool \<Rightarrow> string \<Rightarrow> 'k world \<Rightarrow> 'k py_result outcome \<Rightarrow> 'k py_result outcome" where
  "PINK_CHECK_LOOKUP failed msg w rest = (if failed then Ret (None, Some (ValueError msg), w) else rest)"

section \<open>py-trace.c\<close>

text \<open>A function with a process and an optional signal, as most of the file are.\<close>

definition call_with_signal ::
    "'w parse_tuple \<Rightarrow> pyobj list \<Rightarrow> (int \<Rightarrow> 32 word \<Rightarrow> 'k world \<Rightarrow> int \<times> 'k world) \<Rightarrow> 'k world \<Rightarrow>
     'k py_result outcome" where
  "call_with_signal parse args call w =
     parse_args parse ''i|i'' args w (\<lambda>vs.
       parsed_int vs (\<lambda>pid vs. parsed_opt_int 0 vs (\<lambda>sig _.
         PINK_CHECK_SIGNAL sig w (PINK_CALL_TRUE (call (sint pid) sig w)))))"

definition call_with_pid ::
    "'w parse_tuple \<Rightarrow> pyobj list \<Rightarrow> (int \<Rightarrow> 'k world \<Rightarrow> int \<times> 'k world) \<Rightarrow> 'k world \<Rightarrow>
     'k py_result outcome" where
  "call_with_pid parse args call w =
     parse_args parse ''i'' args w (\<lambda>vs. parsed_int vs (\<lambda>pid _. PINK_CALL_TRUE (call (sint pid) w)))"

type_synonym ('l, 'k) py_method =
  "pink_config \<Rightarrow> ('l word, 'k) kernel \<Rightarrow> 'l word parse_tuple \<Rightarrow> pyobj list \<Rightarrow> 'k world \<Rightarrow> 'k py_result outcome"

definition pinkpy_trace_me :: "('l::len, 'k) py_method" where
  "pinkpy_trace_me c K parse args w = PINK_CALL_TRUE (pink_trace_me K w)"

definition pinkpy_trace_resume :: "('l::len, 'k) py_method" where
  "pinkpy_trace_resume c K parse args w = call_with_signal parse args (pink_trace_resume K) w"

definition pinkpy_trace_kill :: "('l::len, 'k) py_method" where
  "pinkpy_trace_kill c K parse args w =
     parse_args parse ''i|ii'' args w (\<lambda>vs.
       parsed_int vs (\<lambda>tid vs. parsed_opt_int (- 1) vs (\<lambda>tgid vs. parsed_opt_int (word_of_int SIGKILL) vs (\<lambda>sig _.
         PINK_CHECK_SIGNAL sig w (PINK_CALL_TRUE (pink_trace_kill c K (sint tid) (sint tgid) (sint sig) w))))))"

definition pinkpy_trace_singlestep :: "('l::len, 'k) py_method" where
  "pinkpy_trace_singlestep c K parse args w = call_with_signal parse args (pink_trace_singlestep K) w"

definition pinkpy_trace_syscall :: "('l::len, 'k) py_method" where
  "pinkpy_trace_syscall c K parse args w = call_with_signal parse args (pink_trace_syscall K) w"

text \<open>\<open>data0\<close> is what \<open>data\<close> holds at first, and still holds after \<open>-ENOSYS\<close>.\<close>

definition pinkpy_trace_geteventmsg :: "'l word \<Rightarrow> ('l::len, 'k) py_method" where
  "pinkpy_trace_geteventmsg data0 c K parse args w =
     parse_args parse ''i'' args w (\<lambda>vs. parsed_int vs (\<lambda>pid _.
       case pink_trace_geteventmsg c K (sint pid) data0 w of
         (r, data, w') \<Rightarrow> PINK_CALL (r, w') (\<lambda>e w''. Ret (Some (Py_int (uint data)), e, w''))))"

definition pinkpy_trace_setup :: "('l::len, 'k) py_method" where
  "pinkpy_trace_setup c K parse args w =
     parse_args parse ''ii'' args w (\<lambda>vs. parsed_int vs (\<lambda>pid vs. parsed_int vs (\<lambda>options _.
       PINK_CALL_TRUE (pink_trace_setup c K (sint pid) options w))))"

definition pinkpy_trace_sysemu :: "('l::len, 'k) py_method" where
  "pinkpy_trace_sysemu c K parse args w = call_with_signal parse args (pink_trace_sysemu c K) w"

definition pinkpy_trace_sysemu_singlestep :: "('l::len, 'k) py_method" where
  "pinkpy_trace_sysemu_singlestep c K parse args w =
     call_with_signal parse args (pink_trace_sysemu_singlestep c K) w"

definition pinkpy_trace_attach :: "('l::len, 'k) py_method" where
  "pinkpy_trace_attach c K parse args w = call_with_pid parse args (pink_trace_attach K) w"

definition pinkpy_trace_detach :: "('l::len, 'k) py_method" where
  "pinkpy_trace_detach c K parse args w = call_with_signal parse args (pink_trace_detach K) w"

text \<open>The options of \<open>seize\<close> are taken for a signal.\<close>

definition pinkpy_trace_seize :: "('l::len, 'k) py_method" where
  "pinkpy_trace_seize c K parse args w = call_with_signal parse args (pink_trace_seize c K) w"

definition pinkpy_trace_interrupt :: "('l::len, 'k) py_method" where
  "pinkpy_trace_interrupt c K parse args w = call_with_pid parse args (pink_trace_interrupt c K) w"

definition pinkpy_trace_listen :: "('l::len, 'k) py_method" where
  "pinkpy_trace_listen c K parse args w = call_with_pid parse args (pink_trace_listen c K) w"

text \<open>
  The methods of a module. The interpreter itself refuses the arguments of a method that has
  the flag \<open>METH_NOARGS\<close>.
\<close>

datatype py_flag = METH_NOARGS | METH_VARARGS

type_synonym ('l, 'k) py_methods = "(string \<times> py_flag \<times> ('l, 'k) py_method) list"

definition call_method :: "py_flag \<Rightarrow> ('l, 'k) py_method \<Rightarrow> ('l::len, 'k) py_method" where
  "call_method flag f c K parse args w =
     (if flag = METH_NOARGS \<and> args \<noteq> [] then Ret (None, Some (Bad_arguments Type_error), w)
      else f c K parse args w)"

definition trace_methods :: "'l word \<Rightarrow> ('l::len, 'k) py_methods" where
  "trace_methods data0 =
     [(''me'', METH_NOARGS, pinkpy_trace_me), (''resume'', METH_VARARGS, pinkpy_trace_resume),
      (''kill'', METH_VARARGS, pinkpy_trace_kill), (''singlestep'', METH_VARARGS, pinkpy_trace_singlestep),
      (''syscall'', METH_VARARGS, pinkpy_trace_syscall), (''geteventmsg'', METH_VARARGS, pinkpy_trace_geteventmsg data0),
      (''setup'', METH_VARARGS, pinkpy_trace_setup), (''sysemu'', METH_VARARGS, pinkpy_trace_sysemu),
      (''sysemu_singlestep'', METH_VARARGS, pinkpy_trace_sysemu_singlestep),
      (''attach'', METH_VARARGS, pinkpy_trace_attach), (''detach'', METH_VARARGS, pinkpy_trace_detach),
      (''seize'', METH_VARARGS, pinkpy_trace_seize), (''interrupt'', METH_VARARGS, pinkpy_trace_interrupt),
      (''listen'', METH_VARARGS, pinkpy_trace_listen)]"

text \<open>The constants of the module; \<open>OPTION_SECCOMP\<close> is not among them.\<close>

definition trace_init :: "(string \<times> 32 word) list" where
  "trace_init =
     [(''OPTION_SYSGOOD'', PINK_TRACE_OPTION_SYSGOOD), (''OPTION_FORK'', PINK_TRACE_OPTION_FORK),
      (''OPTION_VFORK'', PINK_TRACE_OPTION_VFORK), (''OPTION_CLONE'', PINK_TRACE_OPTION_CLONE),
      (''OPTION_EXEC'', PINK_TRACE_OPTION_EXEC), (''OPTION_VFORK_DONE'', PINK_TRACE_OPTION_VFORK_DONE),
      (''OPTION_EXIT'', PINK_TRACE_OPTION_EXIT), (''OPTION_EXITKILL'', PINK_TRACE_OPTION_EXITKILL)]"

section \<open>py-regset.c\<close>

text \<open>
  An object of the class is its register set. \<open>tp_alloc\<close>, which makes the Python
  object, is a parameter; without memory it raises an exception itself.
\<close>

definition ProcessRegistrySet_new ::
    "pink_config \<Rightarrow> ('l::len word, 'k) kernel \<Rightarrow> ('k \<Rightarrow> bool \<times> 'k) \<Rightarrow> 'k world \<Rightarrow>
     pink_regset option \<times> py_exc option \<times> 'k world" where
  "ProcessRegistrySet_new c K tp_alloc w =
     (case tp_alloc (kern w) of
        (False, k) \<Rightarrow> (None, Some MemoryError, w\<lparr>kern := k\<rparr>)
      | (True, k) \<Rightarrow>
          (case pink_regset_alloc c K (w\<lparr>kern := k\<rparr>) of
             (r, None, w') \<Rightarrow> (None, Some MemoryError, w'\<lparr>errno := - r\<rparr>)
           | (_, Some regset, w') \<Rightarrow> (Some regset, None, w')))"

text \<open>\<open>tp_free\<close>, which gives the Python object back, is a parameter.\<close>

definition ProcessRegistrySet_dealloc ::
    "('l::len word, 'k) kernel \<Rightarrow> ('k \<Rightarrow> 'k) \<Rightarrow> 'k world \<Rightarrow> 'k world" where
  "ProcessRegistrySet_dealloc K tp_free w =
     (let w' = pink_regset_free K w in w'\<lparr>kern := tp_free (kern w')\<rparr>)"

definition pinkpy_regset_fill ::
    "pink_config \<Rightarrow> ('l::len word, 'k) kernel \<Rightarrow> 'l word parse_tuple \<Rightarrow> pink_regset \<Rightarrow> pyobj list \<Rightarrow>
     'k world \<Rightarrow> (pink_regset \<times> 'k py_result) outcome" where
  "pinkpy_regset_fill c K parse self args w =
     (case parse ''i'' args of
        Inl e \<Rightarrow> Ret (self, None, Some (Bad_arguments e), w)
      | Inr vs \<Rightarrow>
          parsed_int vs (\<lambda>pid _.
            obind (pink_regset_fill c K (sint pid) self w) (\<lambda>(r, self', w').
            obind (PINK_CALL_TRUE (r, w')) (\<lambda>res. Ret (self', res)))))"

section \<open>py-abi.c and py-event.c\<close>

definition pinkpy_abi_wordsize :: "('l::len, 'k) py_method" where
  "pinkpy_abi_wordsize c K parse args w =
     parse_args parse ''|h'' args w (\<lambda>vs. parsed_opt_short PINK_ABI_DEFAULT vs (\<lambda>abi.
       obind (pink_abi_wordsize TYPE('l) c abi) (\<lambda>wsize. Ret (Some (Py_int (int wsize)), None, w))))"

definition abi_methods :: "('l::len, 'k) py_methods" where
  "abi_methods = [(''wordsize'', METH_VARARGS, pinkpy_abi_wordsize)]"

definition abi_init :: "pink_config \<Rightarrow> (string \<times> int) list" where
  "abi_init c =
     [(''ABIS_SUPPORTED'', int (PINK_ABIS_SUPPORTED c)), (''ABI_DEFAULT'', PINK_ABI_DEFAULT)] @
     (if cfg_arch c = X86_64
      then [(''ABI_X86_64'', PINK_ABI_X86_64), (''ABI_I386'', PINK_ABI_I386), (''ABI_X32'', PINK_ABI_X32 c)] else []) @
     (if cfg_arch c = X32 then [(''ABI_X32'', PINK_ABI_X32 c), (''ABI_I386'', PINK_ABI_I386)] else []) @
     (if cfg_arch c = POWERPC \<and> powerpc64 c then [(''ABI_PPC64'', 0), (''ABI_PPC32'', 1)] else [])"

definition pinkpy_event_decide :: "('l::len, 'k) py_method" where
  "pinkpy_event_decide c K parse args w =
     parse_args parse ''i'' args w (\<lambda>vs. parsed_int vs (\<lambda>status _.
       Ret (Some (Py_int (pink_event_decide status)), None, w)))"

definition event_methods :: "('l::len, 'k) py_methods" where
  "event_methods = [(''decide'', METH_VARARGS, pinkpy_event_decide)]"

definition event_init :: "(string \<times> int) list" where
  "event_init =
     [(''EVENT_NONE'', PINK_EVENT_NONE), (''EVENT_FORK'', PINK_EVENT_FORK), (''EVENT_VFORK'', PINK_EVENT_VFORK),
      (''EVENT_CLONE'', PINK_EVENT_CLONE), (''EVENT_EXEC'', PINK_EVENT_EXEC),
      (''EVENT_VFORK_DONE'', PINK_EVENT_VFORK_DONE), (''EVENT_EXIT'', PINK_EVENT_EXIT),
      (''EVENT_SECCOMP'', PINK_EVENT_SECCOMP), (''EVENT_STOP'', PINK_EVENT_STOP)]"

section \<open>py-system.c\<close>

text \<open>
  The dictionary of the module. \<open>PyModule_AddIntConstant\<close> is a parameter; what the
  Python documentation says of it is that it binds the name to the number.
\<close>

definition system_constants :: "pink_config \<Rightarrow> (string \<times> int) list" where
  "system_constants c =
     (let arch = (\<lambda>a. of_bool (cfg_arch c = a)); have = (\<lambda>f. of_bool (have_feature c f)) in
     [(''ARCH_I386'', arch I386), (''ARCH_X86_64'', arch X86_64), (''ARCH_X32'', arch X32),
      (''ARCH_POWERPC'', arch POWERPC), (''ARCH_POWERPC64'', of_bool (powerpc64 c)), (''ARCH_IA64'', arch IA64),
      (''ARCH_ARM'', arch ARM),
      (''MAX_ARGS'', int PINK_MAX_ARGS), (''SYSCALL_INVALID'', PINK_SYSCALL_INVALID c),
      (''HAVE_IPV6'', have HAVE_IPV6), (''HAVE_NETLINK'', have HAVE_NETLINK),
      (''HAVE_OPTION_SYSGOOD'', have HAVE_OPTION_SYSGOOD), (''HAVE_OPTION_FORK'', have HAVE_OPTION_FORK),
      (''HAVE_OPTION_VFORK'', have HAVE_OPTION_VFORK), (''HAVE_OPTION_CLONE'', have HAVE_OPTION_CLONE),
      (''HAVE_OPTION_EXEC'', have HAVE_OPTION_EXEC), (''HAVE_OPTION_VFORK_DONE'', have HAVE_OPTION_VFORK_DONE),
      (''HAVE_OPTION_EXIT'', have HAVE_OPTION_EXIT), (''HAVE_OPTION_SECCOMP'', have HAVE_OPTION_SECCOMP),
      (''HAVE_OPTION_SECCOMP'', have HAVE_OPTION_EXITKILL),
      (''HAVE_SETUP'', have HAVE_SETUP), (''HAVE_GETEVENTMSG'', have HAVE_GETEVENTMSG),
      (''HAVE_GETSIGINFO'', have HAVE_GETSIGINFO), (''HAVE_GETREGSET'', have HAVE_GETREGSET),
      (''HAVE_SETREGSET'', have HAVE_SETREGSET), (''HAVE_SYSEMU'', have HAVE_SYSEMU),
      (''HAVE_SYSEMU_SINGLESTEP'', have HAVE_SYSEMU_SINGLESTEP), (''HAVE_SEIZE'', have HAVE_SEIZE),
      (''HAVE_INTERRUPT'', have HAVE_INTERRUPT), (''HAVE_LISTEN'', have HAVE_LISTEN),
      (''HAVE_EVENT_FORK'', have HAVE_EVENT_FORK), (''HAVE_EVENT_VFORK'', have HAVE_EVENT_VFORK),
      (''HAVE_EVENT_CLONE'', have HAVE_EVENT_CLONE), (''HAVE_EVENT_EXEC'', have HAVE_EVENT_EXEC),
      (''HAVE_EVENT_VFORK_DONE'', have HAVE_EVENT_VFORK_DONE), (''HAVE_EVENT_EXIT'', have HAVE_EVENT_EXIT),
      (''HAVE_EVENT_SECCOMP'', have HAVE_EVENT_SECCOMP), (''HAVE_EVENT_STOP'', have HAVE_EVENT_STOP),
      (''HAVE_TKILL'', have HAVE_TKILL), (''HAVE_TGKILL'', have HAVE_TGKILL),
      (''HAVE_PROCESS_VM_READV'', have HAVE_PROCESS_VM_READV),
      (''HAVE_PROCESS_VM_WRITEV'', have HAVE_PROCESS_VM_WRITEV)])"

definition system_init :: "('m \<Rightarrow> string \<Rightarrow> int \<Rightarrow> 'm) \<Rightarrow> pink_config \<Rightarrow> 'm \<Rightarrow> 'm" where
  "system_init add c m = fold (\<lambda>(name, value) m. add m name value) (system_constants c) m"

section \<open>py-name.c\<close>

definition pinkpy_name_event :: "('l::len, 'k) py_method" where
  "pinkpy_name_event c K parse args w =
     parse_args parse ''I'' args w (\<lambda>vs. parsed_uint vs (\<lambda>event.
       PINK_CHECK_NULL (pink_name_event (uint event)) ''Invalid event'' w (\<lambda>name. Ret (Some (Py_str name), None, w))))"

definition pinkpy_lookup_event :: "('l::len, 'k) py_method" where
  "pinkpy_lookup_event c K parse args w =
     parse_args parse ''s'' args w (\<lambda>vs. parsed_str vs (\<lambda>name _.
       let event = pink_lookup_event (Some name) in
       PINK_CHECK_LOOKUP (event = - 1) ''No matching event'' w (Ret (Some (Py_int event), None, w))))"

definition pinkpy_name_syscall :: "('l::len, 'k) py_method" where
  "pinkpy_name_syscall c K parse args w =
     parse_args parse ''l|h'' args w (\<lambda>vs. parsed_long vs (\<lambda>scno vs. parsed_opt_short PINK_ABI_DEFAULT vs (\<lambda>abi.
       PINK_CHECK_NULL (pink_name_syscall c scno abi) ''Invalid scno'' w (\<lambda>name. Ret (Some (Py_str name), None, w)))))"

definition pinkpy_lookup_syscall :: "('l::len, 'k) py_method" where
  "pinkpy_lookup_syscall c K parse args w =
     parse_args parse ''s|h'' args w (\<lambda>vs. parsed_str vs (\<lambda>name vs. parsed_opt_short PINK_ABI_DEFAULT vs (\<lambda>abi.
       let scno = pink_lookup_syscall c (Some name) abi :: 'l word in
       PINK_CHECK_LOOKUP (scno = - 1) ''No matching syscall'' w (Ret (Some (Py_int (sint scno)), None, w)))))"

text \<open>\<open>af\<close> are the numbers of the socket families in the C library.\<close>

definition pinkpy_name_socket_family :: "(string \<Rightarrow> nat option) \<Rightarrow> ('l::len, 'k) py_method" where
  "pinkpy_name_socket_family af c K parse args w =
     parse_args parse ''i'' args w (\<lambda>vs. parsed_int vs (\<lambda>family _.
       PINK_CHECK_NULL (pink_name_socket_family af (sint family)) ''Invalid family'' w
         (\<lambda>name. Ret (Some (Py_str name), None, w))))"

definition pinkpy_lookup_socket_family :: "(string \<Rightarrow> nat option) \<Rightarrow> ('l::len, 'k) py_method" where
  "pinkpy_lookup_socket_family af c K parse args w =
     parse_args parse ''s'' args w (\<lambda>vs. parsed_str vs (\<lambda>name _.
       let family = pink_lookup_socket_family af (Some name) in
       PINK_CHECK_LOOKUP (family = - 1) ''No matching socket_family'' w (Ret (Some (Py_int family), None, w))))"

definition pinkpy_name_socket_subcall :: "('l::len, 'k) py_method" where
  "pinkpy_name_socket_subcall c K parse args w =
     parse_args parse ''I'' args w (\<lambda>vs. parsed_uint vs (\<lambda>subcall.
       PINK_CHECK_NULL (pink_name_socket_subcall (uint subcall)) ''Invalid subcall'' w
         (\<lambda>name. Ret (Some (Py_str name), None, w))))"

definition pinkpy_lookup_socket_subcall :: "('l::len, 'k) py_method" where
  "pinkpy_lookup_socket_subcall c K parse args w =
     parse_args parse ''s'' args w (\<lambda>vs. parsed_str vs (\<lambda>name _.
       let subcall = pink_lookup_socket_subcall (Some name) in
       PINK_CHECK_LOOKUP (subcall = - 1) ''No matching socket_subcall'' w (Ret (Some (Py_int subcall), None, w))))"

definition pinkpy_name_errno :: "('l::len, 'k) py_method" where
  "pinkpy_name_errno c K parse args w =
     parse_args parse ''i|h'' args w (\<lambda>vs. parsed_int vs (\<lambda>err_no vs. parsed_opt_short PINK_ABI_DEFAULT vs (\<lambda>abi.
       PINK_CHECK_NULL (pink_name_errno c (sint err_no) abi) ''Invalid err_no'' w
         (\<lambda>name. Ret (Some (Py_str name), None, w)))))"

definition pinkpy_lookup_errno :: "('l::len, 'k) py_method" where
  "pinkpy_lookup_errno c K parse args w =
     parse_args parse ''s|h'' args w (\<lambda>vs. parsed_str vs (\<lambda>name vs. parsed_opt_short PINK_ABI_DEFAULT vs (\<lambda>abi.
       let err_no = pink_lookup_errno c (Some name) abi in
       PINK_CHECK_LOOKUP (err_no = - 1) ''No matching errno'' w (Ret (Some (Py_int err_no), None, w)))))"

definition pinkpy_name_signal :: "('l::len, 'k) py_method" where
  "pinkpy_name_signal c K parse args w =
     parse_args parse ''i|h'' args w (\<lambda>vs. parsed_int vs (\<lambda>signum vs. parsed_opt_short PINK_ABI_DEFAULT vs (\<lambda>abi.
       PINK_CHECK_NULL (pink_name_signal c (sint signum) abi) ''Invalid signum'' w
         (\<lambda>name. Ret (Some (Py_str name), None, w)))))"

definition pinkpy_lookup_signal :: "('l::len, 'k) py_method" where
  "pinkpy_lookup_signal c K parse args w =
     parse_args parse ''s|h'' args w (\<lambda>vs. parsed_str vs (\<lambda>name vs. parsed_opt_short PINK_ABI_DEFAULT vs (\<lambda>abi.
       let signum = pink_lookup_signal c (Some name) abi in
       PINK_CHECK_LOOKUP (signum = - 1) ''No matching signal'' w (Ret (Some (Py_int signum), None, w)))))"

definition name_methods :: "(string \<Rightarrow> nat option) \<Rightarrow> ('l::len, 'k) py_methods" where
  "name_methods af =
     [(''name_event'', METH_VARARGS, pinkpy_name_event), (''lookup_event'', METH_VARARGS, pinkpy_lookup_event),
      (''name_syscall'', METH_VARARGS, pinkpy_name_syscall), (''lookup_syscall'', METH_VARARGS, pinkpy_lookup_syscall),
      (''name_socket_family'', METH_VARARGS, pinkpy_name_socket_family af), (''lookup_socket_family'', METH_VARARGS, pinkpy_lookup_socket_family af),
      (''name_socket_subcall'', METH_VARARGS, pinkpy_name_socket_subcall), (''lookup_socket_subcall'', METH_VARARGS, pinkpy_lookup_socket_subcall),
      (''name_errno'', METH_VARARGS, pinkpy_name_errno), (''lookup_errno'', METH_VARARGS, pinkpy_lookup_errno),
      (''name_signal'', METH_VARARGS, pinkpy_name_signal), (''lookup_signal'', METH_VARARGS, pinkpy_lookup_signal)]"

section \<open>What PyArg_ParseTuple documents\<close>

text \<open>
  The format units of the Python C API that the bindings use. \<open>I\<close> does not check for
  overflow, and \<open>True\<close> is the number 1. The units behind \<open>|\<close> are optional; the number of the
  arguments is looked at first.
\<close>

definition convert_number :: "char \<Rightarrow> int \<Rightarrow> arg_error + 'l::len word cval" where
  "convert_number u n =
     (if u = CHR ''i'' then
        (if - (2 ^ 31) \<le> n \<and> n < 2 ^ 31 then Inr (C_int (word_of_int n)) else Inl Overflow_error)
      else if u = CHR ''I'' then Inr (C_uint (word_of_int n))
      else if u = CHR ''h'' then
        (if - (2 ^ 15) \<le> n \<and> n < 2 ^ 15 then Inr (C_short (word_of_int n)) else Inl Overflow_error)
      else if u = CHR ''l'' then
        (if - (2 ^ (LENGTH('l) - 1)) \<le> n \<and> n < 2 ^ (LENGTH('l) - 1) then Inr (C_long (word_of_int n))
         else Inl Overflow_error)
      else Inl Type_error)"

fun convert :: "char \<Rightarrow> pyobj \<Rightarrow> arg_error + 'l::len word cval" where
  "convert u (Py_int n) = convert_number u n"
| "convert u (Py_str s) =
     (if u \<noteq> CHR ''s'' then Inl Type_error else if CHR 0x00 \<in> set s then Inl Null_character else Inr (C_str s))"
| "convert u Py_True = convert_number u 1"

fun convert_args :: "string \<Rightarrow> pyobj list \<Rightarrow> arg_error + 'l::len word cval list" where
  "convert_args (u # us) (a # args) =
     (case convert u a of
        Inl e \<Rightarrow> Inl e
      | Inr v \<Rightarrow> (case convert_args us args of Inl e \<Rightarrow> Inl e | Inr vs \<Rightarrow> Inr (v # vs)))"
| "convert_args us args = Inr []"

definition parse_documented :: "'l::len word parse_tuple" where
  "parse_documented fmt args =
     (if length args < length (takeWhile (\<lambda>u. u \<noteq> CHR ''|'') fmt) \<or> length (filter (\<lambda>u. u \<noteq> CHR ''|'') fmt) < length args
      then Inl Type_error else convert_args (filter (\<lambda>u. u \<noteq> CHR ''|'') fmt) args)"

definition parse_contract :: "'l::len word parse_tuple \<Rightarrow> bool" where
  "parse_contract parse \<longleftrightarrow>
     (\<forall>fmt args. (parse_documented fmt args :: arg_error + 'l word cval list) \<noteq> Inl Overflow_error \<longrightarrow>
        parse fmt args = parse_documented fmt args)"

lemma parse_contract_ref: "parse_contract parse_documented"
  by (simp add: parse_contract_def)

lemma convert_int [simp]: "convert CHR ''i'' (Py_int (sint (v :: 32 word))) = Inr (C_int v)"
  using sint_range_size [of v] by (simp add: convert_number_def word_size)

lemma convert_short [simp]: "convert CHR ''h'' (Py_int (sint (v :: 16 word))) = Inr (C_short v)"
  using sint_range_size [of v] by (simp add: convert_number_def word_size)

lemma convert_long [simp]:
  "convert CHR ''l'' (Py_int (sint (v :: 'l::len word))) = (Inr (C_long v) :: arg_error + 'l word cval)"
  using sint_range_size [of v] by (simp add: convert_number_def word_size)

lemma parse_doc:
  "parse_contract parse \<Longrightarrow> parse_documented fmt args = r \<Longrightarrow> r \<noteq> Inl Overflow_error \<Longrightarrow> parse fmt args = r"
  by (auto simp: parse_contract_def)

lemmas binding_defs = parse_args_def PINK_CALL_def PINK_CALL_TRUE_def PINK_CHECK_SIGNAL_def PINK_CHECK_NULL_def
  PINK_CHECK_LOOKUP_def call_with_signal_def call_with_pid_def

section \<open>Objects and exceptions\<close>

text \<open>The rule of the C API: \<open>NULL\<close> is returned exactly if an exception is set.\<close>

definition raises_properly :: "'k py_result \<Rightarrow> bool" where
  "raises_properly res \<longleftrightarrow> (fst res = None \<longleftrightarrow> fst (snd res) \<noteq> None)"

text \<open>What the functions built on \<open>PINK_CALL\<close> keep of it.\<close>

definition call_result :: "'k py_result \<Rightarrow> bool" where
  "call_result res \<longleftrightarrow>
     (case res of
        (obj, exc, w) \<Rightarrow>
          (raises_properly res \<or> obj \<noteq> None \<and> exc = Some SystemError) \<and>
          (\<forall>e. exc = Some (OSError e) \<longrightarrow> errno w = e \<and> 0 < e \<and> e \<noteq> ENOSYS))"

lemma PINK_CALL_result:
  assumes "PINK_CALL call (\<lambda>e w. Ret (Some obj, e, w)) = Ret res"
  shows "call_result res"
  using assms by (cases call) (auto simp: PINK_CALL_def call_result_def raises_properly_def split: if_splits)

lemma PINK_CALL_TRUE_result: "PINK_CALL_TRUE call = Ret res \<Longrightarrow> call_result res"
  unfolding PINK_CALL_TRUE_def by (rule PINK_CALL_result)

text \<open>The ways through a binding that returns.\<close>

lemma parse_argsE:
  assumes "parse_args parse fmt args w f = Ret res"
  obtains e where "res = (None, Some (Bad_arguments e), w)" | vs where "f vs = Ret res"
  using assms that by (cases "parse fmt args") (auto simp: parse_args_def)

lemma PINK_CHECK_SIGNALE:
  assumes "PINK_CHECK_SIGNAL sig w rest = Ret res"
  obtains "res = (None, Some (ValueError ''Invalid signal''), w)" | "rest = Ret res"
proof (cases "sint sig < 0 \<or> sint sig \<ge> NSIG")
  case True
  with assms show ?thesis by (intro that(1)) (auto simp: PINK_CHECK_SIGNAL_def)
next
  case False
  with assms show ?thesis by (intro that(2)) (simp add: PINK_CHECK_SIGNAL_def)
qed

lemma PINK_CHECK_NULLE:
  assumes "PINK_CHECK_NULL str msg w rest = Ret res"
  obtains "res = (None, Some (ValueError msg), w)" | s where "rest s = Ret res"
  using assms that by (cases str) (simp_all add: PINK_CHECK_NULL_def)

lemma PINK_CHECK_LOOKUPE:
  assumes "PINK_CHECK_LOOKUP failed msg w rest = Ret res"
  obtains "res = (None, Some (ValueError msg), w)" | "rest = Ret res"
  using assms that by (cases failed) (simp_all add: PINK_CHECK_LOOKUP_def)

lemma call_methodE:
  assumes "call_method flag f c K parse args w = Ret res"
  obtains "res = (None, Some (Bad_arguments Type_error), w)" | "f c K parse args w = Ret res"
proof (cases "flag = METH_NOARGS \<and> args \<noteq> []")
  case True
  with assms show ?thesis by (intro that(1)) (simp add: call_method_def)
next
  case False
  with assms show ?thesis by (intro that(2)) (simp only: call_method_def if_False)
qed

lemma parsed_intE:
  assumes "parsed_int vs f = Ret res"
  obtains v vs' where "f v vs' = Ret res"
  using assms by (induction vs f rule: parsed_int.induct) simp_all

lemma parsed_opt_intE:
  assumes "parsed_opt_int d vs f = Ret res"
  obtains v vs' where "f v vs' = Ret res"
  using assms by (induction d vs f rule: parsed_opt_int.induct) simp_all

lemma parsed_opt_shortE:
  assumes "parsed_opt_short d vs f = Ret res"
  obtains v where "f v = Ret res"
  using assms by (induction d vs f rule: parsed_opt_short.induct) simp_all

lemma parsed_uintE:
  assumes "parsed_uint vs f = Ret res"
  obtains v where "f v = Ret res"
  using assms by (induction vs f rule: parsed_uint.induct) simp_all

lemma parsed_longE:
  assumes "parsed_long vs f = Ret res"
  obtains v vs' where "f v vs' = Ret res"
  using assms by (induction vs f rule: parsed_long.induct) simp_all

lemma parsed_strE:
  assumes "parsed_str vs f = Ret res"
  obtains v vs' where "f v vs' = Ret res"
  using assms by (induction vs f rule: parsed_str.induct) simp_all

lemmas bindingE = parse_argsE PINK_CHECK_SIGNALE PINK_CHECK_NULLE PINK_CHECK_LOOKUPE parsed_intE parsed_opt_intE
  parsed_opt_shortE parsed_uintE parsed_longE parsed_strE

lemma call_result_raised [simp]:
  "call_result (None, Some (Bad_arguments e), w)" "call_result (None, Some (ValueError msg), w)"
  by (simp_all add: call_result_def raises_properly_def)

lemma call_with_signal_result: "call_with_signal parse args call w = Ret res \<Longrightarrow> call_result res"
  unfolding call_with_signal_def by (elim bindingE) (simp_all add: PINK_CALL_TRUE_result)

lemma call_with_pid_result: "call_with_pid parse args call w = Ret res \<Longrightarrow> call_result res"
  unfolding call_with_pid_def by (elim bindingE) (simp_all add: PINK_CALL_TRUE_result)

lemma trace_kill_result: "pinkpy_trace_kill c K parse args w = Ret res \<Longrightarrow> call_result res"
  unfolding pinkpy_trace_kill_def by (elim bindingE) (simp_all add: PINK_CALL_TRUE_result)

lemma trace_setup_result: "pinkpy_trace_setup c K parse args w = Ret res \<Longrightarrow> call_result res"
  unfolding pinkpy_trace_setup_def by (elim bindingE) (simp_all add: PINK_CALL_TRUE_result)

lemma trace_geteventmsg_result: "pinkpy_trace_geteventmsg data0 c K parse args w = Ret res \<Longrightarrow> call_result res"
  unfolding pinkpy_trace_geteventmsg_def
  by (elim bindingE) (auto split: prod.splits intro: PINK_CALL_result)

lemmas signal_binding_defs = pinkpy_trace_resume_def pinkpy_trace_singlestep_def pinkpy_trace_syscall_def
  pinkpy_trace_sysemu_def pinkpy_trace_sysemu_singlestep_def pinkpy_trace_detach_def pinkpy_trace_seize_def

lemmas pid_binding_defs = pinkpy_trace_attach_def pinkpy_trace_interrupt_def pinkpy_trace_listen_def

section \<open>Properties of the bindings\<close>

text \<open>
  (C30) What a function of the module \<open>trace\<close> leaves behind, whatever the kernel and the
  arguments are: an object, or \<open>NULL\<close> and an exception. An \<open>OSError\<close> has the error
  number that is in \<open>errno\<close>. The only exception to the rule is \<open>SystemError\<close>,
  which is set while an object is returned, because \<open>PINK_CALL\<close> does not return
  after \<open>-ENOSYS\<close>.
\<close>

theorem trace_methods_result:
  assumes "(name, flag, f) \<in> set (trace_methods data0)" and "call_method flag f c K parse args w = Ret (obj, exc, w')"
  shows "((obj = None \<longleftrightarrow> exc \<noteq> None) \<or> obj \<noteq> None \<and> exc = Some SystemError) \<and>
    (\<forall>e. exc = Some (OSError e) \<longrightarrow> errno w' = e \<and> 0 < e \<and> e \<noteq> ENOSYS)"
  using assms(2)
proof (cases rule: call_methodE)
  case 1
  then show ?thesis by simp
next
  case 2
  with assms(1) have "call_result (obj, exc, w')"
    by (auto simp: trace_methods_def signal_binding_defs pid_binding_defs pinkpy_trace_me_def
        intro: PINK_CALL_TRUE_result call_with_signal_result call_with_pid_result trace_kill_result
          trace_setup_result trace_geteventmsg_result)
  then show ?thesis by (simp add: call_result_def raises_properly_def)
qed

text \<open>A build without \<open>PTRACE_SETOPTIONS\<close>: the object is \<open>True\<close> and the exception is set.\<close>

theorem trace_methods_result_witness:
  "pinkpy_trace_setup (ref_config X86_64\<lparr>have_feature := \<lambda>_. False\<rparr>)
     (ref_kernel False :: (64 word, 64 word tracee) kernel) parse_documented [Py_int 7, Py_int 1]
     \<lparr>errno = 0, kern = ref_tracee 0\<rparr> = Ret (Some Py_True, Some SystemError, \<lparr>errno = 0, kern = ref_tracee 0\<rparr>) \<and>
   ((Some Py_True = None \<longleftrightarrow> Some SystemError \<noteq> None) \<or> Some Py_True \<noteq> None \<and> Some SystemError = Some SystemError)"
proof -
  let ?c = "ref_config X86_64\<lparr>have_feature := \<lambda>_. False\<rparr>" and ?K = "ref_kernel False :: (64 word, 64 word tracee) kernel"
  let ?w = "\<lparr>errno = 0, kern = ref_tracee (0 :: 64 word)\<rparr>"
  have run: "pinkpy_trace_setup ?c ?K parse_documented [Py_int 7, Py_int 1] ?w = Ret (Some Py_True, Some SystemError, ?w)"
    by (simp add: pinkpy_trace_setup_def binding_defs pink_trace_setup_def parse_documented_def convert_number_def)
  have "(''setup'', METH_VARARGS, pinkpy_trace_setup) \<in> set (trace_methods 0)" by (simp add: trace_methods_def)
  from run trace_methods_result [OF this, where c = ?c and K = ?K and parse = parse_documented
      and args = "[Py_int 7, Py_int 1]" and w = ?w] show ?thesis by (simp add: call_method_def)
qed

text \<open>
  Options of \<open>seize\<close>: the binding takes them for a signal number, and so accepts only
  the first six options in any combination, or \<open>OPTION_EXIT\<close> alone. \<open>OPTION_SECCOMP\<close>,
  \<open>OPTION_EXITKILL\<close> and \<open>OPTION_EXIT\<close> with another option are refused as an
  invalid signal, without a call of the library.
\<close>

lemma pinkpy_trace_seize_options:
  fixes K :: "('l::len word, 'k) kernel" and pid options :: "32 word"
  assumes "parse_contract parse"
  shows "pinkpy_trace_seize c K parse [Py_int (sint pid), Py_int (sint options)] w =
    (if options = PINK_TRACE_OPTION_EXIT \<or> uint options < 64
     then PINK_CALL_TRUE (pink_trace_seize c K (sint pid) options w)
     else Ret (None, Some (ValueError ''Invalid signal''), w))"
proof -
  have p: "parse ''i|i'' [Py_int (sint pid), Py_int (sint options)] = Inr [C_int pid, C_int options]"
    by (rule parse_doc [OF assms]) (simp_all add: parse_documented_def del: convert.simps)
  have "options = PINK_TRACE_OPTION_EXIT \<longleftrightarrow> uint options = 64"
    by (simp add: trace_option_consts word_uint_eq_iff push_bit_eq_mult)
  then have "sint options < 0 \<or> sint options \<ge> NSIG \<longleftrightarrow> \<not> (options = PINK_TRACE_OPTION_EXIT \<or> uint options < 64)"
    using sint_32 [of options] uint_lt2p [of options] by (auto simp: NSIG_def split: if_splits)
  with p show ?thesis
    by (auto simp: pinkpy_trace_seize_def call_with_signal_def parse_args_def PINK_CHECK_SIGNAL_def)
qed


lemma pinkpy_trace_seize_options_ref:
  "pinkpy_trace_seize (ref_config X86_64) (ref_kernel False :: (64 word, 64 word tracee) kernel) parse_documented
     [Py_int 7, Py_int 256] \<lparr>errno = 0, kern = ref_tracee 0\<rparr> =
   Ret (None, Some (ValueError ''Invalid signal''), \<lparr>errno = 0, kern = ref_tracee 0\<rparr>)"
  using pinkpy_trace_seize_options [OF parse_contract_ref, of "ref_config X86_64"
      "ref_kernel False :: (64 word, 64 word tracee) kernel" 7 256 "\<lparr>errno = 0, kern = ref_tracee 0\<rparr>"]
  by (simp add: trace_option_consts)

text \<open>
  (C31) Names of system calls in Python: whatever name \<open>name_syscall\<close> gives for a number,
  \<open>lookup_syscall\<close> finds a number for that name, and \<open>name_syscall\<close> gives the name for it
  again. Numbers keep their value on the way through Python.
\<close>

theorem pinkpy_syscall_roundtrip:
  fixes K :: "('l::len word, 'k) kernel" and n :: "'l word" and abi :: "16 word"
  assumes "long_width TYPE('l)" and "parse_contract parse"
    and "pinkpy_name_syscall c K parse [Py_int (sint n), Py_int (sint abi)] w = Ret (Some (Py_str s), None, w)"
  shows "\<exists>m. pinkpy_lookup_syscall c K parse [Py_str s, Py_int (sint abi)] w = Ret (Some (Py_int m), None, w) \<and>
    pinkpy_name_syscall c K parse [Py_int m, Py_int (sint abi)] w = Ret (Some (Py_str s), None, w)"
proof -
  have name: "pinkpy_name_syscall c K parse [Py_int (sint n), Py_int (sint abi)] w =
      (case pink_name_syscall c n (sint abi) of
         None \<Rightarrow> Ret (None, Some (ValueError ''Invalid scno''), w) | Some s \<Rightarrow> Ret (Some (Py_str s), None, w))" for n :: "'l word"
  proof -
    have "parse ''l|h'' [Py_int (sint n), Py_int (sint abi)] = Inr [C_long n, C_short abi]"
      by (rule parse_doc [OF assms(2)]) (simp_all add: parse_documented_def del: convert.simps)
    then show ?thesis by (simp add: pinkpy_name_syscall_def parse_args_def PINK_CHECK_NULL_def)
  qed
  note table = syscall_name_table [OF assms(1), of c "sint abi"]
  have n: "pink_name_syscall c n (sint abi) = Some s" using assms(3) by (simp add: name split: option.splits)
  then have s: "s \<noteq> []" "CHR 0x00 \<notin> set s" by (simp_all add: pink_name_syscall_c_name)
  have lookup: "parse ''s|h'' [Py_str s, Py_int (sint abi)] = Inr [C_str s, C_short abi]"
    by (rule parse_doc [OF assms(2)]) (simp_all add: parse_documented_def s del: convert.simps(1))
  let ?m = "pink_lookup_syscall c (Some s) (sint abi) :: 'l word"
  have "?m \<noteq> - 1" "pink_name_syscall c ?m (sint abi) = Some s"
    using name_table.found [OF table n s(1)] name_table.named [OF table n s(1)] by simp_all
  with lookup show ?thesis
    by (intro exI [of _ "sint ?m"])
      (simp add: name, simp add: pinkpy_lookup_syscall_def parse_args_def PINK_CHECK_LOOKUP_def Let_def)
qed

theorem pinkpy_syscall_roundtrip_witness:
  "\<exists>m. pinkpy_lookup_syscall (ref_config X86_64) (ref_kernel False :: (64 word, 64 word tracee) kernel)
     parse_documented [Py_str ''open'', Py_int 0] \<lparr>errno = 0, kern = ref_tracee 0\<rparr> =
   Ret (Some (Py_int m), None, \<lparr>errno = 0, kern = ref_tracee 0\<rparr>)"
proof -
  let ?K = "ref_kernel False :: (64 word, 64 word tracee) kernel" and ?w = "\<lparr>errno = 0, kern = ref_tracee (0 :: 64 word)\<rparr>"
  have "pink_name_syscall (ref_config X86_64) (2 :: 64 word) 0 = Some ''open''"
    by (simp add: pink_name_syscall_def PINK_ABIS_SUPPORTED_def sysent_vec_def arch_shuffle_def sysent_x86_64_defs)
  then have "pinkpy_name_syscall (ref_config X86_64) ?K parse_documented
      [Py_int (sint (2 :: 64 word)), Py_int (sint (0 :: 16 word))] ?w = Ret (Some (Py_str ''open''), None, ?w)"
    by (simp add: pinkpy_name_syscall_def binding_defs parse_documented_def convert_number_def)
  from pinkpy_syscall_roundtrip [OF _ parse_contract_ref this] show ?thesis by (auto simp: long_width_def)
qed

section \<open>Register sets as Python objects\<close>

lemma ProcessRegistrySet_new_wf:
  fixes K :: "('l::len word, 'k) kernel"
  assumes "ProcessRegistrySet_new c K tp_alloc w = (obj, exc, w')"
  shows "(obj = None \<longleftrightarrow> exc \<noteq> None) \<and> (\<forall>self. obj = Some self \<longrightarrow> regset_wf TYPE('l) c self)"
  using assms
  by (auto simp: ProcessRegistrySet_new_def pink_regset_alloc_def regset_wf_def pink_regset_zero_def
      split: prod.splits bool.splits sum.splits option.splits)

lemma pinkpy_regset_fill_wf:
  fixes K :: "('l::len word, 'k) kernel"
  assumes "pinkpy_regset_fill c K parse self args w = Ret (self', res)" and "regset_wf TYPE('l) c self"
  shows "call_result res \<and> regset_wf TYPE('l) c self'"
proof (cases "parse ''i'' args")
  case (Inl e)
  with assms show ?thesis by (auto simp: pinkpy_regset_fill_def call_result_def raises_properly_def)
next
  case (Inr vs)
  with assms(1) have "parsed_int vs (\<lambda>pid _.
      obind (pink_regset_fill c K (sint pid) self w) (\<lambda>(r, self', w').
      obind (PINK_CALL_TRUE (r, w')) (\<lambda>res. Ret (self', res)))) = Ret (self', res)"
    by (simp add: pinkpy_regset_fill_def)
  then obtain pid :: "32 word" where "obind (pink_regset_fill c K (sint pid) self w) (\<lambda>(r, self', w').
      obind (PINK_CALL_TRUE (r, w')) (\<lambda>res. Ret (self', res))) = Ret (self', res)"
    by (rule parsed_intE)
  then obtain r w' where "pink_regset_fill c K (sint pid) self w = Ret (r, self', w')"
    and "PINK_CALL_TRUE (r, w') = Ret res"
    by (fastforce simp: obind_Ret_iff)
  with assms(2) show ?thesis using regset_fill_keeps_wf PINK_CALL_TRUE_result by blast
qed

section \<open>Names\<close>

text \<open>The functions of the module \<open>name\<close> follow the rule without an exception.\<close>

lemmas name_binding_defs = pinkpy_name_event_def pinkpy_lookup_event_def pinkpy_name_syscall_def
  pinkpy_lookup_syscall_def pinkpy_name_socket_family_def pinkpy_lookup_socket_family_def
  pinkpy_name_socket_subcall_def pinkpy_lookup_socket_subcall_def pinkpy_name_errno_def pinkpy_lookup_errno_def
  pinkpy_name_signal_def pinkpy_lookup_signal_def

lemma name_functions_result:
  assumes "f \<in> {pinkpy_name_event, pinkpy_lookup_event, pinkpy_name_syscall, pinkpy_lookup_syscall,
      pinkpy_name_socket_family af, pinkpy_lookup_socket_family af, pinkpy_name_socket_subcall,
      pinkpy_lookup_socket_subcall, pinkpy_name_errno, pinkpy_lookup_errno, pinkpy_name_signal, pinkpy_lookup_signal}"
    and "f c K parse args w = Ret res"
  shows "raises_properly res"
  using assms
  by (elim insertE emptyE)
    (simp_all only: name_binding_defs Let_def, (elim bindingE; force simp: raises_properly_def)+)

lemma name_methods_result:
  assumes "(name, flag, f) \<in> set (name_methods af)" and "call_method flag f c K parse args w = Ret res"
  shows "raises_properly res"
  using assms(2)
proof (cases rule: call_methodE)
  case 1
  then show ?thesis by (simp add: raises_properly_def)
next
  case 2
  have "f \<in> {pinkpy_name_event, pinkpy_lookup_event, pinkpy_name_syscall, pinkpy_lookup_syscall,
      pinkpy_name_socket_family af, pinkpy_lookup_socket_family af, pinkpy_name_socket_subcall,
      pinkpy_lookup_socket_subcall, pinkpy_name_errno, pinkpy_lookup_errno, pinkpy_name_signal, pinkpy_lookup_signal}"
    using assms(1) unfolding name_methods_def by auto
  with 2 show ?thesis by (rule name_functions_result [rotated])
qed

section \<open>The module system\<close>

text \<open>
  \<open>HAVE_OPTION_SECCOMP\<close> ends up with the value of \<open>PINK_HAVE_OPTION_EXITKILL\<close>, whose own
  name the module does not have, and \<open>ARCH_AARCH64\<close> is not there either.
\<close>

lemma system_init_dict:
  assumes "\<And>m name value. add m name value = m(name \<mapsto> value)"
  shows "system_init add c Map.empty ''HAVE_OPTION_SECCOMP'' = Some (of_bool (have_feature c HAVE_OPTION_EXITKILL)) \<and>
    system_init add c Map.empty ''HAVE_OPTION_EXITKILL'' = None \<and>
    system_init add c Map.empty ''ARCH_AARCH64'' = None"
  by (simp add: assms system_init_def system_constants_def Let_def)

end
