(* ===== verification/Pink_Modules.thy ===== *)
theory Pink_Modules
  imports Pink_Python
begin

text \<open>
  The modules of the Python package: their tables, their initialisation in
  \<^verbatim>\<open>python/pinktrace/py-*.c\<close> for Python 3 and Python 2, and the imports of
  \<^verbatim>\<open>__init__.py.in\<close>.
\<close>

section \<open>Modules\<close>

text \<open>
  What the C API does with a module object \<open>'m\<close> is a parameter. A module is created from its
  name and the table \<open>'t\<close> of its methods, by \<open>PyModule_Create\<close> or, in Python 2, by
  \<open>Py_InitModule3\<close>; \<open>None\<close> is \<open>NULL\<close>.
\<close>

record ('t, 'k, 'm) module_api =
  PyModule_Create :: "string \<times> 't \<Rightarrow> 'k \<Rightarrow> 'm option \<times> 'k"
  Py_InitModule3 :: "string \<times> 't \<Rightarrow> 'k \<Rightarrow> 'm option \<times> 'k"
  PyModule_AddIntConstant :: "'m \<Rightarrow> string \<Rightarrow> int \<Rightarrow> 'm"
  PyModule_AddObject :: "'m \<Rightarrow> string \<Rightarrow> 'm"
  PyType_Ready :: "'k \<Rightarrow> bool \<times> 'k"

definition add_constants :: "('t, 'k, 'm) module_api \<Rightarrow> (string \<times> int) list \<Rightarrow> 'm \<Rightarrow> 'm" where
  "add_constants A constants m = fold (\<lambda>(name, value) m. PyModule_AddIntConstant A m name value) constants m"

text \<open>
  The body of the functions: without a module they return, and else the constants are added.
  The functions for Python 2 return nothing; their result here is the module that
  \<open>Py_InitModule3\<close> left in the interpreter.
\<close>

definition init_module :: "('m option \<times> 'k) \<Rightarrow> ('m \<Rightarrow> 'm) \<Rightarrow> 'm option \<times> 'k" where
  "init_module created init = (case created of (None, k) \<Rightarrow> (None, k) | (Some m, k) \<Rightarrow> (Some (init m), k))"

definition signed_constants :: "(string \<times> 32 word) list \<Rightarrow> (string \<times> int) list" where
  "signed_constants = map (\<lambda>(name, value). (name, sint value))"

definition trace_module :: "'l word \<Rightarrow> string \<times> ('l::len, 'k) py_methods" where
  "trace_module data0 = (''trace'', trace_methods data0)"

definition PyInit_trace ::
    "(('l::len, 'k) py_methods, 'k, 'm) module_api \<Rightarrow> 'l word \<Rightarrow> 'k \<Rightarrow> 'm option \<times> 'k" where
  "PyInit_trace A data0 k =
     init_module (PyModule_Create A (trace_module data0) k) (add_constants A (signed_constants trace_init))"

definition inittrace ::
    "(('l::len, 'k) py_methods, 'k, 'm) module_api \<Rightarrow> 'l word \<Rightarrow> 'k \<Rightarrow> 'm option \<times> 'k" where
  "inittrace A data0 k =
     init_module (Py_InitModule3 A (''trace'', trace_methods data0) k) (add_constants A (signed_constants trace_init))"

definition name_module :: "(string \<Rightarrow> nat option) \<Rightarrow> string \<times> ('l::len, 'k) py_methods" where
  "name_module af = (''name'', name_methods af)"

definition PyInit_name ::
    "(('l::len, 'k) py_methods, 'k, 'm) module_api \<Rightarrow> (string \<Rightarrow> nat option) \<Rightarrow> 'k \<Rightarrow> 'm option \<times> 'k" where
  "PyInit_name A af k = init_module (PyModule_Create A (name_module af) k) (\<lambda>m. m)"

definition initname ::
    "(('l::len, 'k) py_methods, 'k, 'm) module_api \<Rightarrow> (string \<Rightarrow> nat option) \<Rightarrow> 'k \<Rightarrow> 'm option \<times> 'k" where
  "initname A af k = init_module (Py_InitModule3 A (''name'', name_methods af) k) (\<lambda>m. m)"

definition event_module :: "string \<times> ('l::len, 'k) py_methods" where
  "event_module = (''event'', event_methods)"

definition PyInit_event :: "(('l::len, 'k) py_methods, 'k, 'm) module_api \<Rightarrow> 'k \<Rightarrow> 'm option \<times> 'k" where
  "PyInit_event A k = init_module (PyModule_Create A event_module k) (add_constants A event_init)"

definition initevent :: "(('l::len, 'k) py_methods, 'k, 'm) module_api \<Rightarrow> 'k \<Rightarrow> 'm option \<times> 'k" where
  "initevent A k = init_module (Py_InitModule3 A (''event'', event_methods) k) (add_constants A event_init)"

definition abi_module :: "string \<times> ('l::len, 'k) py_methods" where
  "abi_module = (''abi'', abi_methods)"

definition PyInit_abi :: "(('l::len, 'k) py_methods, 'k, 'm) module_api \<Rightarrow> pink_config \<Rightarrow> 'k \<Rightarrow> 'm option \<times> 'k" where
  "PyInit_abi A c k = init_module (PyModule_Create A abi_module k) (add_constants A (abi_init c))"

definition initabi :: "(('l::len, 'k) py_methods, 'k, 'm) module_api \<Rightarrow> pink_config \<Rightarrow> 'k \<Rightarrow> 'm option \<times> 'k" where
  "initabi A c k = init_module (Py_InitModule3 A (''abi'', abi_methods) k) (add_constants A (abi_init c))"

definition system_module :: "string \<times> ('l::len, 'k) py_methods" where
  "system_module = (''system'', [])"

definition PyInit_system :: "(('l::len, 'k) py_methods, 'k, 'm) module_api \<Rightarrow> pink_config \<Rightarrow> 'k \<Rightarrow> 'm option \<times> 'k" where
  "PyInit_system A c k = init_module (PyModule_Create A system_module k) (system_init (PyModule_AddIntConstant A) c)"

definition initsystem :: "(('l::len, 'k) py_methods, 'k, 'm) module_api \<Rightarrow> pink_config \<Rightarrow> 'k \<Rightarrow> 'm option \<times> 'k" where
  "initsystem A c k = init_module (Py_InitModule3 A (''system'', []) k) (system_init (PyModule_AddIntConstant A) c)"

text \<open>
  The module \<open>regset\<close> has a class and no function. In Python 2 its initialisation goes on
  without a module: the class is added to a null pointer.
\<close>

definition regset_module :: "string \<times> ('l::len, 'k) py_methods" where
  "regset_module = (''regset'', [])"

definition regset_init :: "('t, 'k, 'm) module_api \<Rightarrow> 'm \<Rightarrow> 'm" where
  "regset_init A m = PyModule_AddObject A m ''ProcessRegistrySet''"

definition PyInit_regset :: "(('l::len, 'k) py_methods, 'k, 'm) module_api \<Rightarrow> 'k \<Rightarrow> 'm option \<times> 'k" where
  "PyInit_regset A k =
     (case PyType_Ready A k of
        (False, k') \<Rightarrow> (None, k')
      | (True, k') \<Rightarrow> init_module (PyModule_Create A regset_module k') (regset_init A))"

definition initregset :: "(('l::len, 'k) py_methods, 'k, 'm) module_api \<Rightarrow> 'k \<Rightarrow> ('m option \<times> 'k) outcome" where
  "initregset A k =
     (case PyType_Ready A k of
        (False, k') \<Rightarrow> Ret (None, k')
      | (True, k') \<Rightarrow>
          (case Py_InitModule3 A (''regset'', []) k' of
             (None, k'') \<Rightarrow> Fault Undefined
           | (Some m, k'') \<Rightarrow> Ret (Some (regset_init A m), k'')))"

text \<open>The package imports its modules in this order; a module that cannot be made ends the import.\<close>

fun import_all :: "('k \<Rightarrow> 'm option \<times> 'k) list \<Rightarrow> 'k \<Rightarrow> 'm list option \<times> 'k" where
  "import_all [] k = (Some [], k)"
| "import_all (init # inits) k =
     (case init k of
        (None, k') \<Rightarrow> (None, k')
      | (Some m, k') \<Rightarrow> (case import_all inits k' of (ms, k'') \<Rightarrow> (map_option ((#) m) ms, k'')))"

definition import_pinktrace ::
    "(('l::len, 'k) py_methods, 'k, 'm) module_api \<Rightarrow> pink_config \<Rightarrow> (string \<Rightarrow> nat option) \<Rightarrow> 'l word \<Rightarrow> 'k \<Rightarrow>
     'm list option \<times> 'k" where
  "import_pinktrace A c af data0 k =
     import_all [PyInit_system A c, PyInit_abi A c, PyInit_event A, PyInit_name A af, PyInit_regset A,
       PyInit_trace A data0] k"

section \<open>What a module holds\<close>

text \<open>
  What the C API documents of Python 3: a new module has the methods of its table, and a
  constant or an object that is added is bound to its name in the dictionary \<open>dict\<close> of the
  module.
\<close>

datatype 'f entry = Method 'f | Constant int | Object

definition module_contract :: "((string \<times> 'f) list, 'k, 'm) module_api \<Rightarrow> ('m \<Rightarrow> string \<Rightarrow> 'f entry option) \<Rightarrow> bool" where
  "module_contract A dict \<longleftrightarrow>
     (\<forall>name ms k m k'. PyModule_Create A (name, ms) k = (Some m, k') \<longrightarrow>
        (\<forall>n. dict m n = map_option Method (map_of ms n))) \<and>
     (\<forall>m n v. dict (PyModule_AddIntConstant A m n v) = (dict m)(n \<mapsto> Constant v)) \<and>
     (\<forall>m n. dict (PyModule_AddObject A m n) = (dict m)(n \<mapsto> Object))"

text \<open>Every name of the tables is a name of the module: none hides another.\<close>

definition holds :: "(string \<Rightarrow> 'f entry option) \<Rightarrow> (string \<times> 'f) list \<Rightarrow> (string \<times> int) list \<Rightarrow> bool" where
  "holds d methods constants \<longleftrightarrow>
     (\<forall>(n, f) \<in> set methods. d n = Some (Method f)) \<and> (\<forall>(n, v) \<in> set constants. d n = Some (Constant v))"

lemma created_dict:
  assumes "module_contract A dict" and "PyModule_Create A (name, ms) k = (Some m, k')"
  shows "dict m n = map_option Method (map_of ms n)"
  using assms unfolding module_contract_def by blast

lemma add_constants_dict:
  assumes "module_contract A dict"
  shows "dict (add_constants A cs m) n =
    (case map_of (rev cs) n of None \<Rightarrow> dict m n | Some v \<Rightarrow> Some (Constant v))"
proof (induction cs arbitrary: m)
  case Nil
  then show ?case by (simp add: add_constants_def)
next
  case (Cons x cs)
  have "dict (add_constants A (x # cs) m) n = dict (add_constants A cs (PyModule_AddIntConstant A m (fst x) (snd x))) n"
    by (simp add: add_constants_def split_beta)
  then show ?case
    using assms by (simp add: Cons.IH module_contract_def map_add_def split: option.splits)
qed

lemma init_module_Some:
  "init_module created init = (Some m, k') \<longleftrightarrow> (\<exists>m0. created = (Some m0, k') \<and> m = init m0)"
  by (auto simp: init_module_def split: prod.splits option.splits)

lemma add_constants_holds:
  assumes A: "module_contract A dict"
    and create: "PyModule_Create A (name, ms) k = (Some m, k')"
    and distinct: "distinct (map fst ms @ map fst cs)"
  shows "holds (dict (add_constants A cs m)) ms cs"
proof -
  have rev: "map_of (rev cs) = map_of cs"
    using distinct map_of_inject_set [of "rev cs" cs] by (simp flip: rev_map)
  have dict: "dict m n = map_option Method (map_of ms n)" for n
    by (rule created_dict [OF A create])
  show ?thesis
    unfolding holds_def
  proof (intro conjI ballI; clarify)
    fix n f
    assume n: "(n, f) \<in> set ms"
    then have "map_of cs n = None"
      using distinct by (force simp: map_of_eq_None_iff)
    then show "dict (add_constants A cs m) n = Some (Method f)"
      using n distinct by (simp add: add_constants_dict [OF A] rev dict)
  next
    fix n v
    assume "(n, v) \<in> set cs"
    then show "dict (add_constants A cs m) n = Some (Constant v)"
      using distinct by (simp add: add_constants_dict [OF A] rev)
  qed
qed


lemma distinct_entries:
  "distinct (map fst (trace_methods data0) @ map fst (signed_constants trace_init))"
  "distinct (map fst (event_methods :: ('l::len, 'k) py_methods) @ map fst event_init)"
  "distinct (map fst (abi_methods :: ('l::len, 'k) py_methods) @ map fst (abi_init c))"
  "distinct (map fst (name_methods af))"
  by (auto simp: trace_methods_def signed_constants_def trace_init_def event_methods_def event_init_def
      abi_methods_def abi_init_def name_methods_def)

lemma import_all_Cons_Some:
  "import_all (init # inits) k = (Some ms, k') \<longleftrightarrow>
   (\<exists>m ms' k1. init k = (Some m, k1) \<and> import_all inits k1 = (Some ms', k') \<and> ms = m # ms')"
  by (auto split: prod.splits option.splits)

text \<open>
  The import goes through if, and only if, each module in its turn can be made. No module is
  made after one that failed.
\<close>

lemma import_all_append:
  "import_all (xs @ ys) k =
     (case import_all xs k of
        (None, k') \<Rightarrow> (None, k')
      | (Some ms, k') \<Rightarrow>
          (case import_all ys k' of (None, k'') \<Rightarrow> (None, k'') | (Some ms', k'') \<Rightarrow> (Some (ms @ ms'), k'')))"
  by (induction xs arbitrary: k) (auto split: prod.splits option.splits)

lemma import_all_stops:
  assumes "import_all xs k = (Some ms, k')" and "init k' = (None, k'')"
  shows "import_all (xs @ init # ys) k = (None, k'')"
  using assms by (simp add: import_all_append)

text \<open>A concrete import: a module is its dictionary, and there is memory for it.\<close>

definition ref_module_api :: "((string \<times> 'f) list, 'k, string \<Rightarrow> 'f entry option) module_api" where
  "ref_module_api =
     \<lparr>PyModule_Create = (\<lambda>(name, ms) k. (Some (map_option Method \<circ> map_of ms), k)),
      Py_InitModule3 = (\<lambda>(name, ms) k. (Some (map_option Method \<circ> map_of ms), k)),
      PyModule_AddIntConstant = (\<lambda>m n v. m(n \<mapsto> Constant v)),
      PyModule_AddObject = (\<lambda>m n. m(n \<mapsto> Object)),
      PyType_Ready = (\<lambda>k. (True, k))\<rparr>"

lemma ref_module_contract: "module_contract ref_module_api id"
  by (simp add: module_contract_def ref_module_api_def)

lemma ref_import: "\<exists>ms. import_pinktrace ref_module_api c af data0 k = (Some ms, k)"
  by (simp add: import_pinktrace_def PyInit_system_def PyInit_abi_def PyInit_event_def PyInit_name_def
      PyInit_regset_def PyInit_trace_def init_module_def ref_module_api_def split_beta)

text \<open>
  (C40) After an import of the package every method of the tables and every constant is found under
  its name in its module, except that of two constants of one name in \<open>system\<close> the later
  one stays.
\<close>

theorem import_pinktrace_holds:
  fixes A :: "(('l::len, 'k) py_methods, 'k, 'm) module_api"
  assumes A: "module_contract A dict" and import: "import_pinktrace A c af data0 k = (Some ms, k')"
  shows "\<exists>system abi event name regset trace. ms = [system, abi, event, name, regset, trace] \<and>
    dict system = map_option Constant \<circ> map_of (rev (system_constants c)) \<and>
    holds (dict abi) abi_methods (abi_init c) \<and> holds (dict event) event_methods event_init \<and>
    holds (dict name) (name_methods af) [] \<and> dict regset ''ProcessRegistrySet'' = Some Object \<and>
    holds (dict trace) (trace_methods data0) (signed_constants trace_init)"
proof -
  obtain m1 m2 m3 m4 m5 m6 k1 k2 k3 k4 k5 where
    ms: "ms = [m1, m2, m3, m4, m5, m6]" and inits:
      "PyInit_system A c k = (Some m1, k1)" "PyInit_abi A c k1 = (Some m2, k2)" "PyInit_event A k2 = (Some m3, k3)"
      "PyInit_name A af k3 = (Some m4, k4)" "PyInit_regset A k4 = (Some m5, k5)" "PyInit_trace A data0 k5 = (Some m6, k')"
    using import unfolding import_pinktrace_def import_all_Cons_Some by auto
  have "dict m1 = map_option Constant \<circ> map_of (rev (system_constants c))"
  proof -
    obtain m where m: "PyModule_Create A (''system'', []) k = (Some m, k1)"
      "m1 = add_constants A (system_constants c) m"
      using inits(1) by (auto simp: PyInit_system_def init_module_Some system_module_def system_init_def add_constants_def)
    then have "dict m n = None" for n
      using created_dict [OF A m(1)] by simp
    then show ?thesis
      by (simp add: m(2) fun_eq_iff add_constants_dict [OF A] split: option.splits)
  qed
  moreover have "holds (dict m2) abi_methods (abi_init c)"
    using inits(2) add_constants_holds [OF A _ distinct_entries(3)]
    by (auto simp: PyInit_abi_def init_module_Some abi_module_def)
  moreover have "holds (dict m3) event_methods event_init"
    using inits(3) add_constants_holds [OF A _ distinct_entries(2)]
    by (auto simp: PyInit_event_def init_module_Some event_module_def)
  moreover have "holds (dict m4) (name_methods af) []"
    using inits(4) add_constants_holds [OF A, where cs = "[]"] distinct_entries(4) [of af]
    by (auto simp: PyInit_name_def init_module_Some name_module_def add_constants_def)
  moreover have "dict m5 ''ProcessRegistrySet'' = Some Object"
    using inits(5) A
    by (auto simp: PyInit_regset_def init_module_Some regset_init_def module_contract_def split: prod.splits bool.splits)
  moreover have "holds (dict m6) (trace_methods data0) (signed_constants trace_init)"
    using inits(6) add_constants_holds [OF A _ distinct_entries(1)]
    by (auto simp: PyInit_trace_def init_module_Some trace_module_def)
  ultimately show ?thesis
    using ms by blast
qed

theorem import_pinktrace_holds_witness:
  "\<exists>ms. import_pinktrace ref_module_api (ref_config X86_64) (\<lambda>_. None) (0 :: 64 word) (ref_tracee (0 :: 64 word)) =
     (Some ms, ref_tracee 0) \<and> holds (ms ! 5) (trace_methods (0 :: 64 word)) (signed_constants trace_init) \<and>
     (ms ! 0) ''HAVE_OPTION_EXITKILL'' = None"
proof -
  obtain ms where ms: "import_pinktrace ref_module_api (ref_config X86_64) (\<lambda>_. None) (0 :: 64 word) (ref_tracee (0 :: 64 word)) =
      (Some ms, ref_tracee 0)"
    using ref_import [of "ref_config X86_64" "\<lambda>_. None" "0 :: 64 word" "ref_tracee (0 :: 64 word)"] by (elim exE)
  have "map_of (rev (system_constants (ref_config X86_64))) ''HAVE_OPTION_EXITKILL'' = None"
    by (simp add: system_constants_def map_of_eq_None_iff)
  with import_pinktrace_holds [OF ref_module_contract ms] ms show ?thesis
    by auto
qed

text \<open>
  In Python 3 a module that cannot be made is an error of the import; in Python 2 the
  initialisation of \<open>regset\<close> then uses a null pointer.
\<close>

lemma regset_without_module:
  assumes "PyType_Ready A k = (True, k')" and "PyModule_Create A regset_module k' = (None, k'')"
    and "Py_InitModule3 A (''regset'', []) k' = (None, k'')"
  shows "PyInit_regset A k = (None, k'') \<and> initregset A k = Fault Undefined"
  using assms by (simp add: PyInit_regset_def initregset_def init_module_def)

end
