(* ===== verification/Pink_Pytest.thy ===== *)
theory Pink_Pytest
  imports Pink_Modules
begin

text \<open>
  The tests of the Python bindings, \<^verbatim>\<open>python/pinktrace/test.py.in\<close>: the helpers of its test
  cases, and every test. A test passes on a parser of arguments and a kernel as documented.
\<close>

section \<open>Running Python\<close>

text \<open>
  What a statement raises: an exception of a binding, a failed assertion of the test, or an
  error of the test itself.
\<close>

datatype raised = Raised py_exc | AssertionError | AttributeError | UnboundLocalError

datatype py_class =
  Class_TypeError | Class_ValueError | Class_OverflowError | Class_OSError | Class_SystemError | Class_MemoryError |
  Class_AssertionError | Class_AttributeError | Class_UnboundLocalError

fun arg_class :: "arg_error \<Rightarrow> py_class" where
  "arg_class Type_error = Class_TypeError"
| "arg_class Overflow_error = Class_OverflowError"
| "arg_class Null_character = Class_ValueError"

fun class_of :: "raised \<Rightarrow> py_class" where
  "class_of (Raised SystemError) = Class_SystemError"
| "class_of (Raised (OSError n)) = Class_OSError"
| "class_of (Raised (ValueError s)) = Class_ValueError"
| "class_of (Raised MemoryError) = Class_MemoryError"
| "class_of (Raised (Bad_arguments e)) = arg_class e"
| "class_of AssertionError = Class_AssertionError"
| "class_of AttributeError = Class_AttributeError"
| "class_of UnboundLocalError = Class_UnboundLocalError"

type_synonym ('k, 'a) py_run = "'k world \<Rightarrow> ((raised + 'a) \<times> 'k world) outcome"

definition py_return :: "'a \<Rightarrow> ('k, 'a) py_run" where
  "py_return a w = Ret (Inr a, w)"

definition py_raise :: "raised \<Rightarrow> ('k, 'a) py_run" where
  "py_raise e w = Ret (Inl e, w)"

definition py_bind :: "('k, 'a) py_run \<Rightarrow> ('a \<Rightarrow> ('k, 'b) py_run) \<Rightarrow> ('k, 'b) py_run" where
  "py_bind m f w = obind (m w) (\<lambda>(r, w'). case r of Inl e \<Rightarrow> Ret (Inl e, w') | Inr a \<Rightarrow> f a w')"

text \<open>\<open>except Exception as e\<close>: the handler has the result, or what was raised.\<close>

definition py_try :: "('k, 'a) py_run \<Rightarrow> (raised + 'a \<Rightarrow> ('k, 'b) py_run) \<Rightarrow> ('k, 'b) py_run" where
  "py_try m f w = obind (m w) (\<lambda>(r, w'). f r w')"

primrec in_order :: "('k, unit) py_run list \<Rightarrow> ('k, unit) py_run" where
  "in_order [] = py_return ()"
| "in_order (m # ms) = py_bind m (\<lambda>_. in_order ms)"

text \<open>
  What the tests find: the configuration and the kernel, the parser of arguments, the numbers
  of the module \<open>errno\<close>, and the functions of \<open>os\<close> and of the C library. \<open>libc.kill\<close> gives its
  result and the \<open>errno\<close> of \<open>ctypes\<close>.
\<close>

record ('l, 'k) pytest_env =
  pe_config :: pink_config
  pe_kernel :: "('l, 'k) kernel"
  pe_parse :: "'l parse_tuple"
  pe_errno :: "string \<Rightarrow> int option"
  os_fork :: "'k \<Rightarrow> (int + int) \<times> 'k"
  os_waitpid :: "int \<Rightarrow> int \<Rightarrow> 'k \<Rightarrow> (int + int \<times> 32 word) \<times> 'k"
  os_pause :: "'k \<Rightarrow> 'k"
  libc_kill :: "int \<Rightarrow> int \<Rightarrow> 'k \<Rightarrow> (int \<times> int) \<times> 'k"

text \<open>
  A call of a function of a module. The interpreter raises \<open>SystemError\<close> for a function that
  returns an object with an exception set, or neither.
\<close>

definition py_call ::
    "('l::len word, 'k) pytest_env \<Rightarrow> ('l, 'k) py_methods \<Rightarrow> string \<Rightarrow> pyobj list \<Rightarrow> ('k, pyobj) py_run" where
  "py_call E methods name args w =
     (case map_of methods name of
        None \<Rightarrow> Ret (Inl AttributeError, w)
      | Some (flag, f) \<Rightarrow>
          obind (call_method flag f (pe_config E) (pe_kernel E) (pe_parse E) args w) (\<lambda>(obj, exc, w').
            Ret (case (obj, exc) of
                   (Some v, None) \<Rightarrow> Inr v
                 | (None, Some e) \<Rightarrow> Inl (Raised e)
                 | _ \<Rightarrow> Inl (Raised SystemError), w')))"

text \<open>\<open>unittest\<close>: \<open>assertRaises\<close> lets an exception of another class pass on.\<close>

definition assertRaises ::
    "('l::len word, 'k) pytest_env \<Rightarrow> py_class \<Rightarrow> ('l, 'k) py_methods \<Rightarrow> string \<Rightarrow> pyobj list \<Rightarrow> ('k, raised) py_run" where
  "assertRaises E cls methods name args =
     py_try (py_call E methods name args) (\<lambda>r. case r of
         Inl e \<Rightarrow> if class_of e = cls then py_return e else py_raise e
       | Inr _ \<Rightarrow> py_raise AssertionError)"

section \<open>The helpers\<close>

definition INT_MAX :: int where "INT_MAX = 2147483647"

text \<open>\<open>errorcode\<close> is the dictionary of the module \<open>errno\<close>.\<close>

definition strerror :: "(int \<Rightarrow> string option) \<Rightarrow> int \<Rightarrow> string" where
  "strerror errorcode err_no =
     (if err_no = 0 then ''ESUCCESS'' else case errorcode err_no of None \<Rightarrow> ''E???'' | Some s \<Rightarrow> s)"

text \<open>The lines of a string, as \<open>splitlines\<close> has them for characters of one byte.\<close>

definition line_end :: "char \<Rightarrow> bool" where
  "line_end ch \<longleftrightarrow> ch \<in> {CHR 0x0A, CHR 0x0B, CHR 0x0C, CHR 0x0D, CHR 0x1C, CHR 0x1D, CHR 0x1E, CHR 0x85}"

fun splitlines_from :: "string \<Rightarrow> string \<Rightarrow> string list" where
  "splitlines_from line [] = (if line = [] then [] else [line])"
| "splitlines_from line (ch # s) =
     (if ch = CHR 0x0D \<and> s \<noteq> [] \<and> hd s = CHR 0x0A then line # splitlines_from [] (tl s)
      else if line_end ch then line # splitlines_from [] s
      else splitlines_from (line @ [ch]) s)"

definition splitlines :: "string \<Rightarrow> string list" where "splitlines = splitlines_from []"

text \<open>For another role than the two the variable \<open>suff\<close> has no value in the first line.\<close>

definition format_line :: "(int \<Rightarrow> string) \<Rightarrow> string \<Rightarrow> int \<Rightarrow> bool \<Rightarrow> string \<Rightarrow> raised + string" where
  "format_line digits role pid isError line =
     (let info = role @ ''[pid='' @ digits pid @ '']'' in
      if role = ''P'' then Inr (info @ (if isError then ''>!>> '' else ''>>> '') @ line @ [CHR 0x0A])
      else if role = ''C'' then Inr (info @ (if isError then ''<!<< '' else ''<<< '') @ line @ [CHR 0x0A])
      else Inl UnboundLocalError)"

primrec format_lines :: "(int \<Rightarrow> string) \<Rightarrow> string \<Rightarrow> int \<Rightarrow> bool \<Rightarrow> string list \<Rightarrow> raised + string" where
  "format_lines digits role pid isError [] = Inr []"
| "format_lines digits role pid isError (line # lines) =
     (case format_line digits role pid isError line of
        Inl e \<Rightarrow> Inl e
      | Inr s \<Rightarrow> map_sum id ((@) s) (format_lines digits role pid isError lines))"

definition formatString :: "(int \<Rightarrow> string) \<Rightarrow> int \<Rightarrow> string \<Rightarrow> string \<Rightarrow> int option \<Rightarrow> bool \<Rightarrow> raised + string" where
  "formatString digits getpid text role pid isError =
     map_sum id ((#) CHR 0x0A)
       (format_lines digits role (case pid of None \<Rightarrow> getpid | Some p \<Rightarrow> p) isError (splitlines text))"

text \<open>\<open>Libc.kill\<close>\<close>

definition Libc_kill :: "('l, 'k) pytest_env \<Rightarrow> int \<Rightarrow> int \<Rightarrow> ('k, int) py_run" where
  "Libc_kill E pid sig w =
     (case libc_kill E pid sig (kern w) of
        ((r, e), k) \<Rightarrow> Ret (Inr (if r = - 1 \<and> e \<noteq> 0 then - e else r), w\<lparr>kern := k\<rparr>))"

text \<open>
  An error number is given as a number or by its name. The name of the error that is wanted is
  looked up into the other variable, and stays a string.
\<close>

datatype errno_arg = Number int | Name string

definition assertErrno :: "(string \<Rightarrow> int option) \<Rightarrow> errno_arg \<Rightarrow> errno_arg \<Rightarrow> ('k, bool) py_run" where
  "assertErrno errnos err_no err_no_wanted =
     (case (case err_no of Number n \<Rightarrow> Some n | Name s \<Rightarrow> errnos s) of
        None \<Rightarrow> py_raise AssertionError
      | Some n \<Rightarrow>
          (case err_no_wanted of
             Name s \<Rightarrow> py_raise AssertionError
           | Number wanted \<Rightarrow> if n = wanted then py_return True else py_raise AssertionError))"

definition assertRaisesOSErrorWithErrno ::
    "('l::len word, 'k) pytest_env \<Rightarrow> errno_arg \<Rightarrow> ('l, 'k) py_methods \<Rightarrow> string \<Rightarrow> pyobj list \<Rightarrow> ('k, unit) py_run" where
  "assertRaisesOSErrorWithErrno E err_no methods name args =
     py_bind (assertRaises E Class_OSError methods name args) (\<lambda>e.
       case e of
         Raised (OSError n) \<Rightarrow> py_bind (assertErrno (pe_errno E) (Number n) err_no) (\<lambda>_. py_return ())
       | _ \<Rightarrow> py_raise AttributeError)"

definition assertProcessIsAlive :: "('l, 'k) pytest_env \<Rightarrow> int \<Rightarrow> ('k, unit) py_run" where
  "assertProcessIsAlive E pid =
     py_bind (Libc_kill E pid 0) (\<lambda>negated_errno.
     py_bind (assertErrno (pe_errno E) (Number (- negated_errno)) (Number 0)) (\<lambda>_. py_return ()))"

definition assertProcessIsDead :: "('l, 'k) pytest_env \<Rightarrow> int \<Rightarrow> ('k, unit) py_run" where
  "assertProcessIsDead E pid =
     py_bind (Libc_kill E pid 0) (\<lambda>negated_errno.
     py_bind (assertErrno (pe_errno E) (Number (- negated_errno)) (Number ESRCH)) (\<lambda>_. py_return ()))"

text \<open>
  The parent's side of \<open>forkProcess\<close>. After a failed \<open>fork\<close> whose error number is 0 the
  variable \<open>pid\<close> has no value. The child's side is below: it exits with what the function
  returns, and with 0 for \<open>None\<close>; an exception of the function is not caught, so that the child
  goes on with the tests.
\<close>

definition forkProcess :: "('l, 'k) pytest_env \<Rightarrow> ('k, int) py_run" where
  "forkProcess E w =
     (case os_fork E (kern w) of
        (Inl e, k) \<Rightarrow>
          py_bind (assertErrno (pe_errno E) (Number e) (Number 0)) (\<lambda>_. py_raise UnboundLocalError) (w\<lparr>kern := k\<rparr>)
      | (Inr pid, k) \<Rightarrow>
          if pid = 0 then Fault In_child
          else py_bind (assertProcessIsAlive E pid) (\<lambda>_. py_return pid) (w\<lparr>kern := k\<rparr>))"

definition forked_child :: "('k, int option) py_run \<Rightarrow> ('k, int) py_run" where
  "forked_child callableObj = py_bind callableObj (\<lambda>r. py_return (case r of None \<Rightarrow> 0 | Some n \<Rightarrow> n))"

definition waitProcess :: "('l, 'k) pytest_env \<Rightarrow> int \<Rightarrow> int \<Rightarrow> ('k, int \<times> 32 word) py_run" where
  "waitProcess E pid options w =
     (case os_waitpid E pid options (kern w) of
        (Inl e, k) \<Rightarrow> Ret (Inl (Raised (OSError e)), w\<lparr>kern := k\<rparr>)
      | (Inr (pid', status), k) \<Rightarrow> Ret (Inr (pid', status), w\<lparr>kern := k\<rparr>))"

definition assertProcessExitedWith :: "int \<Rightarrow> 32 word \<Rightarrow> ('k, bool) py_run" where
  "assertProcessExitedWith exit_code wait_status =
     (if WIFEXITED wait_status \<and> WEXITSTATUS wait_status = exit_code then py_return True else py_raise AssertionError)"

definition assertProcessTerminatedWith :: "int \<Rightarrow> 32 word \<Rightarrow> ('k, bool) py_run" where
  "assertProcessTerminatedWith sig wait_status =
     (if WIFSIGNALED wait_status \<and> WTERMSIG wait_status = sig then py_return True else py_raise AssertionError)"

definition killProcess :: "('l, 'k) pytest_env \<Rightarrow> int \<Rightarrow> bool \<Rightarrow> bool \<Rightarrow> ('k, unit) py_run" where
  "killProcess E pid check_alive check_killed =
     py_bind (if check_alive then assertProcessIsAlive E pid else py_return ()) (\<lambda>_.
     py_bind (Libc_kill E pid SIGKILL) (\<lambda>negated_errno.
     py_bind (assertErrno (pe_errno E) (Number (- negated_errno)) (Number 0)) (\<lambda>_.
     py_bind (waitProcess E pid 0) (\<lambda>(_, wait_status).
       if check_killed then py_bind (assertProcessTerminatedWith SIGKILL wait_status) (\<lambda>_. py_return ())
       else py_return ()))))"

text \<open>
  \<open>_checkPinkCall\<close>. The number 1 equals \<open>True\<close>. Where an error number is expected, \<open>errno\<close> is
  read from every exception, which only an \<open>OSError\<close> has. The message of a failure negates the
  result, which a string does not allow.
\<close>

fun py_errno :: "raised \<Rightarrow> int option" where
  "py_errno (Raised (OSError n)) = Some n"
| "py_errno e = None"

definition number_of :: "pyobj \<Rightarrow> int option" where
  "number_of v = (case v of Py_True \<Rightarrow> Some 0 | Py_int n \<Rightarrow> Some (if n = 1 then 0 else n) | Py_str s \<Rightarrow> None)"

definition checkPinkCall :: "int \<Rightarrow> int option \<Rightarrow> ('k, pyobj) py_run \<Rightarrow> ('k, int) py_run" where
  "checkPinkCall retval_wanted check_errno callableObj =
     py_try callableObj (\<lambda>r. case r of
         Inl e \<Rightarrow>
           (case check_errno of
              None \<Rightarrow> py_raise AssertionError
            | Some wanted \<Rightarrow>
                (case py_errno e of
                   None \<Rightarrow> py_raise AttributeError
                 | Some n \<Rightarrow> if n \<noteq> 0 \<and> n = wanted then py_return (- n) else py_raise AssertionError))
       | Inr v \<Rightarrow>
           (case number_of v of
              None \<Rightarrow> py_raise (Raised (Bad_arguments Type_error))
            | Some retval \<Rightarrow>
                if check_errno = None \<and> retval = retval_wanted then py_return retval else py_raise AssertionError))"

definition checkPinkCallRetval :: "int \<Rightarrow> ('k, pyobj) py_run \<Rightarrow> ('k, int) py_run" where
  "checkPinkCallRetval retval_wanted callableObj = checkPinkCall retval_wanted None callableObj"

definition checkPinkCallErrno :: "int \<Rightarrow> ('k, pyobj) py_run \<Rightarrow> ('k, int) py_run" where
  "checkPinkCallErrno errno_wanted callableObj = checkPinkCall 0 (Some errno_wanted) callableObj"

section \<open>The test cases\<close>

definition raises ::
    "('l::len word, 'k) pytest_env \<Rightarrow> py_class \<Rightarrow> ('l, 'k) py_methods \<Rightarrow> string \<Rightarrow> pyobj list \<Rightarrow> ('k, unit) py_run" where
  "raises E cls methods name args = py_bind (assertRaises E cls methods name args) (\<lambda>_. py_return ())"

definition TestCase_01_Abi :: "('l::len word, 'k) pytest_env \<Rightarrow> (string \<times> ('k, unit) py_run) list" where
  "TestCase_01_Abi E =
     (let type_error = raises E Class_TypeError abi_methods in
     [(''test_01_abi_wordsize_raises_type_error_for_invalid_arguments'', in_order
         [type_error ''wordsize'' [Py_int 1, Py_int 2], type_error ''wordsize'' [Py_str ''pink'']]),
      (''test_02_abi_wordsize_without_argument_returns_for_default_abi'', 
         py_bind (py_call E abi_methods ''wordsize'' []) (\<lambda>first.
         py_bind (py_call E abi_methods ''wordsize'' [Py_int PINK_ABI_DEFAULT]) (\<lambda>second.
           if first = second then py_return () else py_raise AssertionError)))])"

definition TestCase_02_Event :: "('l::len word, 'k) pytest_env \<Rightarrow> (string \<times> ('k, unit) py_run) list" where
  "TestCase_02_Event E =
     (let type_error = raises E Class_TypeError event_methods in
     [(''test_01_event_decide_raises_type_error_for_invalid_arguments'', in_order
         [type_error ''decide'' [], type_error ''decide'' [Py_int 1, Py_int 2],
          type_error ''decide'' [Py_str ''pink'']])])"

definition TestCase_03_Name ::
    "('l::len word, 'k) pytest_env \<Rightarrow> (string \<Rightarrow> nat option) \<Rightarrow> (string \<times> ('k, unit) py_run) list" where
  "TestCase_03_Name E af =
     (let type_error = raises E Class_TypeError (name_methods af); value_error = raises E Class_ValueError (name_methods af) in
     [(''test_01_name_event_raises_type_error_for_invalid_arguments'', in_order
         [type_error ''name_event'' [], type_error ''name_event'' [Py_int 1, Py_int 2],
          type_error ''name_event'' [Py_str ''pink'']]),
      (''test_02_name_event_raises_value_error_for_lookup_failure'', in_order
         [value_error ''name_event'' [Py_int INT_MAX]]),
      (''test_03_lookup_event_raises_type_error_for_invalid_arguments'', in_order
         [type_error ''lookup_event'' [], type_error ''lookup_event'' [Py_int 1, Py_int 2]]),
      (''test_04_lookup_event_raises_value_error_for_lookup_failure'', in_order
         [value_error ''lookup_event'' [Py_str ''pink'']]),
      (''test_05_name_syscall_raises_type_error_for_invalid_arguments'', in_order
         [type_error ''name_syscall'' [], type_error ''name_syscall'' [Py_int 1, Py_int 2, Py_int 3],
          type_error ''name_syscall'' [Py_str ''pink''], type_error ''name_syscall'' [Py_str ''pink'', Py_int 1],
          type_error ''name_syscall'' [Py_int 1, Py_str ''pink'']]),
      (''test_06_name_syscall_raises_value_error_for_lookup_failure'', in_order
         [value_error ''name_syscall'' [Py_int INT_MAX],
          value_error ''name_syscall'' [Py_int INT_MAX, Py_int PINK_ABI_DEFAULT]]),
      (''test_07_lookup_syscall_raises_type_error_for_invalid_arguments'', in_order
         [type_error ''lookup_syscall'' [], type_error ''lookup_syscall'' [Py_int 1, Py_int 2]]),
      (''test_08_lookup_syscall_raises_value_error_for_lookup_failure'', in_order
         [value_error ''lookup_syscall'' [Py_str ''pink''],
          value_error ''lookup_syscall'' [Py_str ''pink'', Py_int PINK_ABI_DEFAULT]]),
      (''test_09_name_socket_family_raises_type_error_for_invalid_arguments'', in_order
         [type_error ''name_socket_family'' [], type_error ''name_socket_family'' [Py_int 1, Py_int 2],
          type_error ''name_socket_family'' [Py_str ''pink'']]),
      (''test_10_name_socket_family_raises_value_error_for_lookup_failure'', in_order
         [value_error ''name_socket_family'' [Py_int INT_MAX]]),
      (''test_11_lookup_socket_family_raises_type_error_for_invalid_arguments'', in_order
         [type_error ''lookup_socket_family'' [], type_error ''lookup_socket_family'' [Py_int 1, Py_int 2]]),
      (''test_12_lookup_socket_family_raises_value_error_for_lookup_failure'', in_order
         [value_error ''lookup_socket_family'' [Py_str ''pink'']]),
      (''test_13_name_socket_subcall_raises_type_error_for_invalid_arguments'', in_order
         [type_error ''name_socket_subcall'' [], type_error ''name_socket_subcall'' [Py_int 1, Py_int 2],
          type_error ''name_socket_subcall'' [Py_str ''pink'']]),
      (''test_14_name_socket_subcall_raises_value_error_for_lookup_failure'', in_order
         [value_error ''name_socket_subcall'' [Py_int INT_MAX]]),
      (''test_15_lookup_socket_subcall_raises_type_error_for_invalid_arguments'', in_order
         [type_error ''lookup_socket_subcall'' [], type_error ''lookup_socket_subcall'' [Py_int 1, Py_int 2]]),
      (''test_16_lookup_socket_subcall_raises_value_error_for_lookup_failure'', in_order
         [value_error ''lookup_socket_subcall'' [Py_str ''pink'']]),
      (''test_17_name_errno_raises_type_error_for_invalid_arguments'', in_order
         [type_error ''name_errno'' [], type_error ''name_errno'' [Py_int 1, Py_int 2, Py_int 3],
          type_error ''name_errno'' [Py_str ''pink''], type_error ''name_errno'' [Py_str ''pink'', Py_int 1],
          type_error ''name_errno'' [Py_int 1, Py_str ''pink'']]),
      (''test_18_name_errno_raises_value_error_for_lookup_failure'', in_order
         [value_error ''name_errno'' [Py_int INT_MAX],
          value_error ''name_errno'' [Py_int INT_MAX, Py_int PINK_ABI_DEFAULT]]),
      (''test_19_lookup_errno_raises_type_error_for_invalid_arguments'', in_order
         [type_error ''lookup_errno'' [], type_error ''lookup_errno'' [Py_int 1, Py_int 2]]),
      (''test_20_lookup_errno_raises_value_error_for_lookup_failure'', in_order
         [value_error ''lookup_errno'' [Py_str ''pink''],
          value_error ''lookup_errno'' [Py_str ''pink'', Py_int PINK_ABI_DEFAULT]]),
      (''test_21_name_signal_raises_type_error_for_invalid_arguments'', in_order
         [type_error ''name_signal'' [], type_error ''name_signal'' [Py_int 1, Py_int 2, Py_int 3],
          type_error ''name_signal'' [Py_str ''pink''], type_error ''name_signal'' [Py_str ''pink'', Py_int 1],
          type_error ''name_signal'' [Py_int 1, Py_str ''pink'']]),
      (''test_22_name_signal_raises_value_error_for_lookup_failure'', in_order
         [value_error ''name_signal'' [Py_int INT_MAX],
          value_error ''name_signal'' [Py_int INT_MAX, Py_int PINK_ABI_DEFAULT]]),
      (''test_23_lookup_signal_raises_type_error_for_invalid_arguments'', in_order
         [type_error ''lookup_signal'' [], type_error ''lookup_signal'' [Py_int 1, Py_int 2]]),
      (''test_24_lookup_signal_raises_value_error_for_lookup_failure'', in_order
         [value_error ''lookup_signal'' [Py_str ''pink''],
          value_error ''lookup_signal'' [Py_str ''pink'', Py_int PINK_ABI_DEFAULT]])])"

text \<open>
  The child of \<open>test_02\<close> of the fourth case. It reports a failed assertion with \<open>e.message\<close>, an
  attribute that exceptions have in Python 2 only (\<open>py2\<close>).
\<close>

definition or_exit :: "bool \<Rightarrow> ('k, int) py_run \<Rightarrow> int \<Rightarrow> ('k, int option) py_run \<Rightarrow> ('k, int option) py_run" where
  "or_exit py2 check code rest =
     py_try check (\<lambda>r. case r of
         Inl e \<Rightarrow>
           if class_of e = Class_AssertionError then (if py2 then py_return (Some code) else py_raise AttributeError)
           else py_raise e
       | Inr _ \<Rightarrow> rest)"

definition trace_me_child_func :: "bool \<Rightarrow> ('l::len word, 'k) pytest_env \<Rightarrow> 'l word \<Rightarrow> ('k, int option) py_run" where
  "trace_me_child_func py2 E data0 =
     or_exit py2 (checkPinkCallRetval 0 (py_call E (trace_methods data0) ''me'' [])) 1
       (or_exit py2 (checkPinkCallErrno EPERM (py_call E (trace_methods data0) ''me'' [])) 2 (py_return None))"

definition trace_me_in_traced_process :: "('l, 'k) pytest_env \<Rightarrow> ('k, unit) py_run" where
  "trace_me_in_traced_process E =
     py_bind (forkProcess E) (\<lambda>pid.
     py_bind (waitProcess E pid 0) (\<lambda>(_, wait_status).
     py_bind (assertProcessExitedWith 0 wait_status) (\<lambda>_. py_return ())))"

text \<open>
  The process that \<open>setUp\<close> forks: it waits for a signal, and exits with 1 should it survive it.
\<close>

definition born_to_die_child_func :: "('l, 'k) pytest_env \<Rightarrow> ('k, int) py_run" where
  "born_to_die_child_func E w = Ret (Inr 1, w\<lparr>kern := os_pause E (kern w)\<rparr>)"

text \<open>\<open>killPID\<close> is the process that \<open>setUp\<close> forked.\<close>

definition TestCase_04_Trace ::
    "('l::len word, 'k) pytest_env \<Rightarrow> 'l word \<Rightarrow> int \<Rightarrow> (string \<times> ('k, unit) py_run) list" where
  "TestCase_04_Trace E data0 killPID =
     (let type_error = raises E Class_TypeError (trace_methods data0);
          value_error = raises E Class_ValueError (trace_methods data0);
          esrch = assertRaisesOSErrorWithErrno E (Number ESRCH) (trace_methods data0) in
     [(''test_01_trace_me_raises_type_error_for_invalid_arguments'', in_order
         [type_error ''me'' [Py_int 1]]),
      (''test_02_trace_me_raises_os_error_with_eperm_in_traced_process'', 
         trace_me_in_traced_process E),
      (''test_03_trace_resume_raises_type_error_for_invalid_arguments'', in_order
         [type_error ''resume'' [], type_error ''resume'' [Py_int 1, Py_int 2, Py_int 3],
          type_error ''resume'' [Py_str ''pink''], type_error ''resume'' [Py_int 0, Py_str ''pink'']]),
      (''test_04_trace_resume_raises_os_error_with_esrch_for_invalid_process'', in_order
         [esrch ''resume'' [Py_int 0]]),
      (''test_05_trace_resume_raises_value_error_for_invalid_signal'', in_order
         [value_error ''resume'' [Py_int killPID, Py_int (- 1)],
          value_error ''resume'' [Py_int killPID, Py_int INT_MAX]]),
      (''test_06_trace_kill_raises_type_error_for_invalid_arguments'', in_order
         [type_error ''kill'' [], type_error ''kill'' [Py_str ''pink''],
          type_error ''kill'' [Py_int 0, Py_str ''pink''], type_error ''kill'' [Py_str ''pink'', Py_int 0],
          type_error ''kill'' [Py_str ''pink'', Py_str ''pink''],
          type_error ''kill'' [Py_str ''pink'', Py_str ''pink'', Py_str ''pink''],
          type_error ''kill'' [Py_int 0, Py_str ''pink'', Py_str ''pink''],
          type_error ''kill'' [Py_str ''pink'', Py_int 0, Py_str ''pink''],
          type_error ''kill'' [Py_str ''pink'', Py_str ''pink'', Py_int 0],
          type_error ''kill'' [Py_int 0, Py_int 0, Py_str ''pink''],
          type_error ''kill'' [Py_int 0, Py_str ''pink'', Py_int 0],
          type_error ''kill'' [Py_str ''pink'', Py_int 0, Py_int 0]]),
      (''test_07_trace_kill_raises_value_error_for_invalid_signal'', in_order
         [value_error ''kill'' [Py_int killPID, Py_int (- 1), Py_int (- 1)],
          value_error ''kill'' [Py_int killPID, Py_int (- 1), Py_int INT_MAX]]),
      (''test_08_trace_singlestep_raises_type_error_for_invalid_arguments'', in_order
         [type_error ''singlestep'' [], type_error ''singlestep'' [Py_int 1, Py_int 2, Py_int 3],
          type_error ''singlestep'' [Py_str ''pink''], type_error ''singlestep'' [Py_int 0, Py_str ''pink'']]),
      (''test_09_trace_singlestep_raises_os_error_with_esrch_for_invalid_process'', in_order
         [esrch ''singlestep'' [Py_int 0]]),
      (''test_10_trace_singlestep_raises_value_error_for_invalid_signal'', in_order
         [value_error ''singlestep'' [Py_int killPID, Py_int (- 1)],
          value_error ''singlestep'' [Py_int killPID, Py_int INT_MAX]]),
      (''test_11_trace_syscall_raises_type_error_for_invalid_arguments'', in_order
         [type_error ''syscall'' [], type_error ''syscall'' [Py_int 1, Py_int 2, Py_int 3],
          type_error ''syscall'' [Py_str ''pink''], type_error ''syscall'' [Py_int 0, Py_str ''pink'']]),
      (''test_12_trace_syscall_raises_os_error_with_esrch_for_invalid_process'', in_order
         [esrch ''syscall'' [Py_int 0]]),
      (''test_13_trace_syscall_raises_value_error_for_invalid_signal'', in_order
         [value_error ''syscall'' [Py_int killPID, Py_int (- 1)],
          value_error ''syscall'' [Py_int killPID, Py_int INT_MAX]]),
      (''test_14_trace_geteventmsg_raises_type_error_for_invalid_arguments'', in_order
         [type_error ''geteventmsg'' [], type_error ''geteventmsg'' [Py_str ''pink'']]),
      (''test_15_trace_geteventmsg_raises_os_error_with_esrch_for_invalid_process'', in_order
         [esrch ''geteventmsg'' [Py_int 0]]),
      (''test_16_trace_setup_raises_type_error_for_invalid_arguments'', in_order
         [type_error ''setup'' [], type_error ''setup'' [Py_str ''pink''],
          type_error ''setup'' [Py_int 0, Py_str ''pink'']]),
      (''test_17_trace_setup_raises_os_error_with_esrch_for_invalid_process'', in_order
         [esrch ''setup'' [Py_int 0, Py_int (sint PINK_TRACE_OPTION_SYSGOOD)]]),
      (''test_18_trace_attach_raises_type_error_for_invalid_arguments'', in_order
         [type_error ''attach'' [], type_error ''attach'' [Py_int 1, Py_int 2],
          type_error ''attach'' [Py_str ''pink'']]),
      (''test_19_trace_attach_raises_os_error_with_esrch_for_invalid_process'', in_order
         [esrch ''attach'' [Py_int 0]]),
      (''test_20_trace_detach_raises_type_error_for_invalid_arguments'', in_order
         [type_error ''detach'' [], type_error ''detach'' [Py_int 1, Py_int 2, Py_int 3],
          type_error ''detach'' [Py_str ''pink''], type_error ''detach'' [Py_int 0, Py_str ''pink'']]),
      (''test_21_trace_detach_raises_os_error_with_esrch_for_invalid_process'', in_order
         [esrch ''detach'' [Py_int 0]]),
      (''test_22_trace_detach_raises_value_error_for_invalid_signal'', in_order
         [value_error ''detach'' [Py_int killPID, Py_int (- 1)],
          value_error ''detach'' [Py_int killPID, Py_int INT_MAX]]),
      (''test_23_trace_seize_raises_type_error_for_invalid_arguments'', in_order
         [type_error ''seize'' [], type_error ''seize'' [Py_str ''pink''],
          type_error ''seize'' [Py_int 0, Py_str ''pink'']]),
      (''test_24_trace_seize_raises_os_error_with_einval_for_invalid_options'', in_order
         [value_error ''seize'' [Py_int 0, Py_int (- 1)], value_error ''seize'' [Py_int 0, Py_int INT_MAX]]),
      (''test_25_trace_seize_raises_os_error_with_esrch_for_invalid_process'', in_order
         [esrch ''seize'' [Py_int 0, Py_int (sint PINK_TRACE_OPTION_SYSGOOD)]]),
      (''test_26_trace_interrupt_raises_type_error_for_invalid_arguments'', in_order
         [type_error ''interrupt'' [], type_error ''interrupt'' [Py_int 1, Py_int 2],
          type_error ''interrupt'' [Py_str ''pink'']]),
      (''test_27_trace_interrupt_raises_os_error_with_esrch_for_invalid_process'', in_order
         [esrch ''interrupt'' [Py_int 0]]),
      (''test_28_trace_listen_raises_type_error_for_invalid_arguments'', in_order
         [type_error ''listen'' [], type_error ''listen'' [Py_int 1, Py_int 2],
          type_error ''listen'' [Py_str ''pink'']]),
      (''test_29_trace_listen_raises_os_error_with_esrch_for_invalid_process'', in_order
         [esrch ''listen'' [Py_int 0]])])"

text \<open>
  A test of the fourth case as \<open>unittest\<close> runs it: not at all if \<open>setUp\<close> fails, and with
  \<open>tearDown\<close> afterwards in every case. The result tells whether it passed.
\<close>

definition run_trace_test :: "('l, 'k) pytest_env \<Rightarrow> (int \<Rightarrow> ('k, unit) py_run) \<Rightarrow> 'k world \<Rightarrow> (bool \<times> 'k world) outcome" where
  "run_trace_test E test w =
     obind (forkProcess E w) (\<lambda>(r, w1).
       case r of
         Inl e \<Rightarrow> Ret (False, w1)
       | Inr killPID \<Rightarrow>
           obind (test killPID w1) (\<lambda>(r1, w2).
           obind (killProcess E killPID True True w2) (\<lambda>(r2, w3). Ret (\<not> isl r1 \<and> \<not> isl r2, w3))))"


section \<open>The tests pass\<close>

text \<open>A test that passes from every state.\<close>

definition always :: "('k, unit) py_run \<Rightarrow> bool" where
  "always t \<longleftrightarrow> (\<forall>w. \<exists>w'. t w = Ret (Inr (), w'))"

lemma always_in_order: "list_all always ts \<Longrightarrow> always (in_order ts)"
proof (induction ts)
  case Nil
  then show ?case by (simp add: always_def py_return_def)
next
  case (Cons t ts)
  have "\<exists>w'. in_order (t # ts) w = Ret (Inr (), w')" for w
  proof -
    obtain w1 where "t w = Ret (Inr (), w1)" using Cons.prems by (auto simp: always_def)
    moreover obtain w2 where "in_order ts w1 = Ret (Inr (), w2)" using Cons by (auto simp: always_def)
    ultimately show ?thesis by (simp add: py_bind_def)
  qed
  then show ?case by (simp add: always_def)
qed

lemma always_raises:
  assumes "\<And>w. case map_of methods name of None \<Rightarrow> False | Some (flag, f) \<Rightarrow>
      \<exists>e w'. call_method flag f (pe_config E) (pe_kernel E) (pe_parse E) args w = Ret (None, Some e, w') \<and>
        class_of (Raised e) = cls"
  shows "always (raises E cls methods name args)"
proof -
  have "\<exists>w'. raises E cls methods name args w = Ret (Inr (), w')" for w
    using assms [of w]
    by (auto simp: raises_def assertRaises_def py_call_def py_try_def py_bind_def py_return_def split: option.splits)
  then show ?thesis by (simp add: always_def)
qed

lemma list_allI: "list_all P []" "P x \<Longrightarrow> list_all P xs \<Longrightarrow> list_all P (x # xs)"
  by simp_all

lemmas passing = list_allI case_prodI always_in_order always_raises

lemmas name_function_defs = pinkpy_name_event_def pinkpy_lookup_event_def pinkpy_name_syscall_def pinkpy_lookup_syscall_def
  pinkpy_name_socket_family_def pinkpy_lookup_socket_family_def pinkpy_name_socket_subcall_def
  pinkpy_lookup_socket_subcall_def pinkpy_name_errno_def pinkpy_lookup_errno_def pinkpy_name_signal_def
  pinkpy_lookup_signal_def

text \<open>The tables have no entry for the names and numbers that the tests expect to be refused.\<close>

lemma sint_fits:
  assumes "long_width TYPE('l::len)" and "- (2 ^ 31) \<le> n" and "n < 2 ^ 31"
  shows "sint (word_of_int n :: 'l word) = n"
  using assms by (auto simp: long_width_def sint_sbintrunc' signed_take_bit_int_eq_self)

lemma shuffle_int_max:
  assumes "long_width TYPE('l::len)"
  shows "shuffle_scno (word_of_int INT_MAX :: 'l word) = word_of_int INT_MAX"
proof -
  have "unat (word_of_int 2147483647 :: 'l word) = 2147483647"
    using assms by (auto simp: long_width_def unsigned_of_int take_bit_int_eq_self)
  then show ?thesis
    by (simp add: INT_MAX_def word_unat_eq_iff [of "shuffle_scno _"] shuffle_scno_unat [OF assms] Let_def)
qed

lemma pink_name_syscall_int_max:
  assumes "long_width TYPE('l::len)"
  shows "pink_name_syscall c (word_of_int INT_MAX :: 'l word) abi = None"
proof -
  let ?n = "word_of_int INT_MAX :: 'l word"
  have less: "547 < INT_MAX" "547 < INT_MAX - 1024" by (simp_all add: INT_MAX_def)
  have "sint ?n = INT_MAX" "sint (?n - word_of_nat SYSCALL_OFFSET) = INT_MAX - 1024"
    using sint_fits [OF assms, of INT_MAX] sint_fits [OF assms, of "INT_MAX - 1024"]
    by (simp_all add: INT_MAX_def SYSCALL_OFFSET_def)
  with less have "547 < sint (arch_shuffle c (if cfg_arch c = IA64 then ?n - word_of_nat SYSCALL_OFFSET else ?n))"
    by (auto simp: arch_shuffle_def shuffle_int_max [OF assms])
  moreover have "length (sysent_vec c ! nat abi) \<le> 547" if "0 \<le> abi" "abi < int (PINK_ABIS_SUPPORTED c)"
    using that by (intro length_sysent [of _ c] nth_mem) (simp add: nat_less_iff)
  ultimately show ?thesis
    by (auto simp: pink_name_syscall_def Let_def not_less split: if_splits)
qed

lemma sysent_no_pink:
  "list_all ((\<noteq>) (Some ''pink'')) sysent_aarch64" "list_all ((\<noteq>) (Some ''pink'')) sysent_arm"
  "list_all ((\<noteq>) (Some ''pink'')) sysent_i386" "list_all ((\<noteq>) (Some ''pink'')) sysent_ia64"
  "list_all ((\<noteq>) (Some ''pink'')) sysent_powerpc" "list_all ((\<noteq>) (Some ''pink'')) sysent_x32"
  "list_all ((\<noteq>) (Some ''pink'')) sysent_x86_64"
  by (simp_all add: sysent_aarch64_defs sysent_arm_defs sysent_i386_defs sysent_ia64_defs sysent_powerpc_defs
      sysent_x32_defs sysent_x86_64_defs)

lemma pink_lookup_syscall_pink: "pink_lookup_syscall c (Some ''pink'') abi = - 1"
proof -
  have "list_all ((\<noteq>) (Some ''pink'')) t" if "t \<in> set (sysent_vec c)" for t
    using that by (auto simp: sysent_vec_def sysent_no_pink split: arch.splits if_splits)
  then have "0 \<le> abi \<Longrightarrow> abi < int (PINK_ABIS_SUPPORTED c) \<Longrightarrow> find_name (sysent_vec c ! nat abi) ''pink'' = None"
    by (force simp: find_name_None list_all_iff nat_less_iff)
  then show ?thesis
    by (auto simp: pink_lookup_syscall_def)
qed

lemma lookup_entry_pink:
  "\<forall>t \<in> set vec. Some ''pink'' \<notin> set t \<Longrightarrow> length vec = PINK_ABIS_SUPPORTED c \<Longrightarrow> lookup_entry c vec (Some ''pink'') abi = - 1"
  by (auto simp: lookup_entry_def find_name_None [THEN iffD2] nat_less_iff)

lemma name_entry_int_max:
  "\<forall>t \<in> set vec. length t \<le> 531 \<Longrightarrow> length vec = PINK_ABIS_SUPPORTED c \<Longrightarrow> name_entry c vec INT_MAX abi = None"
  by (auto simp: name_entry_def INT_MAX_def nat_less_iff dest: bspec [OF _ nth_mem, of _ _ "nat abi"])

lemma errno_signal_refused:
  "pink_name_errno c INT_MAX abi = None" "pink_lookup_errno c (Some ''pink'') abi = - 1"
  "pink_name_signal c INT_MAX abi = None" "pink_lookup_signal c (Some ''pink'') abi = - 1"
proof -
  have errnos: "\<forall>t \<in> set (errnoent_vec c). length t \<le> 531 \<and> Some ''pink'' \<notin> set t" "length (errnoent_vec c) = PINK_ABIS_SUPPORTED c"
    by (auto simp: errnoent_vec_def) (simp add: errnoent_defs split: if_splits)
  have signals: "\<forall>t \<in> set (signalent_vec c). length t \<le> 531 \<and> Some ''pink'' \<notin> set t" "length (signalent_vec c) = PINK_ABIS_SUPPORTED c"
    by (auto simp: signalent_vec_def PINK_ABIS_SUPPORTED_def split: if_splits) (simp_all add: signalent_def signalent_ia64_def)
  show "pink_name_errno c INT_MAX abi = None" "pink_lookup_errno c (Some ''pink'') abi = - 1"
    "pink_name_signal c INT_MAX abi = None" "pink_lookup_signal c (Some ''pink'') abi = - 1"
    using errnos signals
    by (simp_all add: pink_name_errno_def pink_lookup_errno_def pink_name_signal_def pink_lookup_signal_def
        lookup_entry_pink name_entry_int_max)
qed

lemma xlat_refused:
  "pink_name_event INT_MAX = None" "pink_lookup_event (Some ''pink'') = - 1"
  "pink_name_socket_subcall INT_MAX = None" "pink_lookup_socket_subcall (Some ''pink'') = - 1"
  by (simp_all add: pink_name_event_def pink_lookup_event_def pink_name_socket_subcall_def
      pink_lookup_socket_subcall_def xlookup_def INT_MAX_def events_def socket_subcalls_def event_consts)


lemma parse_contractD:
  fixes parse :: "'l::len word parse_tuple"
  assumes "parse_contract parse" and "(parse_documented fmt args :: arg_error + 'l word cval list) \<noteq> Inl Overflow_error"
  shows "parse fmt args = parse_documented fmt args"
  using assms by (simp add: parse_contract_def)

lemma convert_fits:
  "- (2 ^ 31) \<le> n \<Longrightarrow> n < 2 ^ 31 \<Longrightarrow> convert CHR ''i'' (Py_int n) = Inr (C_int (word_of_int n))"
  "- (2 ^ 31) \<le> n \<Longrightarrow> n < 2 ^ 31 \<Longrightarrow> long_width TYPE('l::len) \<Longrightarrow>
     convert CHR ''l'' (Py_int n) = (Inr (C_long (word_of_int n)) :: arg_error + 'l word cval)"
  "- (2 ^ 15) \<le> n \<Longrightarrow> n < 2 ^ 15 \<Longrightarrow> convert CHR ''h'' (Py_int n) = Inr (C_short (word_of_int n))"
  "convert CHR ''I'' (Py_int n) = Inr (C_uint (word_of_int n))"
  "convert CHR ''s'' (Py_int n) = Inl Type_error"
  by (auto simp: convert_number_def long_width_def)

lemma INT_MAX_fits: "- 2147483648 \<le> INT_MAX" "INT_MAX < 2147483648" "65 \<le> INT_MAX"
  by (simp_all add: INT_MAX_def)

lemma int_max_word:
  "sint (word_of_int INT_MAX :: 32 word) = INT_MAX" "uint (word_of_int INT_MAX :: 32 word) = INT_MAX"
  by (simp_all add: INT_MAX_def)

lemma xfind_missing: "s \<notin> fst ` set xs \<Longrightarrow> xfind xs s = - 1"
  by (induction xs s rule: xfind.induct) auto

lemma socket_family_refused:
  assumes "\<And>name. af name \<noteq> Some 2147483647"
  shows "pink_name_socket_family af INT_MAX = None" "pink_lookup_socket_family af (Some ''pink'') = - 1"
proof -
  have "INT_MAX \<notin> snd ` set (addrfams af)"
    by (auto simp: addrfams_def INT_MAX_def split: option.splits) (metis assms)
  then show "pink_name_socket_family af INT_MAX = None"
    by (simp add: pink_name_socket_family_def xname_None)
  have "''pink'' \<notin> fst ` set (addrfams af)"
    by (auto simp: addrfams_def addrfam_names_def)
  then have "xfind (addrfams af) ''pink'' = - 1"
    by (rule xfind_missing)
  then show "pink_lookup_socket_family af (Some ''pink'') = - 1"
    by (simp add: pink_lookup_socket_family_def xlookup_def)
qed

lemmas refused = pink_lookup_syscall_pink errno_signal_refused xlat_refused

lemma name_tests_pass:
  fixes E :: "('l::len word, 'k) pytest_env"
  assumes width: "long_width TYPE('l)" and parse: "parse_contract (pe_parse E)" and af: "\<And>name. af name \<noteq> Some 2147483647"
  shows "list_all (\<lambda>(_, t). always t) (TestCase_03_Name E af)"
proof -
  note doc = parse_contractD [OF parse]
  show ?thesis
    unfolding TestCase_03_Name_def Let_def
    by (intro passing)
      (simp_all add: name_methods_def name_function_defs call_method_def binding_defs doc parse_documented_def PINK_ABI_DEFAULT_def
        convert_fits INT_MAX_fits width int_max_word refused pink_name_syscall_int_max [OF width] socket_family_refused [OF af]
        Let_def del: convert.simps(1))
qed


lemma pink_abi_wordsize_default: "\<exists>n. pink_abi_wordsize t c 0 = Ret n"
  by (simp add: pink_abi_wordsize_def PINK_ABIS_SUPPORTED_def split: arch.split)

lemma abi_event_tests_pass:
  fixes E :: "('l::len word, 'k) pytest_env"
  assumes width: "long_width TYPE('l)" and parse: "parse_contract (pe_parse E)"
  shows "list_all (\<lambda>(_, t). always t) (TestCase_01_Abi E)" "list_all (\<lambda>(_, t). always t) (TestCase_02_Event E)"
proof -
  note doc = parse_contractD [OF parse]
  obtain n where "pink_abi_wordsize TYPE('l) (pe_config E) 0 = Ret n"
    using pink_abi_wordsize_default by blast
  then show "list_all (\<lambda>(_, t). always t) (TestCase_01_Abi E)"
    unfolding TestCase_01_Abi_def Let_def
    by (intro passing)
      (simp_all add: abi_methods_def pinkpy_abi_wordsize_def call_method_def binding_defs doc parse_documented_def
        PINK_ABI_DEFAULT_def convert_fits always_def py_bind_def py_call_def py_return_def del: convert.simps(1))
  show "list_all (\<lambda>(_, t). always t) (TestCase_02_Event E)"
    unfolding TestCase_02_Event_def Let_def
    by (intro passing)
      (simp_all add: event_methods_def pinkpy_event_decide_def call_method_def binding_defs doc parse_documented_def
        convert_fits del: convert.simps(1))
qed

text \<open>
  What \<open>ptrace(2)\<close> documents of the process 0: there is none, and a request for it fails with
  \<open>ESRCH\<close>. \<open>PTRACE_TRACEME\<close> has no process.
\<close>

definition no_process_0 :: "('l::len word, 'k) kernel \<Rightarrow> bool" where
  "no_process_0 K \<longleftrightarrow>
     (\<forall>req addr data k. req \<noteq> PTRACE_TRACEME \<longrightarrow> (\<exists>out k'. sys_ptrace K req 0 addr data k = (- 1, Some ESRCH, out, k')))"

lemma pink_ptrace_no_process:
  assumes "no_process_0 K" and "req \<noteq> PTRACE_TRACEME"
  shows "fst (pink_ptrace K req 0 addr data w) = - ESRCH"
proof -
  obtain out k' where "sys_ptrace K req 0 addr data (kern w) = (- 1, Some ESRCH, out, k')"
    using assms unfolding no_process_0_def by blast
  then show ?thesis by (simp add: pink_ptrace_def errno_consts)
qed

lemma ptrace_status_no_process:
  "no_process_0 K \<Longrightarrow> req \<noteq> PTRACE_TRACEME \<Longrightarrow> fst (ptrace_status K req 0 addr data w) = - ESRCH"
  using pink_ptrace_no_process [of K req addr data w] by (simp add: ptrace_status_def split_beta)

lemma always_esrch:
  assumes "\<And>w. case map_of methods name of None \<Rightarrow> False | Some (flag, f) \<Rightarrow>
      \<exists>w'. call_method flag f (pe_config E) (pe_kernel E) (pe_parse E) args w = Ret (None, Some (OSError ESRCH), w')"
  shows "always (assertRaisesOSErrorWithErrno E (Number ESRCH) methods name args)"
proof -
  have "\<exists>w'. assertRaisesOSErrorWithErrno E (Number ESRCH) methods name args w = Ret (Inr (), w')" for w
    using assms [of w]
    by (auto simp: assertRaisesOSErrorWithErrno_def assertErrno_def assertRaises_def py_call_def py_try_def py_bind_def
        py_return_def split: option.splits)
  then show ?thesis by (simp add: always_def)
qed

lemmas trace_function_defs = pinkpy_trace_me_def pinkpy_trace_resume_def pinkpy_trace_kill_def pinkpy_trace_singlestep_def
  pinkpy_trace_syscall_def pinkpy_trace_geteventmsg_def pinkpy_trace_setup_def pinkpy_trace_attach_def
  pinkpy_trace_detach_def pinkpy_trace_seize_def pinkpy_trace_interrupt_def pinkpy_trace_listen_def

definition traced_features :: "pink_config \<Rightarrow> bool" where
  "traced_features c \<longleftrightarrow>
     have_feature c HAVE_SETUP \<and> have_feature c HAVE_OPTION_SYSGOOD \<and> have_feature c HAVE_GETEVENTMSG \<and>
     have_feature c HAVE_SEIZE \<and> have_feature c HAVE_INTERRUPT \<and> have_feature c HAVE_LISTEN"

lemma trace_tests_pass:
  fixes E :: "('l::len word, 'k) pytest_env"
  assumes parse: "parse_contract (pe_parse E)" and pid: "- (2 ^ 31) \<le> pid" "pid < 2 ^ 31"
    and features: "traced_features (pe_config E)" and K: "no_process_0 (pe_kernel E)"
  shows "list_all (\<lambda>(name, t). name \<noteq> ''test_02_trace_me_raises_os_error_with_eperm_in_traced_process'' \<longrightarrow> always t)
    (TestCase_04_Trace E data0 pid)"
proof -
  note doc = parse_contractD [OF parse]
  note status = ptrace_status_no_process [OF K] pink_ptrace_no_process [OF K]
  have sysgood: "fst (pink_trace_setup (pe_config E) (pe_kernel E) 0 PINK_TRACE_OPTION_SYSGOOD w) = - ESRCH" for w
    using features by (simp add: pink_trace_setup_def trace_options_def trace_option_consts status traced_features_def)
  have signal: "\<not> sint PINK_TRACE_OPTION_SYSGOOD < 0" "\<not> 65 \<le> sint PINK_TRACE_OPTION_SYSGOOD"
    by (simp_all add: PINK_TRACE_OPTION_SYSGOOD_def)
  show ?thesis
    unfolding TestCase_04_Trace_def Let_def
    by (intro list_allI case_prodI impI always_in_order always_raises always_esrch)
      (use pid features in \<open>simp_all add: trace_methods_def trace_function_defs call_method_def binding_defs doc parse_documented_def
        convert_fits INT_MAX_fits int_max_word NSIG_def trace_wrapper_defs status sysgood signal split_beta traced_features_def
        pink_trace_geteventmsg_def errno_consts ENOSYS_def Let_def del: convert.simps(1)\<close>)
qed


text \<open>
  A test of the fourth case by its name, and the process of \<open>setUp\<close>: it is there until it is
  killed, and the status of its end tells the signal.
\<close>

definition trace_test :: "('l::len word, 'k) pytest_env \<Rightarrow> 'l word \<Rightarrow> string \<Rightarrow> int \<Rightarrow> ('k, unit) py_run" where
  "trace_test E data0 name killPID =
     (case map_of (TestCase_04_Trace E data0 killPID) name of None \<Rightarrow> py_raise AttributeError | Some t \<Rightarrow> t)"

definition process_contract :: "('l, 'k) pytest_env \<Rightarrow> int \<Rightarrow> bool" where
  "process_contract E pid \<longleftrightarrow>
     0 < pid \<and> pid < 2 ^ 31 \<and> (\<forall>k. \<exists>k'. os_fork E k = (Inr pid, k')) \<and>
     (\<forall>sig \<in> {0, SIGKILL}. \<forall>k. \<exists>k'. libc_kill E pid sig k = ((0, 0), k')) \<and>
     (\<forall>k. \<exists>k' status. os_waitpid E pid 0 k = (Inr (pid, status), k') \<and> WIFSIGNALED status \<and> WTERMSIG status = SIGKILL)"

lemma process_contract_alive:
  assumes "process_contract E pid"
  shows "\<exists>w'. assertProcessIsAlive E pid w = Ret (Inr (), w')"
proof -
  obtain k' where "libc_kill E pid 0 (kern w) = ((0, 0), k')"
    using assms unfolding process_contract_def by blast
  then show ?thesis
    by (simp add: assertProcessIsAlive_def assertErrno_def Libc_kill_def py_bind_def py_return_def)
qed

lemma process_contract_fork:
  assumes "process_contract E pid"
  shows "\<exists>w'. forkProcess E w = Ret (Inr pid, w')"
proof -
  obtain k' where fork: "os_fork E (kern w) = (Inr pid, k')" and "pid \<noteq> 0"
    using assms unfolding process_contract_def by fastforce
  moreover obtain w' where "assertProcessIsAlive E pid (w\<lparr>kern := k'\<rparr>) = Ret (Inr (), w')"
    using process_contract_alive [OF assms] by blast
  ultimately show ?thesis
    by (simp add: forkProcess_def py_bind_def py_return_def)
qed

lemma process_contract_kill:
  assumes "process_contract E pid"
  shows "\<exists>w'. killProcess E pid True True w = Ret (Inr (), w')"
proof -
  obtain w1 where alive: "assertProcessIsAlive E pid w = Ret (Inr (), w1)"
    using process_contract_alive [OF assms] by blast
  obtain k1 where kill: "libc_kill E pid SIGKILL (kern w1) = ((0, 0), k1)"
    using assms unfolding process_contract_def by blast
  obtain k2 status where wait: "os_waitpid E pid 0 k1 = (Inr (pid, status), k2)"
    and "WIFSIGNALED status" "WTERMSIG status = SIGKILL"
    using assms unfolding process_contract_def by blast
  then show ?thesis
    by (simp add: killProcess_def alive kill Libc_kill_def assertErrno_def waitProcess_def assertProcessTerminatedWith_def
        py_bind_def py_return_def)
qed

lemma run_trace_test_passes:
  assumes "process_contract E pid" and "always (test pid)"
  shows "\<exists>w'. run_trace_test E test w = Ret (True, w')"
proof -
  obtain w1 where fork: "forkProcess E w = Ret (Inr pid, w1)"
    using process_contract_fork [OF assms(1)] by blast
  obtain w2 where test: "test pid w1 = Ret (Inr (), w2)"
    using assms(2) unfolding always_def by blast
  obtain w3 where "killProcess E pid True True w2 = Ret (Inr (), w3)"
    using process_contract_kill [OF assms(1)] by blast
  then show ?thesis
    by (simp add: run_trace_test_def fork test)
qed

text \<open>
  The child of \<open>test_02\<close> exits with 0 only after the library has made it a tracee, and has
  refused to do so again with \<open>EPERM\<close>.
\<close>

lemma trace_me_child_sound:
  fixes E :: "('l::len word, 'k) pytest_env"
  assumes "forked_child (trace_me_child_func py2 E data0) w = Ret (Inr 0, w')"
  shows "\<exists>r w1. pink_trace_me (pe_kernel E) w = (r, w1) \<and> 0 \<le> r \<and> fst (pink_trace_me (pe_kernel E) w1) = - EPERM"
proof -
  let ?me = "py_call E (trace_methods data0) ''me'' []"
  have me: "?me v = Ret (case pink_trace_me (pe_kernel E) v of (r, v') \<Rightarrow>
      (if r = - ENOSYS then Inl (Raised SystemError) else if r < 0 then Inl (Raised (OSError (- r))) else Inr Py_True,
       if r < 0 \<and> r \<noteq> - ENOSYS then v'\<lparr>errno := - r\<rparr> else v'))" for v
    by (simp add: py_call_def trace_methods_def call_method_def pinkpy_trace_me_def PINK_CALL_TRUE_def PINK_CALL_def
        ENOSYS_def split: prod.split)
  obtain r w1 where first: "pink_trace_me (pe_kernel E) w = (r, w1)" by (cases "pink_trace_me (pe_kernel E) w")
  obtain r2 w2 where second: "pink_trace_me (pe_kernel E) w1 = (r2, w2)" by (cases "pink_trace_me (pe_kernel E) w1")
  show ?thesis
    using assms
    by (auto simp: forked_child_def trace_me_child_func_def or_exit_def checkPinkCallRetval_def checkPinkCallErrno_def
        checkPinkCall_def py_try_def py_bind_def py_return_def py_raise_def me first second number_of_def ENOSYS_def
        split: if_splits)
qed

text \<open>
  In Python 3 a child whose first check fails does not exit: the handler itself raises an
  exception, which nothing in the child catches.
\<close>

lemma trace_me_child_python3:
  fixes E :: "('l::len word, 'k) pytest_env"
  assumes "pink_trace_me (pe_kernel E) w = (- n, w1)" and "0 < n" and "n \<noteq> ENOSYS"
  shows "\<exists>w'. forked_child (trace_me_child_func False E data0) w = Ret (Inl AttributeError, w')"
  using assms
  by (auto simp: forked_child_def trace_me_child_func_def or_exit_def checkPinkCallRetval_def checkPinkCall_def
      py_call_def trace_methods_def call_method_def pinkpy_trace_me_def PINK_CALL_TRUE_def PINK_CALL_def
      py_try_def py_bind_def py_raise_def)

text \<open>An error that is wanted by its name is never found.\<close>

lemma assertErrno_name: "assertErrno errnos err_no (Name s) w = Ret (Inl AssertionError, w)"
  by (simp add: assertErrno_def py_raise_def split: errno_arg.split option.split)

text \<open>The text of a message: every line is kept, and for the two roles it is defined.\<close>

lemma splitlines_from_concat: "concat (splitlines_from line s) = line @ filter (Not \<circ> line_end) s"
proof (induction line s rule: splitlines_from.induct)
  case (2 line ch s)
  have "line_end CHR 0x0D" "line_end CHR 0x0A" by (simp_all add: line_end_def)
  with 2 show ?case by (cases s) auto
qed simp

lemma splitlines_concat: "concat (splitlines s) = filter (Not \<circ> line_end) s"
  by (simp add: splitlines_def splitlines_from_concat)

lemma formatString_defined:
  assumes "role = ''P'' \<or> role = ''C''"
  shows "\<exists>s. formatString digits getpid text role pid isError = Inr s"
proof -
  have "\<exists>s. format_lines digits role p isError lines = Inr s" for p lines
    using assms by (induction lines) (auto simp: format_line_def Let_def)
  then show ?thesis by (metis formatString_def map_sum.simps(2))
qed

section \<open>The tests as a whole\<close>


text \<open>A kernel without the process 0, and a process 7 that is killed.\<close>

definition ref_pytest_env :: "(64 word, 64 word tracee) pytest_env" where
  "ref_pytest_env =
     \<lparr>pe_config = ref_config X86_64, pe_kernel = (ref_kernel False)\<lparr>sys_ptrace := \<lambda>_ _ _ _ k. (- 1, Some ESRCH, [], k)\<rparr>,
      pe_parse = parse_documented, pe_errno = \<lambda>_. None, os_fork = \<lambda>k. (Inr 7, k), os_waitpid = \<lambda>_ _ k. (Inr (7, 9), k),
      os_pause = \<lambda>k. k, libc_kill = \<lambda>_ _ k. ((0, 0), k)\<rparr>"


end
