(* ===== verification/Spec2Isabelle.thy ===== *)
theory Spec2Isabelle
  imports Pink_About Pink_Dump Pink_Fork Pink_Program Pink_Pytest
begin

text \<open>
  Pinktrace is a C library around \<open>ptrace(2)\<close>. A tracer sets up a child and waits
  for its stops (\<^verbatim>\<open>trace.c\<close>, \<^verbatim>\<open>event.c\<close>). At a stop it fills a register
  set (\<^verbatim>\<open>regset.c\<close>), which also tells the ABI of the system call (\<^verbatim>\<open>abi.c\<close>,
  \<^verbatim>\<open>private.h\<close>). From the register set it reads the number, the arguments and the
  result of the call (\<^verbatim>\<open>read.c\<close>), and the memory they point to (\<^verbatim>\<open>vm.c\<close>,
  \<^verbatim>\<open>socket.c\<close>); it can change all of them (\<^verbatim>\<open>write.c\<close>) and name them
  (\<^verbatim>\<open>name.c\<close> and the tables under \<^verbatim>\<open>linux/\<close>). A pipe of integers
  (\<^verbatim>\<open>pipe.c\<close>) lets tracer and child talk. Bindings make the library usable from
  Python. Paths are relative to \<^verbatim>\<open>src/pinktrace/\<close>.

  \<^bold>\<open>How the code is modelled.\<close>
  \<^item> A \<open>long\<close> is an \<open>'l word\<close>: the theorems hold for 32 and 64 bits where they do not
    fix one. An \<open>int\<close> that is only compared is an \<open>int\<close>, one whose bits matter is a
    \<open>32 word\<close>. Register blocks, buffers and \<open>union\<close>s are lists of bytes.
  \<^item> What \<open>configure\<close> decides (\<^verbatim>\<open>system.h.in\<close>) is the record \<open>pink_config\<close>: the
    architecture, the byte order and the features. A definition has the branches of
    every \<open>#if\<close>.
  \<^item> State is passed explicitly as a \<open>world\<close>: \<open>errno\<close> and the state of the kernel.
    The system calls are the record \<open>kernel\<close>, a parameter of all operations. A
    function that returns a negated error number returns an \<open>int\<close>; what it stores
    through a pointer is an \<open>option\<close> or a list of bytes.
  \<^item> An operation that can stop the program has an \<open>outcome\<close>: \<open>Ret\<close>, or \<open>Fault\<close> with
    the reason. \<open>Abort\<close> is \<open>abort()\<close> or a failed assertion, \<open>Undefined\<close> is undefined
    behaviour, \<open>Not_built\<close> a branch that does not compile on the architecture,
    \<open>Diverges\<close> a loop without an end, and \<open>In_child\<close> a fork that returns in the
    child, whose code is a definition of its own.
  \<^item> Loops over a given length are recursive functions. There is no fuel: the loops that
    wait for a NUL, a null pointer, the other end of a pipe or the end of a child are
    \<open>partial_function (option)\<close>, with \<open>None\<close> for a loop that does not end.

  \<^bold>\<open>What is assumed.\<close> What a theorem needs of the kernel is a named predicate on the
  parameter: that \<open>PTRACE_PEEKDATA\<close> and \<open>PTRACE_POKEDATA\<close> read and write the mapped
  words, that \<open>process_vm_readv(2)\<close> copies a prefix of the mapped bytes and fails
  with \<open>EFAULT\<close> only if there is none (\<open>readv_contract\<close>, \<open>vm_services\<close>), that
  \<open>GETREGSET\<close> and \<open>SETREGSET\<close> move the registers, and that a pipe is a stream of bytes.
  \<open>Pink_Kernel\<close> has a kernel that meets them, and the witnesses of the theorems run on it.

  \<^bold>\<open>The theories.\<close>
  \<^descr> \<open>Pink_Prelude\<close>: outcomes, bytes of words in either byte order, memory, alignment.
  \<^descr> \<open>Pink_Config\<close>, \<open>Pink_Kernel\<close>: configuration, ABIs, error numbers, the world and
    the kernel; a kernel for witnesses.
  \<^descr> \<open>Pink_Trace\<close> (\<^verbatim>\<open>trace.c\<close>, \<^verbatim>\<open>event.c\<close>): every request. The locale
    \<open>status_call\<close> is the contract they share, a result of 0 or a negated error number
    that is in \<open>errno\<close>; the options are translated bit by bit.
  \<^descr> \<open>Pink_Word\<close> (the word accessors of \<^verbatim>\<open>read.c\<close> and \<^verbatim>\<open>write.c\<close>): the contracts of
    the four requests behind them and the fields of register blocks.
  \<^descr> \<open>Pink_Regset\<close> (\<^verbatim>\<open>regset.c\<close>, \<^verbatim>\<open>private.h\<close>): filling keeps a register set
    well-formed and finds the ABI; the i386 registers overlay the x86-64 ones without loss.
  \<^descr> \<open>Pink_Vm\<close> (\<^verbatim>\<open>vm.c\<close>): the locale \<open>vm_reader\<close> is the contract of a reader of
    memory; reading by words and by blocks both meet it and therefore agree. The loops
    for strings end and return the string; aligned writes change just what they cover.
  \<^descr> \<open>Pink_Tables\<close>, \<open>Pink_Name\<close> (\<^verbatim>\<open>linux/\<close>, \<^verbatim>\<open>name.c\<close>): all tables and lookups.
    The locale \<open>name_table\<close> says that a name leads to a number of that name.
  \<^descr> \<open>Pink_Read\<close> (\<^verbatim>\<open>read.c\<close>): which results are errors, on every ABI; arguments;
    blocks, strings and arrays of strings.
  \<^descr> \<open>Pink_Write\<close> (\<^verbatim>\<open>write.c\<close>): reading after writing, for arguments, return values,
    system call numbers and memory. The locale \<open>arg_file\<close> treats the argument registers as
    an array, on x86-64, AArch64 and ARM.
  \<^descr> \<open>Pink_Socket\<close> (\<^verbatim>\<open>socket.c\<close>): arguments of \<open>socketcall(2)\<close>, socket addresses and
    the bounds of their buffer.
  \<^descr> \<open>Pink_Pipe\<close> (\<^verbatim>\<open>pipe.c\<close>): the pipe refines a queue of integers (\<open>int_queue\<close>).
  \<^descr> \<open>Pink_Strace\<close>, \<open>Pink_Fork\<close> (\<^verbatim>\<open>../examples/pink-simple-strace.c\<close> and
    \<^verbatim>\<open>pink-fork.c\<close>): tracers that use all of the above. The states of the loop are the
    inductive relation \<open>strace_reaches\<close>; the loop ends exactly when the child is gone.
  \<^descr> \<open>Pink_Python\<close> (\<^verbatim>\<open>../python/pinktrace/py-*.c\<close>): the bindings, with the object and
    the exception each leaves behind; what \<open>PyArg_ParseTuple\<close> documents is
    \<open>parse_contract\<close>; and the constants of the module \<open>system\<close>.
  \<^descr> \<open>Pink_Modules\<close> (the same files and \<^verbatim>\<open>__init__.py.in\<close>): the initialisation of the modules
    and the import of the package, after which no entry of the tables hides another.
  \<^descr> \<open>Pink_Pytest\<close> (\<^verbatim>\<open>test.py.in\<close>): the tests of the bindings with their helpers. They pass on
    a parser of arguments as documented and a kernel without a process 0; the child of
    \<open>test_02\<close> exits with 0 only if the second \<open>PTRACE_TRACEME\<close> fails with \<open>EPERM\<close>.
  \<^descr> \<open>Pink_Seatest\<close> (\<^verbatim>\<open>seatest.c\<close>): the framework of the tests. Test functions are
    values of a type that a parameter runs. \<open>sea_reaches\<close> are the states tests can lead
    to, whose counters agree with the results reported; the runner's status is exact. The
    locale \<open>reporting_run\<close> is what a fixture relies on: test functions that lose no failure.
    The arithmetic of \<open>float\<close> and \<open>double\<close> is a parameter.
  \<^descr> \<open>Pink_Check\<close> (\<^verbatim>\<open>pinktrace-check.c\<close>, \<^verbatim>\<open>pipe-TEST.c\<close>): what the tests call.
    A failed check leaves the state of the abort as \<open>Inl\<close>. Waiting returns exactly the
    first result that is no interruption, dumps are complete, releases are read as
    versions, and the test of the pipe passes on every pipe that is one.
  \<^descr> \<open>Pink_Tests\<close> (the other \<^verbatim>\<open>*-TEST.c\<close>): every test, parent and child, and the
    fixtures. The loop the tests repeat is \<open>test_loop\<close>, with what happens at a stop as a
    parameter.
  \<^descr> \<open>Pink_Passing\<close>: no helper loses a failure (\<open>reports\<close>), and by an invariant of the loop
    (\<open>sound_locals\<close>) a test without a failure has had the results it checks from the
    library. What \<open>ptrace(2)\<close> documents of a child that stops and makes one system call is
    \<open>traced_child\<close>, under which the test of the arguments passes.
  \<^descr> \<open>Pink_Program\<close>: the test program from \<open>main\<close> to its exit status, composed of the
    framework, the helpers and all tests. \<open>reporting_run\<close> is interpreted on the tests and on
    the suites; the exit status 0 is evidence of what the tests check, and a kernel as
    documented leads to it.
  \<^descr> \<open>Pink_Text\<close>, \<open>Pink_Dump\<close>, \<open>Pink_About\<close> (the dumps of \<^verbatim>\<open>pinktrace-check.c\<close>,
    \<^verbatim>\<open>../examples/pink-about.c\<close>, \<^verbatim>\<open>about.h.in\<close>): numbers as \<open>printf\<close> prints them; different
    registers have different dumps, the dump of a socket address that the library has read is
    defined, and the version macro orders versions of two digits per part.

  Some theorems state what the code does where it differs from what it means to do: a
  write that fails at once returns 4294967295 (\<open>pink_vm_lwrite_fault\<close>), \<open>EXITKILL\<close> is
  not translated by \<open>pink_trace_seize\<close>, results of x32 calls are cut, register sets
  cannot be filled on ARM, PowerPC and i386, a missing comma shifts the names of x32
  calls, the example tracer never prints \<open>open(2)\<close>, a call that the host does not
  support makes a Python function return an object with an exception set, and the tests
  send \<open>SIGKILL\<close> to every process after a failed \<open>fork\<close> (\<open>fork_assert_failed\<close>).

  \<^bold>\<open>What is not modelled.\<close> The build system and the scripts for maintainers, the
  one that numbers the Python tests among them; the parts of the test framework for Windows
  and for its own tests, which are not built. The scheduling
  of tracer and child is the kernel's: a \<open>waitpid\<close> returns some status. Signals that
  interrupt the tracer itself appear only as errors of its system calls. The output of the
  example tracer and of the test framework is a list of pieces, not the bytes of \<open>stdout\<close>;
  messages of failed checks are kept without the values in them.
\<close>

end
